(* ===== verification/Py_Prelude.thy ===== *)
theory Py_Prelude
  imports Main "HOL-Library.AList" "HOL-Library.Word"
begin

text \<open>
  What every component theory shares: Python's exceptions as values, methods as state
  transformers that may raise, \<open>for\<close> loops, insertion-ordered dictionaries, slices and
  \<open>range\<close>. Nothing here is about one part of libdebug.

  A method of the source that reads and writes an object of type \<open>'s\<close> and returns an \<open>'a\<close> is
  a function \<open>'s \<Rightarrow> (py_exc + 'a) \<times> 's\<close>: as in Python, what a method wrote before it raised stays
  written. \<open>Diverges\<close> is not an exception of Python: a loop whose fuel ran out returns it, and so
  does a call that waits for ever.
\<close>

unbundle bit_operations_syntax

named_theorems py_simps \<open>unfolding of the method combinators\<close>

section \<open>Exceptions\<close>

text \<open>The exception classes the source raises or lets through; message texts are not modelled.\<close>

datatype py_exc =
    RuntimeError
  | ValueError
  | TypeError
  | KeyError
  | NameError
  | IndexError
  | AttributeError
  | StopIteration
  | NotImplementedError
  | OverflowError
  | TimeoutError
  | OSError int
  | GenericException
  | AssertionError
  | ZeroDivisionError
  | SystemExit int
  | Diverges

type_synonym 'a result = "py_exc + 'a"

type_synonym ('s, 'a) pm = "'s \<Rightarrow> 'a result \<times> 's"

section \<open>Methods\<close>

definition ret :: "'a \<Rightarrow> ('s, 'a) pm" where
  "ret x = (\<lambda>s. (Inr x, s))"

definition raise :: "py_exc \<Rightarrow> ('s, 'a) pm" where
  "raise e = (\<lambda>s. (Inl e, s))"

definition gets :: "('s \<Rightarrow> 'a) \<Rightarrow> ('s, 'a) pm" where
  "gets f = (\<lambda>s. (Inr (f s), s))"

definition upd :: "('s \<Rightarrow> 's) \<Rightarrow> ('s, unit) pm" where
  "upd f = (\<lambda>s. (Inr (), f s))"

definition bind :: "('s, 'a) pm \<Rightarrow> ('a \<Rightarrow> ('s, 'b) pm) \<Rightarrow> ('s, 'b) pm" where
  "bind m f = (\<lambda>s. case m s of (Inl e, t) \<Rightarrow> (Inl e, t) | (Inr x, t) \<Rightarrow> f x t)"

definition lift :: "'a result \<Rightarrow> ('s, 'a) pm" where
  "lift r = (\<lambda>s. (r, s))"

text \<open>\<open>try: m except (classes): h\<close>; \<open>p\<close> says which exceptions the clause names.\<close>

definition try_except :: "('s, 'a) pm \<Rightarrow> (py_exc \<Rightarrow> bool) \<Rightarrow> (py_exc \<Rightarrow> ('s, 'a) pm) \<Rightarrow> ('s, 'a) pm" where
  "try_except m p h = (\<lambda>s. case m s of (Inl e, t) \<Rightarrow> (if p e then h e t else (Inl e, t)) | (Inr x, t) \<Rightarrow> (Inr x, t))"

definition py_when :: "bool \<Rightarrow> ('s, unit) pm \<Rightarrow> ('s, unit) pm" where
  "py_when b m = (if b then m else ret ())"

text \<open>A loop \<open>for x in xs: f(x)\<close>; an exception in the body leaves the loop.\<close>

fun for_each :: "('a \<Rightarrow> ('s, unit) pm) \<Rightarrow> 'a list \<Rightarrow> ('s, unit) pm" where
  "for_each f [] = ret ()"
| "for_each f (x # xs) = bind (f x) (\<lambda>_. for_each f xs)"

text \<open>A method of a part of the state, run on the whole.\<close>

definition zoom :: "('s \<Rightarrow> 't) \<Rightarrow> ('t \<Rightarrow> 's \<Rightarrow> 's) \<Rightarrow> ('t, 'a) pm \<Rightarrow> ('s, 'a) pm" where
  "zoom g p m = (\<lambda>s. case m (g s) of (r, t) \<Rightarrow> (r, p t s))"

lemmas method_defs [py_simps] = ret_def raise_def gets_def upd_def bind_def lift_def
  try_except_def py_when_def zoom_def

text \<open>The same for functions that touch no state.\<close>

definition rbind :: "'a result \<Rightarrow> ('a \<Rightarrow> 'b result) \<Rightarrow> 'b result" where
  "rbind r f = (case r of Inl e \<Rightarrow> Inl e | Inr x \<Rightarrow> f x)"

lemma rbind_simps [simp]: "rbind (Inl e) f = Inl e" "rbind (Inr x) f = f x"
  by (simp_all add: rbind_def)

lemma rbind_Inr: "rbind r f = Inr y \<longleftrightarrow> (\<exists>x. r = Inr x \<and> f x = Inr y)"
  by (cases r) auto

text \<open>\<open>except OSError\<close>, which also names its subclass TimeoutError.\<close>

definition is_OSError :: "py_exc \<Rightarrow> bool" where
  "is_OSError e = (case e of OSError _ \<Rightarrow> True | TimeoutError \<Rightarrow> True | _ \<Rightarrow> False)"

lemma bind_Inr [elim?]:
  assumes "bind m f s = (Inr y, t)"
  obtains x u where "m s = (Inr x, u)" and "f x u = (Inr y, t)"
  using assms by (auto simp: bind_def split: prod.splits sum.splits)

lemma bind_ret_left [simp]: "bind (ret x) f = f x"
  by (simp add: bind_def ret_def)

lemma bind_assoc: "bind (bind m f) g = bind m (\<lambda>x. bind (f x) g)"
  by (auto simp: bind_def fun_eq_iff split: prod.splits sum.splits)

text \<open>A property of the state that a method keeps, whether or not it raises.\<close>

definition preserves :: "('s \<Rightarrow> bool) \<Rightarrow> ('s, 'a) pm \<Rightarrow> bool" where
  "preserves I m \<longleftrightarrow> (\<forall>s. I s \<longrightarrow> I (snd (m s)))"

named_theorems preserves_rules \<open>which method combinators keep a property of the state\<close>

lemma preservesD: "preserves I m \<Longrightarrow> I s \<Longrightarrow> I (snd (m s))"
  by (simp add: preserves_def)

lemma preserves_pure [preserves_rules]:
  "preserves I (ret x)" "preserves I (raise e)" "preserves I (gets f)" "preserves I (lift r)"
  by (simp_all add: preserves_def py_simps)

lemma preserves_upd [preserves_rules]: "(\<And>s. I s \<Longrightarrow> I (f s)) \<Longrightarrow> preserves I (upd f)"
  by (simp add: preserves_def upd_def)

lemma preserves_bind [preserves_rules]:
  "preserves I m \<Longrightarrow> (\<And>x. preserves I (f x)) \<Longrightarrow> preserves I (bind m f)"
  by (fastforce simp: preserves_def bind_def split: prod.splits sum.splits)

lemma preserves_try [preserves_rules]:
  "preserves I m \<Longrightarrow> (\<And>e. preserves I (h e)) \<Longrightarrow> preserves I (try_except m p h)"
  by (fastforce simp: preserves_def try_except_def split: prod.splits sum.splits)

lemma preserves_when [preserves_rules]: "(b \<Longrightarrow> preserves I m) \<Longrightarrow> preserves I (py_when b m)"
  by (simp add: preserves_def py_when_def ret_def)

lemma preserves_if [preserves_rules]:
  "(b \<Longrightarrow> preserves I m) \<Longrightarrow> (\<not> b \<Longrightarrow> preserves I n) \<Longrightarrow> preserves I (if b then m else n)"
  by simp

lemma preserves_option [preserves_rules]:
  "(x = None \<Longrightarrow> preserves I m) \<Longrightarrow> (\<And>y. x = Some y \<Longrightarrow> preserves I (f y)) \<Longrightarrow>
    preserves I (case x of None \<Rightarrow> m | Some y \<Rightarrow> f y)"
  by (cases x) auto

lemma preserves_for_each [preserves_rules]:
  "(\<And>x. x \<in> set xs \<Longrightarrow> preserves I (f x)) \<Longrightarrow> preserves I (for_each f xs)"
  by (induction xs) (auto intro!: preserves_rules)

section \<open>C integers behind cffi\<close>

text \<open>
  cffi hands a Python integer to C as \<open>uint64_t\<close> when it fits and raises OverflowError when it
  does not; a C value of type \<open>uint64_t\<close> comes back as a non-negative integer.
\<close>

definition fits_u64 :: "int \<Rightarrow> bool" where
  "fits_u64 x \<longleftrightarrow> 0 \<le> x \<and> x < 2 ^ 64"

definition to_u64 :: "int \<Rightarrow> int" where
  "to_u64 x = x mod 2 ^ 64"

definition c_u64 :: "int \<Rightarrow> int result" where
  "c_u64 x = (if fits_u64 x then Inr x else Inl OverflowError)"

lemma fits_to_u64 [simp]: "fits_u64 (to_u64 x)"
  by (simp add: fits_u64_def to_u64_def)

lemma to_u64_id [simp]: "fits_u64 x \<Longrightarrow> to_u64 x = x"
  by (simp add: fits_u64_def to_u64_def)

lemma bit_less_exp: "0 \<le> (c :: int) \<Longrightarrow> c < 2 ^ m \<Longrightarrow> bit c n \<Longrightarrow> n < m"
  by (metis bit_take_bit_iff take_bit_int_eq_self)

lemma fits_u64_take_bit: "fits_u64 x \<longleftrightarrow> take_bit 64 x = x"
  by (metis fits_u64_def take_bit_int_eq_self take_bit_int_less_exp take_bit_nonnegative)

lemma fits_u64_bits: "fits_u64 x \<longleftrightarrow> (\<forall>n. bit x n \<longrightarrow> n < 64)"
proof
  show "fits_u64 x \<Longrightarrow> \<forall>n. bit x n \<longrightarrow> n < 64"
    by (metis bit_take_bit_iff fits_u64_take_bit)
  assume "\<forall>n. bit x n \<longrightarrow> n < 64"
  then have "take_bit 64 x = x" by (intro bit_eqI) (auto simp: bit_take_bit_iff)
  then show "fits_u64 x" by (simp add: fits_u64_take_bit)
qed

section \<open>Bytes\<close>

type_synonym byte = "8 word"

text \<open>\<open>int.from_bytes(bs, "little")\<close> and \<open>x.to_bytes(n, "little")\<close>\<close>

fun from_le :: "byte list \<Rightarrow> int" where
  "from_le [] = 0"
| "from_le (b # bs) = uint b + 256 * from_le bs"

fun to_le :: "nat \<Rightarrow> int \<Rightarrow> byte list" where
  "to_le 0 x = []"
| "to_le (Suc n) x = word_of_int x # to_le n (x div 256)"

lemma length_to_le [simp]: "length (to_le n x) = n"
  by (induction n arbitrary: x) auto

lemma from_le_bounds: "0 \<le> from_le bs \<and> from_le bs < 256 ^ length bs"
proof (induction bs)
  case Nil
  then show ?case by simp
next
  case (Cons b bs)
  have "0 \<le> uint b" "uint b < 256" using uint_range_size [of b] by (simp_all add: word_size)
  with Cons show ?case by (auto simp: algebra_simps)
qed

lemma to_le_from_le [simp]: "to_le (length bs) (from_le bs) = bs"
proof (induction bs)
  case Nil
  then show ?case by simp
next
  case (Cons b bs)
  have b: "0 \<le> uint b" "uint b < 256" using uint_range_size [of b] by (simp_all add: word_size)
  have "(uint b + 256 * from_le bs) mod 256 = uint b" using b by simp
  then have "word_of_int (uint b + 256 * from_le bs) = b"
    by (simp only: word_uint_eq_iff uint_word_of_int) simp
  moreover have "(uint b + 256 * from_le bs) div 256 = from_le bs"
    using b by simp
  ultimately show ?case using Cons by simp
qed

lemma from_le_fits: "length bs = 8 \<Longrightarrow> fits_u64 (from_le bs)"
  using from_le_bounds [of bs] by (simp add: fits_u64_def)

section \<open>Dictionaries\<close>

text \<open>
  A dictionary keeps its keys in insertion order: assigning an existing key keeps its place,
  a new key goes last. That is the library's \<open>AList.update\<close>.
\<close>

type_synonym ('k, 'v) dict = "('k \<times> 'v) list"

abbreviation dict_get :: "('k, 'v) dict \<Rightarrow> 'k \<Rightarrow> 'v option" where
  "dict_get d k \<equiv> map_of d k"

abbreviation dict_set :: "'k \<Rightarrow> 'v \<Rightarrow> ('k, 'v) dict \<Rightarrow> ('k, 'v) dict" where
  "dict_set \<equiv> AList.update"

abbreviation dict_keys :: "('k, 'v) dict \<Rightarrow> 'k list" where
  "dict_keys d \<equiv> map fst d"

abbreviation dict_values :: "('k, 'v) dict \<Rightarrow> 'v list" where
  "dict_values d \<equiv> map snd d"

definition in_dict :: "'k \<Rightarrow> ('k, 'v) dict \<Rightarrow> bool" where
  "in_dict k d \<longleftrightarrow> map_of d k \<noteq> None"

text \<open>\<open>del d[k]\<close>\<close>

definition dict_del :: "'k \<Rightarrow> ('k, 'v) dict \<Rightarrow> ('k, 'v) dict result" where
  "dict_del k d = (if in_dict k d then Inr (AList.delete k d) else Inl KeyError)"

definition wf_dict :: "('k, 'v) dict \<Rightarrow> bool" where
  "wf_dict d \<longleftrightarrow> distinct (map fst d)"

lemma dict_get_set: "map_of (AList.update k v d) k' = (if k = k' then Some v else map_of d k')"
  by (simp add: update_conv')

lemma wf_dict_Nil [simp]: "wf_dict []"
  by (simp add: wf_dict_def)

lemma wf_dict_set [simp]: "wf_dict d \<Longrightarrow> wf_dict (AList.update k v d)"
  by (simp add: wf_dict_def distinct_update)

lemma wf_dict_delete [simp]: "wf_dict d \<Longrightarrow> wf_dict (AList.delete k d)"
  by (simp add: wf_dict_def distinct_delete)

lemma dict_get_delete: "map_of (AList.delete k d) k' = (if k = k' then None else map_of d k')"
  by (simp add: delete_conv')

section \<open>Sequences\<close>

text \<open>
  Slices: a negative bound counts from the end, and bounds outside the sequence are clipped.
  \<open>py_to n xs\<close> is \<open>xs[:n]\<close>, \<open>py_from n xs\<close> is \<open>xs[n:]\<close>, \<open>py_slice a b xs\<close> is \<open>xs[a:b]\<close>.
\<close>

definition py_index :: "int \<Rightarrow> nat \<Rightarrow> nat" where
  "py_index n len = (if n < 0 then nat (int len + n) else min (nat n) len)"

definition py_to :: "int \<Rightarrow> 'a list \<Rightarrow> 'a list" where
  "py_to n xs = take (py_index n (length xs)) xs"

definition py_from :: "int \<Rightarrow> 'a list \<Rightarrow> 'a list" where
  "py_from n xs = drop (py_index n (length xs)) xs"

definition py_slice :: "int \<Rightarrow> int \<Rightarrow> 'a list \<Rightarrow> 'a list" where
  "py_slice a b xs = drop (py_index a (length xs)) (take (py_index b (length xs)) xs)"

lemma py_to_nonneg: "0 \<le> n \<Longrightarrow> py_to n xs = take (nat n) xs"
  by (simp add: py_to_def py_index_def min_def)

lemma py_from_nonneg: "0 \<le> n \<Longrightarrow> py_from n xs = drop (nat n) xs"
  by (simp add: py_from_def py_index_def min_def)

lemma py_slice_nonneg: "0 \<le> a \<Longrightarrow> 0 \<le> b \<Longrightarrow> py_slice a b xs = drop (nat a) (take (nat b) xs)"
  by (simp add: py_slice_def py_index_def min_def)

text \<open>\<open>xs[i]\<close>\<close>

definition py_nth :: "'a list \<Rightarrow> int \<Rightarrow> 'a result" where
  "py_nth xs i = (let j = (if i < 0 then int (length xs) + i else i)
     in if 0 \<le> j \<and> j < int (length xs) then Inr (xs ! nat j) else Inl IndexError)"

text \<open>\<open>range(a, b, step)\<close> for a positive step.\<close>

function py_range :: "int \<Rightarrow> int \<Rightarrow> int \<Rightarrow> int list" where
  "py_range a b d = (if 0 < d \<and> a < b then a # py_range (a + d) b d else [])"
  by pat_completeness auto
termination
  by (relation "measure (\<lambda>(a, b, d). nat (b - a))") auto

declare py_range.simps [simp del]

lemma py_range_empty [simp]: "b \<le> a \<Longrightarrow> py_range a b d = []"
  by (simp add: py_range.simps)

lemma py_range_step: "0 < d \<Longrightarrow> a < b \<Longrightarrow> py_range a b d = a # py_range (a + d) b d"
  by (simp add: py_range.simps)

text \<open>\<open>next(x for x in xs if p(x))\<close>: the first match, or StopIteration.\<close>

definition next_match :: "('a \<Rightarrow> bool) \<Rightarrow> 'a list \<Rightarrow> 'a result" where
  "next_match p xs = (case List.find p xs of None \<Rightarrow> Inl StopIteration | Some x \<Rightarrow> Inr x)"

lemma find_SomeD: "List.find p xs = Some x \<Longrightarrow> x \<in> set xs \<and> p x"
  by (auto simp: find_Some_iff)

lemma next_match_Inr: "next_match p xs = Inr x \<Longrightarrow> x \<in> set xs \<and> p x"
  by (auto simp: next_match_def find_Some_iff split: option.splits)

lemma next_match_Inl: "next_match p xs = Inl e \<longleftrightarrow> e = StopIteration \<and> (\<forall>x \<in> set xs. \<not> p x)"
  by (auto simp: next_match_def find_None_iff find_Some_iff split: option.splits)

lemma next_match_ex: "\<exists>x \<in> set xs. p x \<Longrightarrow> \<exists>x. next_match p xs = Inr x"
  by (cases "next_match p xs") (auto simp: next_match_Inl)

end
