(* ===== verification/Dbg_Objects.thy ===== *)
theory Dbg_Objects
  imports Py_Prelude
begin

text \<open>
  The objects a user of libdebug holds and the debugger shares: \<open>Breakpoint\<close>,
  \<open>SignalCatcher\<close>, \<open>SyscallHandler\<close> (\<open>libdebug/data\<close>), and the debugger's own decision record
  \<open>ResumeContext\<close> (\<open>libdebug/state\<close>). The objects are shared by reference in the source; the
  debugger's state keeps them in heaps and stores references (see \<open>Dbg_State\<close>).

  A callback is a value: the closures that libdebug itself creates are named by what they
  capture, a function of the user's is a number whose meaning is a parameter of the model.
\<close>

datatype callback =
    UserCallback nat
  | HijackSignal int
  | HijackSyscall int "(string \<times> int) list"
  | OnEnterPtrace
  | OnExitPtrace

section \<open>Breakpoint\<close>

record breakpoint =
  bp_address :: int
  bp_symbol :: string
  bp_hit_count :: int
  bp_hardware :: bool
  bp_callback :: "callback option"
  bp_condition :: "string option"
  bp_length :: int
  bp_enabled :: bool
  bp_linked_thread_ids :: "int list"
  bp_disabled_for_step :: bool
  bp_changed :: bool

text \<open>The dataclass constructor, with the six arguments the source passes and the other fields' defaults.\<close>

definition Breakpoint :: "int \<Rightarrow> string \<Rightarrow> bool \<Rightarrow> callback option \<Rightarrow> string option \<Rightarrow> int \<Rightarrow> breakpoint" where
  "Breakpoint address symbol hardware callback condition len =
     \<lparr>bp_address = address, bp_symbol = symbol, bp_hit_count = 0, bp_hardware = hardware,
      bp_callback = callback, bp_condition = condition, bp_length = len, bp_enabled = True,
      bp_linked_thread_ids = [], bp_disabled_for_step = False, bp_changed = False\<rparr>"

text \<open>\<open>Breakpoint(address, hardware=hw)\<close>: every other field at its default.\<close>

definition default_breakpoint :: "int \<Rightarrow> bool \<Rightarrow> breakpoint" where
  "default_breakpoint address hw = Breakpoint address '''' hw None (Some ''x'') 1"

definition bp_set_enabled :: "bool \<Rightarrow> breakpoint \<Rightarrow> breakpoint" where
  "bp_set_enabled b bp = bp\<lparr>bp_enabled := b, bp_changed := True\<rparr>"

definition bp_hit_on :: "breakpoint \<Rightarrow> int \<Rightarrow> bool" where
  "bp_hit_on bp ip \<longleftrightarrow> bp_enabled bp \<and> ip = bp_address bp"

section \<open>SignalCatcher\<close>

record signal_catcher =
  sc_signal_number :: int
  sc_callback :: "callback option"
  sc_recursive :: bool
  sc_enabled :: bool
  sc_hit_count :: int

definition SignalCatcher :: "int \<Rightarrow> callback option \<Rightarrow> bool \<Rightarrow> signal_catcher" where
  "SignalCatcher n cb rec = \<lparr>sc_signal_number = n, sc_callback = cb, sc_recursive = rec,
     sc_enabled = True, sc_hit_count = 0\<rparr>"

definition sc_set_enabled :: "bool \<Rightarrow> signal_catcher \<Rightarrow> signal_catcher" where
  "sc_set_enabled b sc = sc\<lparr>sc_enabled := b\<rparr>"

definition sc_hit_on :: "signal_catcher \<Rightarrow> int \<Rightarrow> bool" where
  "sc_hit_on sc thread_signal \<longleftrightarrow> sc_enabled sc \<and> thread_signal = sc_signal_number sc"

section \<open>SyscallHandler\<close>

text \<open>
  The two pretty-print callbacks are either absent or the one function \<open>pprint_on_enter\<close>
  (\<open>pprint_on_exit\<close>), so they are flags. \<open>sh_traceme_called\<close> and \<open>sh_command\<close> are the hidden
  attributes that \<open>_enable_antidebug_escaping\<close> puts on its handler.
\<close>

record syscall_handler =
  sh_syscall_number :: int
  sh_on_enter_user :: "callback option"
  sh_on_exit_user :: "callback option"
  sh_on_enter_pprint :: bool
  sh_on_exit_pprint :: bool
  sh_recursive :: bool
  sh_enabled :: bool
  sh_hit_count :: int
  sh_has_entered :: bool
  sh_skip_exit :: bool
  sh_traceme_called :: bool
  sh_command :: "int option"

definition SyscallHandler ::
    "int \<Rightarrow> callback option \<Rightarrow> callback option \<Rightarrow> bool \<Rightarrow> bool \<Rightarrow> bool \<Rightarrow> syscall_handler" where
  "SyscallHandler n on_enter on_exit enter_pp exit_pp rec =
     \<lparr>sh_syscall_number = n, sh_on_enter_user = on_enter, sh_on_exit_user = on_exit,
      sh_on_enter_pprint = enter_pp, sh_on_exit_pprint = exit_pp, sh_recursive = rec,
      sh_enabled = True, sh_hit_count = 0, sh_has_entered = False, sh_skip_exit = False,
      sh_traceme_called = False, sh_command = None\<rparr>"

definition sh_set_enabled :: "bool \<Rightarrow> syscall_handler \<Rightarrow> syscall_handler" where
  "sh_set_enabled b sh = sh\<lparr>sh_enabled := b, sh_has_entered := False\<rparr>"

definition sh_hit_on_enter :: "syscall_handler \<Rightarrow> int \<Rightarrow> bool" where
  "sh_hit_on_enter sh thread_syscall \<longleftrightarrow>
     sh_enabled sh \<and> thread_syscall = sh_syscall_number sh \<and> sh_has_entered sh"

definition sh_hit_on_exit :: "syscall_handler \<Rightarrow> int \<Rightarrow> bool" where
  "sh_hit_on_exit sh thread_syscall \<longleftrightarrow>
     sh_enabled sh \<and> thread_syscall = sh_syscall_number sh \<and> \<not> sh_has_entered sh"

section \<open>ResumeContext\<close>

record resume_context =
  rc_resume :: bool
  rc_force_interrupt :: bool
  rc_is_a_step :: bool
  rc_is_startup :: bool
  rc_block_on_signal :: bool
  rc_threads_with_signals_to_forward :: "int list"

definition ResumeContext :: resume_context where
  "ResumeContext = \<lparr>rc_resume = True, rc_force_interrupt = False, rc_is_a_step = False,
     rc_is_startup = False, rc_block_on_signal = False, rc_threads_with_signals_to_forward = []\<rparr>"

definition rc_clear :: "resume_context \<Rightarrow> resume_context" where
  "rc_clear rc = rc\<lparr>rc_resume := True, rc_force_interrupt := False, rc_is_a_step := False,
     rc_is_startup := False, rc_block_on_signal := False, rc_threads_with_signals_to_forward := []\<rparr>"

lemma rc_clear_fresh: "rc_clear rc = ResumeContext"
  by (simp add: rc_clear_def ResumeContext_def)

end
