(* ===== verification/Hw_Breakpoints.thy ===== *)
theory Hw_Breakpoints
  imports Dbg_Objects
begin

text \<open>
  \<open>Amd64PtraceHardwareBreakpointManager\<close> (\<open>libdebug/architectures/amd64/amd64_ptrace_hw_bp_helper.py\<close>):
  four debug address registers, one control register DR7, one status register DR6, and the
  manager's own table of which breakpoint sits in which register. \<open>peek_user\<close> and \<open>poke_user\<close>
  are the callables the manager is given; the table holds references \<open>'b\<close> to breakpoints.
\<close>

section \<open>Constants\<close>

datatype dreg = DR0 | DR1 | DR2 | DR3 | DR4 | DR5 | DR6 | DR7

fun dbgregs_off :: "dreg \<Rightarrow> int" where
  "dbgregs_off DR0 = 0x350"
| "dbgregs_off DR1 = 0x358"
| "dbgregs_off DR2 = 0x360"
| "dbgregs_off DR3 = 0x368"
| "dbgregs_off DR4 = 0x370"
| "dbgregs_off DR5 = 0x378"
| "dbgregs_off DR6 = 0x380"
| "dbgregs_off DR7 = 0x388"

lemma dbgregs_off_eq [simp]: "dbgregs_off a = dbgregs_off b \<longleftrightarrow> a = b"
  by (cases a; cases b) simp_all

declare dbgregs_off.simps [simp del]

text \<open>The offsets the manager uses (DR4 and DR5 are in the table only).\<close>

definition is_dbgreg :: "int \<Rightarrow> bool" where
  "is_dbgreg a \<longleftrightarrow> a \<in> dbgregs_off ` {DR0, DR1, DR2, DR3, DR6, DR7}"

lemma is_dbgreg_off: "is_dbgreg (dbgregs_off r) \<longleftrightarrow> r \<noteq> DR4 \<and> r \<noteq> DR5"
  by (cases r) (auto simp: is_dbgreg_def)

lemma is_dbgreg_fits: "is_dbgreg a \<Longrightarrow> fits_u64 a"
  by (auto simp: is_dbgreg_def fits_u64_def dbgregs_off.simps)

text \<open>The dictionaries below have keys DR0 to DR3 only; no other register reaches them.\<close>

fun ctrl_local_bit :: "dreg \<Rightarrow> nat" where
  "ctrl_local_bit DR0 = 0"
| "ctrl_local_bit DR1 = 2"
| "ctrl_local_bit DR2 = 4"
| "ctrl_local_bit _ = 6"

definition ctrl_local :: "dreg \<Rightarrow> int" where
  "ctrl_local r = push_bit (ctrl_local_bit r) 1"

fun ctrl_cond :: "dreg \<Rightarrow> nat" where
  "ctrl_cond DR0 = 16"
| "ctrl_cond DR1 = 20"
| "ctrl_cond DR2 = 24"
| "ctrl_cond _ = 28"

fun ctrl_len :: "dreg \<Rightarrow> nat" where
  "ctrl_len DR0 = 18"
| "ctrl_len DR1 = 22"
| "ctrl_len DR2 = 26"
| "ctrl_len _ = 30"

definition ctrl_cond_val :: "string option \<Rightarrow> int result" where
  "ctrl_cond_val c = (if c = Some ''x'' then Inr 0 else if c = Some ''w'' then Inr 1
     else if c = Some ''rw'' then Inr 3 else Inl KeyError)"

definition ctrl_len_val :: "int \<Rightarrow> int result" where
  "ctrl_len_val n = (if n = 1 then Inr 0 else if n = 2 then Inr 1
     else if n = 8 then Inr 2 else if n = 4 then Inr 3 else Inl KeyError)"

definition dbregs_count :: int where
  "dbregs_count = 4"

section \<open>The manager\<close>

record 'b hw_manager =
  hw_thread_id :: int
  hw_breakpoint_count :: int
  hw_registers :: "(dreg, 'b option) dict"

definition hw_init :: "int \<Rightarrow> 'b hw_manager" where
  "hw_init tid = \<lparr>hw_thread_id = tid, hw_breakpoint_count = 0,
     hw_registers = [(DR0, None), (DR1, None), (DR2, None), (DR3, None)]\<rparr>"

type_synonym 'k peek_user = "int \<Rightarrow> int \<Rightarrow> ('k, int) pm"
type_synonym 'k poke_user = "int \<Rightarrow> int \<Rightarrow> int \<Rightarrow> ('k, unit) pm"

text \<open>The manager's methods run on the manager and on what \<open>peek_user\<close>, \<open>poke_user\<close> act on.\<close>

definition on_kernel :: "(int \<Rightarrow> ('k, 'a) pm) \<Rightarrow> ('b hw_manager \<times> 'k, 'a) pm" where
  "on_kernel f = (\<lambda>(m, k). case f (hw_thread_id m) k of (r, k') \<Rightarrow> (r, (m, k')))"

definition set_ctrl :: "dreg \<Rightarrow> int \<Rightarrow> int \<Rightarrow> int \<Rightarrow> int" where
  "set_ctrl r c l current =
     (let ctrl = ctrl_local r OR push_bit (ctrl_cond r) c OR push_bit (ctrl_len r) l;
          cleared = current AND NOT (push_bit (ctrl_cond r) 3) AND NOT (push_bit (ctrl_len r) 3)
      in cleared OR ctrl)"

definition clear_ctrl :: "dreg \<Rightarrow> int \<Rightarrow> int" where
  "clear_ctrl r current = current AND NOT (ctrl_local r)"

definition install_breakpoint ::
    "'k peek_user \<Rightarrow> 'k poke_user \<Rightarrow> ('b \<Rightarrow> breakpoint) \<Rightarrow> 'b \<Rightarrow> ('b hw_manager \<times> 'k, unit) pm" where
  "install_breakpoint peek poke deref b =
     bind (gets fst) (\<lambda>m.
     if dbregs_count \<le> hw_breakpoint_count m then raise RuntimeError
     else
     bind (lift (next_match (\<lambda>(reg, x). x = None) (hw_registers m))) (\<lambda>(register, _).
     bind (on_kernel (\<lambda>tid. poke tid (dbgregs_off register) (bp_address (deref b)))) (\<lambda>_.
     bind (lift (ctrl_cond_val (bp_condition (deref b)))) (\<lambda>c.
     bind (lift (ctrl_len_val (bp_length (deref b)))) (\<lambda>l.
     bind (on_kernel (\<lambda>tid. peek tid (dbgregs_off DR7))) (\<lambda>current_ctrl.
     bind (on_kernel (\<lambda>tid. poke tid (dbgregs_off DR7) (set_ctrl register c l current_ctrl))) (\<lambda>_.
     upd (\<lambda>(m, k). (m\<lparr>hw_registers := dict_set register (Some b) (hw_registers m),
                      hw_breakpoint_count := hw_breakpoint_count m + 1\<rparr>, k)))))))))"

definition remove_breakpoint ::
    "'k peek_user \<Rightarrow> 'k poke_user \<Rightarrow> ('b \<Rightarrow> breakpoint) \<Rightarrow> 'b \<Rightarrow> ('b hw_manager \<times> 'k, unit) pm" where
  "remove_breakpoint peek poke deref b =
     bind (gets fst) (\<lambda>m.
     if hw_breakpoint_count m \<le> 0 then raise RuntimeError
     else
     bind (lift (next_match (\<lambda>(reg, x). map_option deref x = Some (deref b)) (hw_registers m))) (\<lambda>(register, _).
     bind (on_kernel (\<lambda>tid. poke tid (dbgregs_off register) 0)) (\<lambda>_.
     bind (on_kernel (\<lambda>tid. peek tid (dbgregs_off DR7))) (\<lambda>current_ctrl.
     bind (on_kernel (\<lambda>tid. poke tid (dbgregs_off DR7) (clear_ctrl register current_ctrl))) (\<lambda>_.
     upd (\<lambda>(m, k). (m\<lparr>hw_registers := dict_set register None (hw_registers m),
                      hw_breakpoint_count := hw_breakpoint_count m - 1\<rparr>, k)))))))"

definition available_breakpoints :: "'b hw_manager \<Rightarrow> int" where
  "available_breakpoints m = dbregs_count - hw_breakpoint_count m"

definition is_watchpoint_hit ::
    "'k peek_user \<Rightarrow> ('b \<Rightarrow> breakpoint) \<Rightarrow> ('b hw_manager \<times> 'k, 'b option) pm" where
  "is_watchpoint_hit peek deref =
     bind (on_kernel (\<lambda>tid. peek tid (dbgregs_off DR6))) (\<lambda>dr6.
     bind (gets (hw_registers \<circ> fst)) (\<lambda>regs.
     let slot = (\<lambda>r. case dict_get regs r of None \<Rightarrow> Inl KeyError | Some x \<Rightarrow> Inr x) in
     bind (lift (if dr6 AND 1 \<noteq> 0 then slot DR0
                 else if dr6 AND 2 \<noteq> 0 then slot DR1
                 else if dr6 AND 4 \<noteq> 0 then slot DR2
                 else if dr6 AND 8 \<noteq> 0 then slot DR3
                 else Inr None)) (\<lambda>watchpoint.
     ret (case watchpoint of None \<Rightarrow> None
          | Some w \<Rightarrow> if bp_condition (deref w) = Some ''x'' then None else Some w))))"

section \<open>The control register, field by field\<close>

abbreviation addr_regs :: "dreg list" where
  "addr_regs \<equiv> [DR0, DR1, DR2, DR3]"

definition dr7_enabled :: "int \<Rightarrow> dreg \<Rightarrow> bool" where
  "dr7_enabled ctrl r = bit ctrl (ctrl_local_bit r)"

definition dr7_cond :: "int \<Rightarrow> dreg \<Rightarrow> int" where
  "dr7_cond ctrl r = drop_bit (ctrl_cond r) ctrl AND 3"

definition dr7_len :: "int \<Rightarrow> dreg \<Rightarrow> int" where
  "dr7_len ctrl r = drop_bit (ctrl_len r) ctrl AND 3"

lemma and_3: "(x :: int) AND 3 = take_bit 2 x"
  by (simp add: take_bit_eq_mask mask_eq_exp_minus_1)

lemma bit_3: "bit (3 :: int) n \<longleftrightarrow> n < 2"
proof -
  have "(3 :: int) = mask 2" by (simp add: mask_eq_exp_minus_1)
  then show ?thesis by (simp only: bit_mask_iff) simp
qed

lemma small_bit: "0 \<le> (c :: int) \<Longrightarrow> c < 4 \<Longrightarrow> bit c n \<Longrightarrow> n < 2"
  using bit_less_exp [of c 2] by simp

lemma bit_ctrl_local: "bit (ctrl_local r) n \<longleftrightarrow> n = ctrl_local_bit r"
  unfolding ctrl_local_def by (simp only: bit_push_bit_iff bit_1_iff) auto

lemmas ctrl_bits = bit_ctrl_local bit_or_iff bit_and_iff bit_not_iff bit_push_bit_iff bit_3

lemma bit_set_ctrl:
  "bit (set_ctrl r c l v) n \<longleftrightarrow>
     n = ctrl_local_bit r
   \<or> (ctrl_cond r \<le> n \<and> bit c (n - ctrl_cond r))
   \<or> (ctrl_len r \<le> n \<and> bit l (n - ctrl_len r))
   \<or> (bit v n \<and> \<not> (ctrl_cond r \<le> n \<and> n < ctrl_cond r + 2) \<and> \<not> (ctrl_len r \<le> n \<and> n < ctrl_len r + 2))"
  by (auto simp: set_ctrl_def Let_def ctrl_bits)

lemma bit_clear_ctrl: "bit (clear_ctrl r v) n \<longleftrightarrow> bit v n \<and> n \<noteq> ctrl_local_bit r"
  by (auto simp: clear_ctrl_def ctrl_bits)

lemma field_eqI:
  assumes "\<And>n. n < 2 \<Longrightarrow> bit a (i + n) = bit b (j + n)"
  shows "drop_bit i (a :: int) AND 3 = drop_bit j b AND 3"
  unfolding and_3 by (rule bit_eqI) (auto simp: bit_take_bit_iff bit_drop_bit_eq assms)

text \<open>Writing one register's fields leaves the other three registers' fields alone.\<close>

lemma set_ctrl_other:
  assumes "r \<in> set addr_regs" "q \<in> set addr_regs" "q \<noteq> r" "0 \<le> c" "c < 4" "0 \<le> l" "l < 4"
  shows "dr7_enabled (set_ctrl r c l v) q = dr7_enabled v q"
    and "dr7_cond (set_ctrl r c l v) q = dr7_cond v q"
    and "dr7_len (set_ctrl r c l v) q = dr7_len v q"
proof -
  have c: "bit c n \<Longrightarrow> n < 2" and l: "bit l n \<Longrightarrow> n < 2" for n
    using assms by (auto intro: small_bit)
  show "dr7_enabled (set_ctrl r c l v) q = dr7_enabled v q"
    using assms(1-3) by (auto simp: dr7_enabled_def bit_set_ctrl)
  show "dr7_cond (set_ctrl r c l v) q = dr7_cond v q"
    unfolding dr7_cond_def
    by (rule field_eqI) (use assms(1-3) in \<open>auto simp: bit_set_ctrl less_2_cases_iff dest: c l\<close>)
  show "dr7_len (set_ctrl r c l v) q = dr7_len v q"
    unfolding dr7_len_def
    by (rule field_eqI) (use assms(1-3) in \<open>auto simp: bit_set_ctrl less_2_cases_iff dest: c l\<close>)
qed

lemma set_ctrl_same:
  assumes "r \<in> set addr_regs" "0 \<le> c" "c < 4" "0 \<le> l" "l < 4"
  shows "dr7_enabled (set_ctrl r c l v) r"
    and "dr7_cond (set_ctrl r c l v) r = c"
    and "dr7_len (set_ctrl r c l v) r = l"
proof -
  have c: "bit c n \<Longrightarrow> n < 2" and l: "bit l n \<Longrightarrow> n < 2" for n
    using assms by (auto intro: small_bit)
  have self: "c = drop_bit 0 c AND 3" "l = drop_bit 0 l AND 3"
    using assms by (simp_all add: and_3 take_bit_int_eq_self)
  show "dr7_enabled (set_ctrl r c l v) r"
    by (simp add: dr7_enabled_def bit_set_ctrl)
  show "dr7_cond (set_ctrl r c l v) r = c"
    unfolding dr7_cond_def
    by (rule trans [OF field_eqI [where b = c and j = 0] self(1) [symmetric]])
       (use assms(1) in \<open>auto simp: bit_set_ctrl less_2_cases_iff dest: c l\<close>)
  show "dr7_len (set_ctrl r c l v) r = l"
    unfolding dr7_len_def
    by (rule trans [OF field_eqI [where b = l and j = 0] self(2) [symmetric]])
       (use assms(1) in \<open>auto simp: bit_set_ctrl less_2_cases_iff dest: c l\<close>)
qed

lemma clear_ctrl_fields:
  assumes "r \<in> set addr_regs" "q \<in> set addr_regs"
  shows "dr7_enabled (clear_ctrl r v) q \<longleftrightarrow> q \<noteq> r \<and> dr7_enabled v q"
    and "dr7_cond (clear_ctrl r v) q = dr7_cond v q"
    and "dr7_len (clear_ctrl r v) q = dr7_len v q"
proof -
  show "dr7_enabled (clear_ctrl r v) q \<longleftrightarrow> q \<noteq> r \<and> dr7_enabled v q"
    using assms by (auto simp: dr7_enabled_def bit_clear_ctrl)
  show "dr7_cond (clear_ctrl r v) q = dr7_cond v q"
    unfolding dr7_cond_def by (rule field_eqI) (use assms in \<open>auto simp: bit_clear_ctrl\<close>)
  show "dr7_len (clear_ctrl r v) q = dr7_len v q"
    unfolding dr7_len_def by (rule field_eqI) (use assms in \<open>auto simp: bit_clear_ctrl\<close>)
qed

text \<open>The values written to DR7 stay within the width of the register.\<close>

lemma set_ctrl_fits:
  assumes "r \<in> set addr_regs" "0 \<le> c" "c < 4" "0 \<le> l" "l < 4" "fits_u64 v"
  shows "fits_u64 (set_ctrl r c l v)"
proof -
  have "bit c n \<Longrightarrow> n < 2" "bit l n \<Longrightarrow> n < 2" for n
    using assms by (auto intro: small_bit)
  then show ?thesis
    using assms(1,6) unfolding fits_u64_bits bit_set_ctrl by fastforce
qed

lemma clear_ctrl_fits: "fits_u64 v \<Longrightarrow> fits_u64 (clear_ctrl r v)"
  by (simp add: fits_u64_bits bit_clear_ctrl)

section \<open>The manager's table and the hardware\<close>

text \<open>
  Well-formed: the table has exactly the four registers in order, and the counter counts the
  occupied ones. Synchronised: what the debug registers make the processor do is exactly what
  the table says. \<open>v\<close> reads the user area of the manager's thread.
\<close>

definition occupied :: "(dreg, 'b option) dict \<Rightarrow> nat" where
  "occupied regs = length (filter (\<lambda>(r, x). x \<noteq> None) regs)"

lemma occupied_simps [simp]:
  "occupied [] = 0" "occupied ((r, None) # xs) = occupied xs" "occupied ((r, Some b) # xs) = Suc (occupied xs)"
  by (simp_all add: occupied_def)

lemma occupied_Cons: "occupied ((r, x) # xs) = (if x = None then 0 else 1) + occupied xs"
  by (cases x) simp_all

lemma occupied_le: "occupied xs \<le> length xs"
  by (simp add: occupied_def)

lemma occupied_pos: "(r, Some b) \<in> set xs \<Longrightarrow> 0 < occupied xs"
  by (force simp: occupied_def filter_empty_conv)

definition hw_wf :: "'b hw_manager \<Rightarrow> bool" where
  "hw_wf m \<longleftrightarrow> map fst (hw_registers m) = addr_regs \<and>
     hw_breakpoint_count m = int (occupied (hw_registers m))"

definition hw_slot :: "'b hw_manager \<Rightarrow> dreg \<Rightarrow> 'b option" where
  "hw_slot m r = (case dict_get (hw_registers m) r of None \<Rightarrow> None | Some x \<Rightarrow> x)"

definition hw_wanted :: "breakpoint \<Rightarrow> (int \<times> int \<times> int) option" where
  "hw_wanted bp = (case (ctrl_cond_val (bp_condition bp), ctrl_len_val (bp_length bp)) of
     (Inr c, Inr l) \<Rightarrow> Some (bp_address bp, c, l) | _ \<Rightarrow> None)"

definition hw_armed :: "(int \<Rightarrow> int) \<Rightarrow> dreg \<Rightarrow> (int \<times> int \<times> int) option" where
  "hw_armed v r = (if dr7_enabled (v (dbgregs_off DR7)) r
     then Some (v (dbgregs_off r), dr7_cond (v (dbgregs_off DR7)) r, dr7_len (v (dbgregs_off DR7)) r)
     else None)"

definition hw_synced :: "('b \<Rightarrow> breakpoint) \<Rightarrow> (int \<Rightarrow> int) \<Rightarrow> 'b hw_manager \<Rightarrow> bool" where
  "hw_synced deref v m \<longleftrightarrow> (\<forall>r \<in> set addr_regs.
     hw_armed v r = (case hw_slot m r of None \<Rightarrow> None | Some b \<Rightarrow> hw_wanted (deref b)))"

lemma hw_syncedD: "hw_synced deref v m \<Longrightarrow> r \<in> set addr_regs \<Longrightarrow>
    hw_armed v r = (case hw_slot m r of None \<Rightarrow> None | Some b \<Rightarrow> hw_wanted (deref b))"
  unfolding hw_synced_def by (drule bspec)

lemma ctrl_val_bounds:
  "ctrl_cond_val x = Inr c \<Longrightarrow> 0 \<le> c \<and> c < 4" "ctrl_len_val y = Inr l \<Longrightarrow> 0 \<le> l \<and> l < 4"
  by (auto simp: ctrl_cond_val_def ctrl_len_val_def split: if_splits)

lemma hw_registers_cases:
  assumes "hw_wf m"
  obtains a b c d where "hw_registers m = [(DR0, a), (DR1, b), (DR2, c), (DR3, d)]"
  using assms by (auto simp: hw_wf_def map_eq_Cons_conv)

lemma hw_wf_init [simp]: "hw_wf (hw_init tid)"
  by (simp add: hw_wf_def hw_init_def occupied_def)

lemma hw_init_fields [simp]:
  "hw_thread_id (hw_init tid) = tid" "hw_breakpoint_count (hw_init tid) = 0" "hw_slot (hw_init tid) r = None"
  by (cases r; simp add: hw_init_def hw_slot_def)+

lemma hw_synced_init:
  "(\<forall>r \<in> set addr_regs. \<not> dr7_enabled (v (dbgregs_off DR7)) r) \<Longrightarrow> hw_synced deref v (hw_init tid)"
  by (simp add: hw_synced_def hw_armed_def)

lemma hw_wf_count:
  assumes "hw_wf m"
  shows "0 \<le> hw_breakpoint_count m \<and> hw_breakpoint_count m \<le> dbregs_count"
proof -
  from assms obtain a b c d where "hw_registers m = [(DR0, a), (DR1, b), (DR2, c), (DR3, d)]"
    by (rule hw_registers_cases)
  then show ?thesis using assms occupied_le [of "hw_registers m"]
    by (simp add: hw_wf_def dbregs_count_def)
qed

lemma hw_wf_free:
  assumes "hw_wf m" and "hw_breakpoint_count m < dbregs_count"
  shows "\<exists>r. next_match (\<lambda>(reg, x). x = None) (hw_registers m) = Inr (r, None)"
proof -
  from assms(1) obtain a b c d where regs: "hw_registers m = [(DR0, a), (DR1, b), (DR2, c), (DR3, d)]"
    by (rule hw_registers_cases)
  have "a = None \<or> b = None \<or> c = None \<or> d = None"
  proof (rule ccontr)
    assume "\<not> ?thesis"
    then obtain w x y z where "a = Some w" "b = Some x" "c = Some y" "d = Some z" by auto
    then show False using assms by (simp add: regs hw_wf_def dbregs_count_def)
  qed
  then have "\<exists>y \<in> set (hw_registers m). case y of (reg, x) \<Rightarrow> x = None"
    by (auto simp: regs)
  from next_match_ex [OF this]
  obtain y where y: "next_match (\<lambda>(reg, x). x = None) (hw_registers m) = Inr y" ..
  then show ?thesis using next_match_Inr [OF y] by (cases y) auto
qed

text \<open>What taking a free register, and freeing a taken one, does to the table.\<close>

lemma hw_take_slot:
  assumes "hw_wf m" and "(r, None) \<in> set (hw_registers m)"
    and "m' = m\<lparr>hw_registers := dict_set r (Some b) (hw_registers m), hw_breakpoint_count := hw_breakpoint_count m + 1\<rparr>"
  shows "hw_wf m'" and "r \<in> set addr_regs" and "hw_slot m r = None"
    and "hw_slot m' q = (if q = r then Some b else hw_slot m q)"
proof -
  from assms(1) obtain w x y z where regs: "hw_registers m = [(DR0, w), (DR1, x), (DR2, y), (DR3, z)]"
    by (rule hw_registers_cases)
  show "hw_wf m'" "r \<in> set addr_regs" "hw_slot m r = None"
    using assms by (auto simp: hw_wf_def regs hw_slot_def occupied_Cons)
  show "hw_slot m' q = (if q = r then Some b else hw_slot m q)"
    using assms by (auto simp: hw_slot_def dict_get_set)
qed

lemma hw_free_slot:
  assumes "hw_wf m" and "(r, Some b) \<in> set (hw_registers m)"
    and "m' = m\<lparr>hw_registers := dict_set r None (hw_registers m), hw_breakpoint_count := hw_breakpoint_count m - 1\<rparr>"
  shows "hw_wf m'" and "r \<in> set addr_regs" and "hw_slot m r = Some b"
    and "hw_slot m' q = (if q = r then None else hw_slot m q)"
proof -
  from assms(1) obtain w x y z where regs: "hw_registers m = [(DR0, w), (DR1, x), (DR2, y), (DR3, z)]"
    by (rule hw_registers_cases)
  show "hw_wf m'" "r \<in> set addr_regs" "hw_slot m r = Some b"
    using assms by (auto simp: hw_wf_def regs hw_slot_def occupied_Cons)
  show "hw_slot m' q = (if q = r then None else hw_slot m q)"
    using assms by (auto simp: hw_slot_def dict_get_set)
qed

text \<open>A method that raises has not touched the table: the register stays free (or taken).\<close>

lemma install_raises_table:
  "install_breakpoint peek poke deref b (m, k) = (Inl e, (m', k')) \<Longrightarrow> m' = m"
  by (auto simp: install_breakpoint_def on_kernel_def py_simps Let_def
      split: prod.splits sum.splits if_splits)

lemma remove_raises_table:
  "remove_breakpoint peek poke deref b (m, k) = (Inl e, (m', k')) \<Longrightarrow> m' = m"
  by (auto simp: remove_breakpoint_def on_kernel_def py_simps Let_def
      split: prod.splits sum.splits if_splits)

definition dr6_bit :: "dreg \<Rightarrow> int" where
  "dr6_bit r = push_bit (ctrl_local_bit r div 2) 1"

lemma dr6_bits: "dr6_bit DR0 = 1" "dr6_bit DR1 = 2" "dr6_bit DR2 = 4" "dr6_bit DR3 = 8"
  by (simp_all add: dr6_bit_def)

lemma if_find4:
  "(if p DR0 then f DR0 else if p DR1 then f DR1 else if p DR2 then f DR2 else if p DR3 then f DR3 else g) =
   (case List.find p addr_regs of None \<Rightarrow> g | Some r \<Rightarrow> f r)"
  by simp

section \<open>Histories\<close>

text \<open>
  A history of a manager: the calls made to it, an exception caught by the caller each time it is
  raised. \<open>hw_op_address\<close> is the address a call may write.
\<close>

datatype 'b hw_op = Install 'b | Remove 'b

definition hw_apply :: "'k peek_user \<Rightarrow> 'k poke_user \<Rightarrow> ('b \<Rightarrow> breakpoint) \<Rightarrow> 'b hw_op \<Rightarrow> ('b hw_manager \<times> 'k, unit) pm" where
  "hw_apply peek poke deref c = (case c of Install b \<Rightarrow> install_breakpoint peek poke deref b
     | Remove b \<Rightarrow> remove_breakpoint peek poke deref b)"

fun hw_run :: "'k peek_user \<Rightarrow> 'k poke_user \<Rightarrow> ('b \<Rightarrow> breakpoint) \<Rightarrow> 'b hw_op list \<Rightarrow>
    'b hw_manager \<times> 'k \<Rightarrow> 'b hw_manager \<times> 'k" where
  "hw_run peek poke deref [] s = s"
| "hw_run peek poke deref (c # cs) s = hw_run peek poke deref cs (snd (hw_apply peek poke deref c s))"

section \<open>The interface to the debug registers\<close>

text \<open>
  What the manager relies on: \<open>peek_user\<close> returns what the user area holds and changes nothing,
  \<open>poke_user\<close> stores, for one thread and one offset. \<open>ok\<close> describes the moments at which the
  kernel accepts the requests (the thread is stopped).
\<close>

locale debug_registers =
  fixes peek :: "'k peek_user" and poke :: "'k poke_user"
    and view :: "'k \<Rightarrow> int \<Rightarrow> int \<Rightarrow> int" and ok :: "'k \<Rightarrow> bool"
  assumes view_fits: "ok k \<Longrightarrow> fits_u64 (view k t a)"
    and peek_law: "ok k \<Longrightarrow> is_dbgreg a \<Longrightarrow> peek t a k = (Inr (view k t a), k)"
    and poke_law: "ok k \<Longrightarrow> is_dbgreg a \<Longrightarrow> fits_u64 x \<Longrightarrow> \<exists>k'. poke t a x k = (Inr (), k') \<and> ok k' \<and>
           (\<forall>u y. view k' u y = (if u = t \<and> y = a then x else view k u y))"
begin

lemma poke_obtain:
  assumes "ok k" and "is_dbgreg a" and "fits_u64 x"
  obtains k' where "poke t a x k = (Inr (), k')" "ok k'"
    "\<And>u y. view k' u y = (if u = t \<and> y = a then x else view k u y)"
  using poke_law [OF assms, of t] by blast

lemma ctrl_off: "is_dbgreg (dbgregs_off DR7)" and stat_off: "is_dbgreg (dbgregs_off DR6)"
  by (simp_all add: is_dbgreg_off)

lemma install_ok:
  assumes ok: "ok k" and wf: "hw_wf m" and sync: "hw_synced deref (view k (hw_thread_id m)) m"
    and room: "hw_breakpoint_count m < dbregs_count" and want: "hw_wanted (deref b) \<noteq> None"
    and fits: "fits_u64 (bp_address (deref b))"
  shows "\<exists>m' k' r. install_breakpoint peek poke deref b (m, k) = (Inr (), (m', k')) \<and> ok k' \<and>
     hw_wf m' \<and> hw_synced deref (view k' (hw_thread_id m)) m' \<and> hw_thread_id m' = hw_thread_id m \<and>
     r \<in> set addr_regs \<and> hw_slot m r = None \<and> (\<forall>q. hw_slot m' q = (if q = r then Some b else hw_slot m q)) \<and>
     (\<forall>u y. u \<noteq> hw_thread_id m \<longrightarrow> view k' u y = view k u y)"
proof -
  let ?t = "hw_thread_id m"
  obtain r where r: "next_match (\<lambda>(reg, x). x = None) (hw_registers m) = Inr (r, None)"
    using hw_wf_free [OF wf room] by blast
  then have free: "(r, None) \<in> set (hw_registers m)"
    using next_match_Inr by fastforce
  have addr_off: "is_dbgreg (dbgregs_off r)"
    using hw_take_slot(2) [OF wf free refl] by (auto simp: is_dbgreg_off)
  from want obtain c l where c: "ctrl_cond_val (bp_condition (deref b)) = Inr c"
    and l: "ctrl_len_val (bp_length (deref b)) = Inr l"
    and want': "hw_wanted (deref b) = Some (bp_address (deref b), c, l)"
    by (auto simp: hw_wanted_def split: sum.splits)
  obtain k1 where k1: "poke ?t (dbgregs_off r) (bp_address (deref b)) k = (Inr (), k1)" "ok k1"
    "\<And>u y. view k1 u y = (if u = ?t \<and> y = dbgregs_off r then bp_address (deref b) else view k u y)"
    using poke_obtain [OF ok addr_off fits] by blast
  let ?ctrl = "set_ctrl r c l (view k1 ?t (dbgregs_off DR7))"
  let ?m' = "m\<lparr>hw_registers := dict_set r (Some b) (hw_registers m), hw_breakpoint_count := hw_breakpoint_count m + 1\<rparr>"
  note take = hw_take_slot [OF wf free, of ?m' b, OF refl]
  have "fits_u64 ?ctrl"
    using set_ctrl_fits [OF take(2)] ctrl_val_bounds(1) [OF c] ctrl_val_bounds(2) [OF l] view_fits [OF k1(2)] by blast
  note fits2 = this
  obtain k2 where k2: "poke ?t (dbgregs_off DR7) ?ctrl k1 = (Inr (), k2)" "ok k2"
    "\<And>u y. view k2 u y = (if u = ?t \<and> y = dbgregs_off DR7 then ?ctrl else view k1 u y)"
    using poke_obtain [OF k1(2) ctrl_off fits2] by blast
  have run: "install_breakpoint peek poke deref b (m, k) = (Inr (), (?m', k2))"
    using room by (simp add: install_breakpoint_def on_kernel_def py_simps r k1(1) c l peek_law [OF k1(2) ctrl_off] k2(1))
  have "hw_synced deref (view k2 ?t) ?m'"
    unfolding hw_synced_def
  proof
    fix q assume q: "q \<in> set addr_regs"
    note cl = ctrl_val_bounds(1) [OF c] ctrl_val_bounds(2) [OF l]
    have off: "dbgregs_off r \<noteq> dbgregs_off DR7" "dbgregs_off q \<noteq> dbgregs_off DR7"
      "dbgregs_off q = dbgregs_off r \<longleftrightarrow> q = r"
      using take(2) q by auto
    show "hw_armed (view k2 ?t) q =
        (case hw_slot ?m' q of None \<Rightarrow> None | Some b \<Rightarrow> hw_wanted (deref b))"
    proof (cases "q = r")
      case True
      then show ?thesis
        using set_ctrl_same [OF take(2), of c l] cl off
        by (simp add: hw_armed_def k2(3) k1(3) take(4) want')
    next
      case False
      have "hw_armed (view k ?t) q = (case hw_slot m q of None \<Rightarrow> None | Some b \<Rightarrow> hw_wanted (deref b))"
        by (rule hw_syncedD [OF sync q])
      moreover have "hw_armed (view k2 ?t) q = hw_armed (view k ?t) q"
        using set_ctrl_other [OF take(2) q False, of c l] cl off False
        by (simp add: hw_armed_def k2(3) k1(3))
      ultimately show ?thesis using False by (simp add: take(4))
    qed
  qed
  then show ?thesis
    using run k2(2) take by (intro exI [of _ ?m'] exI [of _ k2] exI [of _ r]) (auto simp: k2(3) k1(3))
qed

lemma remove_ok:
  assumes ok: "ok k" and wf: "hw_wf m" and sync: "hw_synced deref (view k (hw_thread_id m)) m"
    and "hw_slot m r0 = Some b"
  shows "\<exists>m' k' r b'. remove_breakpoint peek poke deref b (m, k) = (Inr (), (m', k')) \<and> ok k' \<and>
     hw_wf m' \<and> hw_synced deref (view k' (hw_thread_id m)) m' \<and> hw_thread_id m' = hw_thread_id m \<and>
     hw_slot m r = Some b' \<and> deref b' = deref b \<and> (\<forall>q. hw_slot m' q = (if q = r then None else hw_slot m q)) \<and>
     (\<forall>u y. u \<noteq> hw_thread_id m \<longrightarrow> view k' u y = view k u y)"
proof -
  let ?t = "hw_thread_id m"
  let ?p = "\<lambda>(reg :: dreg, x). map_option deref x = Some (deref b)"
  from assms(4) have mem: "(r0, Some b) \<in> set (hw_registers m)"
    by (auto simp: hw_slot_def split: option.splits dest: map_of_SomeD)
  then have "\<exists>y \<in> set (hw_registers m). ?p y" by force
  from next_match_ex [OF this] obtain y where y: "next_match ?p (hw_registers m) = Inr y" ..
  then obtain r b' where yr: "y = (r, Some b')" "deref b' = deref b" and taken: "(r, Some b') \<in> set (hw_registers m)"
    using next_match_Inr [OF y] by (cases y) auto
  have addr_off: "is_dbgreg (dbgregs_off r)"
    using hw_free_slot(2) [OF wf taken refl] by (auto simp: is_dbgreg_off)
  have pos: "0 < hw_breakpoint_count m"
  proof -
    from occupied_pos [OF taken] wf show ?thesis by (simp add: hw_wf_def)
  qed
  obtain k1 where k1: "poke ?t (dbgregs_off r) 0 k = (Inr (), k1)" "ok k1"
    "\<And>u y. view k1 u y = (if u = ?t \<and> y = dbgregs_off r then 0 else view k u y)"
    using poke_obtain [OF ok addr_off, of 0] by (auto simp: fits_u64_def)
  let ?ctrl = "clear_ctrl r (view k1 ?t (dbgregs_off DR7))"
  obtain k2 where k2: "poke ?t (dbgregs_off DR7) ?ctrl k1 = (Inr (), k2)" "ok k2"
    "\<And>u y. view k2 u y = (if u = ?t \<and> y = dbgregs_off DR7 then ?ctrl else view k1 u y)"
    using poke_obtain [OF k1(2) ctrl_off clear_ctrl_fits [OF view_fits [OF k1(2)]]] by blast
  let ?m' = "m\<lparr>hw_registers := dict_set r None (hw_registers m), hw_breakpoint_count := hw_breakpoint_count m - 1\<rparr>"
  note free = hw_free_slot [OF wf taken, of ?m', OF refl]
  have run: "remove_breakpoint peek poke deref b (m, k) = (Inr (), (?m', k2))"
    using pos by (simp add: remove_breakpoint_def on_kernel_def py_simps y yr k1(1) peek_law [OF k1(2) ctrl_off] k2(1)
        del: map_option_eq_Some)
  have "hw_synced deref (view k2 ?t) ?m'"
    unfolding hw_synced_def
  proof
    fix q assume q: "q \<in> set addr_regs"
    have off: "dbgregs_off r \<noteq> dbgregs_off DR7" "dbgregs_off q \<noteq> dbgregs_off DR7"
      "dbgregs_off q = dbgregs_off r \<longleftrightarrow> q = r"
      using free(2) q by auto
    show "hw_armed (view k2 ?t) q =
        (case hw_slot ?m' q of None \<Rightarrow> None | Some b \<Rightarrow> hw_wanted (deref b))"
    proof (cases "q = r")
      case True
      then show ?thesis
        using clear_ctrl_fields [OF free(2) q] off by (simp add: hw_armed_def k2(3) k1(3) free(4))
    next
      case False
      have "hw_armed (view k ?t) q = (case hw_slot m q of None \<Rightarrow> None | Some b \<Rightarrow> hw_wanted (deref b))"
        by (rule hw_syncedD [OF sync q])
      moreover have "hw_armed (view k2 ?t) q = hw_armed (view k ?t) q"
        using clear_ctrl_fields [OF free(2) q] off False by (simp add: hw_armed_def k2(3) k1(3))
      ultimately show ?thesis using False by (simp add: free(4))
    qed
  qed
  then show ?thesis
    using run k2(2) free yr by (intro exI [of _ ?m'] exI [of _ k2] exI [of _ r] exI [of _ b']) (auto simp: k2(3) k1(3))
qed

text \<open>
  Whatever the outcome, table and hardware stay in step: a call that finds no room or no matching
  entry has done nothing, and one that fails on the condition or the length has only written the
  address register of a slot that is not enabled.
\<close>

lemma install_full: "dbregs_count \<le> hw_breakpoint_count m \<Longrightarrow>
    install_breakpoint peek poke deref b (m, k) = (Inl RuntimeError, (m, k))"
  by (simp add: install_breakpoint_def py_simps)

lemma install_unknown:
  assumes ok: "ok k" and wf: "hw_wf m" and sync: "hw_synced deref (view k (hw_thread_id m)) m"
    and room: "hw_breakpoint_count m < dbregs_count" and want: "hw_wanted (deref b) = None"
    and fits: "fits_u64 (bp_address (deref b))"
  shows "\<exists>k'. install_breakpoint peek poke deref b (m, k) = (Inl KeyError, (m, k')) \<and> ok k' \<and>
     hw_synced deref (view k' (hw_thread_id m)) m \<and> view k' (hw_thread_id m) (dbgregs_off DR7) = view k (hw_thread_id m) (dbgregs_off DR7)"
proof -
  let ?t = "hw_thread_id m"
  obtain r where r: "next_match (\<lambda>(reg, x). x = None) (hw_registers m) = Inr (r, None)"
    using hw_wf_free [OF wf room] by blast
  then have free: "(r, None) \<in> set (hw_registers m)"
    using next_match_Inr by fastforce
  note slot = hw_take_slot(2,3) [OF wf free refl]
  have addr_off: "is_dbgreg (dbgregs_off r)"
    using slot(1) by (auto simp: is_dbgreg_off)
  obtain k1 where k1: "poke ?t (dbgregs_off r) (bp_address (deref b)) k = (Inr (), k1)" "ok k1"
    "\<And>u y. view k1 u y = (if u = ?t \<and> y = dbgregs_off r then bp_address (deref b) else view k u y)"
    using poke_obtain [OF ok addr_off fits] by blast
  have "install_breakpoint peek poke deref b (m, k) = (Inl KeyError, (m, k1))"
    using room want
    by (auto simp: install_breakpoint_def on_kernel_def py_simps r k1(1) hw_wanted_def ctrl_cond_val_def
        ctrl_len_val_def split: sum.splits if_splits)
  moreover have off: "dbgregs_off r \<noteq> dbgregs_off DR7" using slot(1) by auto
  moreover have "hw_synced deref (view k1 ?t) m"
    unfolding hw_synced_def
  proof
    fix q assume q: "q \<in> set addr_regs"
    have old: "hw_armed (view k ?t) q = (case hw_slot m q of None \<Rightarrow> None | Some b \<Rightarrow> hw_wanted (deref b))"
      by (rule hw_syncedD [OF sync q])
    moreover have "hw_armed (view k1 ?t) q = hw_armed (view k ?t) q"
    proof (cases "q = r")
      case True
      then have "hw_armed (view k ?t) q = None" using old slot(2) by simp
      then show ?thesis using off True by (simp add: hw_armed_def k1(3) split: if_splits)
    next
      case False
      then show ?thesis using off by (simp add: hw_armed_def k1(3))
    qed
    ultimately show "hw_armed (view k1 ?t) q = (case hw_slot m q of None \<Rightarrow> None | Some b \<Rightarrow> hw_wanted (deref b))"
      by simp
  qed
  ultimately show ?thesis using k1(2) by (intro exI [of _ k1]) (simp add: k1(3))
qed

lemma install_keeps:
  assumes "ok k" and "hw_wf m" and "hw_synced deref (view k (hw_thread_id m)) m" and "fits_u64 (bp_address (deref b))"
    and "install_breakpoint peek poke deref b (m, k) = (res, (m', k'))"
  shows "ok k' \<and> hw_wf m' \<and> hw_synced deref (view k' (hw_thread_id m')) m' \<and> hw_thread_id m' = hw_thread_id m"
proof -
  consider "dbregs_count \<le> hw_breakpoint_count m"
    | "hw_breakpoint_count m < dbregs_count" "hw_wanted (deref b) = None"
    | "hw_breakpoint_count m < dbregs_count" "hw_wanted (deref b) \<noteq> None" by linarith
  then show ?thesis
  proof cases
    case 1
    then show ?thesis using assms(1-3,5) install_full [of m deref b k] by simp
  next
    case 2
    then show ?thesis using install_unknown [OF assms(1-3) 2 assms(4)] assms(2,5) by auto
  next
    case 3
    then show ?thesis using install_ok [OF assms(1-3) 3 assms(4)] assms(5) by auto
  qed
qed

lemma remove_absent:
  assumes "hw_wf m" and "\<forall>r b'. hw_slot m r = Some b' \<longrightarrow> deref b' \<noteq> deref b"
  shows "\<exists>e. remove_breakpoint peek poke deref b (m, k) = (Inl e, (m, k)) \<and>
    (if hw_breakpoint_count m = 0 then e = RuntimeError else e = StopIteration)"
proof -
  from assms(1) obtain w x y z where regs: "hw_registers m = [(DR0, w), (DR1, x), (DR2, y), (DR3, z)]"
    by (rule hw_registers_cases)
  from assms(2) have "\<forall>p \<in> set (hw_registers m). \<not> (case p of (reg, x) \<Rightarrow> map_option deref x = Some (deref b))"
    by (auto simp: regs hw_slot_def split: if_splits)
  then have "next_match (\<lambda>(reg, x). map_option deref x = Some (deref b)) (hw_registers m) = Inl StopIteration"
    by (simp add: next_match_Inl)
  then show ?thesis
    using hw_wf_count [OF assms(1)] by (auto simp: remove_breakpoint_def py_simps)
qed

lemma remove_keeps:
  assumes "ok k" and "hw_wf m" and "hw_synced deref (view k (hw_thread_id m)) m"
    and "remove_breakpoint peek poke deref b (m, k) = (res, (m', k'))"
  shows "ok k' \<and> hw_wf m' \<and> hw_synced deref (view k' (hw_thread_id m')) m' \<and> hw_thread_id m' = hw_thread_id m"
proof (cases "\<exists>r b'. hw_slot m r = Some b' \<and> deref b' = deref b")
  case True
  then obtain r b' where b': "hw_slot m r = Some b'" "deref b' = deref b" by blast
  have "remove_breakpoint peek poke deref b = remove_breakpoint peek poke deref b'"
    by (simp only: remove_breakpoint_def b'(2))
  then show ?thesis using remove_ok [OF assms(1-3) b'(1)] assms(4) by auto
next
  case False
  then show ?thesis using remove_absent [OF assms(2), of deref b k] assms by auto
qed

lemma run_keeps:
  "ok k \<Longrightarrow> hw_wf m \<Longrightarrow> hw_synced deref (view k (hw_thread_id m)) m \<Longrightarrow>
   \<forall>b. Install b \<in> set cs \<longrightarrow> fits_u64 (bp_address (deref b)) \<Longrightarrow>
   hw_run peek poke deref cs (m, k) = (m', k') \<Longrightarrow>
   ok k' \<and> hw_wf m' \<and> hw_synced deref (view k' (hw_thread_id m')) m' \<and> hw_thread_id m' = hw_thread_id m"
proof (induction cs arbitrary: m k)
  case Nil
  then show ?case by simp
next
  case (Cons c cs)
  obtain res m1 k1 where c: "hw_apply peek poke deref c (m, k) = (res, (m1, k1))"
    by (metis prod.exhaust)
  have "ok k1 \<and> hw_wf m1 \<and> hw_synced deref (view k1 (hw_thread_id m1)) m1 \<and> hw_thread_id m1 = hw_thread_id m"
  proof (cases c)
    case (Install b)
    then show ?thesis using install_keeps [OF Cons.prems(1-3), of b] c Cons.prems(4) by (auto simp: hw_apply_def)
  next
    case (Remove b)
    then show ?thesis using remove_keeps [OF Cons.prems(1-3), of b] c by (auto simp: hw_apply_def)
  qed
  then show ?case using Cons.IH [of k1 m1] Cons.prems(4,5) c by auto
qed

text \<open>
  A watchpoint is reported exactly for the lowest register whose DR6 bit is set, and only when
  it holds a data watchpoint.
\<close>

lemma watchpoint_hit:
  assumes "ok k" and "hw_wf m"
  shows "is_watchpoint_hit peek deref (m, k) =
    (Inr (case List.find (\<lambda>r. view k (hw_thread_id m) (dbgregs_off DR6) AND dr6_bit r \<noteq> 0) addr_regs of
            None \<Rightarrow> None
          | Some r \<Rightarrow> (case hw_slot m r of None \<Rightarrow> None
              | Some w \<Rightarrow> if bp_condition (deref w) = Some ''x'' then None else Some w)), (m, k))"
proof -
  from assms(2) obtain w x y z where regs: "hw_registers m = [(DR0, w), (DR1, x), (DR2, y), (DR3, z)]"
    by (rule hw_registers_cases)
  let ?d = "view k (hw_thread_id m) (dbgregs_off DR6)"
  have "is_watchpoint_hit peek deref (m, k) =
      (case (if ?d AND 1 \<noteq> 0 then Inr (hw_slot m DR0) else if ?d AND 2 \<noteq> 0 then Inr (hw_slot m DR1)
             else if ?d AND 4 \<noteq> 0 then Inr (hw_slot m DR2) else if ?d AND 8 \<noteq> 0 then Inr (hw_slot m DR3)
             else Inr None) of
        Inl e \<Rightarrow> (Inl e, (m, k))
      | Inr u \<Rightarrow> (Inr (case u of None \<Rightarrow> None
          | Some w \<Rightarrow> if bp_condition (deref w) = Some ''x'' then None else Some w), (m, k)))"
    unfolding is_watchpoint_hit_def on_kernel_def py_simps Let_def hw_slot_def
    by (simp only: peek_law [OF assms(1) stat_off] regs prod.case sum.case fst_conv o_apply map_of.simps fun_upd_apply
        dreg.simps option.case snd_conv if_True if_False simp_thms)
  then show ?thesis
    unfolding dr6_bits [symmetric]
    by (simp only: if_find4 [where f = "\<lambda>r. Inr (hw_slot m r)" and g = "Inr None" and p = "\<lambda>r. ?d AND dr6_bit r \<noteq> 0"])
       (simp split: option.splits)
qed

end

end
