(* ===== verification/Ptrace_Kernel.thy ===== *)
theory Ptrace_Kernel
  imports Hw_Breakpoints
begin

text \<open>
  The kernel behind \<open>ptrace(2)\<close> is not part of the repository: \<open>'k\<close> is its state and a value of
  the record \<open>'k kernel\<close> holds the requests the library makes, each as a function to the C return
  value, \<open>errno\<close> and the next state. Everything the development assumes about it is in
  \<open>user_area_laws\<close> and \<open>tracee_memory_laws\<close>, which state what the manual page documents.

  The rest of the theory is \<open>libdebug/cffi/ptrace_cffi_source.c\<close>'s four peek and poke functions
  and the methods of \<open>PtraceInterface\<close> that call them.
\<close>

record 'k kernel =
  sys_peekuser :: "int \<Rightarrow> int \<Rightarrow> 'k \<Rightarrow> (int \<times> int) \<times> 'k"
  sys_pokeuser :: "int \<Rightarrow> int \<Rightarrow> int \<Rightarrow> 'k \<Rightarrow> (int \<times> int) \<times> 'k"
  sys_peekdata :: "int \<Rightarrow> int \<Rightarrow> 'k \<Rightarrow> (int \<times> int) \<times> 'k"
  sys_pokedata :: "int \<Rightarrow> int \<Rightarrow> int \<Rightarrow> 'k \<Rightarrow> (int \<times> int) \<times> 'k"

section \<open>The C functions\<close>

text \<open>All four are declared to return \<open>uint64_t\<close>, so \<open>ptrace\<close>'s -1 reaches Python as \<open>2 ^ 64 - 1\<close>.\<close>

definition as_u64 :: "(int \<times> int) \<times> 'k \<Rightarrow> (int \<times> int) \<times> 'k" where
  "as_u64 = (\<lambda>((res, err), k). ((to_u64 res, err), k))"

definition ptrace_peekuser :: "('k, 'z) kernel_scheme \<Rightarrow> int \<Rightarrow> int \<Rightarrow> 'k \<Rightarrow> (int \<times> int) \<times> 'k" where
  "ptrace_peekuser K pid addr k = as_u64 (sys_peekuser K pid addr k)"

definition ptrace_pokeuser :: "('k, 'z) kernel_scheme \<Rightarrow> int \<Rightarrow> int \<Rightarrow> int \<Rightarrow> 'k \<Rightarrow> (int \<times> int) \<times> 'k" where
  "ptrace_pokeuser K pid addr data k = as_u64 (sys_pokeuser K pid addr data k)"

definition ptrace_peekdata :: "('k, 'z) kernel_scheme \<Rightarrow> int \<Rightarrow> int \<Rightarrow> 'k \<Rightarrow> (int \<times> int) \<times> 'k" where
  "ptrace_peekdata K pid addr k = as_u64 (sys_peekdata K pid addr k)"

definition ptrace_pokedata :: "('k, 'z) kernel_scheme \<Rightarrow> int \<Rightarrow> int \<Rightarrow> int \<Rightarrow> 'k \<Rightarrow> (int \<times> int) \<times> 'k" where
  "ptrace_pokedata K pid addr data k = as_u64 (sys_pokedata K pid addr data k)"

section \<open>PtraceInterface\<close>

text \<open>The tests of the four methods: a peek looks at \<open>errno\<close>, a poke compares the result with -1.\<close>

definition check_errno :: "(int \<times> int) \<times> 'k \<Rightarrow> int result \<times> 'k" where
  "check_errno = (\<lambda>((res, err), k). (if err \<noteq> 0 then Inl (OSError err) else Inr res, k))"

definition check_minus_one :: "(int \<times> int) \<times> 'k \<Rightarrow> unit result \<times> 'k" where
  "check_minus_one = (\<lambda>((res, err), k). (if res = - 1 then Inl (OSError err) else Inr (), k))"

definition peek_user :: "('k, 'z) kernel_scheme \<Rightarrow> 'k peek_user" where
  "peek_user K thread_id address =
     bind (lift (c_u64 address)) (\<lambda>a k. check_errno (ptrace_peekuser K thread_id a k))"

definition poke_user :: "('k, 'z) kernel_scheme \<Rightarrow> 'k poke_user" where
  "poke_user K thread_id address value =
     bind (lift (c_u64 address)) (\<lambda>a. bind (lift (c_u64 value)) (\<lambda>v k.
       check_minus_one (ptrace_pokeuser K thread_id a v k)))"

definition peek_memory :: "('k, 'z) kernel_scheme \<Rightarrow> int \<Rightarrow> int \<Rightarrow> ('k, int) pm" where
  "peek_memory K process_id address =
     bind (lift (c_u64 address)) (\<lambda>a k. check_errno (ptrace_peekdata K process_id a k))"

definition poke_memory :: "('k, 'z) kernel_scheme \<Rightarrow> int \<Rightarrow> int \<Rightarrow> int \<Rightarrow> ('k, unit) pm" where
  "poke_memory K process_id address value =
     bind (lift (c_u64 address)) (\<lambda>a. bind (lift (c_u64 value)) (\<lambda>v k.
       check_minus_one (ptrace_pokedata K process_id a v k)))"

text \<open>The comparison with -1 never holds, so a refused write goes unreported.\<close>

lemma check_minus_one_never: "fst (check_minus_one (as_u64 r)) = Inr ()"
  by (auto simp: check_minus_one_def as_u64_def to_u64_def split: prod.splits)

section \<open>What the kernel promises\<close>

definition user_area_laws :: "('k, 'z) kernel_scheme \<Rightarrow> ('k \<Rightarrow> int \<Rightarrow> int \<Rightarrow> int) \<Rightarrow> ('k \<Rightarrow> bool) \<Rightarrow> bool" where
  "user_area_laws K view good \<longleftrightarrow>
     (\<forall>k t a. good k \<longrightarrow> fits_u64 (view k t a)) \<and>
     (\<forall>k t a. good k \<longrightarrow> is_dbgreg a \<longrightarrow> (\<exists>res. sys_peekuser K t a k = ((res, 0), k) \<and> to_u64 res = view k t a)) \<and>
     (\<forall>k t a x. good k \<longrightarrow> is_dbgreg a \<longrightarrow> fits_u64 x \<longrightarrow>
        (\<exists>k'. sys_pokeuser K t a x k = ((0, 0), k') \<and> good k' \<and>
          (\<forall>u y. view k' u y = (if u = t \<and> y = a then x else view k u y))))"

text \<open>
  With such a kernel the methods of \<open>PtraceInterface\<close> are the interface the hardware breakpoint
  manager asks for.
\<close>

interpretation user_area: debug_registers "peek_user K" "poke_user K" view "\<lambda>k. user_area_laws K view good \<and> good k"
  for K :: "('k, 'z) kernel_scheme" and view good
proof
  fix k :: 'k and t a x :: int
  assume *: "user_area_laws K view good \<and> good k"
  then show "fits_u64 (view k t a)" by (simp add: user_area_laws_def)
  assume a: "is_dbgreg a"
  with * obtain res where "sys_peekuser K t a k = ((res, 0), k)" "to_u64 res = view k t a"
    unfolding user_area_laws_def by blast
  then show "peek_user K t a k = (Inr (view k t a), k)"
    using is_dbgreg_fits [OF a]
    by (simp add: peek_user_def py_simps c_u64_def ptrace_peekuser_def as_u64_def check_errno_def)
  assume x: "fits_u64 x"
  with * a obtain k' where k': "sys_pokeuser K t a x k = ((0, 0), k')" "good k'"
    "\<forall>u y. view k' u y = (if u = t \<and> y = a then x else view k u y)"
    unfolding user_area_laws_def by blast
  then have "poke_user K t a x k = (Inr (), k')"
    using is_dbgreg_fits [OF a] x
    by (simp add: poke_user_def py_simps c_u64_def ptrace_pokeuser_def as_u64_def check_minus_one_def to_u64_def)
  with * k' show "\<exists>k'. poke_user K t a x k = (Inr (), k') \<and> (user_area_laws K view good \<and> good k') \<and>
      (\<forall>u y. view k' u y = (if u = t \<and> y = a then x else view k u y))"
    by blast
qed

end
