(* ===== verification/Memory_View.thy ===== *)
theory Memory_View
  imports Py_Prelude
begin

text \<open>
  \<open>MemoryView\<close> (\<open>libdebug/data/memory_view.py\<close>): byte-granular reads and writes on top of a
  getter and a setter that move one unit (8 bytes) at a time. The getter and the setter are the
  callables the view is constructed with; the two resolvers are the internal debugger's
  \<open>resolve_address\<close> (with validation of absolute addresses skipped) and \<open>resolve_symbol\<close>.
  \<open>unit_size\<close> is assumed positive (the library only ever uses 8).
\<close>

type_synonym 's getter = "int \<Rightarrow> ('s, byte list) pm"
type_synonym 's setter = "int \<Rightarrow> byte list \<Rightarrow> ('s, unit) pm"

record memory_view =
  mv_unit_size :: int
  mv_align_to :: int

definition default_view :: memory_view where
  "default_view = \<lparr>mv_unit_size = 8, mv_align_to = 1\<rparr>"

section \<open>Reading\<close>

text \<open>\<open>for i in range(...): data += self.getter(i)\<close>\<close>

fun gather :: "'s getter \<Rightarrow> int list \<Rightarrow> byte list \<Rightarrow> ('s, byte list) pm" where
  "gather getter [] data = ret data"
| "gather getter (i # is) data = bind (getter i) (\<lambda>d. gather getter is (data @ d))"

definition read_tail :: "'s getter \<Rightarrow> int \<Rightarrow> int \<Rightarrow> byte list \<Rightarrow> ('s, byte list) pm" where
  "read_tail getter tail_at remainder data =
     (if remainder \<noteq> 0 then bind (getter tail_at) (\<lambda>d. ret (data @ py_to remainder d)) else ret data)"

definition mv_read :: "'s getter \<Rightarrow> memory_view \<Rightarrow> int \<Rightarrow> int \<Rightarrow> ('s, byte list) pm" where
  "mv_read getter mv address sz =
     (if mv_align_to mv = 1 then
        let remainder = sz mod mv_unit_size mv in
        bind (gather getter (py_range address (address + sz - remainder) (mv_unit_size mv)) []) (\<lambda>data.
        read_tail getter (address + sz - remainder) remainder data)
      else
        let prefix = address mod mv_align_to mv; prefix_size = mv_unit_size mv - prefix in
        bind (getter (address - prefix)) (\<lambda>d.
        let remainder = (sz - prefix_size) mod mv_unit_size mv in
        bind (gather getter (py_range (address + prefix_size) (address + sz - remainder) (mv_unit_size mv))
                (py_from prefix d)) (\<lambda>data.
        read_tail getter (address + sz - remainder) remainder data)))"

section \<open>Writing\<close>

definition write_rest :: "'s getter \<Rightarrow> 's setter \<Rightarrow> memory_view \<Rightarrow> int \<Rightarrow> byte list \<Rightarrow> int \<Rightarrow> int \<Rightarrow> ('s, unit) pm" where
  "write_rest getter setter mv address data base remainder =
     (let sz = int (length data) in
      bind (for_each (\<lambda>i. setter i (py_slice (i - address) (i - address + mv_unit_size mv) data))
              (py_range base (address + sz - remainder) (mv_unit_size mv))) (\<lambda>_.
      if remainder \<noteq> 0 then
        bind (getter (address + sz - remainder)) (\<lambda>prev_data.
        setter (address + sz - remainder) (py_from (sz - remainder) data @ py_from remainder prev_data))
      else ret ()))"

definition mv_write :: "'s getter \<Rightarrow> 's setter \<Rightarrow> memory_view \<Rightarrow> int \<Rightarrow> byte list \<Rightarrow> ('s, unit) pm" where
  "mv_write getter setter mv address data =
     (let sz = int (length data) in
      if mv_align_to mv = 1 then write_rest getter setter mv address data address (sz mod mv_unit_size mv)
      else
        let prefix = address mod mv_align_to mv; prefix_size = mv_unit_size mv - prefix in
        bind (getter (address - prefix)) (\<lambda>prev_data.
        bind (setter (address - prefix) (py_to prefix_size prev_data @ py_to prefix data)) (\<lambda>_.
        write_rest getter setter mv address data (address + prefix_size)
          ((sz - prefix_size) mod mv_unit_size mv))))"

section \<open>Subscripts\<close>

text \<open>The keys of \<open>d.memory[key]\<close>; \<open>KOther\<close> is a value of any type the code does not test for.\<close>

datatype slice_bound = BInt int | BStr string | BNone

datatype mem_key =
    KInt int
  | KSlice slice_bound slice_bound
  | KStr string
  | KTuple "mem_key list"
  | KOther

type_synonym 's resolver = "(int \<Rightarrow> string \<Rightarrow> ('s, int) pm) \<times> (string \<Rightarrow> string \<Rightarrow> ('s, int) pm)"

text \<open>A bound that is None reaches \<open>resolve_address\<close>, where comparing it raises TypeError.\<close>

fun resolve_bound :: "'s resolver \<Rightarrow> string \<Rightarrow> slice_bound \<Rightarrow> ('s, int) pm" where
  "resolve_bound (ra, rs) file (BStr s) = rs s file"
| "resolve_bound (ra, rs) file (BInt a) = ra a file"
| "resolve_bound (ra, rs) file BNone = raise TypeError"

definition invalid_address :: "('s, 'a) pm \<Rightarrow> ('s, 'a) pm" where
  "invalid_address m = try_except m is_OSError (\<lambda>_. raise ValueError)"

fun is_KStr :: "mem_key \<Rightarrow> bool" where
  "is_KStr (KStr _) = True"
| "is_KStr _ = False"

text \<open>The common end of the tuple forms: an address that is an integer or a symbol.\<close>

definition resolve_key_address :: "'s resolver \<Rightarrow> string \<Rightarrow> mem_key \<Rightarrow> ('s, int) pm" where
  "resolve_key_address rv file address = (case address of
      KStr s \<Rightarrow> snd rv s file | KInt a \<Rightarrow> fst rv a file | _ \<Rightarrow> raise TypeError)"

function manage_memory_read_type ::
      "'s getter \<Rightarrow> 's resolver \<Rightarrow> memory_view \<Rightarrow> mem_key \<Rightarrow> string \<Rightarrow> ('s, byte list) pm"
  and manage_memory_read_tuple ::
      "'s getter \<Rightarrow> 's resolver \<Rightarrow> memory_view \<Rightarrow> mem_key list \<Rightarrow> ('s, byte list) pm" where
  "manage_memory_read_type getter rv mv key file = (case key of
      KInt a \<Rightarrow> bind (fst rv a file) (\<lambda>address. invalid_address (mv_read getter mv address 1))
    | KSlice kstart kstop \<Rightarrow>
        bind (resolve_bound rv file kstart) (\<lambda>start.
        bind (resolve_bound rv file kstop) (\<lambda>stop.
        if stop < start then raise ValueError
        else invalid_address (mv_read getter mv start (stop - start))))
    | KStr s \<Rightarrow> bind (snd rv s file) (\<lambda>address. mv_read getter mv address 1)
    | KTuple ks \<Rightarrow> manage_memory_read_tuple getter rv mv ks
    | KOther \<Rightarrow> raise TypeError)"
| "manage_memory_read_tuple getter rv mv ks = (case ks of
      [address, sz, file] \<Rightarrow>
        (case file of
           KStr f \<Rightarrow> (case sz of
               KInt n \<Rightarrow> bind (resolve_key_address rv f address) (\<lambda>a. invalid_address (mv_read getter mv a n))
             | _ \<Rightarrow> raise TypeError)
         | _ \<Rightarrow> raise TypeError)
    | [left, right] \<Rightarrow>
        (case right of
           KStr f \<Rightarrow> manage_memory_read_type getter rv mv left f
         | KInt n \<Rightarrow> bind (resolve_key_address rv ''hybrid'' left) (\<lambda>a. invalid_address (mv_read getter mv a n))
         | _ \<Rightarrow> raise NameError)
    | _ \<Rightarrow> raise TypeError)"
  by pat_completeness auto
termination
  by (relation "measure (\<lambda>x. case x of Inl (_, _, _, key, _) \<Rightarrow> 2 * size key + 1
      | Inr (_, _, _, ks) \<Rightarrow> 2 * size_list size ks)") auto

function manage_memory_write_type ::
      "'s getter \<Rightarrow> 's setter \<Rightarrow> 's resolver \<Rightarrow> memory_view \<Rightarrow> mem_key \<Rightarrow> byte list \<Rightarrow> string \<Rightarrow> ('s, unit) pm"
  and manage_memory_write_tuple ::
      "'s getter \<Rightarrow> 's setter \<Rightarrow> 's resolver \<Rightarrow> memory_view \<Rightarrow> mem_key list \<Rightarrow> byte list \<Rightarrow> ('s, unit) pm" where
  "manage_memory_write_type getter setter rv mv key value file = (case key of
      KInt a \<Rightarrow> bind (fst rv a file) (\<lambda>address. invalid_address (mv_write getter setter mv address value))
    | KSlice kstart kstop \<Rightarrow>
        bind (resolve_bound rv file kstart) (\<lambda>start.
        bind (if kstop = BNone then ret ()
              else bind (resolve_bound rv file kstop) (\<lambda>stop.
                   if stop < start then raise ValueError else ret ())) (\<lambda>_.
        invalid_address (mv_write getter setter mv start value)))
    | KStr s \<Rightarrow> bind (snd rv s file) (\<lambda>address. mv_write getter setter mv address value)
    | KTuple ks \<Rightarrow> manage_memory_write_tuple getter setter rv mv ks value
    | KOther \<Rightarrow> raise TypeError)"
| "manage_memory_write_tuple getter setter rv mv ks value = (case ks of
      [address, sz, file] \<Rightarrow>
        (case file of
           KStr f \<Rightarrow> (case sz of
               KInt n \<Rightarrow> bind (resolve_key_address rv f address) (\<lambda>a.
                  invalid_address (mv_write getter setter mv a value))
             | _ \<Rightarrow> raise TypeError)
         | _ \<Rightarrow> raise TypeError)
    | [left, right] \<Rightarrow>
        (case right of
           KStr f \<Rightarrow> manage_memory_write_type getter setter rv mv left value f
         | KInt n \<Rightarrow> bind (resolve_key_address rv ''hybrid'' left) (\<lambda>a.
              invalid_address (mv_write getter setter mv a value))
         | _ \<Rightarrow> raise NameError)
    | _ \<Rightarrow> raise TypeError)"
  by pat_completeness auto
termination
  by (relation "measure (\<lambda>x. case x of Inl (_, _, _, _, key, _, _) \<Rightarrow> 2 * size key + 1
      | Inr (_, _, _, _, ks, _) \<Rightarrow> 2 * size_list size ks)") auto

declare manage_memory_read_type.simps [simp del] manage_memory_read_tuple.simps [simp del]
  manage_memory_write_type.simps [simp del] manage_memory_write_tuple.simps [simp del]

definition mv_getitem :: "'s getter \<Rightarrow> 's resolver \<Rightarrow> memory_view \<Rightarrow> mem_key \<Rightarrow> ('s, byte list) pm" where
  "mv_getitem getter rv mv key = manage_memory_read_type getter rv mv key ''hybrid''"

text \<open>The value of an assignment: bytes, or something else (None).\<close>

definition mv_setitem ::
    "'s getter \<Rightarrow> 's setter \<Rightarrow> 's resolver \<Rightarrow> memory_view \<Rightarrow> mem_key \<Rightarrow> byte list option \<Rightarrow> ('s, unit) pm" where
  "mv_setitem getter setter rv mv key value = (case value of
      None \<Rightarrow> raise TypeError
    | Some bs \<Rightarrow> manage_memory_write_type getter setter rv mv key bs ''hybrid'')"

definition mv_delitem :: "('s, unit) pm" where
  "mv_delitem = raise NotImplementedError"

definition mv_len :: "('s, int) pm" where
  "mv_len = raise NotImplementedError"

definition mv_insert :: "('s, unit) pm" where
  "mv_insert = raise NotImplementedError"

section \<open>The interface to the tracee's memory\<close>

text \<open>
  What a view relies on: the getter returns the eight bytes at an address when all of them are
  mapped and raises OSError otherwise; the setter stores eight bytes. \<open>bytes_at\<close> and \<open>patch\<close> are
  the byte-level meaning of a read and of a write.
\<close>

definition bytes_at :: "(int \<Rightarrow> byte) \<Rightarrow> int \<Rightarrow> nat \<Rightarrow> byte list" where
  "bytes_at v a n = map (\<lambda>i. v (a + int i)) [0..<n]"

definition patch :: "(int \<Rightarrow> byte) \<Rightarrow> int \<Rightarrow> byte list \<Rightarrow> int \<Rightarrow> byte" where
  "patch v a bs x = (if a \<le> x \<and> x < a + int (length bs) then bs ! nat (x - a) else v x)"

definition all_mapped :: "(int \<Rightarrow> bool) \<Rightarrow> int \<Rightarrow> nat \<Rightarrow> bool" where
  "all_mapped m a n \<longleftrightarrow> (\<forall>i < n. m (a + int i))"

text \<open>The bytes the word-wise accesses touch: a read or write of \<open>n\<close> bytes is rounded up to words.\<close>

definition rounded :: "nat \<Rightarrow> nat" where
  "rounded n = 8 * ((n + 7) div 8)"

lemma length_bytes_at [simp]: "length (bytes_at v a n) = n"
  by (simp add: bytes_at_def)

lemma nth_bytes_at [simp]: "i < n \<Longrightarrow> bytes_at v a n ! i = v (a + int i)"
  by (simp add: bytes_at_def)

lemma bytes_at_add: "bytes_at v a (m + n) = bytes_at v a m @ bytes_at v (a + int m) n"
  by (rule nth_equalityI) (auto simp: nth_append)

lemma take_bytes_at: "m \<le> n \<Longrightarrow> take m (bytes_at v a n) = bytes_at v a m"
  by (rule nth_equalityI) auto

lemma drop_bytes_at: "drop m (bytes_at v a n) = bytes_at v (a + int m) (n - m)"
  by (rule nth_equalityI) (auto simp: algebra_simps)

lemma bytes_at_patch: "bytes_at (patch v a bs) a (length bs) = bs"
  by (rule nth_equalityI) (auto simp: patch_def)

lemma all_mapped_add: "all_mapped m a (i + j) \<longleftrightarrow> all_mapped m a i \<and> all_mapped m (a + int i) j"
proof
  assume *: "all_mapped m a (i + j)"
  have "m (a + int i + int k)" if "k < j" for k
  proof -
    from * that have "m (a + int (i + k))" unfolding all_mapped_def by (meson add_strict_left_mono)
    then show ?thesis by (simp add: algebra_simps)
  qed
  with * show "all_mapped m a i \<and> all_mapped m (a + int i) j" by (auto simp: all_mapped_def)
next
  assume *: "all_mapped m a i \<and> all_mapped m (a + int i) j"
  show "all_mapped m a (i + j)"
    unfolding all_mapped_def
  proof (intro allI impI)
    fix k assume k: "k < i + j"
    show "m (a + int k)"
    proof (cases "k < i")
      case True
      with * show ?thesis by (simp add: all_mapped_def)
    next
      case False
      with k obtain l where "k = i + l" "l < j" by (metis add_less_cancel_left le_add_diff_inverse not_less)
      with * show ?thesis by (auto simp: all_mapped_def algebra_simps)
    qed
  qed
qed

lemma all_mapped_le: "all_mapped m a n \<Longrightarrow> k \<le> n \<Longrightarrow> all_mapped m a k"
  by (auto simp: all_mapped_def)

lemma rounded_split: "rounded n = 8 * (n div 8) + (if n mod 8 = 0 then 0 else 8)"
  unfolding rounded_def by presburger

lemma py_range_words: "py_range a (a + 8 * int (Suc q)) 8 = a # py_range (a + 8) (a + 8 + 8 * int q) 8"
  by (simp add: py_range_step algebra_simps)

lemma int_words: "int n - int n mod 8 = 8 * int (n div 8)"
  by (simp add: minus_mod_eq_mult_div zdiv_int)

locale word_memory =
  fixes getter :: "'s getter" and setter :: "'s setter"
    and view :: "'s \<Rightarrow> int \<Rightarrow> byte" and mapped :: "'s \<Rightarrow> int \<Rightarrow> bool" and ok :: "'s \<Rightarrow> bool"
  assumes get_law: "ok s \<Longrightarrow> all_mapped (mapped s) a 8 \<Longrightarrow> getter a s = (Inr (bytes_at (view s) a 8), s)"
    and get_unmapped: "ok s \<Longrightarrow> fits_u64 a \<Longrightarrow> \<not> all_mapped (mapped s) a 8 \<Longrightarrow> \<exists>n. getter a s = (Inl (OSError n), s)"
    and set_law: "ok s \<Longrightarrow> all_mapped (mapped s) a 8 \<Longrightarrow> length bs = 8 \<Longrightarrow>
      \<exists>s'. setter a bs s = (Inr (), s') \<and> ok s' \<and> mapped s' = mapped s \<and> view s' = patch (view s) a bs"
begin

lemma gather_words:
  "ok s \<Longrightarrow> all_mapped (mapped s) a (8 * q) \<Longrightarrow>
    gather getter (py_range a (a + 8 * int q) 8) data s = (Inr (data @ bytes_at (view s) a (8 * q)), s)"
proof (induction q arbitrary: a data)
  case 0
  then show ?case by (simp add: ret_def bytes_at_def)
next
  case (Suc q)
  have split: "8 * Suc q = 8 + 8 * q" by simp
  from Suc.prems have m: "all_mapped (mapped s) a 8" "all_mapped (mapped s) (a + 8) (8 * q)"
    unfolding split all_mapped_add by simp_all
  show ?case
    unfolding py_range_words gather.simps bind_def get_law [OF Suc.prems(1) m(1)]
    using Suc.IH [OF Suc.prems(1) m(2)] by (simp only: split bytes_at_add) simp
qed

theorem read_exact:
  assumes "ok s" and "all_mapped (mapped s) a (rounded n)"
  shows "mv_read getter default_view a (int n) s = (Inr (bytes_at (view s) a n), s)"
proof -
  let ?q = "8 * (n div 8)" and ?r = "n mod 8"
  have n: "n = ?q + ?r" by simp
  have r: "int n mod 8 = int ?r" by (simp add: zmod_int)
  have eq: "a + int n - int ?r = a + 8 * int (n div 8)" using n by linarith
  from assms(2) have m: "all_mapped (mapped s) a ?q"
    "?r \<noteq> 0 \<Longrightarrow> all_mapped (mapped s) (a + int ?q) 8"
    unfolding rounded_split all_mapped_add by (simp_all split: if_splits)
  have g: "gather getter (py_range a (a + 8 * int (n div 8)) 8) [] s = (Inr (bytes_at (view s) a ?q), s)"
    using gather_words [OF assms(1) m(1), of "[]"] by simp
  show ?thesis
  proof (cases "?r = 0")
    case True
    then have e: "8 * int (n div 8) = int n" "?q = n" using n by linarith+
    show ?thesis
      using g [unfolded e] True by (simp add: mv_read_def default_view_def Let_def bind_def read_tail_def r ret_def)
  next
    case False
    have "a + 8 * int (n div 8) = a + int ?q" by simp
    then have "getter (a + 8 * int (n div 8)) s = (Inr (bytes_at (view s) (a + int ?q) 8), s)"
      using get_law [OF assms(1) m(2) [OF False]] by simp
    moreover have "bytes_at (view s) a n = bytes_at (view s) a ?q @ bytes_at (view s) (a + int ?q) ?r"
      by (subst n) (rule bytes_at_add)
    ultimately show ?thesis
      using g False
      by (simp add: mv_read_def default_view_def Let_def eq bind_def read_tail_def r ret_def py_to_nonneg take_bytes_at)
  qed
qed

text \<open>
  The last word of a read is fetched whole, so a range that is mapped can still be unreadable
  when the bytes after it, up to the next word, are not.
\<close>

lemma read_past_mapping:
  assumes "ok s" and "all_mapped (mapped s) a n" and "n mod 8 \<noteq> 0"
    and "\<not> all_mapped (mapped s) a (rounded n)" and "fits_u64 (a + 8 * int (n div 8))"
  shows "\<exists>e. mv_read getter default_view a (int n) s = (Inl (OSError e), s)"
proof -
  let ?q = "8 * (n div 8)"
  have eq: "a + int n - int n mod 8 = a + 8 * int (n div 8)" using int_words [of n] by linarith
  have m: "all_mapped (mapped s) a ?q" by (rule all_mapped_le [OF assms(2)]) simp
  then have "\<not> all_mapped (mapped s) (a + int ?q) 8"
    using assms(3,4) unfolding rounded_split all_mapped_add by simp
  then obtain e where "getter (a + 8 * int (n div 8)) s = (Inl (OSError e), s)"
    using get_unmapped [OF assms(1,5)] by auto
  moreover have "int n mod 8 \<noteq> 0" using assms(3) by presburger
  ultimately show ?thesis
    using gather_words [OF assms(1) m, of "[]"]
    by (simp add: mv_read_def default_view_def Let_def eq bind_def read_tail_def)
qed

lemma write_words:
  "ok s \<Longrightarrow> all_mapped (mapped s) (a + 8 * int k) (8 * q) \<Longrightarrow> 8 * (k + q) \<le> length data \<Longrightarrow>
   \<exists>s'. for_each (\<lambda>i. setter i (py_slice (i - a) (i - a + 8) data))
          (py_range (a + 8 * int k) (a + 8 * int k + 8 * int q) 8) s = (Inr (), s') \<and>
     ok s' \<and> mapped s' = mapped s \<and> view s' = patch (view s) (a + 8 * int k) (take (8 * q) (drop (8 * k) data))"
proof (induction q arbitrary: k s)
  case 0
  have "patch v b [] = v" for v b by (rule ext) (auto simp: patch_def)
  with 0 show ?case by (simp add: ret_def)
next
  case (Suc q)
  let ?a = "a + 8 * int k"
  let ?w = "py_slice (?a - a) (?a - a + 8) data"
  have w: "?w = take 8 (drop (8 * k) data)"
    by (simp add: py_slice_nonneg drop_take nat_mult_distrib nat_add_distrib)
  have len: "length ?w = 8" unfolding w using Suc.prems(3) by simp
  have split: "8 * Suc q = 8 + 8 * q" by simp
  from Suc.prems(2) have m: "all_mapped (mapped s) ?a 8" "all_mapped (mapped s) (?a + 8) (8 * q)"
    unfolding split all_mapped_add by simp_all
  from set_law [OF Suc.prems(1) m(1) len]
  obtain s1 where s1: "setter ?a ?w s = (Inr (), s1)" "ok s1" "mapped s1 = mapped s" "view s1 = patch (view s) ?a ?w"
    by blast
  note s1w = s1(4) [unfolded w]
  have k1: "a + 8 * int (Suc k) = ?a + 8" by simp
  from Suc.IH [OF s1(2), of "Suc k"] m(2) Suc.prems(3) s1(3)
  obtain s2 where s2: "for_each (\<lambda>i. setter i (py_slice (i - a) (i - a + 8) data))
      (py_range (?a + 8) (?a + 8 + 8 * int q) 8) s1 = (Inr (), s2)" "ok s2" "mapped s2 = mapped s1"
    "view s2 = patch (view s1) (?a + 8) (take (8 * q) (drop (8 + 8 * k) data))"
    unfolding k1 by auto
  have "view s2 = patch (view s) ?a (take (8 * Suc q) (drop (8 * k) data))"
  proof
    fix x
    have l: "length (take (8 * q) (drop (8 + 8 * k) data)) = 8 * q"
      "length (take (8 * Suc q) (drop (8 * k) data)) = 8 + 8 * q" "length (take 8 (drop (8 * k) data)) = 8"
      using Suc.prems(3) by auto
    consider "x < ?a" | "?a \<le> x" "x < ?a + 8" | "?a + 8 \<le> x" "x < ?a + 8 + 8 * int q" | "?a + 8 + 8 * int q \<le> x"
      by linarith
    then show "view s2 x = patch (view s) ?a (take (8 * Suc q) (drop (8 * k) data)) x"
    proof cases
      case 3
      define j where "j = nat (x - (?a + 8))"
      then have j: "x = ?a + 8 + int j" "j < 8 * q" using 3 by auto
      then show ?thesis
        using Suc.prems(3) by (simp add: s2(4) patch_def l nat_add_distrib algebra_simps)
    next
      case 2
      define j where "j = nat (x - ?a)"
      then have j: "x = ?a + int j" "j < 8" using 2 by auto
      then show ?thesis
        using Suc.prems(3) by (simp add: s2(4) s1w patch_def l)
    qed (use l in \<open>simp_all add: s2(4) s1w patch_def\<close>)
  qed
  moreover have "for_each (\<lambda>i. setter i (py_slice (i - a) (i - a + 8) data))
      (py_range ?a (?a + 8 * int (Suc q)) 8) s = (Inr (), s2)"
    unfolding py_range_words for_each.simps bind_def s1(1) using s2(1) by simp
  ultimately show ?case using s2(2,3) s1(3) by auto
qed

theorem write_exact:
  assumes "ok s" and "all_mapped (mapped s) a (rounded (length data))"
  shows "\<exists>s'. mv_write getter setter default_view a data s = (Inr (), s') \<and> ok s' \<and>
    mapped s' = mapped s \<and> view s' = patch (view s) a data"
proof -
  let ?n = "length data"
  let ?q = "?n div 8" and ?r = "?n mod 8"
  have n: "?n = 8 * ?q + ?r" by simp
  have r: "int ?n mod 8 = int ?r" by (simp add: zmod_int)
  have eq: "a + int ?n - int ?r = a + 8 * int ?q" "int ?n - int ?r = 8 * int ?q" "?n - 8 * ?q = ?r"
    using n by linarith+
  from assms(2) have m: "all_mapped (mapped s) a (8 * ?q)"
    "?r \<noteq> 0 \<Longrightarrow> all_mapped (mapped s) (a + int (8 * ?q)) 8"
    unfolding rounded_split all_mapped_add by (simp_all split: if_splits)
  from write_words [OF assms(1), of a 0 ?q data] m(1) n
  obtain s1 where s1: "for_each (\<lambda>i. setter i (py_slice (i - a) (i - a + 8) data))
      (py_range a (a + 8 * int ?q) 8) s = (Inr (), s1)"
    "ok s1" "mapped s1 = mapped s" "view s1 = patch (view s) a (take (8 * ?q) data)"
    by auto
  show ?thesis
  proof (cases "?r = 0")
    case True
    then have e: "8 * int ?q = int ?n" "take (8 * ?q) data = data" using n by (linarith, intro take_all) linarith
    show ?thesis
      using s1 [unfolded e] True
      by (simp add: mv_write_def write_rest_def default_view_def Let_def bind_def r ret_def)
  next
    case False
    let ?t = "a + 8 * int ?q"
    have t: "all_mapped (mapped s1) ?t 8" using m(2) [OF False] s1(3) by simp
    let ?w = "py_from (int ?n - int ?r) data @ py_from (int ?r) (bytes_at (view s1) ?t 8)"
    have w: "?w = drop (8 * ?q) data @ bytes_at (view s1) (?t + int ?r) (8 - ?r)"
      unfolding eq(2) by (simp add: py_from_nonneg drop_bytes_at nat_mult_distrib)
    have len: "length ?w = 8" unfolding w using eq(3) by simp
    from set_law [OF s1(2) t len]
    obtain s2 where s2: "setter ?t ?w s1 = (Inr (), s2)" "ok s2" "mapped s2 = mapped s1" "view s2 = patch (view s1) ?t ?w"
      by blast
    note s2w = s2(4) [unfolded w] and lenw = len [unfolded w]
    have "view s2 = patch (view s) a data"
    proof
      fix x
      have l: "length (drop (8 * ?q) data) = ?r" "?n = 8 * ?q + ?r" using n eq(3) by simp_all
      consider "x < ?t" | "?t \<le> x" "x < ?t + int ?r" | "?t + int ?r \<le> x" "x < ?t + 8" | "?t + 8 \<le> x" by linarith
      then show "view s2 x = patch (view s) a data x"
      proof cases
        case 2
        define j where "j = nat (x - ?t)"
        then have j: "x = ?t + int j" "j < ?r" using 2 by auto
        have "nat (x - a) = 8 * ?q + j" "nat (x - ?t) = j" using j by simp_all
        moreover have "a \<le> x" "x < a + int ?n" "8 * ?q + j < ?n" using j l(2) by linarith+
        moreover have "x < ?t + 8" using j(2) mod_less_divisor [of 8 ?n] 2 by linarith
        ultimately show ?thesis using j(2) 2(1) l(1) lenw by (simp add: s2w patch_def nth_append)
      next
        case 3
        define j where "j = nat (x - ?t)"
        then have j: "x = ?t + int j" "?r \<le> j" "j < 8" using 3 by auto
        have "x \<ge> a + int ?n" using j l(2) by linarith
        moreover have "?t + int ?r + int (j - ?r) = ?t + int j" using j by simp
        moreover have "j - ?r < 8 - ?r" by (rule diff_less_mono [OF j(3,2)])
        ultimately show ?thesis using j l(1)
          by (simp add: s2w s1(4) patch_def nth_append add.assoc)
      next
        case 1
        have "x < a + int ?n \<and> nat (x - a) < 8 * ?q" if "a \<le> x" using 1 l(2) that by linarith
        then show ?thesis using 1 by (simp add: s2w s1(4) lenw patch_def)
      next
        case 4
        have "?r < 8" by simp
        then have "\<not> x < a + int ?n" using 4 l(2) by linarith
        then show ?thesis using 4 lenw by (simp add: s2w s1(4) patch_def)
      qed
    qed
    then show ?thesis
      using s1(1,3) s2 get_law [OF s1(2) t] False
      by (simp add: mv_write_def write_rest_def default_view_def Let_def eq bind_def r ret_def)
  qed
qed

lemma read_after_write:
  assumes "ok s" and "all_mapped (mapped s) a (rounded (length data))"
  shows "\<exists>s'. mv_write getter setter default_view a data s = (Inr (), s') \<and>
    mv_read getter default_view a (int (length data)) s' = (Inr data, s')"
proof -
  obtain s' where s': "mv_write getter setter default_view a data s = (Inr (), s')" "ok s'"
    "mapped s' = mapped s" "view s' = patch (view s) a data"
    using write_exact [OF assms] by blast
  then show ?thesis
    using read_exact [OF s'(2), of a "length data"] assms(2) bytes_at_patch [of "view s" a data] by simp
qed

end

end
