(* ===== verification/Tracee_Access.thy ===== *)
theory Tracee_Access
  imports Ptrace_Kernel Memory_View
begin

text \<open>
  The two ends joined: \<open>MemoryView\<close>'s getter and setter are the internal debugger's
  \<open>__threaded_peek_memory\<close> and \<open>__threaded_poke_memory\<close>, which sit on \<open>PtraceInterface\<close>. The
  theorems about memory and about hardware breakpoints are stated here over the library's own
  methods, for every kernel that keeps its documented promises. \<open>flat_kernel\<close> is one such kernel,
  used to show that the promises can be kept.
\<close>

section \<open>The memory accessors of the internal debugger\<close>

definition threaded_peek_memory :: "('k, 'z) kernel_scheme \<Rightarrow> int \<Rightarrow> 'k getter" where
  "threaded_peek_memory K process_id address =
     bind (peek_memory K process_id address) (\<lambda>value. ret (to_le 8 value))"

definition threaded_poke_memory :: "('k, 'z) kernel_scheme \<Rightarrow> int \<Rightarrow> 'k setter" where
  "threaded_poke_memory K process_id address data = poke_memory K process_id address (from_le data)"

section \<open>What the kernel promises about the tracee's memory\<close>

definition tracee_memory_laws ::
    "('k, 'z) kernel_scheme \<Rightarrow> int \<Rightarrow> ('k \<Rightarrow> int \<Rightarrow> byte) \<Rightarrow> ('k \<Rightarrow> int \<Rightarrow> bool) \<Rightarrow> ('k \<Rightarrow> bool) \<Rightarrow> bool" where
  "tracee_memory_laws K pid view mapped good \<longleftrightarrow>
     (\<forall>k a. good k \<longrightarrow> mapped k a \<longrightarrow> fits_u64 a) \<and>
     (\<forall>k a. good k \<longrightarrow> all_mapped (mapped k) a 8 \<longrightarrow>
        (\<exists>res. sys_peekdata K pid a k = ((res, 0), k) \<and> to_u64 res = from_le (bytes_at (view k) a 8))) \<and>
     (\<forall>k a. good k \<longrightarrow> \<not> all_mapped (mapped k) a 8 \<longrightarrow>
        (\<exists>err. err \<noteq> 0 \<and> sys_peekdata K pid a k = ((- 1, err), k))) \<and>
     (\<forall>k a x. good k \<longrightarrow> all_mapped (mapped k) a 8 \<longrightarrow> fits_u64 x \<longrightarrow>
        (\<exists>k'. sys_pokedata K pid a x k = ((0, 0), k') \<and> good k' \<and> mapped k' = mapped k \<and>
              view k' = patch (view k) a (to_le 8 x)))"

lemma all_mapped_8: "all_mapped m a 8 \<Longrightarrow> m a"
  unfolding all_mapped_def by (auto dest: spec [of _ 0])

interpretation tracee_memory: word_memory "threaded_peek_memory K pid" "threaded_poke_memory K pid"
    view mapped "\<lambda>k. tracee_memory_laws K pid view mapped good \<and> good k"
  for K :: "('k, 'z) kernel_scheme" and pid view mapped good
proof
  fix k :: 'k and a :: int
  assume ok: "tracee_memory_laws K pid view mapped good \<and> good k"
  then have fits: "mapped k a \<Longrightarrow> fits_u64 a" unfolding tracee_memory_laws_def by blast
  show "threaded_peek_memory K pid a k = (Inr (bytes_at (view k) a 8), k)" if m: "all_mapped (mapped k) a 8"
  proof -
    from ok m obtain res where
      "sys_peekdata K pid a k = ((res, 0), k)" "to_u64 res = from_le (bytes_at (view k) a 8)"
      unfolding tracee_memory_laws_def by blast
    moreover have "to_le 8 (from_le (bytes_at (view k) a 8)) = bytes_at (view k) a 8"
      using to_le_from_le [of "bytes_at (view k) a 8"] by simp
    ultimately show ?thesis
      using fits [OF all_mapped_8 [OF m]]
      by (simp add: threaded_peek_memory_def peek_memory_def py_simps c_u64_def ptrace_peekdata_def as_u64_def check_errno_def)
  qed
  show "\<exists>n. threaded_peek_memory K pid a k = (Inl (OSError n), k)"
    if "fits_u64 a" and m: "\<not> all_mapped (mapped k) a 8"
  proof -
    from ok m obtain err where "err \<noteq> 0" "sys_peekdata K pid a k = ((- 1, err), k)"
      unfolding tracee_memory_laws_def by blast
    with that(1) show ?thesis
      by (simp add: threaded_peek_memory_def peek_memory_def py_simps c_u64_def ptrace_peekdata_def as_u64_def check_errno_def)
  qed
  fix bs :: "byte list"
  assume m: "all_mapped (mapped k) a 8" and len: "length bs = 8"
  from ok m from_le_fits [OF len] obtain k' where k': "sys_pokedata K pid a (from_le bs) k = ((0, 0), k')"
    "good k'" "mapped k' = mapped k" "view k' = patch (view k) a (to_le 8 (from_le bs))"
    unfolding tracee_memory_laws_def by blast
  have "to_le 8 (from_le bs) = bs" using to_le_from_le [of bs] len by simp
  moreover have "threaded_poke_memory K pid a bs k = (Inr (), k')"
    using fits [OF all_mapped_8 [OF m]] from_le_fits [OF len] k'(1)
    by (simp add: threaded_poke_memory_def poke_memory_def py_simps c_u64_def ptrace_pokedata_def as_u64_def
        check_minus_one_def to_u64_def)
  ultimately show "\<exists>k'. threaded_poke_memory K pid a bs k = (Inr (), k') \<and>
      (tracee_memory_laws K pid view mapped good \<and> good k') \<and> mapped k' = mapped k \<and> view k' = patch (view k) a bs"
    using ok k' by auto
qed

section \<open>A kernel that keeps the promises\<close>

record flat =
  fl_user :: "int \<Rightarrow> int \<Rightarrow> int"
  fl_mem :: "int \<Rightarrow> byte"
  fl_mapped :: "int \<Rightarrow> bool"

definition flat_kernel :: "flat kernel" where
  "flat_kernel =
     \<lparr>sys_peekuser = (\<lambda>t a k. ((fl_user k t a, 0), k)),
      sys_pokeuser = (\<lambda>t a x k. ((0, 0), k\<lparr>fl_user := (\<lambda>u y. if u = t \<and> y = a then x else fl_user k u y)\<rparr>)),
      sys_peekdata = (\<lambda>p a k. if all_mapped (fl_mapped k) a 8
         then ((from_le (bytes_at (fl_mem k) a 8), 0), k) else ((- 1, 5), k)),
      sys_pokedata = (\<lambda>p a x k. if all_mapped (fl_mapped k) a 8
         then ((0, 0), k\<lparr>fl_mem := patch (fl_mem k) a (to_le 8 x)\<rparr>) else ((- 1, 5), k))\<rparr>"

definition flat_good :: "flat \<Rightarrow> bool" where
  "flat_good k \<longleftrightarrow> (\<forall>t a. fits_u64 (fl_user k t a)) \<and> (\<forall>a. fl_mapped k a \<longrightarrow> fits_u64 a)"

lemma flat_user_laws: "user_area_laws flat_kernel fl_user flat_good"
  by (auto simp: user_area_laws_def flat_kernel_def flat_good_def)

lemma flat_memory_laws: "tracee_memory_laws flat_kernel pid fl_mem fl_mapped flat_good"
  by (auto simp: tracee_memory_laws_def flat_kernel_def flat_good_def from_le_fits)

text \<open>One page mapped at 0x1000, all zero; every debug register zero.\<close>

definition flat_page :: flat where
  "flat_page = \<lparr>fl_user = (\<lambda>t a. 0), fl_mem = (\<lambda>a. 0), fl_mapped = (\<lambda>a. 0x1000 \<le> a \<and> a < 0x2000)\<rparr>"

lemma flat_page_good: "flat_good flat_page"
  by (auto simp: flat_good_def flat_page_def fits_u64_def)

section \<open>Properties of the hardware breakpoint manager\<close>

text \<open>C8: starting from a fresh manager of a thread none of whose four debug registers is enabled, after
  any sequence of installs and removals, failed ones included, the debug registers of the thread
  make the processor watch exactly what the manager's table says, with the address, condition and
  length of each breakpoint.\<close>

theorem hw_history_synced:
  assumes "user_area_laws K view good" and "good k"
    and "\<forall>r \<in> set addr_regs. \<not> dr7_enabled (view k tid (dbgregs_off DR7)) r"
    and "\<forall>b. Install b \<in> set cs \<longrightarrow> fits_u64 (bp_address (deref b))"
    and "hw_run (peek_user K) (poke_user K) deref cs (hw_init tid, k) = (m', k')"
  shows "hw_wf m' \<and> hw_synced deref (view k' tid) m'"
  using user_area.run_keeps [of K view good k "hw_init tid" deref cs m' k'] hw_synced_init [of "view k tid" deref tid] assms by auto

definition sample_bp :: breakpoint where
  "sample_bp = Breakpoint 0x1008 ''x'' True None (Some ''rw'') 4"

lemma flat_page_off: "r \<in> set addr_regs \<Longrightarrow> \<not> dr7_enabled (fl_user flat_page t (dbgregs_off DR7)) r"
  by (simp add: flat_page_def dr7_enabled_def)

lemma sample_fits: "fits_u64 (bp_address sample_bp)"
  by (simp add: sample_bp_def Breakpoint_def fits_u64_def)

lemma sample_wanted: "hw_wanted sample_bp = Some (0x1008, 3, 3)"
  by (simp add: sample_bp_def Breakpoint_def hw_wanted_def ctrl_cond_val_def ctrl_len_val_def)

theorem hw_history_synced_witness:
  "\<exists>m' k'. hw_run (peek_user flat_kernel) (poke_user flat_kernel) id [Install sample_bp, Install sample_bp, Remove sample_bp]
     (hw_init 7, flat_page) = (m', k') \<and> hw_wf m' \<and> hw_synced id (fl_user k' 7) m'"
proof -
  obtain m' k' where run: "hw_run (peek_user flat_kernel) (poke_user flat_kernel) id
      [Install sample_bp, Install sample_bp, Remove sample_bp] (hw_init 7, flat_page) = (m', k')"
    by (metis prod.exhaust)
  then show ?thesis
    using hw_history_synced [OF flat_user_laws flat_page_good _ _ run] flat_page_off sample_fits by simp
qed

text \<open>C24: while a register is free, installing a breakpoint with a known condition and length succeeds;
  it takes one free register, which from then on watches that address, condition and length; every
  other register and every other thread is untouched.\<close>

theorem hw_install_arms:
  assumes "user_area_laws K view good" and "good k" and "hw_wf m"
    and "hw_synced deref (view k (hw_thread_id m)) m" and "hw_breakpoint_count m < dbregs_count"
    and "hw_wanted (deref b) = Some w" and "fits_u64 (bp_address (deref b))"
  shows "\<exists>m' k' r. install_breakpoint (peek_user K) (poke_user K) deref b (m, k) = (Inr (), (m', k')) \<and>
     hw_wf m' \<and> hw_synced deref (view k' (hw_thread_id m)) m' \<and> r \<in> set addr_regs \<and> hw_slot m r = None \<and>
     hw_armed (view k' (hw_thread_id m)) r = Some w \<and>
     (\<forall>q \<in> set addr_regs. q \<noteq> r \<longrightarrow> hw_armed (view k' (hw_thread_id m)) q = hw_armed (view k (hw_thread_id m)) q) \<and>
     (\<forall>u y. u \<noteq> hw_thread_id m \<longrightarrow> view k' u y = view k u y)"
proof -
  obtain m' k' r where *: "install_breakpoint (peek_user K) (poke_user K) deref b (m, k) = (Inr (), (m', k'))"
    "hw_wf m'" "hw_synced deref (view k' (hw_thread_id m)) m'" "r \<in> set addr_regs" "hw_slot m r = None"
    "\<forall>q. hw_slot m' q = (if q = r then Some b else hw_slot m q)"
    "\<forall>u y. u \<noteq> hw_thread_id m \<longrightarrow> view k' u y = view k u y"
    using user_area.install_ok [of K view good k m deref b] assms by auto
  have "hw_armed (view k' (hw_thread_id m)) q = (if q = r then Some w else hw_armed (view k (hw_thread_id m)) q)"
    if "q \<in> set addr_regs" for q
    using hw_syncedD [OF *(3) that] hw_syncedD [OF assms(4) that] *(6) assms(6) by (cases "q = r") simp_all
  with * show ?thesis by (intro exI [of _ m'] exI [of _ k'] exI [of _ r]) auto
qed

theorem hw_install_arms_witness:
  "\<exists>m' k' r. install_breakpoint (peek_user flat_kernel) (poke_user flat_kernel) id sample_bp (hw_init 7, flat_page)
     = (Inr (), (m', k')) \<and> r \<in> set addr_regs \<and> hw_armed (fl_user k' 7) r = Some (0x1008, 3, 3)"
proof -
  have "hw_synced id (fl_user flat_page 7) (hw_init 7)" using hw_synced_init [of "fl_user flat_page 7"] flat_page_off by simp
  then show ?thesis
    using hw_install_arms [of flat_kernel fl_user flat_good flat_page "hw_init 7" id sample_bp "(0x1008, 3, 3)"]
      flat_user_laws flat_page_good sample_wanted sample_fits by (simp add: dbregs_count_def) blast
qed

section \<open>Properties of memory accesses\<close>

lemma flat_page_mapped: "0x1000 \<le> a \<Longrightarrow> a + int n \<le> 0x2000 \<Longrightarrow> all_mapped (fl_mapped flat_page) a n"
  by (auto simp: all_mapped_def flat_page_def)

lemma rounded_small: "rounded 3 = 8" "rounded (Suc (Suc (Suc 0))) = 8"
  by (simp_all add: rounded_def)

text \<open>C23: reading \<open>n\<close> bytes through the library returns exactly the \<open>n\<close> bytes at the address and changes
  nothing, whatever the alignment of the address, when the words the read touches are mapped.\<close>

theorem memory_read_exact:
  assumes "tracee_memory_laws K pid view mapped good" and "good k" and "all_mapped (mapped k) a (rounded n)"
  shows "mv_read (threaded_peek_memory K pid) default_view a (int n) k = (Inr (bytes_at (view k) a n), k)"
  using tracee_memory.read_exact [of K pid view mapped good k a n] assms by simp

theorem memory_read_exact_witness:
  "mv_read (threaded_peek_memory flat_kernel 1) default_view 0x1005 3 flat_page = (Inr [0, 0, 0], flat_page)"
proof -
  have "mv_read (threaded_peek_memory flat_kernel 1) default_view 0x1005 (int 3) flat_page =
      (Inr (bytes_at (fl_mem flat_page) 0x1005 3), flat_page)"
    by (rule memory_read_exact [OF flat_memory_laws flat_page_good flat_page_mapped]) (simp_all add: rounded_small)
  then show ?thesis by (simp add: bytes_at_def flat_page_def upt_rec)
qed

text \<open>C9: writing bytes through the library stores exactly those bytes and no others: a partial last word
  is merged with what was there. Reading the range back returns the bytes written.\<close>

theorem memory_write_exact:
  assumes "tracee_memory_laws K pid view mapped good" and "good k"
    and "all_mapped (mapped k) a (rounded (length data))"
  shows "\<exists>k'. mv_write (threaded_peek_memory K pid) (threaded_poke_memory K pid) default_view a data k = (Inr (), k') \<and>
     good k' \<and> mapped k' = mapped k \<and> view k' = patch (view k) a data \<and>
     mv_read (threaded_peek_memory K pid) default_view a (int (length data)) k' = (Inr data, k')"
  using tracee_memory.write_exact [of K pid view mapped good k a data]
    tracee_memory.read_after_write [of K pid view mapped good k a data] assms by auto

theorem memory_write_exact_witness:
  "\<exists>k'. mv_write (threaded_peek_memory flat_kernel 1) (threaded_poke_memory flat_kernel 1) default_view 0x1005 [1, 2, 3] flat_page
     = (Inr (), k') \<and> fl_mem k' = patch (fl_mem flat_page) 0x1005 [1, 2, 3]"
  using memory_write_exact [OF flat_memory_laws [of 1] flat_page_good, of "0x1005" "[1, 2, 3]"]
    flat_page_mapped [of "0x1005" 8] by (simp add: rounded_small) blast

text \<open>A read whose last, partial word runs past the end of the mapping raises, although every byte
  asked for is mapped; \<open>d.memory[a, n]\<close> turns this into ValueError.\<close>

lemma memory_read_at_end_fails:
  assumes "tracee_memory_laws K pid view mapped good" and "good k" and "all_mapped (mapped k) a n"
    and "n mod 8 \<noteq> 0" and "\<not> all_mapped (mapped k) a (rounded n)" and "fits_u64 (a + 8 * int (n div 8))"
    and "fst rv a ''hybrid'' k = (Inr a, k)"
  shows "mv_getitem (threaded_peek_memory K pid) rv default_view (KTuple [KInt a, KInt (int n)]) k = (Inl ValueError, k)"
proof -
  obtain e where "mv_read (threaded_peek_memory K pid) default_view a (int n) k = (Inl (OSError e), k)"
    using tracee_memory.read_past_mapping [of K pid view mapped good k a n] assms by auto
  then show ?thesis
    using assms(7)
    by (simp add: mv_getitem_def manage_memory_read_type.simps manage_memory_read_tuple.simps
        resolve_key_address_def invalid_address_def py_simps is_OSError_def)
qed

lemma memory_read_at_end_fails_witness:
  "mv_getitem (threaded_peek_memory flat_kernel 1) (\<lambda>a f. ret a, \<lambda>n f. raise ValueError) default_view
     (KTuple [KInt 0x1fff, KInt 1]) flat_page = (Inl ValueError, flat_page)"
proof -
  have "\<not> all_mapped (fl_mapped flat_page) 0x1fff (rounded 1)"
    unfolding all_mapped_def by (rule notI, drule spec [of _ 1]) (simp add: rounded_def flat_page_def)
  moreover have "fits_u64 (0x1fff + 8 * int (1 div 8))" by (simp add: fits_u64_def)
  ultimately show ?thesis
    using memory_read_at_end_fails [OF flat_memory_laws [of 1] flat_page_good flat_page_mapped [of "0x1fff" 1]]
    by (simp add: ret_def)
qed

text \<open>\<open>poke_memory\<close> and \<open>_poke_user\<close> never report a failure: whatever the kernel answers, the
  unsigned result is never equal to -1, so for arguments of 64 bits both return normally.\<close>

lemma poke_never_fails:
  assumes "fits_u64 a" and "fits_u64 x"
  shows "fst (poke_memory K pid a x k) = Inr () \<and> fst (poke_user K pid a x k) = Inr ()"
  using assms
  by (simp add: check_minus_one_never poke_memory_def poke_user_def py_simps c_u64_def ptrace_pokedata_def ptrace_pokeuser_def)

lemma poke_never_fails_witness:
  "fst (poke_memory flat_kernel 1 0x9000 5 flat_page) = Inr () \<and> \<not> fl_mapped flat_page 0x9000 \<and>
   sys_pokedata flat_kernel 1 0x9000 5 flat_page = ((- 1, 5), flat_page)"
proof -
  have "\<not> all_mapped (fl_mapped flat_page) 0x9000 8"
    unfolding all_mapped_def by (rule notI, drule spec [of _ 0]) (simp add: flat_page_def)
  then show ?thesis
    using poke_never_fails [of "0x9000" 5 flat_kernel 1 flat_page] by (simp add: fits_u64_def flat_kernel_def flat_page_def)
qed

text \<open>A view whose accesses are aligned (\<open>align_to\<close> 8) loses the first word of an aligned write: it
  writes the old word back, so an eight-byte write reports success and changes nothing.\<close>

lemma aligned_view_loses_word:
  assumes "tracee_memory_laws K pid view mapped good" and "good k" and "all_mapped (mapped k) a 8"
    and "a mod 8 = 0" and "length data = 8"
  shows "\<exists>k'. mv_write (threaded_peek_memory K pid) (threaded_poke_memory K pid)
       \<lparr>mv_unit_size = 8, mv_align_to = 8\<rparr> a data k = (Inr (), k') \<and> good k' \<and> view k' = view k"
proof -
  let ?bs = "bytes_at (view k) a 8"
  have same: "patch (view k) a ?bs = view k"
    by (rule ext) (auto simp: patch_def)
  obtain k' where k': "threaded_poke_memory K pid a ?bs k = (Inr (), k')" "good k'" "view k' = view k"
    using tracee_memory.set_law [of K pid view mapped good k a ?bs] assms(1-3) same by auto
  have "threaded_peek_memory K pid a k = (Inr ?bs, k)"
    using tracee_memory.get_law [of K pid view mapped good k a] assms(1-3) by simp
  moreover have "py_to 8 ?bs = ?bs" by (simp add: py_to_nonneg)
  moreover have "py_to 0 data = []" by (simp add: py_to_nonneg)
  ultimately show ?thesis
    using k' assms(4,5) by (simp add: mv_write_def write_rest_def Let_def py_simps)
qed

lemma aligned_view_loses_word_witness:
  "\<exists>k'. mv_write (threaded_peek_memory flat_kernel 1) (threaded_poke_memory flat_kernel 1)
     \<lparr>mv_unit_size = 8, mv_align_to = 8\<rparr> 0x1008 [1, 2, 3, 4, 5, 6, 7, 8] flat_page = (Inr (), k') \<and> fl_mem k' = fl_mem flat_page"
  using aligned_view_loses_word [OF flat_memory_laws [of 1] flat_page_good flat_page_mapped [of "0x1008" 8], of "[1, 2, 3, 4, 5, 6, 7, 8]"]
  by auto

end
