(* ===== verification/Amd64_Registers.thy ===== *)
theory Amd64_Registers
  imports Py_Prelude
begin

text \<open>
  The register file of a thread and the properties that read and write it
  (\<open>libdebug/architectures/amd64/amd64_ptrace_register_holder.py\<close>), and the syscall hijacker that
  writes through them (\<open>amd64_syscall_hijacker.py\<close>). The file is the \<open>struct user_regs_struct\<close> of
  the C side: every field is an \<open>unsigned long\<close>, so cffi raises OverflowError for an assignment
  outside 64 bits. Every property first calls \<open>_ensure_process_stopped\<close>; here is the part after that
  call, which the debugger's state runs on one thread's file.
\<close>

section \<open>Names\<close>

definition AMD64_GP_REGS :: "string list" where
  "AMD64_GP_REGS = [''a'', ''b'', ''c'', ''d'']"

definition AMD64_BASE_REGS :: "string list" where
  "AMD64_BASE_REGS = [''bp'', ''sp'', ''si'', ''di'']"

definition AMD64_EXT_REGS :: "string list" where
  "AMD64_EXT_REGS = [''r8'', ''r9'', ''r10'', ''r11'', ''r12'', ''r13'', ''r14'', ''r15'']"

definition AMD64_REGS :: "string list" where
  "AMD64_REGS =
     [''r15'', ''r14'', ''r13'', ''r12'', ''rbp'', ''rbx'', ''r11'', ''r10'', ''r9'', ''r8'', ''rax'', ''rcx'',
      ''rdx'', ''rsi'', ''rdi'', ''orig_rax'', ''rip'', ''cs'', ''eflags'', ''rsp'', ''ss'', ''fs_base'',
      ''gs_base'', ''ds'', ''es'', ''fs'', ''gs'']"

section \<open>The register file\<close>

type_synonym regfile = "string \<Rightarrow> int"

definition reg_getattr :: "string \<Rightarrow> (regfile, int) pm" where
  "reg_getattr name = (\<lambda>rf. (if name \<in> set AMD64_REGS then Inr (rf name) else Inl AttributeError, rf))"

definition reg_setattr :: "string \<Rightarrow> int \<Rightarrow> (regfile, unit) pm" where
  "reg_setattr name x = (\<lambda>rf.
     if name \<notin> set AMD64_REGS then (Inl AttributeError, rf)
     else (case c_u64 x of Inl e \<Rightarrow> (Inl e, rf) | Inr v \<Rightarrow> (Inr (), rf(name := v))))"

definition regfile_wf :: "regfile \<Rightarrow> bool" where
  "regfile_wf rf \<longleftrightarrow> (\<forall>n \<in> set AMD64_REGS. fits_u64 (rf n))"

section \<open>Properties\<close>

datatype width = P64 | P32 | P16 | P8l | P8h

text \<open>A property is made by one of the five \<open>_get_property\<close> functions from the name of a field.\<close>

type_synonym accessor = "width \<times> string"

fun prop_getter :: "accessor \<Rightarrow> (regfile, int) pm" where
  "prop_getter (P64, name) = reg_getattr name"
| "prop_getter (P32, name) = bind (reg_getattr name) (\<lambda>x. ret (x AND 0xFFFFFFFF))"
| "prop_getter (P16, name) = bind (reg_getattr name) (\<lambda>x. ret (x AND 0xFFFF))"
| "prop_getter (P8l, name) = bind (reg_getattr name) (\<lambda>x. ret (x AND 0xFF))"
| "prop_getter (P8h, name) = bind (reg_getattr name) (\<lambda>x. ret (drop_bit 8 x AND 0xFF))"

fun prop_setter :: "accessor \<Rightarrow> int \<Rightarrow> (regfile, unit) pm" where
  "prop_setter (P64, name) v = reg_setattr name v"
| "prop_setter (P32, name) v = reg_setattr name (v AND 0xFFFFFFFF)"
| "prop_setter (P16, name) v =
     bind (reg_getattr name) (\<lambda>x. reg_setattr name ((x AND NOT 0xFFFF) OR (v AND 0xFFFF)))"
| "prop_setter (P8l, name) v =
     bind (reg_getattr name) (\<lambda>x. reg_setattr name ((x AND NOT 0xFF) OR (v AND 0xFF)))"
| "prop_setter (P8h, name) v =
     bind (reg_getattr name) (\<lambda>x. reg_setattr name ((x AND NOT 0xFF00) OR push_bit 8 (v AND 0xFF)))"

text \<open>The attributes of a class, in the order they are set.\<close>

type_synonym class_attrs = "(string, accessor) dict"

definition gp_accessors :: "string \<Rightarrow> class_attrs \<Rightarrow> class_attrs" where
  "gp_accessors name cls =
     (let name_64 = ''r'' @ name @ ''x''; name_32 = ''e'' @ name @ ''x''; name_16 = name @ ''x'';
          name_8l = name @ ''l''; name_8h = name @ ''h''
      in dict_set name_8h (P8h, name_64) (dict_set name_8l (P8l, name_64) (dict_set name_16 (P16, name_64)
          (dict_set name_32 (P32, name_64) (dict_set name_64 (P64, name_64) cls)))))"

definition base_accessors :: "string \<Rightarrow> class_attrs \<Rightarrow> class_attrs" where
  "base_accessors name cls =
     (let name_64 = ''r'' @ name; name_32 = ''e'' @ name; name_16 = name; name_8l = name @ ''l''
      in dict_set name_8l (P8l, name_64) (dict_set name_16 (P16, name_64)
          (dict_set name_32 (P32, name_64) (dict_set name_64 (P64, name_64) cls))))"

definition ext_accessors :: "string \<Rightarrow> class_attrs \<Rightarrow> class_attrs" where
  "ext_accessors name cls =
     (let name_64 = name; name_32 = name @ ''d''; name_16 = name @ ''w''; name_8l = name @ ''b''
      in dict_set name_8l (P8l, name_64) (dict_set name_16 (P16, name_64)
          (dict_set name_32 (P32, name_64) (dict_set name_64 (P64, name_64) cls))))"

definition apply_on_regs :: "class_attrs \<Rightarrow> class_attrs" where
  "apply_on_regs cls =
     (if in_dict ''rip'' cls then cls
      else dict_set ''rip'' (P64, ''rip'')
             (fold ext_accessors AMD64_EXT_REGS (fold base_accessors AMD64_BASE_REGS (fold gp_accessors AMD64_GP_REGS cls))))"

definition apply_on_thread :: "class_attrs \<Rightarrow> class_attrs" where
  "apply_on_thread cls =
     (if in_dict ''instruction_pointer'' cls then cls
      else fold (\<lambda>(n, r). dict_set n (P64, r))
        [(''instruction_pointer'', ''rip''), (''syscall_number'', ''orig_rax''), (''syscall_return'', ''rax''),
         (''syscall_arg0'', ''rdi''), (''syscall_arg1'', ''rsi''), (''syscall_arg2'', ''rdx''),
         (''syscall_arg3'', ''r10''), (''syscall_arg4'', ''r8''), (''syscall_arg5'', ''r9'')] cls)"

text \<open>The two classes once their accessors are in place.\<close>

definition regs_class :: class_attrs where
  "regs_class = apply_on_regs []"

definition thread_class :: class_attrs where
  "thread_class = apply_on_thread []"

definition attr_get :: "class_attrs \<Rightarrow> string \<Rightarrow> (regfile, int) pm" where
  "attr_get cls n = (case dict_get cls n of None \<Rightarrow> raise AttributeError | Some p \<Rightarrow> prop_getter p)"

definition attr_set :: "class_attrs \<Rightarrow> string \<Rightarrow> int \<Rightarrow> (regfile, unit) pm" where
  "attr_set cls n v = (case dict_get cls n of None \<Rightarrow> raise AttributeError | Some p \<Rightarrow> prop_setter p v)"

section \<open>The syscall hijacker\<close>

definition hijacker_allowed_args :: "string list" where
  "hijacker_allowed_args = [''syscall_number'', ''syscall_arg0'', ''syscall_arg1'', ''syscall_arg2'',
     ''syscall_arg3'', ''syscall_arg4'', ''syscall_arg5'']"

definition hijack_arg :: "(string \<times> int) list \<Rightarrow> string \<Rightarrow> (regfile, unit) pm" where
  "hijack_arg kwargs n = (case dict_get kwargs n of None \<Rightarrow> ret () | Some v \<Rightarrow> attr_set thread_class n v)"

definition hijack_on_enter :: "int \<Rightarrow> (string \<times> int) list \<Rightarrow> (regfile, unit) pm" where
  "hijack_on_enter new_syscall kwargs =
     bind (attr_set thread_class ''syscall_number'' new_syscall) (\<lambda>_.
     for_each (hijack_arg kwargs)
       [''syscall_arg0'', ''syscall_arg1'', ''syscall_arg2'', ''syscall_arg3'', ''syscall_arg4'', ''syscall_arg5''])"

section \<open>Lemmas\<close>

text \<open>Which bits of the 64 a property stands for.\<close>

fun prop_bits :: "width \<Rightarrow> nat \<Rightarrow> bool" where
  "prop_bits P64 n = (n < 64)"
| "prop_bits P32 n = (n < 32)"
| "prop_bits P16 n = (n < 16)"
| "prop_bits P8l n = (n < 8)"
| "prop_bits P8h n = (8 \<le> n \<and> n < 16)"

fun prop_width :: "width \<Rightarrow> nat" where
  "prop_width P64 = 64"
| "prop_width P32 = 32"
| "prop_width P16 = 16"
| "prop_width _ = 8"

lemma bit_masks:
  "bit (0xFFFFFFFF :: int) n \<longleftrightarrow> n < 32" "bit (0xFFFF :: int) n \<longleftrightarrow> n < 16" "bit (0xFF :: int) n \<longleftrightarrow> n < 8"
  "bit (0xFF00 :: int) n \<longleftrightarrow> 8 \<le> n \<and> n < 16"
proof -
  have m: "(0xFFFFFFFF :: int) = mask 32" "(0xFFFF :: int) = mask 16" "(0xFF :: int) = mask 8"
    "(0xFF00 :: int) = push_bit 8 (mask 8)"
    by (simp_all add: mask_eq_exp_minus_1 push_bit_eq_mult)
  show "bit (0xFFFFFFFF :: int) n \<longleftrightarrow> n < 32" "bit (0xFFFF :: int) n \<longleftrightarrow> n < 16" "bit (0xFF :: int) n \<longleftrightarrow> n < 8"
    "bit (0xFF00 :: int) n \<longleftrightarrow> 8 \<le> n \<and> n < 16"
    unfolding m by (auto simp: bit_mask_iff bit_push_bit_iff)
qed

lemma bit_neg_masks:
  "bit (- 65536 :: int) n \<longleftrightarrow> 16 \<le> n" "bit (- 256 :: int) n \<longleftrightarrow> 8 \<le> n"
  "bit (- 65281 :: int) n \<longleftrightarrow> \<not> (8 \<le> n \<and> n < 16)"
proof -
  have m: "(- 65536 :: int) = NOT 0xFFFF" "(- 256 :: int) = NOT 0xFF" "(- 65281 :: int) = NOT 0xFF00"
    by simp_all
  show "bit (- 65536 :: int) n \<longleftrightarrow> 16 \<le> n" "bit (- 256 :: int) n \<longleftrightarrow> 8 \<le> n"
    "bit (- 65281 :: int) n \<longleftrightarrow> \<not> (8 \<le> n \<and> n < 16)"
    unfolding m by (simp_all only: bit_not_int_iff bit_masks not_less not_le de_Morgan_conj)
qed

lemmas reg_bits = bit_masks bit_neg_masks bit_and_iff bit_or_iff bit_not_iff bit_push_bit_iff bit_drop_bit_eq bit_take_bit_iff

text \<open>The values the five setters store, and the five getters return.\<close>

definition stored :: "width \<Rightarrow> int \<Rightarrow> int \<Rightarrow> int" where
  "stored w x v = (case w of P64 \<Rightarrow> v | P32 \<Rightarrow> v AND 0xFFFFFFFF
     | P16 \<Rightarrow> (x AND NOT 0xFFFF) OR (v AND 0xFFFF) | P8l \<Rightarrow> (x AND NOT 0xFF) OR (v AND 0xFF)
     | P8h \<Rightarrow> (x AND NOT 0xFF00) OR push_bit 8 (v AND 0xFF))"

definition viewed :: "width \<Rightarrow> int \<Rightarrow> int" where
  "viewed w x = (case w of P64 \<Rightarrow> x | P32 \<Rightarrow> x AND 0xFFFFFFFF | P16 \<Rightarrow> x AND 0xFFFF | P8l \<Rightarrow> x AND 0xFF
     | P8h \<Rightarrow> drop_bit 8 x AND 0xFF)"

lemma bit_stored: "bit (stored w x v) n \<longleftrightarrow>
    (case w of P64 \<Rightarrow> bit v n | P32 \<Rightarrow> bit v n \<and> n < 32
     | P16 \<Rightarrow> (if n < 16 then bit v n else bit x n) | P8l \<Rightarrow> (if n < 8 then bit v n else bit x n)
     | P8h \<Rightarrow> (if 8 \<le> n \<and> n < 16 then bit v (n - 8) else bit x n))"
  by (cases w) (auto simp: stored_def reg_bits)

lemma stored_fits:
  assumes "fits_u64 x" and "w = P64 \<longrightarrow> fits_u64 v"
  shows "fits_u64 (stored w x v)"
  using assms unfolding fits_u64_bits bit_stored by (cases w) (auto split: if_splits)

lemma viewed_stored:
  assumes "w = P64 \<longrightarrow> fits_u64 v"
  shows "viewed w (stored w x v) = take_bit (prop_width w) v"
proof (cases w)
  case P64
  with assms show ?thesis by (simp add: viewed_def stored_def fits_u64_take_bit)
qed (rule bit_eqI, auto simp: viewed_def reg_bits bit_stored)+

lemma viewed_bounds: "fits_u64 x \<Longrightarrow> 0 \<le> viewed w x \<and> viewed w x < 2 ^ prop_width w"
proof -
  assume "fits_u64 x"
  then have "viewed w x = take_bit (prop_width w) (viewed w x)"
    by (cases w) (auto simp: viewed_def fits_u64_take_bit reg_bits intro!: bit_eqI)
  then show ?thesis by (metis take_bit_int_less_exp take_bit_nonnegative)
qed

lemma prop_getter_eq: "name \<in> set AMD64_REGS \<Longrightarrow> prop_getter (w, name) rf = (Inr (viewed w (rf name)), rf)"
  by (cases w) (simp_all add: reg_getattr_def py_simps viewed_def)

lemma prop_setter_eq: "name \<in> set AMD64_REGS \<Longrightarrow> fits_u64 (stored w (rf name) v) \<Longrightarrow>
    prop_setter (w, name) v rf = (Inr (), rf(name := stored w (rf name) v))"
  by (cases w) (simp_all add: reg_getattr_def reg_setattr_def py_simps stored_def c_u64_def)

section \<open>Properties\<close>

lemma regs_class_targets: "dict_get regs_class n = Some (w, r) \<Longrightarrow> r \<in> set AMD64_REGS"
proof -
  assume "dict_get regs_class n = Some (w, r)"
  then have "(n, w, r) \<in> set regs_class" by (rule map_of_SomeD)
  moreover have "list_all (\<lambda>(n, w, r). r \<in> set AMD64_REGS) regs_class" by code_simp
  ultimately show ?thesis by (auto simp: list_all_iff)
qed


text \<open>C18: assigning a value to any register attribute stores it in the right bits: reading the attribute back
  gives the value cut to the attribute's width, every other register keeps its value, the bits of
  the same register outside the attribute keep theirs, except that a 32-bit write clears the upper
  half, as the processor does. The file stays a file of 64-bit values.\<close>

theorem register_write:
  assumes "dict_get regs_class n = Some (w, r)" and "regfile_wf rf" and "w = P64 \<longrightarrow> fits_u64 v"
  shows "\<exists>rf'. attr_set regs_class n v rf = (Inr (), rf') \<and> regfile_wf rf' \<and>
     attr_get regs_class n rf' = (Inr (take_bit (prop_width w) v), rf') \<and> (\<forall>q. q \<noteq> r \<longrightarrow> rf' q = rf q) \<and>
     (\<forall>i. \<not> prop_bits w i \<longrightarrow> bit (rf' r) i = (w \<noteq> P32 \<and> bit (rf r) i))"
proof -
  have r: "r \<in> set AMD64_REGS" by (rule regs_class_targets [OF assms(1)])
  with assms(2) have x: "fits_u64 (rf r)" by (simp add: regfile_wf_def)
  let ?rf' = "rf(r := stored w (rf r) v)"
  have s: "fits_u64 (stored w (rf r) v)" by (rule stored_fits [OF x assms(3)])
  have "bit (?rf' r) i = (w \<noteq> P32 \<and> bit (rf r) i)" if "\<not> prop_bits w i" for i
    using that s x unfolding fits_u64_bits by (cases w) (auto simp: bit_stored)
  moreover have "regfile_wf ?rf'" using assms(2) s by (simp add: regfile_wf_def)
  moreover have "attr_get regs_class n ?rf' = (Inr (take_bit (prop_width w) v), ?rf')"
    using viewed_stored [OF assms(3), of "rf r"] by (simp add: attr_get_def assms(1) prop_getter_eq [OF r])
  moreover have "attr_set regs_class n v rf = (Inr (), ?rf')"
    by (simp add: attr_set_def assms(1) prop_setter_eq r s del: prop_setter.simps)
  ultimately show ?thesis by (intro exI [of _ ?rf']) simp
qed

theorem register_write_witness:
  "\<exists>rf'. attr_set regs_class ''bh'' 0x1234 (\<lambda>r. 0x1111) = (Inr (), rf') \<and>
     attr_get regs_class ''bh'' rf' = (Inr 0x34, rf') \<and> rf' ''rax'' = 0x1111"
proof -
  have "dict_get regs_class ''bh'' = Some (P8h, ''rbx'')" by code_simp
  from register_write [OF this, of "\<lambda>r. 0x1111" "0x1234"] show ?thesis
    by (auto simp: regfile_wf_def fits_u64_def take_bit_eq_mod)
qed

lemma thread_class_args:
  "dict_get thread_class ''syscall_number'' = Some (P64, ''orig_rax'')"
  "dict_get thread_class ''syscall_arg0'' = Some (P64, ''rdi'')" "dict_get thread_class ''syscall_arg1'' = Some (P64, ''rsi'')"
  "dict_get thread_class ''syscall_arg2'' = Some (P64, ''rdx'')" "dict_get thread_class ''syscall_arg3'' = Some (P64, ''r10'')"
  "dict_get thread_class ''syscall_arg4'' = Some (P64, ''r8'')" "dict_get thread_class ''syscall_arg5'' = Some (P64, ''r9'')"
  by code_simp+

lemma set_64: "r \<in> set AMD64_REGS \<Longrightarrow> dict_get thread_class n = Some (P64, r) \<Longrightarrow> fits_u64 v \<Longrightarrow>
    attr_set thread_class n v rf = (Inr (), rf(r := v))"
  by (simp add: attr_set_def reg_setattr_def c_u64_def)

lemma syscall_regs: "''orig_rax'' \<in> set AMD64_REGS" "''rdi'' \<in> set AMD64_REGS" "''rsi'' \<in> set AMD64_REGS"
  "''rdx'' \<in> set AMD64_REGS" "''r10'' \<in> set AMD64_REGS" "''r8'' \<in> set AMD64_REGS" "''r9'' \<in> set AMD64_REGS"
  by (simp_all add: AMD64_REGS_def)

lemma hijack_arg_eq:
  assumes "r \<in> set AMD64_REGS" and "dict_get thread_class n = Some (P64, r)"
    and "\<forall>v. dict_get kwargs n = Some v \<longrightarrow> fits_u64 v"
  shows "hijack_arg kwargs n rf = (Inr (), rf(r := (case dict_get kwargs n of None \<Rightarrow> rf r | Some v \<Rightarrow> v)))"
  using assms by (auto simp: hijack_arg_def ret_def set_64 split: option.splits)

lemmas hijack_args = hijack_arg_eq [OF syscall_regs(2) thread_class_args(2)] hijack_arg_eq [OF syscall_regs(3) thread_class_args(3)]
  hijack_arg_eq [OF syscall_regs(4) thread_class_args(4)] hijack_arg_eq [OF syscall_regs(5) thread_class_args(5)]
  hijack_arg_eq [OF syscall_regs(6) thread_class_args(6)] hijack_arg_eq [OF syscall_regs(7) thread_class_args(7)]

text \<open>Hijacking a syscall puts the new number and exactly the arguments given into the registers of the
  system call convention and leaves every other register alone.\<close>

lemma hijack_registers:
  assumes "fits_u64 new_syscall" and "\<forall>n v. dict_get kwargs n = Some v \<longrightarrow> fits_u64 v"
  shows "hijack_on_enter new_syscall kwargs rf = (Inr (), (\<lambda>r.
     let arg = (\<lambda>n. case dict_get kwargs n of None \<Rightarrow> rf r | Some v \<Rightarrow> v) in
     if r = ''orig_rax'' then new_syscall
     else if r = ''rdi'' then arg ''syscall_arg0'' else if r = ''rsi'' then arg ''syscall_arg1''
     else if r = ''rdx'' then arg ''syscall_arg2'' else if r = ''r10'' then arg ''syscall_arg3''
     else if r = ''r8'' then arg ''syscall_arg4'' else if r = ''r9'' then arg ''syscall_arg5'' else rf r))"
  using assms
  by (simp add: hijack_on_enter_def bind_def set_64 [OF syscall_regs(1) thread_class_args(1)] hijack_args ret_def)
     (auto simp: fun_eq_iff Let_def split: option.splits)

lemma hijack_registers_witness:
  "\<exists>rf'. hijack_on_enter 1 [(''syscall_arg0'', 2), (''syscall_arg3'', 5)] (\<lambda>r. 0) = (Inr (), rf') \<and>
     rf' ''orig_rax'' = 1 \<and> rf' ''rdi'' = 2 \<and> rf' ''rsi'' = 0 \<and> rf' ''r10'' = 5"
  using hijack_registers [of 1 "[(''syscall_arg0'', 2), (''syscall_arg3'', 5)]" "\<lambda>r. 0"]
  by (simp add: fits_u64_def)

end
