(* ===== verification/Py_Text.thy ===== *)
theory Py_Text
  imports Py_Prelude
begin

text \<open>
  The string operations of Python the source uses: \<open>strip\<close>, \<open>split\<close>, \<open>in\<close>, \<open>int(s, 16)\<close>, \<open>hex\<close> and
  the format \<open>:x\<close>. Strings are lists of 8-bit characters.
\<close>

definition is_space :: "char \<Rightarrow> bool" where
  "is_space c = (let n = (of_char c :: nat) in (9 \<le> n \<and> n \<le> 13) \<or> (28 \<le> n \<and> n \<le> 32) \<or> n = 0x85 \<or> n = 0xA0)"

definition py_strip :: "string \<Rightarrow> string" where
  "py_strip s = rev (dropWhile is_space (rev (dropWhile is_space s)))"

text \<open>\<open>s.split(c, n)\<close>, at most \<open>n\<close> cuts\<close>

fun py_split :: "char \<Rightarrow> nat \<Rightarrow> string \<Rightarrow> string list" where
  "py_split c 0 s = [s]"
| "py_split c (Suc n) s = (case dropWhile (\<lambda>x. x \<noteq> c) s of [] \<Rightarrow> [s]
     | _ # rest \<Rightarrow> takeWhile (\<lambda>x. x \<noteq> c) s # py_split c n rest)"

text \<open>\<open>sub in s\<close>\<close>

fun str_in :: "string \<Rightarrow> string \<Rightarrow> bool" where
  "str_in p [] = (p = [])"
| "str_in p (c # cs) = (take (length p) (c # cs) = p \<or> str_in p cs)"

section \<open>Hexadecimal numbers\<close>

definition hex_digit :: "char \<Rightarrow> int option" where
  "hex_digit c = (let n = (of_char c :: int) in
     if 48 \<le> n \<and> n \<le> 57 then Some (n - 48)
     else if 97 \<le> n \<and> n \<le> 102 then Some (n - 87)
     else if 65 \<le> n \<and> n \<le> 70 then Some (n - 55) else None)"

text \<open>Digits, with single underscores between them; \<open>p\<close> says the previous character was a digit.\<close>

fun hex_digits :: "bool \<Rightarrow> int \<Rightarrow> string \<Rightarrow> int option" where
  "hex_digits p acc [] = (if p then Some acc else None)"
| "hex_digits p acc (c # cs) = (if c = CHR ''_'' then (if p then hex_digits False acc cs else None)
     else (case hex_digit c of None \<Rightarrow> None | Some d \<Rightarrow> hex_digits True (16 * acc + d) cs))"

definition drop_0x :: "string \<Rightarrow> string" where
  "drop_0x s = (case s of a # b # r \<Rightarrow>
       if a = CHR ''0'' \<and> (b = CHR ''x'' \<or> b = CHR ''X'') then (if take 1 r = ''_'' then drop 1 r else r) else s
     | _ \<Rightarrow> s)"

definition py_int16 :: "string \<Rightarrow> int result" where
  "py_int16 str = (let s = py_strip str;
       (sgn, r) = (if take 1 s = ''-'' then (- 1, drop 1 s) else if take 1 s = ''+'' then (1, drop 1 s) else (1, s))
     in case hex_digits False 0 (drop_0x r) of None \<Rightarrow> Inl ValueError | Some n \<Rightarrow> Inr (sgn * n))"

definition hex_char :: "nat \<Rightarrow> char" where
  "hex_char d = ''0123456789abcdef'' ! d"

fun hex_nat :: "nat \<Rightarrow> string" where
  "hex_nat n = (if n < 16 then [hex_char n] else hex_nat (n div 16) @ [hex_char (n mod 16)])"

declare hex_nat.simps [simp del]

definition fmt_x :: "int \<Rightarrow> string" where
  "fmt_x x = (if x < 0 then CHR ''-'' # hex_nat (nat (- x)) else hex_nat (nat x))"

definition py_hex :: "int \<Rightarrow> string" where
  "py_hex x = (if x < 0 then ''-0x'' @ hex_nat (nat (- x)) else ''0x'' @ hex_nat (nat x))"

section \<open>Decimal numbers\<close>

fun dec_nat :: "nat \<Rightarrow> string" where
  "dec_nat n = (if n < 10 then [hex_char n] else dec_nat (n div 10) @ [hex_char (n mod 10)])"

declare dec_nat.simps [simp del]

text \<open>\<open>str(x)\<close>\<close>

definition py_str :: "int \<Rightarrow> string" where
  "py_str x = (if x < 0 then CHR ''-'' # dec_nat (nat (- x)) else dec_nat (nat x))"

text \<open>\<open>atoi\<close> of C on a number that fits: spaces, a sign, and the digits up to the first other character.\<close>

fun dec_digits :: "int \<Rightarrow> string \<Rightarrow> int" where
  "dec_digits acc [] = acc"
| "dec_digits acc (c # cs) = (let n = (of_char c :: int) in
     if 48 \<le> n \<and> n \<le> 57 then dec_digits (10 * acc + (n - 48)) cs else acc)"

text \<open>\<open>int(s)\<close>, with single underscores between the digits as above\<close>

fun int_digits :: "bool \<Rightarrow> int \<Rightarrow> string \<Rightarrow> int option" where
  "int_digits p acc [] = (if p then Some acc else None)"
| "int_digits p acc (c # cs) = (if c = CHR ''_'' then (if p then int_digits False acc cs else None)
     else (let n = (of_char c :: int) in
       if 48 \<le> n \<and> n \<le> 57 then int_digits True (10 * acc + (n - 48)) cs else None))"

definition py_int :: "string \<Rightarrow> int result" where
  "py_int str = (let s = py_strip str;
       (sgn, r) = (if take 1 s = ''-'' then (- 1, drop 1 s) else if take 1 s = ''+'' then (1, drop 1 s) else (1, s))
     in case int_digits False 0 r of None \<Rightarrow> Inl ValueError | Some n \<Rightarrow> Inr (sgn * n))"

definition c_space :: "char \<Rightarrow> bool" where
  "c_space c = (let n = (of_char c :: nat) in (9 \<le> n \<and> n \<le> 13) \<or> n = 32)"

definition atoi :: "string \<Rightarrow> int" where
  "atoi s = (let r = dropWhile c_space s in
     if take 1 r = ''-'' then - dec_digits 0 (drop 1 r)
     else if take 1 r = ''+'' then dec_digits 0 (drop 1 r) else dec_digits 0 r)"

section \<open>Lemmas\<close>

text \<open>A word: what a field of a line is, without separators or spaces around.\<close>

definition word_like :: "string \<Rightarrow> bool" where
  "word_like s \<longleftrightarrow> list_all (\<lambda>c. \<not> is_space c) s"

lemma py_split_at: "c \<notin> set s \<Longrightarrow> py_split c (Suc n) (s @ c # r) = s # py_split c n r"
proof -
  assume a: "c \<notin> set s"
  then have "dropWhile (\<lambda>x. x \<noteq> c) (s @ c # r) = c # r" "takeWhile (\<lambda>x. x \<noteq> c) (s @ c # r) = s"
    by (induction s) auto
  then show ?thesis by simp
qed

lemma py_split_none: "c \<notin> set s \<Longrightarrow> py_split c n s = [s]"
proof (cases n)
  case (Suc m)
  assume "c \<notin> set s"
  then have "dropWhile (\<lambda>x. x \<noteq> c) s = []" by (induction s) auto
  with Suc show ?thesis by (simp only: py_split.simps list.case)
qed simp

lemma strip_id: "s \<noteq> [] \<Longrightarrow> \<not> is_space (hd s) \<Longrightarrow> \<not> is_space (last s) \<Longrightarrow> py_strip s = s"
proof -
  assume s: "s \<noteq> []" "\<not> is_space (hd s)" "\<not> is_space (last s)"
  then have "dropWhile is_space s = s" by (cases s) auto
  moreover have "dropWhile is_space (rev s) = rev s" using s by (cases s rule: rev_cases) auto
  ultimately show ?thesis by (simp add: py_strip_def)
qed

lemma strip_pad:
  assumes "list_all is_space a" and "list_all is_space b" and "s \<noteq> []" "\<not> is_space (hd s)" "\<not> is_space (last s)"
  shows "py_strip (a @ s @ b) = s"
proof -
  have d: "dropWhile is_space (x @ y) = dropWhile is_space y" if "list_all is_space x" for x y
    using that by (induction x) auto
  have "dropWhile is_space (s @ b) = s @ b" using assms(3,4) by (cases s) auto
  moreover have "list_all is_space (rev b)" using assms(2) by (simp add: list_all_iff)
  moreover have "dropWhile is_space (rev s) = rev s" using assms(3,5) by (cases s rule: rev_cases) auto
  ultimately show ?thesis by (simp add: py_strip_def d [OF assms(1)] d)
qed

lemma strip_blank: "list_all is_space a \<Longrightarrow> py_strip a = []"
  by (simp add: py_strip_def list_all_iff iffD2 [OF dropWhile_eq_Nil_conv])

lemma hex_char_cases: "d < 16 \<Longrightarrow> hex_digit (hex_char d) = Some (int d) \<and> hex_char d \<noteq> CHR ''_'' \<and>
    hex_char d \<noteq> CHR ''x'' \<and> hex_char d \<noteq> CHR ''X'' \<and> hex_char d \<noteq> CHR ''-'' \<and> hex_char d \<noteq> CHR ''+'' \<and>
    hex_char d \<noteq> CHR '' '' \<and> \<not> is_space (hex_char d)"
proof -
  assume "d < 16"
  moreover have "list_all (\<lambda>d. hex_digit (hex_char d) = Some (int d) \<and> hex_char d \<noteq> CHR ''_'' \<and>
    hex_char d \<noteq> CHR ''x'' \<and> hex_char d \<noteq> CHR ''X'' \<and> hex_char d \<noteq> CHR ''-'' \<and> hex_char d \<noteq> CHR ''+'' \<and>
    hex_char d \<noteq> CHR '' '' \<and> \<not> is_space (hex_char d)) [0..<16]"
    by code_simp
  ultimately show ?thesis by (simp add: list_all_iff)
qed

lemma hex_nat_ne [simp]: "hex_nat n \<noteq> []"
  by (simp add: hex_nat.simps)

lemma hex_nat_chars: "c \<in> set (hex_nat n) \<Longrightarrow> \<exists>d < 16. c = hex_char d"
proof (induction n rule: hex_nat.induct)
  case (1 n)
  show ?case
  proof (cases "n < 16")
    case True
    with 1(2) show ?thesis by (auto simp: hex_nat.simps [of n])
  next
    case False
    with 1(2) consider "c \<in> set (hex_nat (n div 16))" | "c = hex_char (n mod 16)"
      by (auto simp: hex_nat.simps [of n])
    then show ?thesis using 1(1) [OF False] by cases (auto intro: exI [of _ "n mod 16"])
  qed
qed

lemma hex_digits_nat:
  "\<exists>k. hex_digits p acc (hex_nat n @ cs) = hex_digits True (acc * 16 ^ k + int n) cs"
proof (induction n arbitrary: p acc cs rule: hex_nat.induct)
  case (1 n)
  show ?case
  proof (cases "n < 16")
    case True
    then show ?thesis
      using hex_char_cases [of n] by (intro exI [of _ 1]) (simp add: hex_nat.simps [of n] algebra_simps)
  next
    case False
    from 1 [OF False] obtain k where
      "hex_digits p acc (hex_nat (n div 16) @ hex_char (n mod 16) # cs) =
         hex_digits True (acc * 16 ^ k + int (n div 16)) (hex_char (n mod 16) # cs)" by blast
    moreover have "16 * (acc * 16 ^ k + int (n div 16)) + int (n mod 16) = acc * 16 ^ Suc k + int n"
      by (simp add: algebra_simps zdiv_int zmod_int)
    ultimately show ?thesis
      using hex_char_cases [of "n mod 16"] False
      by (intro exI [of _ "Suc k"]) (simp add: hex_nat.simps [of n] del: power_Suc)
  qed
qed

lemma hex_digits_zeros: "hex_digits p 0 (replicate k (CHR ''0'') @ cs) = hex_digits (p \<or> 0 < k) 0 cs"
proof (induction k arbitrary: p)
  case (Suc k)
  have "hex_digit (CHR ''0'') = Some 0" by code_simp
  with Suc show ?case by simp
qed simp

definition hex_word :: "nat \<Rightarrow> nat \<Rightarrow> string" where
  "hex_word k n = replicate k (CHR ''0'') @ hex_nat n"

lemma hex_word_chars: "c \<in> set (hex_word k n) \<Longrightarrow> \<exists>d < 16. c = hex_char d"
proof -
  have "CHR ''0'' = hex_char 0" by (simp add: hex_char_def)
  then show "c \<in> set (hex_word k n) \<Longrightarrow> \<exists>d < 16. c = hex_char d"
    by (auto simp: hex_word_def dest: hex_nat_chars intro: exI [of _ "0::nat"])
qed

lemma hex_word_plain: "c \<in> set (hex_word k n) \<Longrightarrow> c \<noteq> CHR ''_'' \<and> c \<noteq> CHR ''x'' \<and> c \<noteq> CHR ''X'' \<and>
    c \<noteq> CHR ''-'' \<and> c \<noteq> CHR ''+'' \<and> c \<noteq> CHR '' '' \<and> \<not> is_space c"
  by (drule hex_word_chars) (auto dest: hex_char_cases)

lemma hex_word_ne [simp]: "hex_word k n \<noteq> []"
  by (simp add: hex_word_def)

lemma drop_0x_plain: "CHR ''x'' \<notin> set s \<Longrightarrow> CHR ''X'' \<notin> set s \<Longrightarrow> drop_0x s = s"
  by (auto simp: drop_0x_def split: list.splits)

lemma int16_plain:
  assumes "s \<noteq> []" and "\<And>c. c \<in> set s \<Longrightarrow> c \<noteq> CHR ''x'' \<and> c \<noteq> CHR ''X'' \<and> c \<noteq> CHR ''-'' \<and> c \<noteq> CHR ''+'' \<and> \<not> is_space c"
  shows "py_int16 s = (case hex_digits False 0 s of None \<Rightarrow> Inl ValueError | Some n \<Rightarrow> Inr n)"
proof -
  have "py_strip s = s" using assms by (intro strip_id) auto
  moreover have "take 1 s \<noteq> ''-''" "take 1 s \<noteq> ''+''" using assms by (cases s; auto)+
  moreover have "drop_0x s = s" using assms(2) by (intro drop_0x_plain) auto
  ultimately show ?thesis by (simp add: py_int16_def Let_def split: option.split)
qed

theorem int16_hex_word: "py_int16 (hex_word k n) = Inr (int n)"
proof -
  obtain j where "hex_digits (0 < k) 0 (hex_nat n @ []) = hex_digits True (0 * 16 ^ j + int n) []"
    using hex_digits_nat by blast
  then have "hex_digits False 0 (hex_word k n) = Some (int n)"
    by (simp add: hex_word_def hex_digits_zeros)
  then show ?thesis using int16_plain [of "hex_word k n"] hex_word_plain by auto
qed

lemma int16_fmt_x: "0 \<le> x \<Longrightarrow> py_int16 (fmt_x x) = Inr x"
  using int16_hex_word [of 0 "nat x"] by (simp add: fmt_x_def hex_word_def)

lemma fmt_x_plain: "0 \<le> x \<Longrightarrow> CHR ''+'' \<notin> set (fmt_x x)"
  using hex_word_plain [of _ 0 "nat x"] by (auto simp: fmt_x_def hex_word_def)

lemma dec_char: "d < 10 \<Longrightarrow> (of_char (hex_char d) :: int) = 48 + int d \<and> \<not> c_space (hex_char d) \<and>
    hex_char d \<noteq> CHR ''-'' \<and> hex_char d \<noteq> CHR ''+'' \<and> hex_char d \<noteq> CHR 0x00"
proof -
  assume "d < 10"
  moreover have "list_all (\<lambda>d. (of_char (hex_char d) :: int) = 48 + int d \<and> \<not> c_space (hex_char d) \<and>
    hex_char d \<noteq> CHR ''-'' \<and> hex_char d \<noteq> CHR ''+'' \<and> hex_char d \<noteq> CHR 0x00) [0..<10]"
    by code_simp
  ultimately show ?thesis by (simp add: list_all_iff)
qed

lemma dec_digits_nat: "\<exists>k. dec_digits acc (dec_nat n @ cs) = dec_digits (acc * 10 ^ k + int n) cs"
proof (induction n arbitrary: acc cs rule: dec_nat.induct)
  case (1 n)
  show ?case
  proof (cases "n < 10")
    case True
    then show ?thesis
      using dec_char [of n] by (intro exI [of _ 1]) (simp add: dec_nat.simps [of n] algebra_simps)
  next
    case False
    from 1 [OF False] obtain k where
      "dec_digits acc (dec_nat (n div 10) @ hex_char (n mod 10) # cs) =
         dec_digits (acc * 10 ^ k + int (n div 10)) (hex_char (n mod 10) # cs)" by blast
    moreover have "10 * (acc * 10 ^ k + int (n div 10)) + int (n mod 10) = acc * 10 ^ Suc k + int n"
      by (simp add: algebra_simps zdiv_int zmod_int)
    moreover have "n mod 10 \<le> 9" using mod_less_divisor [of 10 n] by linarith
    ultimately show ?thesis
      using dec_char [of "n mod 10"] False
      by (intro exI [of _ "Suc k"]) (simp add: dec_nat.simps [of n] del: power_Suc)
  qed
qed

lemma dec_nat_chars: "c \<in> set (dec_nat n) \<Longrightarrow> \<exists>d < 10. c = hex_char d"
proof (induction n rule: dec_nat.induct)
  case (1 n)
  show ?case
  proof (cases "n < 10")
    case False
    with 1(2) consider "c \<in> set (dec_nat (n div 10))" | "c = hex_char (n mod 10)"
      by (auto simp: dec_nat.simps [of n])
    then show ?thesis using 1(1) [OF False] by cases (auto intro: exI [of _ "n mod 10"])
  qed (use 1(2) in \<open>auto simp: dec_nat.simps [of n]\<close>)
qed

lemma dec_nat_ne [simp]: "dec_nat n \<noteq> []"
  by (simp add: dec_nat.simps)

lemma atoi_py_str: "atoi (py_str x) = x"
proof -
  have digits: "dec_digits 0 (dec_nat n) = int n" for n
    using dec_digits_nat [of 0 n "[]"] by auto
  obtain c cs where c: "dec_nat (nat x) = c # cs" by (cases "dec_nat (nat x)") auto
  then obtain d where "d < 10" "c = hex_char d" using dec_nat_chars [of c "nat x"] by auto
  then have "\<not> c_space c" "c \<noteq> CHR ''-''" "c \<noteq> CHR ''+''" using dec_char [of d] by auto
  then have "atoi (dec_nat (nat x)) = int (nat x)" using c digits [of "nat x"] by (simp add: atoi_def)
  moreover have "\<not> c_space (CHR ''-'')" by code_simp
  ultimately show ?thesis by (auto simp: py_str_def atoi_def digits)
qed

lemma int_digits_dec: "list_all (\<lambda>c. \<exists>d < 10. c = hex_char d) ds \<Longrightarrow> int_digits p acc ds = (if p \<or> ds \<noteq> [] then Some (dec_digits acc ds) else None)"
proof (induction ds arbitrary: p acc)
  case (Cons c ds)
  then obtain d where d: "d < 10" "c = hex_char d" by auto
  with hex_char_cases [of d] dec_char [of d] Cons show ?case by simp
qed simp

lemma py_int_str: "py_int (py_str x) = Inr x"
proof -
  have digits: "list_all (\<lambda>c. \<exists>d < 10. c = hex_char d) (dec_nat n)" for n
    using dec_nat_chars by (auto simp: list_all_iff)
  then have read: "int_digits False 0 (dec_nat n) = Some (int n)" for n
    using dec_digits_nat [of 0 n "[]"] int_digits_dec by auto
  have ends: "\<not> is_space (hd (dec_nat n)) \<and> \<not> is_space (last (dec_nat n)) \<and> take 1 (dec_nat n) \<noteq> ''-'' \<and> take 1 (dec_nat n) \<noteq> ''+''" for n
  proof -
    obtain d e where "d < 10" "hd (dec_nat n) = hex_char d" "e < 10" "last (dec_nat n) = hex_char e"
      using dec_nat_chars [OF hd_in_set [OF dec_nat_ne [of n]]] dec_nat_chars [OF last_in_set [OF dec_nat_ne [of n]]] by blast
    then show ?thesis using hex_char_cases [of d] hex_char_cases [of e] by (cases "dec_nat n") auto
  qed
  have "\<not> is_space (CHR ''-'')" by code_simp
  then have "py_strip (py_str x) = py_str x" using ends by (auto simp: py_str_def intro!: strip_id)
  then show ?thesis using ends read by (simp add: py_int_def py_str_def)
qed

lemma py_str_no_nul: "CHR 0x00 \<notin> set (py_str x)"
proof -
  have "CHR 0x00 \<notin> set (dec_nat n)" for n
  proof
    assume "CHR 0x00 \<in> set (dec_nat n)"
    then obtain d where "d < 10" "CHR 0x00 = hex_char d" using dec_nat_chars by blast
    then show False using dec_char [of d] by metis
  qed
  then show ?thesis by (simp add: py_str_def)
qed

end
