(* ===== verification/Memory_Maps.thy ===== *)
theory Memory_Maps
  imports Py_Text
begin

text \<open>
  Addresses and symbols: the parser of \<open>/proc/pid/maps\<close> lines (\<open>libdebug/data/memory_map.py\<close>),
  \<open>libdebug/utils/debugging_utils.py\<close>, the symbol tables of \<open>libdebug/utils/elf_utils.py\<close>, and the
  internal debugger's \<open>resolve_address\<close> and \<open>resolve_symbol\<close>. What libelf, the file system and the
  network answer is a parameter, the record \<open>elf_env\<close>.
\<close>

section \<open>MemoryMap\<close>

record memory_map =
  mm_start :: int
  mm_end :: int
  mm_permissions :: string
  mm_size :: int
  mm_offset :: int
  mm_backing_file :: string

text \<open>\<open>address, permissions, offset, *_, backing_file = ...\<close> needs four parts; a missing dash is an IndexError.\<close>

definition MemoryMap_parse :: "string \<Rightarrow> memory_map result" where
  "MemoryMap_parse vmap =
     (let parts = py_split (CHR '' '') 6 vmap in
      if length parts < 4 then Inl ValueError
      else
        let address = parts ! 0; permissions = parts ! 1; offset = parts ! 2; backing = last parts;
            bounds = py_split (CHR ''-'') (length address) address in
        rbind (py_int16 (bounds ! 0)) (\<lambda>start.
        rbind (if length bounds < 2 then Inl IndexError else py_int16 (bounds ! 1)) (\<lambda>stop.
        rbind (py_int16 offset) (\<lambda>int_offset.
        let stripped = py_strip backing;
            backing_file = (if stripped = [] then ''anon_'' @ fmt_x start else stripped) in
        Inr \<lparr>mm_start = start, mm_end = stop, mm_permissions = permissions, mm_size = stop - start,
             mm_offset = int_offset, mm_backing_file = backing_file\<rparr>))))"

definition vmap_contains :: "int \<Rightarrow> memory_map \<Rightarrow> bool" where
  "vmap_contains address vmap \<longleftrightarrow> mm_start vmap \<le> address \<and> address < mm_end vmap"

section \<open>Symbol tables\<close>

text \<open>The fields of an ELF header that are read, through the package \<open>elftools\<close>.\<close>

record elf_header =
  e_type :: string
  e_entry :: int

record elf_env =
  ee_sym_lvl :: int
  ee_read_elf_info :: "string \<Rightarrow> int \<Rightarrow> (string \<times> int \<times> int) list"
  ee_build_id :: "string \<Rightarrow> string option"
  ee_debug_file :: "string \<Rightarrow> string option"
  ee_external :: "string \<Rightarrow> int \<Rightarrow> (string \<times> int \<times> int) list"
  ee_local_debug_path :: "string \<Rightarrow> string \<Rightarrow> string"
  ee_debuginfod :: "string \<Rightarrow> string option"
  ee_header :: "string \<Rightarrow> elf_header result"

type_synonym symbols = "(string, int \<times> int) dict"

text \<open>The C side returns a linked list, which the loop turns into a dictionary.\<close>

definition symbol_dict :: "(string \<times> int \<times> int) list \<Rightarrow> symbols" where
  "symbol_dict l = fold (\<lambda>(n, lo, hi). dict_set n (lo, hi)) l []"

definition collect_external_info :: "elf_env \<Rightarrow> string \<Rightarrow> symbols" where
  "collect_external_info E path = symbol_dict (ee_external E path (ee_sym_lvl E))"

definition parse_elf_file :: "elf_env \<Rightarrow> string \<Rightarrow> int \<Rightarrow> symbols \<times> string option \<times> string option" where
  "parse_elf_file E path debug_info_level =
     (symbol_dict (ee_read_elf_info E path debug_info_level),
      if 2 < debug_info_level then (ee_build_id E path, ee_debug_file E path) else (None, None))"

text \<open>Truth of an optional string; the folder is the build id's first two characters.\<close>

definition truthy :: "string option \<Rightarrow> bool" where
  "truthy s \<longleftrightarrow> s \<noteq> None \<and> s \<noteq> Some []"

text \<open>The tables that are looked through, in order: the file's own, the local debug file's, debuginfod's.\<close>

definition symbol_tables :: "elf_env \<Rightarrow> string \<Rightarrow> symbols list" where
  "symbol_tables E path = (case parse_elf_file E path (ee_sym_lvl E) of (own, buildid, debug_file) \<Rightarrow>
     own # (if truthy buildid \<and> truthy debug_file \<and> 2 < ee_sym_lvl E
            then [collect_external_info E (ee_local_debug_path E (take 2 (the buildid)) (the debug_file))] else [])
         @ (if truthy buildid \<and> 4 < ee_sym_lvl E
            then (case ee_debuginfod E (the buildid) of None \<Rightarrow> [] | Some p \<Rightarrow> [collect_external_info E p]) else []))"

fun lookup_symbol :: "symbols list \<Rightarrow> string \<Rightarrow> int result" where
  "lookup_symbol [] symbol = Inl ValueError"
| "lookup_symbol (t # ts) symbol = (case dict_get t symbol of Some (lo, hi) \<Rightarrow> Inr lo | None \<Rightarrow> lookup_symbol ts symbol)"

definition elf_resolve_symbol :: "elf_env \<Rightarrow> string \<Rightarrow> string \<Rightarrow> int result" where
  "elf_resolve_symbol E path symbol =
     (if ee_sym_lvl E = 0 then Inl GenericException else lookup_symbol (symbol_tables E path) symbol)"

fun lookup_address :: "symbols list \<Rightarrow> int \<Rightarrow> string result" where
  "lookup_address [] address = Inl ValueError"
| "lookup_address (t # ts) address = (case List.find (\<lambda>(n, lo, hi). lo \<le> address \<and> address < hi) t of
     Some (n, lo, hi) \<Rightarrow> Inr (n @ ''+'' @ fmt_x (address - lo)) | None \<Rightarrow> lookup_address ts address)"

definition elf_resolve_address :: "elf_env \<Rightarrow> string \<Rightarrow> int \<Rightarrow> string result" where
  "elf_resolve_address E path address =
     (if ee_sym_lvl E = 0 then Inr (py_hex address) else lookup_address (symbol_tables E path) address)"

definition is_pie :: "elf_env \<Rightarrow> string \<Rightarrow> bool result" where
  "is_pie E path = rbind (ee_header E path) (\<lambda>elf. Inr (e_type elf = ''ET_DYN''))"

definition get_entry_point :: "elf_env \<Rightarrow> string \<Rightarrow> int result" where
  "get_entry_point E path = rbind (ee_header E path) (\<lambda>elf. Inr (e_entry elf))"

text \<open>\<open>functools.cache\<close>: a result is kept for ever under the arguments, an exception is not.\<close>

definition cached :: "('k \<Rightarrow> 'v result) \<Rightarrow> 'k \<Rightarrow> (('k, 'v) dict, 'v) pm" where
  "cached f k = (\<lambda>c. case dict_get c k of Some v \<Rightarrow> (Inr v, c)
     | None \<Rightarrow> (case f k of Inl e \<Rightarrow> (Inl e, c) | Inr v \<Rightarrow> (Inr v, dict_set k v c)))"

section \<open>debugging_utils\<close>

definition check_absolute_address :: "int \<Rightarrow> memory_map list \<Rightarrow> bool" where
  "check_absolute_address address maps = list_ex (vmap_contains address) maps"

definition normalize_and_validate_address :: "int \<Rightarrow> memory_map list \<Rightarrow> int result" where
  "normalize_and_validate_address address maps = (case maps of [] \<Rightarrow> Inl IndexError
     | m # _ \<Rightarrow> (let a = (if address < mm_start m then address + mm_start m else address)
                in if list_ex (vmap_contains a) maps then Inr a else Inl ValueError))"

definition is_file_name :: "string \<Rightarrow> bool" where
  "is_file_name f \<longleftrightarrow> f \<noteq> [] \<and> hd f \<noteq> CHR ''[''"

definition start_step :: "memory_map \<Rightarrow> (string, int) dict \<Rightarrow> (string, int) dict" where
  "start_step vmap d = (if is_file_name (mm_backing_file vmap) \<and> \<not> in_dict (mm_backing_file vmap) d
     then dict_set (mm_backing_file vmap) (mm_start vmap) d else d)"

definition mapped_files_start :: "memory_map list \<Rightarrow> (string, int) dict" where
  "mapped_files_start maps = fold start_step maps []"

definition range_step :: "memory_map \<Rightarrow> (string, int \<times> int) dict \<Rightarrow> (string, int \<times> int) dict" where
  "range_step vmap d = (if \<not> is_file_name (mm_backing_file vmap) then d
     else (case dict_get d (mm_backing_file vmap) of
         None \<Rightarrow> dict_set (mm_backing_file vmap) (mm_start vmap, mm_end vmap) d
       | Some (lo, hi) \<Rightarrow> dict_set (mm_backing_file vmap) (lo, mm_end vmap) d))"

definition mapped_files_range :: "memory_map list \<Rightarrow> (string, int \<times> int) dict" where
  "mapped_files_range maps = fold range_step maps []"

text \<open>The loops' bodies end with \<open>except OSError: log\<close> and \<open>except ValueError: pass\<close>.\<close>

definition skipped :: "py_exc \<Rightarrow> bool" where
  "skipped e \<longleftrightarrow> is_OSError e \<or> e = ValueError"

fun symbol_in_files :: "elf_env \<Rightarrow> string \<Rightarrow> int \<Rightarrow> (string, int) dict \<Rightarrow> int result" where
  "symbol_in_files E symbol offset [] = Inl ValueError"
| "symbol_in_files E symbol offset ((file, base_address) # rest) =
     (case rbind (elf_resolve_symbol E file symbol) (\<lambda>address. rbind (is_pie E file) (\<lambda>pie.
             Inr ((if pie then address + base_address else address) + offset))) of
        Inr a \<Rightarrow> Inr a
      | Inl e \<Rightarrow> if skipped e then symbol_in_files E symbol offset rest else Inl e)"

definition resolve_symbol_in_maps :: "elf_env \<Rightarrow> string \<Rightarrow> memory_map list \<Rightarrow> int result" where
  "resolve_symbol_in_maps E symbol maps =
     rbind (if CHR ''+'' \<in> set symbol
            then (case py_split (CHR ''+'') (length symbol) symbol of
                    [s, offset_str] \<Rightarrow> rbind (py_int16 offset_str) (\<lambda>offset. Inr (s, offset))
                  | _ \<Rightarrow> Inl ValueError)
            else Inr (symbol, 0))
       (\<lambda>(s, offset). symbol_in_files E s offset (mapped_files_start maps))"

fun address_in_files :: "elf_env \<Rightarrow> int \<Rightarrow> (string, int \<times> int) dict \<Rightarrow> string result" where
  "address_in_files E address [] = Inr (py_hex address)"
| "address_in_files E address ((file, base_address, top_address) # rest) =
     (if address < base_address \<or> top_address \<le> address then address_in_files E address rest
      else (case rbind (is_pie E file) (\<lambda>pie.
              elf_resolve_address E file (if pie then address - base_address else address)) of
          Inr s \<Rightarrow> Inr s
        | Inl e \<Rightarrow> if skipped e then address_in_files E address rest else Inl e))"

definition resolve_address_in_maps :: "elf_env \<Rightarrow> int \<Rightarrow> memory_map list \<Rightarrow> string result" where
  "resolve_address_in_maps E address maps = address_in_files E address (mapped_files_range maps)"

section \<open>The internal debugger's resolvers\<close>

text \<open>
  \<open>maps\<close>, \<open>full_path\<close> and \<open>proc_name\<close> are \<open>debugging_interface.maps\<close>, \<open>_get_process_full_path\<close> and
  \<open>_get_process_name\<close>, evaluated where the code calls them.
\<close>

record 's proc_info =
  pi_maps :: "('s, memory_map list) pm"
  pi_full_path :: "('s, string) pm"
  pi_name :: "('s, string) pm"

text \<open>\<open>elif backing_file == (full := path()) or backing_file == "binary" or backing_file == name()\<close>\<close>

definition main_file_alias :: "'s proc_info \<Rightarrow> string \<Rightarrow> ('s, string) pm" where
  "main_file_alias P backing_file =
     bind (pi_full_path P) (\<lambda>full.
     if backing_file = full \<or> backing_file = ''binary'' then ret full
     else bind (pi_name P) (\<lambda>n. ret (if backing_file = n then full else backing_file)))"

text \<open>The loop over the maps and the two checks after it, which both resolvers have.\<close>

definition filter_maps :: "string \<Rightarrow> memory_map list \<Rightarrow> memory_map list result" where
  "filter_maps backing_file maps =
     (let filtered_maps = filter (\<lambda>vmap. str_in backing_file (mm_backing_file vmap)) maps in
      if 1 < length (remdups (List.map mm_backing_file filtered_maps)) then Inl ValueError
      else if filtered_maps = [] then Inl ValueError else Inr filtered_maps)"

definition resolve_address :: "'s proc_info \<Rightarrow> int \<Rightarrow> string \<Rightarrow> bool \<Rightarrow> ('s, int) pm" where
  "resolve_address P address backing_file skip_absolute_address_validation =
     (if skip_absolute_address_validation \<and> backing_file = ''absolute'' then ret address
      else bind (pi_maps P) (\<lambda>maps.
        if backing_file = ''hybrid'' \<or> backing_file = ''absolute'' then
          if check_absolute_address address maps then ret address
          else if backing_file = ''absolute'' then raise ValueError
          else bind (pi_full_path P) (\<lambda>f.
               lift (rbind (filter_maps f maps) (normalize_and_validate_address address)))
        else bind (main_file_alias P backing_file) (\<lambda>f.
             lift (rbind (filter_maps f maps) (normalize_and_validate_address address)))))"

definition resolve_symbol :: "elf_env \<Rightarrow> 's proc_info \<Rightarrow> string \<Rightarrow> string \<Rightarrow> ('s, int) pm" where
  "resolve_symbol E P symbol backing_file =
     bind (pi_maps P) (\<lambda>maps.
     if backing_file = ''absolute'' then raise ValueError
     else bind (if backing_file = ''hybrid'' then pi_full_path P else main_file_alias P backing_file) (\<lambda>f.
       lift (rbind (filter_maps f maps) (resolve_symbol_in_maps E symbol))))"

section \<open>Properties\<close>

text \<open>
  A line of \<open>/proc/pid/maps\<close> as the kernel prints it: numbers in hexadecimal with any number of
  leading zeros, one space between the fields, the name after more spaces, a newline at the end.
\<close>

definition maps_line :: "nat \<times> nat \<Rightarrow> nat \<times> nat \<Rightarrow> string \<Rightarrow> nat \<times> nat \<Rightarrow> string \<Rightarrow> string \<Rightarrow> nat \<Rightarrow> string \<Rightarrow> string" where
  "maps_line a b perms off dev inode pad name =
     (hex_word (fst a) (snd a) @ ''-'' @ hex_word (fst b) (snd b)) @ '' '' @ perms @ '' '' @
     hex_word (fst off) (snd off) @ '' '' @ dev @ '' '' @ inode @ '' '' @ replicate pad (CHR '' '') @ name @ [CHR 0x0A]"

definition named_or_anon :: "nat \<Rightarrow> string \<Rightarrow> bool" where
  "named_or_anon pad name \<longleftrightarrow> (if pad = 0 then name = [] else name \<noteq> [] \<and> \<not> is_space (hd name) \<and> \<not> is_space (last name))"

lemma space_chars: "is_space (CHR '' '')" "is_space (CHR 0x0A)"
  by code_simp+

lemma split_bounds: "CHR ''-'' \<notin> set s \<Longrightarrow> CHR ''-'' \<notin> set t \<Longrightarrow>
    py_split (CHR ''-'') (length (s @ ''-'' @ t)) (s @ ''-'' @ t) = [s, t]"
  by (simp add: py_split_at py_split_none del: py_split.simps)

text \<open>C27: the parser reads back every line the kernel prints: start, end, permissions, offset and the
  name, which may contain spaces; the size is the difference of the bounds, and a mapping without a
  name is named after its start.\<close>

theorem parse_maps_line:
  assumes "CHR '' '' \<notin> set perms" and "CHR '' '' \<notin> set dev" and "CHR '' '' \<notin> set inode" and "named_or_anon pad name"
  shows "MemoryMap_parse (maps_line a b perms off dev inode pad name) =
    Inr \<lparr>mm_start = int (snd a), mm_end = int (snd b), mm_permissions = perms, mm_size = int (snd b) - int (snd a),
         mm_offset = int (snd off), mm_backing_file = (if name = [] then ''anon_'' @ fmt_x (int (snd a)) else name)\<rparr>"
proof -
  let ?adr = "hex_word (fst a) (snd a) @ ''-'' @ hex_word (fst b) (snd b)"
  let ?tail = "replicate pad (CHR '' '') @ name @ [CHR 0x0A]"
  have six: "(6 :: nat) = Suc (Suc (Suc (Suc (Suc 1))))" by simp
  have sp: "CHR '' '' \<notin> set (hex_word i n)" and dash: "CHR ''-'' \<notin> set (hex_word i n)" for i n
    using hex_word_plain by blast+
  have adr: "CHR '' '' \<notin> set (hex_word (fst a) (snd a) @ CHR ''-'' # hex_word (fst b) (snd b))" using sp by simp
  have parts: "py_split (CHR '' '') 6 (maps_line a b perms off dev inode pad name) =
      ?adr # perms # hex_word (fst off) (snd off) # dev # inode # py_split (CHR '' '') 1 ?tail"
    unfolding maps_line_def six append_Cons append_Nil
    by (simp only: py_split_at [OF adr] py_split_at [OF sp] py_split_at [OF assms(1)] py_split_at [OF assms(2)] py_split_at [OF assms(3)])
  have tail: "py_split (CHR '' '') 1 ?tail \<noteq> [] \<and> py_strip (last (py_split (CHR '' '') 1 ?tail)) = name"
  proof (cases pad)
    case 0
    then show ?thesis using assms(4) strip_blank [of "[CHR 0x0A]"] space_chars
      by (simp add: py_split_none named_or_anon_def del: py_split.simps)
  next
    case (Suc k)
    have "py_split (CHR '' '') 1 ?tail = [[], replicate k (CHR '' '') @ name @ [CHR 0x0A]]"
      using py_split_at [of "CHR '' ''" "[]" 0] by (simp add: Suc)
    moreover have "py_strip (replicate k (CHR '' '') @ name @ [CHR 0x0A]) = name"
      using assms(4) Suc by (intro strip_pad) (auto simp: space_chars named_or_anon_def list_all_iff)
    ultimately show ?thesis by simp
  qed
  have bounds: "py_split (CHR ''-'') (length ?adr) ?adr = [hex_word (fst a) (snd a), hex_word (fst b) (snd b)]"
    by (rule split_bounds) (rule dash)+
  show ?thesis
    unfolding MemoryMap_parse_def parts Let_def nth_Cons_0 bounds using tail
    by (simp add: int16_hex_word del: py_split.simps)
qed

theorem parse_maps_line_witness:
  "MemoryMap_parse (maps_line (0, 0x55d0) (0, 0x66d0) ''r-xp'' (4, 0x1000) ''08:01'' ''77'' 3 ''/tmp/a b'') =
    Inr \<lparr>mm_start = 0x55d0, mm_end = 0x66d0, mm_permissions = ''r-xp'', mm_size = 0x1100,
         mm_offset = 0x1000, mm_backing_file = ''/tmp/a b''\<rparr>"
proof -
  have "named_or_anon 3 ''/tmp/a b''" by code_simp
  from parse_maps_line [OF _ _ _ this, of "''r-xp''" "''08:01''" "''77''" "(0, 0x55d0)" "(0, 0x66d0)" "(4, 0x1000)"]
  show ?thesis by simp
qed

lemma filter_maps_Inr: "filter_maps f maps = Inr ms \<Longrightarrow> set ms \<subseteq> set maps \<and> ms \<noteq> []"
  by (auto simp: filter_maps_def Let_def split: if_splits)

lemma normalize_Inr:
  assumes "normalize_and_validate_address a ms = Inr r"
  shows "\<exists>vmap \<in> set ms. vmap_contains r vmap" and "r = a \<or> (a < mm_start (hd ms) \<and> r = a + mm_start (hd ms))"
  using assms by (auto simp: normalize_and_validate_address_def Let_def list_ex_iff split: list.splits if_splits)

lemma bind_InrE: "bind m f s = (Inr r, t) \<Longrightarrow> (\<And>x u. m s = (Inr x, u) \<Longrightarrow> f x u = (Inr r, t) \<Longrightarrow> Q) \<Longrightarrow> Q"
  by (auto simp: bind_def split: prod.splits sum.splits)

text \<open>C28: an address the resolver returns lies inside one of the process's maps, and it is the address
  given or that address relative to the start of a map above it. An address that lies in a map is
  returned as it is in the hybrid mode. The one exception is a caller that asks for an absolute
  address to be taken unchecked.\<close>

theorem resolve_address_sound:
  assumes "pi_maps P s = (Inr maps, u)" and "resolve_address P a f skip s = (Inr r, t)"
    and "\<not> (skip \<and> f = ''absolute'')"
  shows "(\<exists>vmap \<in> set maps. vmap_contains r vmap) \<and>
    (r = a \<or> (\<exists>m \<in> set maps. a < mm_start m \<and> r = a + mm_start m)) \<and>
    (f = ''hybrid'' \<longrightarrow> check_absolute_address a maps \<longrightarrow> r = a)"
proof -
  let ?goal = "(\<exists>vmap \<in> set maps. vmap_contains r vmap) \<and> (r = a \<or> (\<exists>m \<in> set maps. a < mm_start m \<and> r = a + mm_start m))"
  have norm: ?goal if "lift (rbind (filter_maps g maps) (normalize_and_validate_address a)) v = (Inr r, t)" for g v
  proof -
    from that obtain ms where ms: "filter_maps g maps = Inr ms" "normalize_and_validate_address a ms = Inr r"
      by (auto simp: lift_def rbind_Inr)
    have "hd ms \<in> set maps" using filter_maps_Inr [OF ms(1)] by (meson hd_in_set subsetD)
    then show ?thesis using normalize_Inr [OF ms(2)] filter_maps_Inr [OF ms(1)] by blast
  qed
  show ?thesis
  proof (cases "(f = ''hybrid'' \<or> f = ''absolute'') \<and> check_absolute_address a maps")
    case True
    then have "r = a" using assms by (auto simp: resolve_address_def bind_def ret_def)
    with True show ?thesis by (auto simp: check_absolute_address_def list_ex_iff)
  next
    case False
    then have ?goal
      using assms by (auto simp: resolve_address_def bind_def raise_def split: if_splits prod.splits sum.splits dest: norm)
    with False show ?thesis by blast
  qed
qed

definition sample_maps :: "memory_map list" where
  "sample_maps = [\<lparr>mm_start = 0x1000, mm_end = 0x2000, mm_permissions = ''r-xp'', mm_size = 0x1000, mm_offset = 0,
     mm_backing_file = ''/bin/prog''\<rparr>]"

definition sample_proc :: "unit proc_info" where
  "sample_proc = \<lparr>pi_maps = ret sample_maps, pi_full_path = ret ''/bin/prog'', pi_name = ret ''prog''\<rparr>"

theorem resolve_address_sound_witness:
  "resolve_address sample_proc 0x10 ''binary'' False () = (Inr 0x1010, ()) \<and>
   (\<exists>vmap \<in> set sample_maps. vmap_contains 0x1010 vmap)"
proof -
  have r: "resolve_address sample_proc 0x10 ''binary'' False () = (Inr 0x1010, ())" by code_simp
  have "pi_maps sample_proc () = (Inr sample_maps, ())" by code_simp
  from resolve_address_sound [OF this r] r show ?thesis by simp
qed

lemma wf_symbol_dict: "wf_dict (symbol_dict l)"
proof -
  have "wf_dict d \<Longrightarrow> wf_dict (fold (\<lambda>(n, lo, hi). dict_set n (lo, hi)) l d)" for d :: symbols
    by (induction l arbitrary: d) auto
  then show ?thesis by (simp add: symbol_dict_def)
qed

lemma symbol_dict_names: "(n, v) \<in> set (symbol_dict l) \<Longrightarrow> \<exists>w. (n, w) \<in> set l"
proof -
  have *: "fst ` set (fold (\<lambda>(n, lo, hi). dict_set n (lo, hi)) l d) \<subseteq> fst ` set d \<union> fst ` set l" for d :: symbols
  proof (induction l arbitrary: d)
    case (Cons x l)
    obtain n lo hi where x: "x = (n, lo, hi)" by (cases x)
    have "fst ` set (dict_set n (lo, hi) d) = insert n (fst ` set d)" by (simp add: dom_update)
    with Cons [of "dict_set n (lo, hi) d"] show ?case by (auto simp: x)
  qed simp
  assume "(n, v) \<in> set (symbol_dict l)"
  then have "n \<in> fst ` set (symbol_dict l)" by (rule rev_image_eqI) simp
  then have "n \<in> fst ` set l" using * [of "[]"] unfolding symbol_dict_def by auto
  then show ?thesis by force
qed

lemma mapped_start_one:
  assumes "is_file_name f" and "\<forall>m \<in> set maps. mm_backing_file m = f" and "maps \<noteq> []"
  shows "mapped_files_start maps = [(f, mm_start (hd maps))]"
proof -
  have *: "fold start_step l [(f, x)] = [(f, x)]" if "\<forall>m \<in> set l. mm_backing_file m = f" for l x
    using that by (induction l) (auto simp: in_dict_def start_step_def)
  obtain m l where maps: "maps = m # l" using assms(3) by (cases maps) auto
  have "start_step m [] = [(f, mm_start m)]" using assms(1,2) by (simp add: start_step_def in_dict_def maps)
  then show ?thesis using * [of l] assms(2) by (simp add: mapped_files_start_def maps)
qed

lemma mapped_range_one:
  assumes "is_file_name f" and "\<forall>m \<in> set maps. mm_backing_file m = f" and "maps \<noteq> []"
  shows "mapped_files_range maps = [(f, mm_start (hd maps), mm_end (last maps))]"
proof -
  have *: "fold range_step l [(f, x, y)] = [(f, x, if l = [] then y else mm_end (last l))]"
    if "\<forall>m \<in> set l. mm_backing_file m = f" for l x y
    using that assms(1) by (induction l arbitrary: y) (auto simp: range_step_def)
  obtain m l where maps: "maps = m # l" using assms(3) by (cases maps) auto
  have "range_step m [] = [(f, mm_start m, mm_end m)]" using assms(1,2) by (simp add: range_step_def maps)
  then show ?thesis using * [of l] assms(2) by (simp add: mapped_files_range_def maps)
qed


definition sample_elf :: elf_env where
  "sample_elf = \<lparr>ee_sym_lvl = 2, ee_read_elf_info = (\<lambda>p l. [(''start'', 0x10, 0x20), (''main'', 0x40, 0x80)]),
     ee_build_id = (\<lambda>p. None), ee_debug_file = (\<lambda>p. None), ee_external = (\<lambda>p l. []),
     ee_local_debug_path = (\<lambda>f p. p), ee_debuginfod = (\<lambda>b. None), ee_header = (\<lambda>p. Inr \<lparr>e_type = ''ET_DYN'', e_entry = 0x1100\<rparr>)\<rparr>"


text \<open>The cache around \<open>resolve_address\<close> does not know the symbol level: an address looked up while symbol
  resolution is disabled keeps its bare number as its name after the level is raised.\<close>

theorem symbol_cache_stale:
  "fst (cached (\<lambda>(p, a). elf_resolve_address (E\<lparr>ee_sym_lvl := l\<rparr>) p a) (path, a)
     (snd (cached (\<lambda>(p, a). elf_resolve_address (E\<lparr>ee_sym_lvl := 0\<rparr>) p a) (path, a) []))) = Inr (py_hex a)"
  by (simp add: cached_def elf_resolve_address_def)

end
