(* ===== verification/Ptrace_C.thy ===== *)
theory Ptrace_C
  imports Tracee_Access Amd64_Registers
begin

text \<open>
  The C half of the backend, \<open>libdebug/cffi/ptrace_cffi_source.c\<close>: the tracer's linked lists of
  threads and of software breakpoints, and the functions that drive \<open>ptrace\<close> over them.

  A \<open>struct thread\<close> is a cell of the heap \<open>gs_nodes\<close>, because Python keeps a pointer to the register
  file inside it; the two thread lists are lists of pointers. No pointer to a breakpoint leaves the
  C code, so that list is a list of records. A loop whose length the tracee decides runs on fuel.
\<close>

section \<open>The requests\<close>

text \<open>
  The rest of the kernel's interface. A call the code does not check returns only the next state;
  \<open>sys_getregs\<close> returns None and \<open>sys_setregs\<close> False when the request fails; \<open>sys_waitpid\<close> returns
  the thread and the status, the thread -1 on failure and 0 when nothing is ready (WNOHANG);
  \<open>sys_tasks\<close> lists \<open>/proc/pid/task\<close>, or is None when there is no such directory.
\<close>

record 'k os = "'k kernel" +
  sys_getregs :: "int \<Rightarrow> 'k \<Rightarrow> regfile option \<times> 'k"
  sys_setregs :: "int \<Rightarrow> regfile \<Rightarrow> 'k \<Rightarrow> bool \<times> 'k"
  sys_singlestep :: "int \<Rightarrow> int \<Rightarrow> 'k \<Rightarrow> (int \<times> int) \<times> 'k"
  sys_cont :: "bool \<Rightarrow> int \<Rightarrow> int \<Rightarrow> 'k \<Rightarrow> 'k"
  sys_waitpid :: "int \<Rightarrow> bool \<Rightarrow> 'k \<Rightarrow> (int \<times> int) \<times> 'k"
  sys_getpgid :: "int \<Rightarrow> 'k \<Rightarrow> int"
  sys_tgkill :: "int \<Rightarrow> int \<Rightarrow> int \<Rightarrow> 'k \<Rightarrow> 'k"
  sys_kill :: "int \<Rightarrow> int \<Rightarrow> 'k \<Rightarrow> (int \<times> int) \<times> 'k"
  sys_attach :: "int \<Rightarrow> 'k \<Rightarrow> (int \<times> int) \<times> 'k"
  sys_detach :: "int \<Rightarrow> 'k \<Rightarrow> 'k"
  sys_setoptions :: "int \<Rightarrow> 'k \<Rightarrow> 'k"
  sys_geteventmsg :: "int \<Rightarrow> 'k \<Rightarrow> int \<times> 'k"
  sys_tasks :: "int \<Rightarrow> 'k \<Rightarrow> int list option"

section \<open>The lists\<close>

record c_thread =
  ct_tid :: int
  ct_regs :: regfile
  ct_signal_to_forward :: int

record software_breakpoint =
  sb_addr :: int
  sb_instruction :: int
  sb_patched_instruction :: int
  sb_enabled :: bool

record global_state =
  gs_nodes :: "nat \<Rightarrow> c_thread"
  gs_next :: nat
  gs_t_HEAD :: "nat list"
  gs_dead_t_HEAD :: "nat list"
  gs_b_HEAD :: "software_breakpoint list"
  gs_handle_syscall_enabled :: bool

type_synonym 'k c_state = "global_state \<times> 'k"

definition sys :: "('k \<Rightarrow> 'a \<times> 'k) \<Rightarrow> ('k c_state, 'a) pm" where
  "sys f = (\<lambda>(g, k). case f k of (x, k') \<Rightarrow> (Inr x, (g, k')))"

definition sys_do :: "('k \<Rightarrow> 'k) \<Rightarrow> ('k c_state, unit) pm" where
  "sys_do f = upd (\<lambda>(g, k). (g, f k))"

definition gs_get :: "(global_state \<Rightarrow> 'a) \<Rightarrow> ('k c_state, 'a) pm" where
  "gs_get f = gets (f \<circ> fst)"

definition gs_upd :: "(global_state \<Rightarrow> global_state) \<Rightarrow> ('k c_state, unit) pm" where
  "gs_upd f = upd (\<lambda>(g, k). (f g, k))"

definition set_node :: "nat \<Rightarrow> c_thread \<Rightarrow> global_state \<Rightarrow> global_state" where
  "set_node p t g = g\<lparr>gs_nodes := (gs_nodes g)(p := t)\<rparr>"

definition node_regs :: "nat \<Rightarrow> regfile \<Rightarrow> global_state \<Rightarrow> global_state" where
  "node_regs p rf g = set_node p ((gs_nodes g p)\<lparr>ct_regs := rf\<rparr>) g"

definition node_signal :: "nat \<Rightarrow> int \<Rightarrow> global_state \<Rightarrow> global_state" where
  "node_signal p s g = set_node p ((gs_nodes g p)\<lparr>ct_signal_to_forward := s\<rparr>) g"

text \<open>\<open>t->tid\<close> and the search of the live list for a thread\<close>

definition node_tid :: "global_state \<Rightarrow> nat \<Rightarrow> int" where
  "node_tid g p = ct_tid (gs_nodes g p)"

definition find_thread :: "int \<Rightarrow> global_state \<Rightarrow> nat option" where
  "find_thread tid g = List.find (\<lambda>p. node_tid g p = tid) (gs_t_HEAD g)"

text \<open>\<open>ptrace(PTRACE_GETREGS, t->tid, NULL, &t->regs)\<close>: True when it failed.\<close>

definition getregs :: "'k os \<Rightarrow> nat \<Rightarrow> ('k c_state, bool) pm" where
  "getregs OS p =
     bind (gs_get (\<lambda>g. node_tid g p)) (\<lambda>tid.
     bind (sys (sys_getregs OS tid)) (\<lambda>r. case r of
         None \<Rightarrow> ret True
       | Some rf \<Rightarrow> bind (gs_upd (node_regs p rf)) (\<lambda>_. ret False)))"

definition setregs :: "'k os \<Rightarrow> nat \<Rightarrow> ('k c_state, bool) pm" where
  "setregs OS p =
     bind (gs_get (\<lambda>g. gs_nodes g p)) (\<lambda>t.
     bind (sys (sys_setregs OS (ct_tid t) (ct_regs t))) (\<lambda>ok. ret (\<not> ok)))"

definition instruction_pointer :: "regfile \<Rightarrow> int" where
  "instruction_pointer rf = rf ''rip''"

section \<open>Threads\<close>

text \<open>The memory \<open>malloc\<close> returns is uninitialised: \<open>garbage\<close> is what the registers hold if GETREGS fails.\<close>

definition register_thread :: "'k os \<Rightarrow> regfile \<Rightarrow> int \<Rightarrow> ('k c_state, nat) pm" where
  "register_thread OS garbage tid =
     bind (gs_get (find_thread tid)) (\<lambda>found. case found of
         Some p \<Rightarrow> ret p
       | None \<Rightarrow>
         bind (gs_get gs_next) (\<lambda>p.
         bind (gs_upd (\<lambda>g. set_node p \<lparr>ct_tid = tid, ct_regs = garbage, ct_signal_to_forward = 0\<rparr> (g\<lparr>gs_next := p + 1\<rparr>))) (\<lambda>_.
         bind (getregs OS p) (\<lambda>_.
         bind (gs_upd (\<lambda>g. g\<lparr>gs_t_HEAD := p # gs_t_HEAD g\<rparr>)) (\<lambda>_. ret p)))))"

definition unregister_thread_c :: "int \<Rightarrow> global_state \<Rightarrow> global_state" where
  "unregister_thread_c tid g = (case find_thread tid g of
       None \<Rightarrow> g
     | Some p \<Rightarrow> g\<lparr>gs_t_HEAD := remove1 p (gs_t_HEAD g), gs_dead_t_HEAD := p # gs_dead_t_HEAD g\<rparr>)"

definition free_thread_list :: "global_state \<Rightarrow> global_state" where
  "free_thread_list g = g\<lparr>gs_t_HEAD := [], gs_dead_t_HEAD := []\<rparr>"

section \<open>Software breakpoints\<close>

definition INSTALL_BREAKPOINT :: "int \<Rightarrow> int" where
  "INSTALL_BREAKPOINT instruction = (instruction AND 0xFFFFFFFFFFFFFF00) OR 0xCC"

definition poke_insn :: "'k os \<Rightarrow> int \<Rightarrow> int \<Rightarrow> int \<Rightarrow> ('k c_state, unit) pm" where
  "poke_insn OS pid a x = bind (sys (sys_pokedata OS pid a x)) (\<lambda>_. ret ())"

text \<open>The insertion: before the first breakpoint with a higher address, but never before the head's equal.\<close>

fun insert_after :: "software_breakpoint \<Rightarrow> software_breakpoint list \<Rightarrow> software_breakpoint list" where
  "insert_after b [] = [b]"
| "insert_after b (c # cs) = (if sb_addr c < sb_addr b then c # insert_after b cs else b # c # cs)"

definition insert_breakpoint :: "software_breakpoint \<Rightarrow> software_breakpoint list \<Rightarrow> software_breakpoint list" where
  "insert_breakpoint b bs = (case bs of [] \<Rightarrow> [b]
     | h # t \<Rightarrow> if sb_addr b < sb_addr h then b # bs else h # insert_after b t)"

text \<open>The first breakpoint with this address, rewritten; and whether there is one.\<close>

fun on_breakpoint :: "int \<Rightarrow> (software_breakpoint \<Rightarrow> software_breakpoint) \<Rightarrow> software_breakpoint list \<Rightarrow> software_breakpoint list" where
  "on_breakpoint a f [] = []"
| "on_breakpoint a f (b # bs) = (if sb_addr b = a then f b # bs else b # on_breakpoint a f bs)"

definition find_breakpoint :: "int \<Rightarrow> global_state \<Rightarrow> software_breakpoint option" where
  "find_breakpoint a g = List.find (\<lambda>b. sb_addr b = a) (gs_b_HEAD g)"

definition register_breakpoint :: "'k os \<Rightarrow> int \<Rightarrow> int \<Rightarrow> ('k c_state, unit) pm" where
  "register_breakpoint OS pid address =
     bind (sys (sys_peekdata OS pid address)) (\<lambda>(res, err).
     let instruction = to_u64 res; patched_instruction = INSTALL_BREAKPOINT instruction in
     bind (poke_insn OS pid address patched_instruction) (\<lambda>_.
     gs_upd (\<lambda>g. g\<lparr>gs_b_HEAD :=
       (if find_breakpoint address g \<noteq> None then on_breakpoint address (\<lambda>b. b\<lparr>sb_enabled := True\<rparr>) (gs_b_HEAD g)
        else insert_breakpoint \<lparr>sb_addr = address, sb_instruction = instruction,
               sb_patched_instruction = patched_instruction, sb_enabled = True\<rparr> (gs_b_HEAD g))\<rparr>)))"

fun remove_address :: "int \<Rightarrow> software_breakpoint list \<Rightarrow> software_breakpoint list" where
  "remove_address a [] = []"
| "remove_address a (b # bs) = (if sb_addr b = a then bs else b # remove_address a bs)"

definition unregister_breakpoint :: "int \<Rightarrow> global_state \<Rightarrow> global_state" where
  "unregister_breakpoint address g = g\<lparr>gs_b_HEAD := remove_address address (gs_b_HEAD g)\<rparr>"

text \<open>The poke goes through the first live thread; with none the C code dereferences NULL, a crash.\<close>

definition enable_breakpoint :: "'k os \<Rightarrow> int \<Rightarrow> ('k c_state, unit) pm" where
  "enable_breakpoint OS address =
     bind (gs_upd (\<lambda>g. g\<lparr>gs_b_HEAD := on_breakpoint address (\<lambda>b. b\<lparr>sb_enabled := True\<rparr>) (gs_b_HEAD g)\<rparr>)) (\<lambda>_.
     bind (gs_get id) (\<lambda>g. case find_breakpoint address g of
         None \<Rightarrow> ret ()
       | Some b \<Rightarrow> (case gs_t_HEAD g of [] \<Rightarrow> raise Diverges
           | p # _ \<Rightarrow> poke_insn OS (node_tid g p) address (sb_patched_instruction b))))"

definition disable_breakpoint :: "'k os \<Rightarrow> int \<Rightarrow> ('k c_state, unit) pm" where
  "disable_breakpoint OS address =
     bind (gs_upd (\<lambda>g. g\<lparr>gs_b_HEAD := on_breakpoint address (\<lambda>b. b\<lparr>sb_enabled := False\<rparr>) (gs_b_HEAD g)\<rparr>)) (\<lambda>_.
     bind (gs_get id) (\<lambda>g. case find_breakpoint address g of
         None \<Rightarrow> ret ()
       | Some b \<Rightarrow> (case gs_t_HEAD g of [] \<Rightarrow> raise Diverges
           | p # _ \<Rightarrow> poke_insn OS (node_tid g p) address (sb_instruction b))))"

definition free_breakpoints :: "global_state \<Rightarrow> global_state" where
  "free_breakpoints g = g\<lparr>gs_b_HEAD := []\<rparr>"

text \<open>The two loops over the enabled breakpoints: patch before running, restore after a stop.\<close>

definition patch_all :: "'k os \<Rightarrow> int \<Rightarrow> ('k c_state, unit) pm" where
  "patch_all OS pid = bind (gs_get gs_b_HEAD)
     (for_each (\<lambda>b. py_when (sb_enabled b) (poke_insn OS pid (sb_addr b) (sb_patched_instruction b))))"

definition restore_all :: "'k os \<Rightarrow> int \<Rightarrow> ('k c_state, unit) pm" where
  "restore_all OS pid = bind (gs_get gs_b_HEAD)
     (for_each (\<lambda>b. py_when (sb_enabled b) (poke_insn OS pid (sb_addr b) (sb_instruction b))))"

section \<open>Running\<close>

definition flush_regs :: "'k os \<Rightarrow> ('k c_state, unit) pm" where
  "flush_regs OS = bind (gs_get gs_t_HEAD) (for_each (\<lambda>p. bind (setregs OS p) (\<lambda>_. ret ())))"

definition singlestep :: "'k os \<Rightarrow> int \<Rightarrow> ('k c_state, int) pm" where
  "singlestep OS tid =
     bind (flush_regs OS) (\<lambda>_.
     bind (gs_get (\<lambda>g. filter (\<lambda>p. node_tid g p = tid) (gs_t_HEAD g))) (\<lambda>ps.
     bind (gs_get (\<lambda>g. if ps = [] then 0 else ct_signal_to_forward (gs_nodes g (last ps)))) (\<lambda>signal_to_forward.
     bind (for_each (\<lambda>p. gs_upd (node_signal p 0)) ps) (\<lambda>_.
     bind (sys (sys_singlestep OS tid signal_to_forward)) (\<lambda>(res, err). ret res)))))"

fun step_loop :: "nat \<Rightarrow> 'k os \<Rightarrow> int \<Rightarrow> nat \<Rightarrow> int \<Rightarrow> int \<Rightarrow> int \<Rightarrow> ('k c_state, int) pm" where
  "step_loop 0 OS tid p addr max_steps count = raise Diverges"
| "step_loop (Suc fuel) OS tid p addr max_steps count =
     (if max_steps = - 1 \<or> count < max_steps then
        bind (sys (sys_singlestep OS tid 0)) (\<lambda>(res, err).
        if res \<noteq> 0 then ret (- 1)
        else
        bind (sys (sys_waitpid OS tid False)) (\<lambda>_.
        bind (gs_get (\<lambda>g. instruction_pointer (ct_regs (gs_nodes g p)))) (\<lambda>previous_ip.
        bind (getregs OS p) (\<lambda>_.
        bind (gs_get (\<lambda>g. instruction_pointer (ct_regs (gs_nodes g p)))) (\<lambda>ip.
        if ip = addr then ret 0
        else if ip = previous_ip then step_loop fuel OS tid p addr max_steps count
        else step_loop fuel OS tid p addr max_steps (count + 1))))))
      else ret 0)"

definition step_until_c :: "nat \<Rightarrow> 'k os \<Rightarrow> int \<Rightarrow> int \<Rightarrow> int \<Rightarrow> ('k c_state, int) pm" where
  "step_until_c fuel OS tid addr max_steps =
     bind (flush_regs OS) (\<lambda>_.
     bind (gs_get (\<lambda>g. filter (\<lambda>p. node_tid g p = tid) (gs_t_HEAD g))) (\<lambda>ps.
     if ps = [] then ret (- 1) else step_loop fuel OS tid (last ps) addr max_steps 0))"

text \<open>The loop that steps over the breakpoints threads stand on; None: a step failed, return -1.\<close>

fun step_over :: "'k os \<Rightarrow> nat list \<Rightarrow> int \<Rightarrow> ('k c_state, int option) pm" where
  "step_over OS [] status = ret (Some status)"
| "step_over OS (p # ps) status =
     bind (gs_get id) (\<lambda>g.
     let tid = node_tid g p; ip = instruction_pointer (ct_regs (gs_nodes g p)) in
     if \<not> list_ex (\<lambda>b. sb_addr b = ip) (gs_b_HEAD g) then step_over OS ps status
     else
       bind (sys (sys_singlestep OS tid 0)) (\<lambda>(res, err).
       if res \<noteq> 0 then ret None
       else
       bind (sys (sys_waitpid OS tid False)) (\<lambda>(w, st).
       if st = 4991 then
         bind (sys (sys_singlestep OS tid 0)) (\<lambda>_.
         bind (sys (sys_waitpid OS tid False)) (\<lambda>(w2, st2). step_over OS ps st2))
       else step_over OS ps st)))"

definition prepare_for_run :: "'k os \<Rightarrow> int \<Rightarrow> ('k c_state, int) pm" where
  "prepare_for_run OS pid =
     bind (flush_regs OS) (\<lambda>_.
     bind (gs_get gs_t_HEAD) (\<lambda>ts.
     bind (step_over OS ts 0) (\<lambda>r. case r of
         None \<Rightarrow> ret (- 1)
       | Some status \<Rightarrow> bind (patch_all OS pid) (\<lambda>_. ret status))))"

definition cont_thread :: "'k os \<Rightarrow> nat \<Rightarrow> ('k c_state, unit) pm" where
  "cont_thread OS p =
     bind (gs_get id) (\<lambda>g.
     bind (sys_do (sys_cont OS (gs_handle_syscall_enabled g) (node_tid g p) (ct_signal_to_forward (gs_nodes g p)))) (\<lambda>_.
     gs_upd (node_signal p 0)))"

definition cont_all_and_set_bps :: "'k os \<Rightarrow> int \<Rightarrow> ('k c_state, int) pm" where
  "cont_all_and_set_bps OS pid =
     bind (prepare_for_run OS pid) (\<lambda>status.
     bind (gs_get gs_t_HEAD) (\<lambda>ts.
     bind (for_each (cont_thread OS) ts) (\<lambda>_. ret status)))"

text \<open>Statuses are pushed at the head: the list is newest first, and \<open>head->tid\<close> is its first entry's.\<close>

fun stop_others :: "'k os \<Rightarrow> int \<Rightarrow> nat list \<Rightarrow> (int \<times> int) list \<Rightarrow> ('k c_state, (int \<times> int) list) pm" where
  "stop_others OS pid [] acc = ret acc"
| "stop_others OS pid (p # ps) acc =
     bind (gs_get (\<lambda>g. node_tid g p)) (\<lambda>tid.
     if tid = fst (hd acc) then stop_others OS pid ps acc
     else
       bind (getregs OS p) (\<lambda>failed.
       if failed then
         bind (sys_do (sys_tgkill OS pid tid 19)) (\<lambda>_.
         bind (sys (sys_waitpid OS tid False)) (\<lambda>ts. stop_others OS pid ps (ts # acc)))
       else stop_others OS pid ps acc))"

fun poll_statuses :: "nat \<Rightarrow> 'k os \<Rightarrow> int \<Rightarrow> (int \<times> int) list \<Rightarrow> ('k c_state, (int \<times> int) list) pm" where
  "poll_statuses 0 OS pid acc = raise Diverges"
| "poll_statuses (Suc fuel) OS pid acc =
     bind (sys (\<lambda>k. sys_waitpid OS (- sys_getpgid OS pid k) True k)) (\<lambda>(tid, status).
     if 0 < tid then poll_statuses fuel OS pid ((tid, status) # acc) else ret acc)"

text \<open>The C function returns NULL, an empty list for the caller, when the first \<open>waitpid\<close> fails.\<close>

definition wait_all_and_update_regs :: "nat \<Rightarrow> 'k os \<Rightarrow> int \<Rightarrow> ('k c_state, (int \<times> int) list) pm" where
  "wait_all_and_update_regs fuel OS pid =
     bind (sys (\<lambda>k. sys_waitpid OS (- sys_getpgid OS pid k) False k)) (\<lambda>(tid, status).
     if tid = - 1 then ret []
     else
     bind (gs_get gs_t_HEAD) (\<lambda>ts.
     bind (stop_others OS pid ts [(tid, status)]) (\<lambda>acc.
     bind (poll_statuses fuel OS pid acc) (\<lambda>results.
     bind (for_each (\<lambda>p. bind (getregs OS p) (\<lambda>_. ret ())) ts) (\<lambda>_.
     bind (restore_all OS pid) (\<lambda>_. ret results))))))"

section \<open>Detaching\<close>

definition ensure_stopped :: "'k os \<Rightarrow> int \<Rightarrow> int \<Rightarrow> ('k c_state, unit) pm" where
  "ensure_stopped OS pid tid =
     bind (sys_do (sys_tgkill OS pid tid 19)) (\<lambda>_.
     bind (sys (sys_waitpid OS tid False)) (\<lambda>_. ret ()))"

definition detach_and_kill :: "'k os \<Rightarrow> int \<Rightarrow> nat \<Rightarrow> ('k c_state, unit) pm" where
  "detach_and_kill OS pid p =
     bind (gs_get (\<lambda>g. node_tid g p)) (\<lambda>tid.
     bind (getregs OS p) (\<lambda>failed.
     bind (py_when failed (ensure_stopped OS pid tid)) (\<lambda>_.
     bind (sys_do (sys_detach OS tid)) (\<lambda>_.
     sys_do (sys_tgkill OS pid tid 9)))))"

definition ptrace_detach_for_kill :: "'k os \<Rightarrow> int \<Rightarrow> ('k c_state, unit) pm" where
  "ptrace_detach_for_kill OS pid =
     bind (gs_get gs_t_HEAD) (\<lambda>ts.
     bind (for_each (detach_and_kill OS pid) ts) (\<lambda>_.
     bind (sys (sys_waitpid OS pid False)) (\<lambda>_. ret ())))"

definition detach_stopped :: "'k os \<Rightarrow> int \<Rightarrow> nat \<Rightarrow> ('k c_state, unit) pm" where
  "detach_stopped OS pid p =
     bind (gs_get (\<lambda>g. node_tid g p)) (\<lambda>tid.
     bind (setregs OS p) (\<lambda>failed.
     bind (py_when failed (bind (ensure_stopped OS pid tid) (\<lambda>_. bind (setregs OS p) (\<lambda>_. ret ())))) (\<lambda>_.
     bind (sys_do (sys_tgkill OS pid tid 19)) (\<lambda>_.
     sys_do (sys_detach OS tid)))))"

definition ptrace_detach_for_migration :: "'k os \<Rightarrow> int \<Rightarrow> ('k c_state, unit) pm" where
  "ptrace_detach_for_migration OS pid = bind (gs_get gs_t_HEAD) (for_each (detach_stopped OS pid))"

definition ptrace_reattach_from_gdb :: "'k os \<Rightarrow> int \<Rightarrow> ('k c_state, unit) pm" where
  "ptrace_reattach_from_gdb OS pid = bind (gs_get gs_t_HEAD) (for_each (\<lambda>p.
     bind (gs_get (\<lambda>g. node_tid g p)) (\<lambda>tid.
     bind (sys (sys_attach OS tid)) (\<lambda>_.
     bind (getregs OS p) (\<lambda>_. ret ())))))"

definition ptrace_detach_and_cont :: "'k os \<Rightarrow> int \<Rightarrow> ('k c_state, unit) pm" where
  "ptrace_detach_and_cont OS pid =
     bind (ptrace_detach_for_migration OS pid) (\<lambda>_.
     bind (sys (sys_kill OS pid 18)) (\<lambda>_. ret ()))"

section \<open>Stepping to the end of a function\<close>

text \<open>The opcode tests look at the bytes of the word read at the instruction pointer.\<close>

definition opcode_byte :: "int \<Rightarrow> nat \<Rightarrow> int" where
  "opcode_byte w i = drop_bit (8 * i) w AND 0xFF"

definition IS_SW_BREAKPOINT :: "int \<Rightarrow> bool" where
  "IS_SW_BREAKPOINT i \<longleftrightarrow> i = 0xCC"

definition IS_RET_INSTRUCTION :: "int \<Rightarrow> bool" where
  "IS_RET_INSTRUCTION i \<longleftrightarrow> i = 0xC3 \<or> i = 0xCB \<or> i = 0xC2 \<or> i = 0xCA"

definition IS_CALL_INSTRUCTION :: "int \<Rightarrow> bool" where
  "IS_CALL_INSTRUCTION w \<longleftrightarrow> opcode_byte w 0 = 0xE8 \<or>
     (opcode_byte w 0 = 0xFF \<and> drop_bit 3 (opcode_byte w 1) AND 7 = 2)"

text \<open>What a round of the loop decides: go on with a call depth, take the last step, or clean up.\<close>

datatype finish_round = FR_step_failed | FR_cleanup | FR_last_step

fun finish_loop :: "nat \<Rightarrow> 'k os \<Rightarrow> int \<Rightarrow> nat \<Rightarrow> int \<Rightarrow> ('k c_state, finish_round) pm" where
  "finish_loop 0 OS tid p nested = raise Diverges"
| "finish_loop (Suc fuel) OS tid p nested =
     bind (sys (sys_singlestep OS tid 0)) (\<lambda>(res, err).
     if res \<noteq> 0 then ret FR_step_failed
     else
     bind (sys (sys_waitpid OS tid False)) (\<lambda>_.
     bind (gs_get (\<lambda>g. instruction_pointer (ct_regs (gs_nodes g p)))) (\<lambda>previous_ip.
     bind (getregs OS p) (\<lambda>_.
     bind (gs_get (\<lambda>g. instruction_pointer (ct_regs (gs_nodes g p)))) (\<lambda>current_ip.
     bind (sys (sys_peekdata OS tid current_ip)) (\<lambda>(w, err).
     let opcode_window = to_u64 w; first = opcode_byte opcode_window 0 in
     if current_ip = previous_ip \<or> IS_SW_BREAKPOINT first then ret FR_cleanup
     else
       let n = (if IS_CALL_INSTRUCTION opcode_window then nested + 1
                else if IS_RET_INSTRUCTION first then nested - 1 else nested) in
       if 0 < n then finish_loop fuel OS tid p n else ret FR_last_step))))))"

definition stepping_finish :: "nat \<Rightarrow> 'k os \<Rightarrow> int \<Rightarrow> ('k c_state, int) pm" where
  "stepping_finish fuel OS tid =
     bind (prepare_for_run OS tid) (\<lambda>_.
     bind (gs_get (find_thread tid)) (\<lambda>found. case found of
         None \<Rightarrow> ret (- 1)
       | Some p \<Rightarrow>
         let cleanup = bind (restore_all OS tid) (\<lambda>_. ret 0) in
         bind (finish_loop fuel OS tid p 1) (\<lambda>r. case r of
             FR_step_failed \<Rightarrow> ret (- 1)
           | FR_cleanup \<Rightarrow> cleanup
           | FR_last_step \<Rightarrow>
             bind (sys (sys_singlestep OS tid 0)) (\<lambda>(res, err).
             if res \<noteq> 0 then ret (- 1)
             else bind (sys (sys_waitpid OS tid False)) (\<lambda>_. bind (getregs OS p) (\<lambda>_. cleanup))))))"

end
