(* ===== verification/Sw_Breakpoints.thy ===== *)
theory Sw_Breakpoints
  imports Ptrace_C
begin

text \<open>
  Why software breakpoints are transparent. Each breakpoint saves the word at its address and writes
  it back with the first byte replaced by 0xCC; words of neighbouring breakpoints overlap. The list
  is kept in increasing order of addresses, so that a later write repairs what an earlier one put
  into its bytes. \<open>orig\<close> is the program's memory without any breakpoint.
\<close>

section \<open>Words and their bytes\<close>

lemma to_le_nth: "i < n \<Longrightarrow> to_le n x ! i = word_of_int (drop_bit (8 * i) x)"
proof (induction n arbitrary: x i)
  case (Suc n)
  then show ?case
    by (cases i) (simp_all add: drop_bit_eq_div power_add zdiv_zmult2_eq)
qed simp

lemma bit_install: "bit (INSTALL_BREAKPOINT x) n \<longleftrightarrow> (if n < 8 then bit (0xCC :: int) n else n < 64 \<and> bit x n)"
proof -
  have m: "(0xFFFFFFFFFFFFFF00 :: int) = mask 64 AND NOT (mask 8)"
    by (simp add: mask_eq_exp_minus_1)
  have "bit (0xFFFFFFFFFFFFFF00 :: int) n \<longleftrightarrow> 8 \<le> n \<and> n < 64"
    unfolding m by (auto simp only: bit_and_iff bit_not_int_iff bit_mask_iff) simp_all
  moreover have "bit (0xCC :: int) n \<Longrightarrow> n < 8"
    by (rule bit_less_exp) simp_all
  ultimately show ?thesis
    by (auto simp: INSTALL_BREAKPOINT_def bit_or_iff bit_and_iff)
qed

lemma install_fits: "fits_u64 (INSTALL_BREAKPOINT x)"
  unfolding fits_u64_bits bit_install by auto

lemma bit_to_le: "i < n \<Longrightarrow> bit (to_le n x ! i) j \<longleftrightarrow> j < 8 \<and> bit x (8 * i + j)"
  by (simp add: to_le_nth bit_word_of_int_iff bit_drop_bit_eq)

lemma install_first: "to_le 8 (INSTALL_BREAKPOINT x) ! 0 = 0xCC"
proof (rule bit_eqI)
  fix j assume "possible_bit TYPE(8 word) j"
  then have "j < 8" by simp
  have cc: "(0xCC :: byte) = word_of_int 0xCC" by simp
  show "bit (to_le 8 (INSTALL_BREAKPOINT x) ! 0) j = bit (0xCC :: byte) j"
    unfolding cc using \<open>j < 8\<close> by (simp only: bit_to_le bit_install bit_word_of_int_iff zero_less_numeral) simp
qed

lemma install_rest: "0 < i \<Longrightarrow> i < 8 \<Longrightarrow> to_le 8 (INSTALL_BREAKPOINT x) ! i = to_le 8 x ! i"
  by (rule bit_eqI) (auto simp: bit_to_le bit_install)

section \<open>Writing the words of a sorted list\<close>

lemma poke_insn_run:
  assumes L: "tracee_memory_laws OS pid view mapped good" and "good k" and "all_mapped (mapped k) a 8" and "fits_u64 x"
  obtains k' where "poke_insn OS pid a x (g, k) = (Inr (), (g, k'))" "good k'" "mapped k' = mapped k"
    "view k' = patch (view k) a (to_le 8 x)"
proof -
  from assms obtain k' where "sys_pokedata OS pid a x k = ((0, 0), k')" "good k'" "mapped k' = mapped k"
    "view k' = patch (view k) a (to_le 8 x)"
    unfolding tracee_memory_laws_def by blast
  then show ?thesis by (intro that [of k']) (simp_all add: poke_insn_def sys_def py_simps)
qed

abbreviation addrs :: "software_breakpoint list \<Rightarrow> int set" where
  "addrs bs \<equiv> sb_addr ` set bs"

definition increasing :: "software_breakpoint list \<Rightarrow> bool" where
  "increasing bs \<longleftrightarrow> sorted_wrt (\<lambda>b c. sb_addr b < sb_addr c) bs"

text \<open>
  Writing words in increasing order of address produces the memory \<open>final\<close>, if every byte of a word
  either is the final one or lies where a later word starts.
\<close>

lemma write_words_increasing:
  assumes L: "tracee_memory_laws OS pid view mapped good"
  shows "good k \<Longrightarrow> increasing bs \<Longrightarrow>
    \<forall>b \<in> set bs. sb_enabled b \<and> all_mapped (mapped k) (sb_addr b) 8 \<and> fits_u64 (f b) \<Longrightarrow>
    \<forall>b \<in> set bs. \<forall>i < 8. to_le 8 (f b) ! i = final (sb_addr b + int i) \<or> (0 < i \<and> sb_addr b + int i \<in> addrs bs) \<Longrightarrow>
    \<forall>x. x \<notin> addrs bs \<longrightarrow> view k x = final x \<Longrightarrow>
    \<exists>k'. for_each (\<lambda>b. py_when (sb_enabled b) (poke_insn OS pid (sb_addr b) (f b))) bs (g, k) = (Inr (), (g, k')) \<and>
      good k' \<and> mapped k' = mapped k \<and> view k' = final"
proof (induction bs arbitrary: k)
  case Nil
  then show ?case by (auto simp: ret_def)
next
  case (Cons b bs)
  have b: "sb_enabled b" "all_mapped (mapped k) (sb_addr b) 8" "fits_u64 (f b)" using Cons.prems(3) by simp_all
  have later: "increasing bs" "\<And>c. c \<in> set bs \<Longrightarrow> sb_addr b < sb_addr c"
    using Cons.prems(2) by (simp_all add: increasing_def)
  obtain k1 where k1: "poke_insn OS pid (sb_addr b) (f b) (g, k) = (Inr (), (g, k1))" "good k1" "mapped k1 = mapped k"
    "view k1 = patch (view k) (sb_addr b) (to_le 8 (f b))"
    using poke_insn_run [OF L Cons.prems(1) b(2,3)] by blast
  have "view k1 x = final x" if x: "x \<notin> addrs bs" for x
  proof (cases "sb_addr b \<le> x \<and> x < sb_addr b + 8")
    case True
    define i where "i = nat (x - sb_addr b)"
    with True have i: "x = sb_addr b + int i" "i < 8" by auto
    then have "to_le 8 (f b) ! i = final x" using Cons.prems(4) x by auto
    then show ?thesis using i by (simp add: k1(4) patch_def)
  next
    case False
    then show ?thesis using Cons.prems(5) x by (auto simp: k1(4) patch_def)
  qed
  moreover have "\<forall>c \<in> set bs. \<forall>i < 8. to_le 8 (f c) ! i = final (sb_addr c + int i) \<or> (0 < i \<and> sb_addr c + int i \<in> addrs bs)"
  proof (intro ballI allI impI)
    fix c i assume c: "c \<in> set bs" and i: "i < (8 :: nat)"
    have "sb_addr c + int i \<noteq> sb_addr b" using later(2) [OF c] by linarith
    then show "to_le 8 (f c) ! i = final (sb_addr c + int i) \<or> (0 < i \<and> sb_addr c + int i \<in> addrs bs)"
      using Cons.prems(4) c i by fastforce
  qed
  ultimately obtain k2 where "for_each (\<lambda>b. py_when (sb_enabled b) (poke_insn OS pid (sb_addr b) (f b))) bs (g, k1) = (Inr (), (g, k2))"
    "good k2" "mapped k2 = mapped k1" "view k2 = final"
    using Cons.IH [of k1] Cons.prems(3) k1(2,3) later(1) by auto
  then show ?case using b(1) k1(1,3) by (simp add: bind_def py_when_def)
qed

section \<open>The invariant\<close>

definition sb_ok :: "(int \<Rightarrow> byte) \<Rightarrow> (int \<Rightarrow> bool) \<Rightarrow> software_breakpoint list \<Rightarrow> bool" where
  "sb_ok orig m bs \<longleftrightarrow> increasing bs \<and> (\<forall>b \<in> set bs. sb_enabled b \<and> all_mapped m (sb_addr b) 8 \<and>
     fits_u64 (sb_instruction b) \<and> sb_patched_instruction b = INSTALL_BREAKPOINT (sb_instruction b) \<and>
     (\<forall>i < 8. to_le 8 (sb_instruction b) ! i = orig (sb_addr b + int i) \<or> (0 < i \<and> sb_addr b + int i \<in> addrs bs)))"

text \<open>Between operations, memory is the program's own everywhere but at the breakpoints' addresses.\<close>

definition sb_inv :: "(int \<Rightarrow> byte) \<Rightarrow> ('k \<Rightarrow> int \<Rightarrow> byte) \<Rightarrow> ('k \<Rightarrow> int \<Rightarrow> bool) \<Rightarrow> 'k c_state \<Rightarrow> bool" where
  "sb_inv orig view mapped s \<longleftrightarrow> sb_ok orig (mapped (snd s)) (gs_b_HEAD (fst s)) \<and>
     (\<forall>x. x \<notin> addrs (gs_b_HEAD (fst s)) \<longrightarrow> view (snd s) x = orig x)"

lemma restore_all_run:
  assumes "tracee_memory_laws OS pid view mapped good" and "good k" and "sb_inv orig view mapped (g, k)"
  shows "\<exists>k'. restore_all OS pid (g, k) = (Inr (), (g, k')) \<and> good k' \<and> mapped k' = mapped k \<and> view k' = orig"
  using write_words_increasing [OF assms(1,2), of "gs_b_HEAD g" sb_instruction orig g] assms(3)
  by (simp add: restore_all_def gs_get_def gets_def bind_def sb_inv_def sb_ok_def)

definition with_traps :: "(int \<Rightarrow> byte) \<Rightarrow> int set \<Rightarrow> int \<Rightarrow> byte" where
  "with_traps orig A x = (if x \<in> A then 0xCC else orig x)"

lemma patch_all_run:
  assumes "tracee_memory_laws OS pid view mapped good" and "good k" and "sb_inv orig view mapped (g, k)"
  shows "\<exists>k'. patch_all OS pid (g, k) = (Inr (), (g, k')) \<and> good k' \<and> mapped k' = mapped k \<and>
    view k' = with_traps orig (addrs (gs_b_HEAD g))"
proof -
  let ?bs = "gs_b_HEAD g" and ?T = "with_traps orig (addrs (gs_b_HEAD g))"
  have ok: "sb_ok orig (mapped k) ?bs" using assms(3) by (simp add: sb_inv_def)
  have "to_le 8 (sb_patched_instruction b) ! i = ?T (sb_addr b + int i) \<or> (0 < i \<and> sb_addr b + int i \<in> addrs ?bs)"
    if "b \<in> set ?bs" "i < 8" for b i
    using that ok install_first install_rest [of i] by (cases "i = 0") (auto simp: sb_ok_def with_traps_def)
  then show ?thesis
    using write_words_increasing [OF assms(1,2), of ?bs sb_patched_instruction ?T g] assms(3)
    by (simp add: patch_all_def gs_get_def gets_def bind_def sb_inv_def sb_ok_def install_fits with_traps_def)
qed

section \<open>Registering\<close>

lemma set_insert_after [simp]: "set (insert_after b bs) = insert b (set bs)"
  by (induction bs) auto

lemma set_insert_breakpoint [simp]: "set (insert_breakpoint b bs) = insert b (set bs)"
  by (cases bs) (auto simp: insert_breakpoint_def)

lemma insert_after_increasing:
  "increasing bs \<Longrightarrow> sb_addr b \<notin> addrs bs \<Longrightarrow> increasing (insert_after b bs)"
  by (induction bs) (auto simp: increasing_def not_less_iff_gr_or_eq)

lemma insert_breakpoint_increasing:
  assumes "increasing bs" and "sb_addr b \<notin> addrs bs"
  shows "increasing (insert_breakpoint b bs)"
proof (cases bs)
  case (Cons h t)
  show ?thesis
  proof (cases "sb_addr b < sb_addr h")
    case True
    then show ?thesis using assms by (auto simp: Cons insert_breakpoint_def increasing_def)
  next
    case False
    then have "sb_addr h < sb_addr b" using assms(2) by (simp add: Cons)
    then show ?thesis using assms insert_after_increasing [of t b]
      by (auto simp: Cons insert_breakpoint_def increasing_def)
  qed
qed (simp add: insert_breakpoint_def increasing_def)

lemma find_breakpoint_None: "find_breakpoint a g = None \<longleftrightarrow> a \<notin> addrs (gs_b_HEAD g)"
  by (auto simp: find_breakpoint_def find_None_iff)

lemma on_breakpoint_enabled: "\<forall>b \<in> set bs. sb_enabled b \<Longrightarrow> on_breakpoint a (\<lambda>b. b\<lparr>sb_enabled := True\<rparr>) bs = bs"
  by (induction bs) auto

lemma patch_bytes: "length ws = 8 \<Longrightarrow> i < 8 \<Longrightarrow> patch v a ws (a + int i) = ws ! i"
  by (simp add: patch_def)

definition saved :: "(int \<Rightarrow> byte) \<Rightarrow> int \<Rightarrow> software_breakpoint" where
  "saved v a = (let i = from_le (bytes_at v a 8) in
     \<lparr>sb_addr = a, sb_instruction = i, sb_patched_instruction = INSTALL_BREAKPOINT i, sb_enabled = True\<rparr>)"

lemma saved_fields [simp]:
  "sb_addr (saved v a) = a" "sb_enabled (saved v a)" "to_le 8 (sb_instruction (saved v a)) = bytes_at v a 8"
  "sb_patched_instruction (saved v a) = INSTALL_BREAKPOINT (sb_instruction (saved v a))" "fits_u64 (sb_instruction (saved v a))"
  using to_le_from_le [of "bytes_at v a 8"] from_le_fits [of "bytes_at v a 8"] by (simp_all add: saved_def Let_def)

lemma register_exact:
  assumes L: "tracee_memory_laws OS pid view mapped good" and "good k" and m: "all_mapped (mapped k) a 8"
  obtains k1 where "register_breakpoint OS pid a (g, k) = (Inr (), (g\<lparr>gs_b_HEAD :=
      (if a \<in> addrs (gs_b_HEAD g) then on_breakpoint a (\<lambda>b. b\<lparr>sb_enabled := True\<rparr>) (gs_b_HEAD g)
       else insert_breakpoint (saved (view k) a) (gs_b_HEAD g))\<rparr>, k1))"
    "good k1" "mapped k1 = mapped k" "view k1 a = 0xCC" "\<And>x. x \<noteq> a \<Longrightarrow> view k1 x = view k x"
proof -
  from L assms(2) m obtain res where peek: "sys_peekdata OS pid a k = ((res, 0), k)"
    and res: "to_u64 res = from_le (bytes_at (view k) a 8)"
    unfolding tracee_memory_laws_def by blast
  let ?i = "from_le (bytes_at (view k) a 8)"
  have bytes: "to_le 8 ?i = bytes_at (view k) a 8" using to_le_from_le [of "bytes_at (view k) a 8"] by simp
  obtain k1 where k1: "poke_insn OS pid a (INSTALL_BREAKPOINT ?i) (g, k) = (Inr (), (g, k1))" "good k1" "mapped k1 = mapped k"
    "view k1 = patch (view k) a (to_le 8 (INSTALL_BREAKPOINT ?i))"
    using poke_insn_run [OF L assms(2) m install_fits] by blast
  have "view k1 x = view k x" if "x \<noteq> a" for x
  proof (cases "a \<le> x \<and> x < a + 8")
    case True
    define i where "i = nat (x - a)"
    with True that have i: "x = a + int i" "0 < i" "i < 8" by auto
    then show ?thesis by (simp add: k1(4) patch_bytes install_rest bytes)
  qed (auto simp: k1(4) patch_def)
  moreover have "view k1 a = 0xCC" using patch_bytes [of _ 0 "view k" a] install_first by (simp add: k1(4))
  ultimately show ?thesis
    using k1(1-3) find_breakpoint_None [of a g]
    by (intro that [of k1])
       (auto simp: register_breakpoint_def sys_def bind_def peek res gs_upd_def upd_def saved_def Let_def)
qed

lemma register_run:
  assumes L: "tracee_memory_laws OS pid view mapped good" and "good k" and inv: "sb_inv orig view mapped (g, k)"
    and m: "all_mapped (mapped k) a 8"
  shows "\<exists>bs k'. register_breakpoint OS pid a (g, k) = (Inr (), (g\<lparr>gs_b_HEAD := bs\<rparr>, k')) \<and> good k' \<and> mapped k' = mapped k \<and>
    sb_inv orig view mapped (g\<lparr>gs_b_HEAD := bs\<rparr>, k') \<and> addrs bs = insert a (addrs (gs_b_HEAD g)) \<and> view k' a = 0xCC"
proof -
  let ?bs = "if a \<in> addrs (gs_b_HEAD g) then on_breakpoint a (\<lambda>b. b\<lparr>sb_enabled := True\<rparr>) (gs_b_HEAD g)
       else insert_breakpoint (saved (view k) a) (gs_b_HEAD g)"
  obtain k1 where k1: "register_breakpoint OS pid a (g, k) = (Inr (), (g\<lparr>gs_b_HEAD := ?bs\<rparr>, k1))"
    "good k1" "mapped k1 = mapped k" "view k1 a = 0xCC" "\<And>x. x \<noteq> a \<Longrightarrow> view k1 x = view k x"
    using register_exact [OF L assms(2) m, of g] by blast
  have ok: "sb_ok orig (mapped k) (gs_b_HEAD g)" and rest: "\<And>x. x \<notin> addrs (gs_b_HEAD g) \<Longrightarrow> view k x = orig x"
    using inv by (simp_all add: sb_inv_def)
  have "sb_ok orig (mapped k) ?bs \<and> addrs ?bs = insert a (addrs (gs_b_HEAD g))"
  proof (cases "a \<in> addrs (gs_b_HEAD g)")
    case True
    then show ?thesis using ok on_breakpoint_enabled [of "gs_b_HEAD g" a] by (simp add: sb_ok_def insert_absorb)
  next
    case False
    have "bytes_at (view k) a 8 ! i = orig (a + int i) \<or> (0 < i \<and> a + int i \<in> addrs (gs_b_HEAD g))" if "i < 8" for i
      using that rest [of "a + int i"] False by (cases "i = 0") auto
    then show ?thesis
      using ok insert_breakpoint_increasing [of "gs_b_HEAD g" "saved (view k) a"] False m by (fastforce simp: sb_ok_def)
  qed
  moreover have "view k1 x = orig x" if "x \<notin> insert a (addrs (gs_b_HEAD g))" for x
    using that k1(5) [of x] rest [of x] by simp
  ultimately show ?thesis using k1(1-4) by (intro exI [of _ ?bs] exI [of _ k1]) (simp add: sb_inv_def)
qed

lemma register_many:
  assumes L: "tracee_memory_laws OS pid view mapped good"
  shows "good k \<Longrightarrow> sb_inv orig view mapped (g, k) \<Longrightarrow> \<forall>a \<in> set as. all_mapped (mapped k) a 8 \<Longrightarrow>
    \<exists>bs k'. for_each (register_breakpoint OS pid) as (g, k) = (Inr (), (g\<lparr>gs_b_HEAD := bs\<rparr>, k')) \<and> good k' \<and>
      mapped k' = mapped k \<and> sb_inv orig view mapped (g\<lparr>gs_b_HEAD := bs\<rparr>, k') \<and> addrs bs = addrs (gs_b_HEAD g) \<union> set as"
proof (induction as arbitrary: g k)
  case Nil
  then show ?case by (intro exI [of _ "gs_b_HEAD g"]) (simp add: ret_def)
next
  case (Cons a as)
  obtain bs k1 where 1: "register_breakpoint OS pid a (g, k) = (Inr (), (g\<lparr>gs_b_HEAD := bs\<rparr>, k1))" "good k1" "mapped k1 = mapped k"
    "sb_inv orig view mapped (g\<lparr>gs_b_HEAD := bs\<rparr>, k1)" "addrs bs = insert a (addrs (gs_b_HEAD g))"
    using register_run [OF L Cons.prems(1,2), of a] Cons.prems(3) by auto
  obtain bs2 k2 where "for_each (register_breakpoint OS pid) as (g\<lparr>gs_b_HEAD := bs\<rparr>, k1) = (Inr (), (g\<lparr>gs_b_HEAD := bs2\<rparr>, k2))"
    "good k2" "mapped k2 = mapped k1" "sb_inv orig view mapped (g\<lparr>gs_b_HEAD := bs2\<rparr>, k2)" "addrs bs2 = addrs bs \<union> set as"
    using Cons.IH [OF 1(2,4)] Cons.prems(3) 1(3) by auto
  then show ?case using 1 by (intro exI [of _ bs2] exI [of _ k2]) (auto simp: bind_def)
qed

section \<open>Properties\<close>

text \<open>C2: breakpoints are transparent. Set breakpoints at any addresses, in any order, overlapping or
  repeated: what the program runs on is its own memory with 0xCC at exactly those addresses, and
  after the next stop the memory is the program's own again, to the byte.\<close>

theorem software_breakpoints_transparent:
  assumes "tracee_memory_laws OS pid view mapped good" and "good k" and "gs_b_HEAD g = []"
    and "\<forall>a \<in> set as. all_mapped (mapped k) a 8"
  shows "\<exists>g1 k1 k2 k3. for_each (register_breakpoint OS pid) as (g, k) = (Inr (), (g1, k1)) \<and>
    patch_all OS pid (g1, k1) = (Inr (), (g1, k2)) \<and> view k2 = with_traps (view k) (set as) \<and>
    restore_all OS pid (g1, k2) = (Inr (), (g1, k3)) \<and> view k3 = view k"
proof -
  have "sb_inv (view k) view mapped (g, k)" using assms(3) by (simp add: sb_inv_def sb_ok_def increasing_def)
  from register_many [OF assms(1,2) this assms(4)]
  obtain bs k1 where 1: "for_each (register_breakpoint OS pid) as (g, k) = (Inr (), (g\<lparr>gs_b_HEAD := bs\<rparr>, k1))" "good k1"
    "sb_inv (view k) view mapped (g\<lparr>gs_b_HEAD := bs\<rparr>, k1)" "addrs bs = set as"
    using assms(3) by auto
  obtain k2 where 2: "patch_all OS pid (g\<lparr>gs_b_HEAD := bs\<rparr>, k1) = (Inr (), (g\<lparr>gs_b_HEAD := bs\<rparr>, k2))" "good k2" "mapped k2 = mapped k1"
    "view k2 = with_traps (view k) (set as)"
    using patch_all_run [OF assms(1) 1(2,3)] 1(4) by auto
  then have "sb_inv (view k) view mapped (g\<lparr>gs_b_HEAD := bs\<rparr>, k2)"
    using 1(3,4) by (simp add: sb_inv_def with_traps_def)
  from restore_all_run [OF assms(1) 2(2) this] 1 2 show ?thesis by blast
qed

definition flat_os :: "flat os" where
  "flat_os = kernel.extend flat_kernel
     \<lparr>sys_getregs = (\<lambda>t k. (Some (fl_user k t \<circ> int \<circ> length), k)), sys_setregs = (\<lambda>t rf k. (True, k)),
      sys_singlestep = (\<lambda>t s k. ((0, 0), k)), sys_cont = (\<lambda>b t s k. k), sys_waitpid = (\<lambda>p b k. ((p, 4991), k)),
      sys_getpgid = (\<lambda>p k. p), sys_tgkill = (\<lambda>p t s k. k), sys_kill = (\<lambda>p s k. ((0, 0), k)),
      sys_attach = (\<lambda>p k. ((0, 0), k)), sys_detach = (\<lambda>p k. k), sys_setoptions = (\<lambda>p k. k), sys_geteventmsg = (\<lambda>p k. (0, k)),
      sys_tasks = (\<lambda>p k. None)\<rparr>"

lemma flat_os_laws: "tracee_memory_laws flat_os pid fl_mem fl_mapped flat_good"
  using flat_memory_laws [of pid] by (simp add: tracee_memory_laws_def flat_os_def flat_kernel_def kernel.extend_def)

definition fresh_gs :: global_state where
  "fresh_gs = \<lparr>gs_nodes = (\<lambda>p. \<lparr>ct_tid = 1, ct_regs = (\<lambda>r. 0x1003), ct_signal_to_forward = 0\<rparr>), gs_next = 1, gs_t_HEAD = [0],
     gs_dead_t_HEAD = [], gs_b_HEAD = [], gs_handle_syscall_enabled = False\<rparr>"

theorem software_breakpoints_transparent_witness:
  "\<exists>g1 k1 k2. for_each (register_breakpoint flat_os 1) [0x1005, 0x1003, 0x1005] (fresh_gs, flat_page) = (Inr (), (g1, k1)) \<and>
    patch_all flat_os 1 (g1, k1) = (Inr (), (g1, k2)) \<and> fl_mem k2 = with_traps (fl_mem flat_page) {0x1003, 0x1005}"
proof -
  have "gs_b_HEAD fresh_gs = []" "\<forall>a \<in> set [0x1005, 0x1003, 0x1005]. all_mapped (fl_mapped flat_page) a 8"
    by (simp_all add: fresh_gs_def flat_page_mapped)
  from software_breakpoints_transparent [OF flat_os_laws [of 1] flat_page_good this] show ?thesis
    by (auto simp: insert_commute)
qed

text \<open>Removing a breakpoint does not restore its instruction: set and removed in the same stop, as a
  detach does, the trap instruction stays in the program's memory.\<close>

lemma unregister_leaves_trap:
  assumes "tracee_memory_laws OS pid view mapped good" and "good k" and "gs_b_HEAD g = []" and "all_mapped (mapped k) a 8"
  shows "\<exists>g' k'. register_breakpoint OS pid a (g, k) = (Inr (), (g', k')) \<and>
    gs_b_HEAD (unregister_breakpoint a g') = [] \<and> view k' a = 0xCC"
proof -
  have "sb_inv (view k) view mapped (g, k)" using assms(3) by (simp add: sb_inv_def sb_ok_def increasing_def)
  from register_run [OF assms(1,2) this assms(4)]
  obtain bs k' where 1: "register_breakpoint OS pid a (g, k) = (Inr (), (g\<lparr>gs_b_HEAD := bs\<rparr>, k'))" "view k' a = 0xCC"
    "addrs bs = {a}" "increasing bs"
    using assms(3) by (auto simp: sb_inv_def sb_ok_def)
  have "remove_address a bs = []"
  proof (cases bs)
    case (Cons b cs)
    moreover have "cs = []"
      using 1(3,4) by (cases cs) (auto simp: Cons increasing_def)
    ultimately show ?thesis using 1(3) by simp
  qed simp
  then show ?thesis using 1 by (intro exI [of _ "g\<lparr>gs_b_HEAD := bs\<rparr>"] exI [of _ k']) (simp add: unregister_breakpoint_def)
qed

lemma unregister_leaves_trap_witness:
  "\<exists>g' k'. register_breakpoint flat_os 1 0x1003 (fresh_gs, flat_page) = (Inr (), (g', k')) \<and> fl_mem k' 0x1003 = 0xCC"
proof -
  have "gs_b_HEAD fresh_gs = []" by (simp add: fresh_gs_def)
  from unregister_leaves_trap [OF flat_os_laws [of 1] flat_page_good this flat_page_mapped [of "0x1003" 8]]
  show ?thesis by auto
qed

text \<open>
  What the processor and the kernel do when a thread is stepped onto a trap instruction: the trap
  runs, the step is reported as a stop by SIGTRAP (0x57f), and memory is unchanged. Setting a
  thread's registers does not touch memory.
\<close>

definition trap_step_laws :: "'k os \<Rightarrow> int \<Rightarrow> ('k \<Rightarrow> int \<Rightarrow> byte) \<Rightarrow> ('k \<Rightarrow> int \<Rightarrow> bool) \<Rightarrow> ('k \<Rightarrow> bool) \<Rightarrow> int \<Rightarrow> ('k \<Rightarrow> 'k) \<Rightarrow> bool" where
  "trap_step_laws OS tid view mapped good a trapped \<longleftrightarrow>
     (\<forall>k. good k \<longrightarrow> view k a = 0xCC \<longrightarrow> sys_singlestep OS tid 0 k = ((0, 0), trapped k) \<and>
        sys_waitpid OS tid False (trapped k) = ((tid, 0x57f), trapped k) \<and>
        good (trapped k) \<and> view (trapped k) = view k \<and> mapped (trapped k) = mapped k) \<and>
     (\<forall>k rf. good k \<longrightarrow> (\<exists>k'. sys_setregs OS tid rf k = (True, k') \<and> good k' \<and> view k' = view k \<and> mapped k' = mapped k))"

text \<open>A breakpoint set at the address where a stopped thread stands is not stepped over. Before
  everything runs, the thread is stepped off the address while the trap instruction is already in
  memory: it executes the trap instead of the program's instruction, and the stop this causes is
  swallowed by \<open>prepare_for_run\<close>.\<close>

lemma fresh_breakpoint_is_executed:
  assumes "tracee_memory_laws OS pid view mapped good" and "trap_step_laws OS (node_tid g p) view mapped good a trapped"
    and "good k" and "gs_b_HEAD g = []" and "all_mapped (mapped k) a 8"
    and "gs_t_HEAD g = [p]" and "instruction_pointer (ct_regs (gs_nodes g p)) = a"
  shows "\<exists>g' k1 k2 k3. register_breakpoint OS pid a (g, k) = (Inr (), (g', k1)) \<and> view k2 a = 0xCC \<and>
    patch_all OS pid (g', trapped k2) = (Inr (), (g', k3)) \<and> prepare_for_run OS pid (g', k1) = (Inr 0x57f, (g', k3))"
proof -
  have "sb_inv (view k) view mapped (g, k)" using assms(4) by (simp add: sb_inv_def sb_ok_def increasing_def)
  from register_run [OF assms(1,3) this assms(5)]
  obtain bs k1 where 1: "register_breakpoint OS pid a (g, k) = (Inr (), (g\<lparr>gs_b_HEAD := bs\<rparr>, k1))" "good k1" "mapped k1 = mapped k"
    "sb_inv (view k) view mapped (g\<lparr>gs_b_HEAD := bs\<rparr>, k1)" "addrs bs = {a}" "view k1 a = 0xCC"
    using assms(4) by auto
  let ?g = "g\<lparr>gs_b_HEAD := bs\<rparr>"
  obtain k2 where 2: "sys_setregs OS (node_tid g p) (ct_regs (gs_nodes g p)) k1 = (True, k2)" "good k2" "view k2 = view k1"
    "mapped k2 = mapped k1"
    using assms(2) 1(2) unfolding trap_step_laws_def by blast
  have 3: "sys_singlestep OS (node_tid g p) 0 k2 = ((0, 0), trapped k2)"
    "sys_waitpid OS (node_tid g p) False (trapped k2) = ((node_tid g p, 0x57f), trapped k2)"
    "good (trapped k2)" "view (trapped k2) = view k1" "mapped (trapped k2) = mapped k1"
    using assms(2) 2 1(6) unfolding trap_step_laws_def by auto
  have "sb_inv (view k) view mapped (?g, trapped k2)" using 1(4) 3(4,5) by (simp add: sb_inv_def)
  from patch_all_run [OF assms(1) 3(3) this]
  obtain k3 where 4: "patch_all OS pid (?g, trapped k2) = (Inr (), (?g, k3))" by blast
  have "a \<in> addrs bs" using 1(5) by simp
  then have hit: "list_ex (\<lambda>b. sb_addr b = a) bs" by (auto simp: list_ex_iff)
  have tid: "node_tid ?g p = node_tid g p" by (simp add: node_tid_def)
  have "flush_regs OS (?g, k1) = (Inr (), (?g, k2))"
    using 2(1) by (simp add: flush_regs_def gs_get_def gets_def bind_def assms(6) setregs_def sys_def ret_def node_tid_def)
  moreover have "step_over OS [p] 0 (?g, k2) = (Inr (Some 0x57f), (?g, trapped k2))"
    using hit 3(1,2) by (simp add: gs_get_def gets_def bind_def assms(7) tid sys_def ret_def Let_def)
  ultimately have "prepare_for_run OS pid (?g, k1) = (Inr 0x57f, (?g, k3))"
    using 4 by (simp add: prepare_for_run_def bind_def gs_get_def gets_def assms(6) ret_def)
  then show ?thesis using 1(1,6) 2(3) 4 by (intro exI [of _ ?g] exI [of _ k1] exI [of _ k2] exI [of _ k3]) simp
qed

definition trap_os :: "flat os" where
  "trap_os = flat_os\<lparr>sys_waitpid := (\<lambda>p b k. ((p, 0x57f), k))\<rparr>"

lemma trap_os_laws: "tracee_memory_laws trap_os pid fl_mem fl_mapped flat_good"
  "trap_step_laws trap_os tid fl_mem fl_mapped flat_good a id"
  using flat_memory_laws [of pid]
  by (simp_all add: tracee_memory_laws_def trap_step_laws_def trap_os_def flat_os_def flat_kernel_def kernel.extend_def)

lemma fresh_breakpoint_is_executed_witness:
  "\<exists>g' k1 k3. register_breakpoint trap_os 1 0x1003 (fresh_gs, flat_page) = (Inr (), (g', k1)) \<and>
    prepare_for_run trap_os 1 (g', k1) = (Inr 0x57f, (g', k3))"
proof -
  have "gs_b_HEAD fresh_gs = []" "gs_t_HEAD fresh_gs = [0]" "instruction_pointer (ct_regs (gs_nodes fresh_gs 0)) = 0x1003"
    by (simp_all add: fresh_gs_def instruction_pointer_def)
  then show ?thesis
    using fresh_breakpoint_is_executed [OF trap_os_laws(1) [of 1] trap_os_laws(2), where g = fresh_gs and p = 0 and k = flat_page and a = "0x1003"]
      flat_page_good flat_page_mapped [of "0x1003" 8] by auto
qed

text \<open>Two breakpoints less than eight bytes apart, the higher one set first: the lower one's saved word holds
  the other's trap. Once the higher one is disabled, restoring after a stop leaves its trap in
  memory, and so does every later run.\<close>

lemma disabled_neighbour_stays:
  assumes "tracee_memory_laws OS pid view mapped good" and "tracee_memory_laws OS (node_tid g p) view mapped good"
    and "good k" and "gs_b_HEAD g = []" and "gs_t_HEAD g = p # ps"
    and "all_mapped (mapped k) a 8" and "all_mapped (mapped k) (a + int i) 8" and "0 < i" and "i < 8"
  shows "\<exists>g1 k1 g2 k2 k3. for_each (register_breakpoint OS pid) [a + int i, a] (g, k) = (Inr (), (g1, k1)) \<and>
    disable_breakpoint OS (a + int i) (g1, k1) = (Inr (), (g2, k2)) \<and>
    restore_all OS pid (g2, k2) = (Inr (), (g2, k3)) \<and> view k3 (a + int i) = 0xCC"
proof -
  obtain k1 where 1: "register_breakpoint OS pid (a + int i) (g, k) =
      (Inr (), (g\<lparr>gs_b_HEAD := [saved (view k) (a + int i)]\<rparr>, k1))" "good k1" "mapped k1 = mapped k" "view k1 (a + int i) = 0xCC"
    using register_exact [OF assms(1,3,7), of g] assms(4) by (auto simp: insert_breakpoint_def)
  let ?g1 = "g\<lparr>gs_b_HEAD := [saved (view k) (a + int i)]\<rparr>"
  let ?bs = "[saved (view k1) a, saved (view k) (a + int i)]"
  obtain k2 where 2: "register_breakpoint OS pid a (?g1, k1) = (Inr (), (g\<lparr>gs_b_HEAD := ?bs\<rparr>, k2))" "good k2" "mapped k2 = mapped k1"
    using register_exact [OF assms(1) 1(2), of a ?g1] assms(6,8) 1(3) by (auto simp: insert_breakpoint_def)
  let ?g2 = "g\<lparr>gs_b_HEAD := [saved (view k1) a, (saved (view k) (a + int i))\<lparr>sb_enabled := False\<rparr>]\<rparr>"
  have dis: "on_breakpoint (a + int i) (\<lambda>b. b\<lparr>sb_enabled := False\<rparr>) ?bs =
      [saved (view k1) a, (saved (view k) (a + int i))\<lparr>sb_enabled := False\<rparr>]" using assms(8) by simp
  have m2: "all_mapped (mapped k2) (a + int i) 8" using assms(7) 1(3) 2(3) by simp
  obtain k3 where 3: "poke_insn OS (node_tid g p) (a + int i) (sb_instruction (saved (view k) (a + int i))) (?g2, k2) = (Inr (), (?g2, k3))"
    "good k3" "mapped k3 = mapped k2"
    using poke_insn_run [OF assms(2) 2(2) m2 saved_fields(5) [of "view k" "a + int i"], of ?g2] by auto
  have m3: "all_mapped (mapped k3) a 8" using assms(6) 1(3) 2(3) 3(3) by simp
  obtain k4 where 4: "poke_insn OS pid a (sb_instruction (saved (view k1) a)) (?g2, k3) = (Inr (), (?g2, k4))"
    "view k4 = patch (view k3) a (bytes_at (view k1) a 8)"
    using poke_insn_run [OF assms(1) 3(2) m3 saved_fields(5) [of "view k1" a], of ?g2] by auto
  have "view k4 (a + int i) = 0xCC" using 1(4) assms(9) by (simp add: 4(2) patch_bytes)
  moreover have "disable_breakpoint OS (a + int i) (g\<lparr>gs_b_HEAD := ?bs\<rparr>, k2) = (Inr (), (?g2, k3))"
    using 3(1) assms(8)
    by (simp add: disable_breakpoint_def gs_upd_def upd_def gs_get_def gets_def bind_def find_breakpoint_def assms(5) node_tid_def)
  moreover have "restore_all OS pid (?g2, k3) = (Inr (), (?g2, k4))"
    using 4(1) by (simp add: restore_all_def gs_get_def gets_def bind_def py_when_def ret_def)
  moreover have "for_each (register_breakpoint OS pid) [a + int i, a] (g, k) = (Inr (), (g\<lparr>gs_b_HEAD := ?bs\<rparr>, k2))"
    using 1(1) 2(1) by (simp add: bind_def ret_def)
  ultimately show ?thesis by blast
qed

lemma disabled_neighbour_stays_witness:
  "\<exists>g1 k1 g2 k2 k3. for_each (register_breakpoint flat_os 1) [0x1005, 0x1003] (fresh_gs, flat_page) = (Inr (), (g1, k1)) \<and>
    disable_breakpoint flat_os 0x1005 (g1, k1) = (Inr (), (g2, k2)) \<and>
    restore_all flat_os 1 (g2, k2) = (Inr (), (g2, k3)) \<and> fl_mem k3 0x1005 = 0xCC"
proof -
  have "gs_b_HEAD fresh_gs = []" "gs_t_HEAD fresh_gs = [0]"
    by (simp_all add: fresh_gs_def)
  from disabled_neighbour_stays [OF flat_os_laws [of 1] flat_os_laws flat_page_good this, of "0x1003" 2] flat_page_mapped
  show ?thesis by simp
qed

end
