(* ===== verification/Names_Printing.thy ===== *)
theory Names_Printing
  imports Py_Text
begin

text \<open>
  Names of signals and system calls (\<open>libdebug/utils/signal_utils.py\<close>, \<open>syscall_utils.py\<close>) and what
  the pretty printer writes (\<open>builtin/pretty_print_syscall_handler.py\<close>, \<open>utils/print_style.py\<close>).
  The attributes of Python's \<open>signal\<close> module and the downloaded table of system calls are data, given
  as parameters.
\<close>

section \<open>Signals\<close>

text \<open>\<open>dir(signal)\<close> with the values of the attributes; the two dictionaries built from it.\<close>

type_synonym signal_module = "(string \<times> int) list"

definition is_signal_name :: "string \<Rightarrow> bool" where
  "is_signal_name name \<longleftrightarrow> take 3 name = ''SIG'' \<and> take 4 name \<noteq> ''SIG_''"

definition create_signal_mappings :: "signal_module \<Rightarrow> (string, int) dict \<times> (int, string) dict" where
  "create_signal_mappings module =
     fold (\<lambda>(name, number) (s2n, n2s). if is_signal_name name then (dict_set name number s2n, dict_set number name n2s)
             else (s2n, n2s)) module ([], [])"

definition resolve_signal_number :: "signal_module \<Rightarrow> string \<Rightarrow> int result" where
  "resolve_signal_number module name = (case dict_get (fst (create_signal_mappings module)) name of
     None \<Rightarrow> Inl ValueError | Some n \<Rightarrow> Inr n)"

definition resolve_signal_name :: "signal_module \<Rightarrow> int \<Rightarrow> string result" where
  "resolve_signal_name module number = (case dict_get (snd (create_signal_mappings module)) number of
     None \<Rightarrow> Inl ValueError | Some n \<Rightarrow> Inr n)"

definition get_all_signal_numbers :: "signal_module \<Rightarrow> int list" where
  "get_all_signal_numbers module = dict_keys (snd (create_signal_mappings module))"

section \<open>System calls\<close>

text \<open>One entry of the table; an argument of the signature may be missing (null).\<close>

record syscall_def =
  sd_name :: string
  sd_number :: int
  sd_signature :: "string option list"

text \<open>
  Where the table comes from: a file of the user's cache, or the network. The state is what the file holds,
  None when there is none; getting a URL and parsing JSON are parameters. What is fetched is saved before it
  is parsed, so a broken answer leaves a broken file, and a broken file is fetched again.
\<close>

record syscall_source =
  ss_get :: "string \<Rightarrow> string result"
  ss_parse :: "string \<Rightarrow> syscall_def list option"

definition get_remote_definition_url :: "string \<Rightarrow> string result" where
  "get_remote_definition_url arch =
     (if arch = ''amd64'' then Inr ''https://syscalls.mebeim.net/db/x86/64/x64/latest/table.json'' else Inl ValueError)"

definition fetch_remote_syscall_definition :: "syscall_source \<Rightarrow> string \<Rightarrow> (string option, syscall_def list) pm" where
  "fetch_remote_syscall_definition SS arch =
     bind (lift (rbind (get_remote_definition_url arch) (ss_get SS))) (\<lambda>text.
     bind (upd (\<lambda>file. Some text)) (\<lambda>_.
     case ss_parse SS text of None \<Rightarrow> raise ValueError | Some defs \<Rightarrow> ret defs))"

definition get_syscall_definitions :: "syscall_source \<Rightarrow> string \<Rightarrow> (string option, syscall_def list) pm" where
  "get_syscall_definitions SS arch =
     bind (gets id) (\<lambda>file. case file of
         None \<Rightarrow> fetch_remote_syscall_definition SS arch
       | Some text \<Rightarrow> (case ss_parse SS text of
             Some defs \<Rightarrow> ret defs
           | None \<Rightarrow> fetch_remote_syscall_definition SS arch))"

text \<open>Once a table was obtained the file holds it: the network is not asked again.\<close>

lemma syscall_definitions_kept:
  "get_syscall_definitions SS arch file = (Inr defs, file') \<Longrightarrow>
   get_syscall_definitions (SS\<lparr>ss_get := offline\<rparr>) arch file' = (Inr defs, file')"
  by (auto simp: get_syscall_definitions_def fetch_remote_syscall_definition_def py_simps split: option.splits sum.splits)

text \<open>The table of the architecture, or the exception that fetching it raised.\<close>

type_synonym syscall_table = "syscall_def list result"

definition first_syscall :: "(syscall_def \<Rightarrow> bool) \<Rightarrow> (syscall_def \<Rightarrow> 'a) \<Rightarrow> syscall_table \<Rightarrow> 'a result" where
  "first_syscall p f table = rbind table (\<lambda>defs. case List.find p defs of None \<Rightarrow> Inl ValueError | Some d \<Rightarrow> Inr (f d))"

definition resolve_syscall_number :: "syscall_table \<Rightarrow> string \<Rightarrow> int result" where
  "resolve_syscall_number table name = first_syscall (\<lambda>d. sd_name d = name) sd_number table"

definition resolve_syscall_name :: "syscall_table \<Rightarrow> int \<Rightarrow> string result" where
  "resolve_syscall_name table number = first_syscall (\<lambda>d. sd_number d = number) sd_name table"

definition resolve_syscall_arguments :: "syscall_table \<Rightarrow> int \<Rightarrow> string option list result" where
  "resolve_syscall_arguments table number = first_syscall (\<lambda>d. sd_number d = number) sd_signature table"

definition get_all_syscall_numbers :: "syscall_table \<Rightarrow> int list result" where
  "get_all_syscall_numbers table = rbind table (\<lambda>defs. Inr (map sd_number defs))"

section \<open>Pretty printing\<close>

definition esc :: "string \<Rightarrow> string" where
  "esc code = CHR 0x1B # ''['' @ code @ ''m''"

definition RED :: string where "RED = esc ''91''"
definition GREEN :: string where "GREEN = esc ''92''"
definition BLUE :: string where "BLUE = esc ''94''"
definition YELLOW :: string where "YELLOW = esc ''33''"
definition BRIGHT_YELLOW :: string where "BRIGHT_YELLOW = esc ''93''"
definition STRIKE :: string where "STRIKE = esc ''9''"
definition DEFAULT_COLOR :: string where "DEFAULT_COLOR = esc ''39''"
definition RESET :: string where "RESET = esc ''0''"

definition newline :: string where
  "newline = [CHR 0x0A]"

fun join :: "string \<Rightarrow> string list \<Rightarrow> string" where
  "join sep [] = []"
| "join sep [x] = x"
| "join sep (x # y # xs) = x @ sep @ join sep (y # xs)"

text \<open>The keyword arguments of the callback: \<open>old_args\<close> (with \<open>hijacked\<close>) or \<open>callback\<close> or neither.\<close>

datatype pprint_mode = Plain | UserHandled | Hijacked "int list"

definition plain_entry :: "string \<Rightarrow> int \<Rightarrow> string" where
  "plain_entry arg v = arg @ '' = '' @ BRIGHT_YELLOW @ ''0x'' @ fmt_x v @ DEFAULT_COLOR"

definition changed_entry :: "string \<Rightarrow> int \<Rightarrow> int \<Rightarrow> string" where
  "changed_entry arg v old = (if old = v then plain_entry arg v
     else arg @ '' = '' @ BRIGHT_YELLOW @ ''0x'' @ fmt_x old @ '' -> '' @ BRIGHT_YELLOW @ ''0x'' @ fmt_x v @ DEFAULT_COLOR)"

fun plain_entries :: "string option list \<Rightarrow> int list \<Rightarrow> string list" where
  "plain_entries (a # as) (v # vs) = (case a of None \<Rightarrow> [] | Some n \<Rightarrow> [plain_entry n v]) @ plain_entries as vs"
| "plain_entries _ _ = []"

fun changed_entries :: "string option list \<Rightarrow> int list \<Rightarrow> int list \<Rightarrow> string list" where
  "changed_entries (a # as) (v # vs) (w # ws) =
     (case a of None \<Rightarrow> [] | Some n \<Rightarrow> [changed_entry n v w]) @ changed_entries as vs ws"
| "changed_entries _ _ _ = []"

definition pprint_enter_text :: "syscall_table \<Rightarrow> int list \<Rightarrow> int \<Rightarrow> pprint_mode \<Rightarrow> string result" where
  "pprint_enter_text table values syscall_number mode =
     rbind (resolve_syscall_name table syscall_number) (\<lambda>syscall_name.
     rbind (resolve_syscall_arguments table syscall_number) (\<lambda>syscall_args.
     Inr (case mode of
         Hijacked old_args \<Rightarrow> RED @ ''(user hijacked) '' @ STRIKE @ BLUE @ syscall_name @ DEFAULT_COLOR @ ''('' @
           join '', '' (changed_entries syscall_args values old_args) @ '')'' @ RESET @ newline
       | UserHandled \<Rightarrow> RED @ ''(callback) '' @ BLUE @ syscall_name @ DEFAULT_COLOR @ ''('' @
           join '', '' (plain_entries syscall_args values) @ '') = ''
       | Plain \<Rightarrow> BLUE @ syscall_name @ DEFAULT_COLOR @ ''('' @
           join '', '' (plain_entries syscall_args values) @ '') = '')))"

text \<open>The return value, or the pair of it before and after the callback.\<close>

definition pprint_exit_text :: "int option \<Rightarrow> int \<Rightarrow> string" where
  "pprint_exit_text before after = (case before of
     Some b \<Rightarrow> YELLOW @ STRIKE @ ''0x'' @ fmt_x b @ RESET @ '' '' @ YELLOW @ ''0x'' @ fmt_x after @ RESET @ newline
   | None \<Rightarrow> YELLOW @ ''0x'' @ fmt_x after @ RESET @ newline)"

section \<open>Lemmas\<close>

lemma wf_signal_mappings: "wf_dict (fst (create_signal_mappings l)) \<and> wf_dict (snd (create_signal_mappings l))"
proof -
  have "wf_dict a \<Longrightarrow> wf_dict b \<Longrightarrow> wf_dict (fst (fold (\<lambda>(name, number) (s2n, n2s). if is_signal_name name
      then (dict_set name number s2n, dict_set number name n2s) else (s2n, n2s)) l (a, b))) \<and>
    wf_dict (snd (fold (\<lambda>(name, number) (s2n, n2s). if is_signal_name name
      then (dict_set name number s2n, dict_set number name n2s) else (s2n, n2s)) l (a, b)))"
    for a :: "(string, int) dict" and b
    by (induction l arbitrary: a b) auto
  then show ?thesis by (simp add: create_signal_mappings_def)
qed

lemma signal_name_number:
  assumes "distinct (map fst l)" and "resolve_signal_name l n = Inr s"
  shows "resolve_signal_number l s = Inr n"
proof -
  let ?step = "\<lambda>(name, number) (s2n, n2s). if is_signal_name name then (dict_set name number s2n, dict_set number name n2s) else (s2n, n2s)"
  have "(\<forall>n s. map_of b n = Some s \<longrightarrow> map_of a s = Some n) \<Longrightarrow> (\<forall>s. s \<in> fst ` set l \<longrightarrow> map_of a s = None) \<Longrightarrow>
      distinct (map fst l) \<Longrightarrow> fold ?step l (a, b) = (a', b') \<Longrightarrow> map_of b' n = Some s \<Longrightarrow> map_of a' s = Some n"
    for a a' :: "(string, int) dict" and b b' :: "(int, string) dict"
  proof (induction l arbitrary: a b)
    case (Cons x l)
    obtain name number where x: "x = (name, number)" by (cases x)
    show ?case
    proof (cases "is_signal_name name")
      case True
      have fresh: "map_of a name = None" using Cons.prems(2) x by auto
      show ?thesis
        by (rule Cons.IH [of "dict_set number name b" "dict_set name number a"])
           (use Cons.prems True x fresh in \<open>auto simp: dict_get_set\<close>)
    next
      case False
      then show ?thesis using Cons.IH [of b a] Cons.prems x by simp
    qed
  qed simp
  from this [of "[]" "[]" "fst (create_signal_mappings l)" "snd (create_signal_mappings l)"] assms show ?thesis
    by (auto simp: resolve_signal_number_def resolve_signal_name_def create_signal_mappings_def split: option.splits)
qed

lemma first_syscall_Inr: "first_syscall p f t = Inr x \<longleftrightarrow> (\<exists>ds d. t = Inr ds \<and> List.find p ds = Some d \<and> x = f d)"
  by (cases t) (auto simp: first_syscall_def split: option.splits)

lemma syscall_number_name:
  assumes "t = Inr ds" and "distinct (map sd_number ds)" and "resolve_syscall_number t s = Inr n"
  shows "resolve_syscall_name t n = Inr s"
proof -
  from assms obtain d where d: "List.find (\<lambda>d. sd_name d = s) ds = Some d" "n = sd_number d"
    by (auto simp: resolve_syscall_number_def first_syscall_Inr)
  then have "d \<in> set ds" "sd_name d = s" using find_SomeD by fastforce+
  moreover have "List.find (\<lambda>e. sd_number e = n) ds = Some d" if "distinct (map sd_number ds)" "d \<in> set ds" for ds
    using that d(2) by (induction ds) auto
  ultimately show ?thesis using assms(1,2) by (simp add: resolve_syscall_name_def first_syscall_def)
qed

end
