(* ===== verification/Pipe_Manager.thy ===== *)
theory Pipe_Manager
  imports Py_Prelude "HOL-Library.Sublist"
begin

text \<open>
  \<open>PipeManager\<close> (\<open>libdebug/utils/pipe_manager.py\<close>): talking to the standard streams of the debugged
  process. The system is a parameter: the clock, \<open>select\<close>, \<open>read\<close>, \<open>write\<close> and \<open>close\<close> on file
  descriptors, as functions of its state. Times are counted in ticks of the clock.
\<close>

record 'p pipe_os =
  po_time :: "('p, int) pm"
  po_select :: "int \<Rightarrow> int \<Rightarrow> ('p, bool) pm"
  po_read :: "int \<Rightarrow> int \<Rightarrow> ('p, byte list) pm"
  po_write :: "int \<Rightarrow> byte list \<Rightarrow> ('p, int) pm"
  po_close :: "int \<Rightarrow> ('p, unit) pm"

record pipe_manager =
  pm_stdin_write :: int
  pm_stdout_read :: int
  pm_stderr_read :: int

definition timeout_default :: int where
  "timeout_default = 2"

section \<open>Receiving\<close>

text \<open>One round of the loop of \<open>_recv\<close>: the data read, or None for a break.\<close>

definition recv_round :: "'p pipe_os \<Rightarrow> int \<Rightarrow> int \<Rightarrow> int \<Rightarrow> ('p, byte list option) pm" where
  "recv_round OS pipe_read end_time numb =
     bind (po_time OS) (\<lambda>now.
     if end_time < now then ret None
     else
       bind (po_time OS) (\<lambda>now.
       bind (po_select OS pipe_read (max 0 (end_time - now))) (\<lambda>ready.
       if \<not> ready then ret None
       else
         bind (try_except (po_read OS pipe_read numb) is_OSError (\<lambda>_. raise RuntimeError)) (\<lambda>data.
         ret (if data = [] then None else Some data)))))"

text \<open>The loop ends because a round that goes on has read at least one of the bytes wanted.\<close>

function recv_loop :: "'p pipe_os \<Rightarrow> int \<Rightarrow> int \<Rightarrow> int \<Rightarrow> byte list \<Rightarrow> 'p \<Rightarrow> byte list result \<times> 'p" where
  "recv_loop OS pipe_read end_time numb data_buffer s =
     (if 0 < numb then
        (case recv_round OS pipe_read end_time numb s of
           (Inl e, t) \<Rightarrow> (Inl e, t)
         | (Inr None, t) \<Rightarrow> (Inr data_buffer, t)
         | (Inr (Some data), t) \<Rightarrow>
             if data = [] then (Inr data_buffer, t)
             else recv_loop OS pipe_read end_time (numb - int (length data)) (data_buffer @ data) t)
      else (Inr data_buffer, s))"
  by pat_completeness auto
termination
  by (relation "measure (\<lambda>(OS, p, e, numb, b, s). nat numb)") (auto split: prod.splits)

declare recv_loop.simps [simp del]

text \<open>\<open>numb\<close> None and 0 both mean whatever is there, up to 4096 bytes.\<close>

definition recv_at_most :: "'p pipe_os \<Rightarrow> pipe_manager \<Rightarrow> int option \<Rightarrow> int \<Rightarrow> bool \<Rightarrow> ('p, byte list) pm" where
  "recv_at_most OS m numb timeout stderr =
     (let pipe_read = (if stderr then pm_stderr_read m else pm_stdout_read m) in
      if pipe_read = 0 then raise RuntimeError
      else case numb of
          Some n \<Rightarrow>
            if n \<noteq> 0 then
              (if n < 0 then raise ValueError
               else bind (po_time OS) (\<lambda>now. recv_loop OS pipe_read (now + timeout) n []))
            else bind (po_select OS pipe_read timeout) (\<lambda>ready. if ready then po_read OS pipe_read 4096 else ret [])
        | None \<Rightarrow> bind (po_select OS pipe_read timeout) (\<lambda>ready. if ready then po_read OS pipe_read 4096 else ret []))"

definition recv :: "'p pipe_os \<Rightarrow> pipe_manager \<Rightarrow> int option \<Rightarrow> int \<Rightarrow> ('p, byte list) pm" where
  "recv OS m numb timeout = recv_at_most OS m numb timeout False"

definition recverr :: "'p pipe_os \<Rightarrow> pipe_manager \<Rightarrow> int option \<Rightarrow> int \<Rightarrow> ('p, byte list) pm" where
  "recverr OS m numb timeout = recv_at_most OS m numb timeout True"

section \<open>Receiving up to a delimiter\<close>

text \<open>\<open>data_buffer[: -len(delims)]\<close>; an empty delimiter drops everything.\<close>

definition drop_delims :: "byte list \<Rightarrow> byte list \<Rightarrow> byte list" where
  "drop_delims delims data_buffer =
     (if delims = [] then [] else take (length data_buffer - length delims) data_buffer)"

text \<open>
  One byte at a time; a byte that does not come in time is an empty read, and the next round looks at
  the clock again. When the time is over the bytes read so far are lost with the buffer.
\<close>

fun until_loop :: "nat \<Rightarrow> 'p pipe_os \<Rightarrow> pipe_manager \<Rightarrow> byte list \<Rightarrow> bool \<Rightarrow> int \<Rightarrow> bool \<Rightarrow> byte list \<Rightarrow> ('p, byte list) pm" where
  "until_loop 0 OS m delims dropping end_time stderr data_buffer = raise Diverges"
| "until_loop (Suc fuel) OS m delims dropping end_time stderr data_buffer =
     bind (po_time OS) (\<lambda>now.
     if end_time < now then raise TimeoutError
     else
       bind (po_time OS) (\<lambda>now.
       bind (recv_at_most OS m (Some 1) (max 0 (end_time - now)) stderr) (\<lambda>data.
       if sublist delims (data_buffer @ data) then
         ret (if dropping then drop_delims delims (data_buffer @ data) else data_buffer @ data)
       else until_loop fuel OS m delims dropping end_time stderr (data_buffer @ data))))"

definition recvonceuntil ::
    "nat \<Rightarrow> 'p pipe_os \<Rightarrow> pipe_manager \<Rightarrow> byte list \<Rightarrow> bool \<Rightarrow> int \<Rightarrow> bool \<Rightarrow> ('p, byte list) pm" where
  "recvonceuntil fuel OS m delims dropping timeout stderr =
     bind (po_time OS) (\<lambda>now. until_loop fuel OS m delims dropping (now + timeout) stderr [])"

fun occurrences_loop ::
    "nat \<Rightarrow> nat \<Rightarrow> 'p pipe_os \<Rightarrow> pipe_manager \<Rightarrow> byte list \<Rightarrow> bool \<Rightarrow> int \<Rightarrow> bool \<Rightarrow> byte list \<Rightarrow> ('p, byte list) pm" where
  "occurrences_loop fuel 0 OS m delims dropping end_time stderr data_buffer = ret data_buffer"
| "occurrences_loop fuel (Suc k) OS m delims dropping end_time stderr data_buffer =
     bind (po_time OS) (\<lambda>now.
     bind (recvonceuntil fuel OS m delims dropping (max 0 (end_time - now)) stderr) (\<lambda>data.
     occurrences_loop fuel k OS m delims dropping end_time stderr (data_buffer @ data)))"

definition recvuntil_from ::
    "nat \<Rightarrow> 'p pipe_os \<Rightarrow> pipe_manager \<Rightarrow> byte list \<Rightarrow> int \<Rightarrow> bool \<Rightarrow> int \<Rightarrow> bool \<Rightarrow> ('p, byte list) pm" where
  "recvuntil_from fuel OS m delims occurences dropping timeout stderr =
     (if occurences \<le> 0 then raise ValueError
      else bind (po_time OS) (\<lambda>now. occurrences_loop fuel (nat occurences) OS m delims dropping (now + timeout) stderr []))"

definition recvuntil :: "nat \<Rightarrow> 'p pipe_os \<Rightarrow> pipe_manager \<Rightarrow> byte list \<Rightarrow> int \<Rightarrow> bool \<Rightarrow> int \<Rightarrow> ('p, byte list) pm" where
  "recvuntil fuel OS m delims occurences dropping timeout = recvuntil_from fuel OS m delims occurences dropping timeout False"

definition recverruntil :: "nat \<Rightarrow> 'p pipe_os \<Rightarrow> pipe_manager \<Rightarrow> byte list \<Rightarrow> int \<Rightarrow> bool \<Rightarrow> int \<Rightarrow> ('p, byte list) pm" where
  "recverruntil fuel OS m delims occurences dropping timeout = recvuntil_from fuel OS m delims occurences dropping timeout True"

definition line_end :: "byte list" where
  "line_end = [0x0A]"

definition recvline :: "nat \<Rightarrow> 'p pipe_os \<Rightarrow> pipe_manager \<Rightarrow> int \<Rightarrow> bool \<Rightarrow> int \<Rightarrow> ('p, byte list) pm" where
  "recvline fuel OS m numlines dropping timeout = recvuntil fuel OS m line_end numlines dropping timeout"

definition recverrline :: "nat \<Rightarrow> 'p pipe_os \<Rightarrow> pipe_manager \<Rightarrow> int \<Rightarrow> bool \<Rightarrow> int \<Rightarrow> ('p, byte list) pm" where
  "recverrline fuel OS m numlines dropping timeout = recverruntil fuel OS m line_end numlines dropping timeout"

section \<open>Sending and closing\<close>

definition send :: "'p pipe_os \<Rightarrow> pipe_manager \<Rightarrow> byte list \<Rightarrow> ('p, int) pm" where
  "send OS m data = (if pm_stdin_write m = 0 then raise RuntimeError else po_write OS (pm_stdin_write m) data)"

definition sendline :: "'p pipe_os \<Rightarrow> pipe_manager \<Rightarrow> byte list \<Rightarrow> ('p, int) pm" where
  "sendline OS m data = send OS m (data @ line_end)"

definition sendafter ::
    "nat \<Rightarrow> 'p pipe_os \<Rightarrow> pipe_manager \<Rightarrow> byte list \<Rightarrow> byte list \<Rightarrow> int \<Rightarrow> bool \<Rightarrow> int \<Rightarrow> ('p, byte list \<times> int) pm" where
  "sendafter fuel OS m delims data occurences dropping timeout =
     bind (recvuntil fuel OS m delims occurences dropping timeout) (\<lambda>received.
     bind (send OS m data) (\<lambda>sent. ret (received, sent)))"

definition sendlineafter ::
    "nat \<Rightarrow> 'p pipe_os \<Rightarrow> pipe_manager \<Rightarrow> byte list \<Rightarrow> byte list \<Rightarrow> int \<Rightarrow> bool \<Rightarrow> int \<Rightarrow> ('p, byte list \<times> int) pm" where
  "sendlineafter fuel OS m delims data occurences dropping timeout =
     bind (recvuntil fuel OS m delims occurences dropping timeout) (\<lambda>received.
     bind (sendline OS m data) (\<lambda>sent. ret (received, sent)))"

definition close_pipe_manager :: "'p pipe_os \<Rightarrow> pipe_manager \<Rightarrow> ('p, unit) pm" where
  "close_pipe_manager OS m =
     bind (po_close OS (pm_stdin_write m)) (\<lambda>_. bind (po_close OS (pm_stdout_read m)) (\<lambda>_. po_close OS (pm_stderr_read m)))"

section \<open>What the system promises\<close>

text \<open>
  \<open>content\<close> is what has been written to the pipe and not read yet, and may grow at any time; \<open>now\<close> is
  the clock, which only goes forward, and \<open>d\<close> bounds the time of one call that does not wait.
\<close>

definition pipe_laws ::
    "'p pipe_os \<Rightarrow> int \<Rightarrow> ('p \<Rightarrow> byte list) \<Rightarrow> ('p \<Rightarrow> int) \<Rightarrow> int \<Rightarrow> ('p \<Rightarrow> bool) \<Rightarrow> bool" where
  "pipe_laws OS fd content now d ok \<longleftrightarrow> fd \<noteq> 0 \<and>
     (\<forall>s. ok s \<longrightarrow> (\<exists>t. po_time OS s = (Inr (now s), t) \<and> ok t \<and> now s < now t \<and> now t \<le> now s + d \<and>
        prefix (content s) (content t))) \<and>
     (\<forall>s w. ok s \<longrightarrow> (\<exists>b t. po_select OS fd w s = (Inr b, t) \<and> ok t \<and> now s \<le> now t \<and> prefix (content s) (content t) \<and>
        (content s \<noteq> [] \<longrightarrow> b \<and> now t \<le> now s + d))) \<and>
     (\<forall>s n. ok s \<longrightarrow> 0 < n \<longrightarrow> (\<exists>data rest t. po_read OS fd n s = (Inr data, t) \<and> ok t \<and> now s \<le> now t \<and>
        content s = data @ rest \<and> prefix rest (content t) \<and> int (length data) \<le> n \<and>
        (content s \<noteq> [] \<longrightarrow> data \<noteq> [] \<and> now t \<le> now s + d)))"

lemma pipe_fd: "pipe_laws OS fd content now d ok \<Longrightarrow> fd \<noteq> 0"
  by (simp add: pipe_laws_def)

lemma pipe_time:
  assumes "pipe_laws OS fd content now d ok" and "ok s"
  obtains t where "po_time OS s = (Inr (now s), t)" "ok t" "now s < now t" "now t \<le> now s + d" "prefix (content s) (content t)"
  using assms unfolding pipe_laws_def by blast

lemma pipe_select:
  assumes "pipe_laws OS fd content now d ok" and "ok s"
  obtains b t where "po_select OS fd w s = (Inr b, t)" "ok t" "now s \<le> now t" "prefix (content s) (content t)"
    "content s \<noteq> [] \<Longrightarrow> b \<and> now t \<le> now s + d"
  using assms unfolding pipe_laws_def by blast

lemma pipe_read:
  assumes "pipe_laws OS fd content now d ok" and "ok s" and "0 < n"
  obtains data rest t where "po_read OS fd n s = (Inr data, t)" "ok t" "now s \<le> now t" "content s = data @ rest"
    "prefix rest (content t)" "int (length data) \<le> n" "content s \<noteq> [] \<Longrightarrow> data \<noteq> [] \<and> now t \<le> now s + d"
  using assms unfolding pipe_laws_def by blast

section \<open>Bounds\<close>

definition short_reads :: "'p pipe_os \<Rightarrow> bool" where
  "short_reads OS \<longleftrightarrow> (\<forall>fd n s data t. 0 \<le> n \<longrightarrow> po_read OS fd n s = (Inr data, t) \<longrightarrow> int (length data) \<le> n)"

lemma short_readsD:
  "short_reads OS \<Longrightarrow> 0 \<le> n \<Longrightarrow> po_read OS fd n s = (Inr data, t) \<Longrightarrow> int (length data) \<le> n"
  unfolding short_reads_def by blast

lemma recv_round_bound:
  assumes "short_reads OS" and "0 \<le> n" and "recv_round OS fd end_time n s = (Inr (Some data), t)"
  shows "int (length data) \<le> n \<and> data \<noteq> []"
  using assms by (auto simp: recv_round_def py_simps short_reads_def split: prod.splits sum.splits if_splits) blast

lemma recv_loop_bound:
  assumes "short_reads OS"
  shows "0 \<le> numb \<Longrightarrow> recv_loop OS fd end_time numb buf s = (Inr data, t) \<Longrightarrow> int (length data) \<le> int (length buf) + numb"
proof (induction "nat numb" arbitrary: numb buf s rule: less_induct)
  case less
  consider "numb = 0" | "0 < numb" using less.prems(1) by linarith
  then show ?case
  proof cases
    case 2
    obtain r u where round: "recv_round OS fd end_time numb s = (r, u)" by fastforce
    note run = less.prems(2) [unfolded recv_loop.simps [of OS fd end_time numb]]
    show ?thesis
    proof (cases "\<exists>d. r = Inr (Some d)")
      case True
      then obtain d where d: "r = Inr (Some d)" ..
      then have len: "int (length d) \<le> numb" "d \<noteq> []" using recv_round_bound [OF assms] 2 round by (metis less_imp_le)+
      then have "recv_loop OS fd end_time (numb - int (length d)) (buf @ d) u = (Inr data, t)"
        using run 2 round d by simp
      moreover have "nat (numb - int (length d)) < nat numb" using len 2 by (cases d) auto
      ultimately show ?thesis using less.hyps [of "numb - int (length d)" "buf @ d" u] len by simp
    qed (use run 2 round in \<open>auto split: sum.splits option.splits\<close>)
  qed (use less.prems in \<open>simp add: recv_loop.simps\<close>)
qed

section \<open>One byte\<close>

text \<open>With data there, \<open>_recv\<close> of one byte takes the first, within six calls of the system.\<close>

lemma recv_one:
  assumes laws: "pipe_laws OS fd content now d ok" and "ok s" and "content s = b # rest" and "d \<le> timeout"
    and fd: "fd = (if stderr then pm_stderr_read m else pm_stdout_read m)"
  obtains t where "recv_at_most OS m (Some 1) timeout stderr s = (Inr [b], t)" "ok t" "prefix rest (content t)"
    "now s \<le> now t" "now t \<le> now s + 5 * d"
proof -
  from pipe_time [OF laws assms(2)] obtain s1 where s1: "po_time OS s = (Inr (now s), s1)" "ok s1" "now s < now s1"
    "now s1 \<le> now s + d" "prefix (content s) (content s1)" by blast
  from pipe_time [OF laws s1(2)] obtain s2 where s2: "po_time OS s1 = (Inr (now s1), s2)" "ok s2" "now s1 < now s2"
    "now s2 \<le> now s1 + d" "prefix (content s1) (content s2)" by blast
  from pipe_time [OF laws s2(2)] obtain s3 where s3: "po_time OS s2 = (Inr (now s2), s3)" "ok s3" "now s2 < now s3"
    "now s3 \<le> now s2 + d" "prefix (content s2) (content s3)" by blast
  let ?w = "max 0 (now s + timeout - now s2)"
  have c3: "prefix (b # rest) (content s3)" using assms(3) s1(5) s2(5) s3(5) by (metis prefix_order.trans)
  then have ne3: "content s3 \<noteq> []" by (metis list.distinct(1) prefix_Nil)
  with pipe_select [OF laws s3(2), of ?w] obtain s4 where s4: "po_select OS fd ?w s3 = (Inr True, s4)" "ok s4" "now s3 \<le> now s4"
    "prefix (content s3) (content s4)" "now s4 \<le> now s3 + d" by metis
  have c4: "prefix (b # rest) (content s4)" using c3 s4(4) by (metis prefix_order.trans)
  then have ne4: "content s4 \<noteq> []" by (metis list.distinct(1) prefix_Nil)
  with pipe_read [OF laws s4(2), of 1] obtain data rst s5 where s5: "po_read OS fd 1 s4 = (Inr data, s5)" "ok s5" "now s4 \<le> now s5"
    "content s4 = data @ rst" "prefix rst (content s5)" "int (length data) \<le> 1" "data \<noteq> []" "now s5 \<le> now s4 + d"
    by (metis zero_less_one)
  then obtain x where x: "data = [x]" by (cases data) auto
  with c4 s5(4) have b: "x = b" "prefix rest rst" by simp_all
  have "recv_round OS fd (now s + timeout) 1 s1 = (Inr (Some [b]), s5)"
    using s1 s2 s3(1) s4(1) s5(1) x b(1) assms(4) by (simp add: recv_round_def py_simps)
  then have "recv_loop OS fd (now s + timeout) 1 [] s1 = (Inr [b], s5)" by (simp add: recv_loop.simps)
  then have "recv_at_most OS m (Some 1) timeout stderr s = (Inr [b], s5)"
    using s1(1) pipe_fd [OF laws] by (simp add: recv_at_most_def fd [symmetric] py_simps)
  moreover have "prefix rest (content s5)" using b(2) s5(5) by (rule prefix_order.trans)
  moreover have "now s \<le> now s5" "now s5 \<le> now s + 5 * d" using s1 s2 s3 s4 s5 by linarith+
  ultimately show ?thesis using s5(2) that by blast
qed

section \<open>Up to a delimiter\<close>

text \<open>\<open>w\<close> is what \<open>recvonceuntil\<close> returns: the first bytes, one at least, that contain the delimiter.\<close>

definition first_until :: "byte list \<Rightarrow> byte list \<Rightarrow> bool" where
  "first_until delims w \<longleftrightarrow> w \<noteq> [] \<and> sublist delims w \<and> (\<forall>v. strict_prefix v w \<longrightarrow> v \<noteq> [] \<longrightarrow> \<not> sublist delims v)"

lemma until_loop_exact:
  assumes laws: "pipe_laws OS fd content now d ok" and "0 \<le> d" and fd: "fd = (if stderr then pm_stderr_read m else pm_stdout_read m)"
    and first: "first_until delims (buf @ w)"
  shows "w \<noteq> [] \<Longrightarrow> ok s \<Longrightarrow> prefix (w @ rest) (content s) \<Longrightarrow> length w \<le> fuel \<Longrightarrow> now s + 8 * d * int (length w) \<le> end_time \<Longrightarrow>
    \<exists>t. until_loop fuel OS m delims dropping end_time stderr buf s =
        (Inr (if dropping then drop_delims delims (buf @ w) else buf @ w), t) \<and>
      ok t \<and> prefix rest (content t) \<and> now s \<le> now t \<and> now t \<le> now s + 8 * d * int (length w)"
  using first
proof (induction w arbitrary: buf s fuel)
  case (Cons b w)
  then obtain fuel' where fuel: "fuel = Suc fuel'" by (cases fuel) auto
  have budget: "now s + 8 * d + 8 * d * int (length w) \<le> end_time" "0 \<le> d * int (length w)"
    using Cons.prems(5) assms(2) by (simp_all add: algebra_simps)
  from pipe_time [OF laws Cons.prems(2)] obtain s1 where s1: "po_time OS s = (Inr (now s), s1)" "ok s1" "now s < now s1"
    "now s1 \<le> now s + d" "prefix (content s) (content s1)" by blast
  from pipe_time [OF laws s1(2)] obtain s2 where s2: "po_time OS s1 = (Inr (now s1), s2)" "ok s2" "now s1 < now s2"
    "now s2 \<le> now s1 + d" "prefix (content s1) (content s2)" by blast
  have "prefix (b # (w @ rest)) (content s2)" using Cons.prems(3) s1(5) s2(5) by (metis append_Cons prefix_order.trans)
  then obtain more where c2: "content s2 = b # (w @ rest @ more)" by (auto simp: prefix_def)
  have wait: "d \<le> max 0 (end_time - now s1)" using budget s1 s2 by linarith
  from recv_one [OF laws s2(2) c2 wait fd] obtain s3 where s3:
    "recv_at_most OS m (Some 1) (max 0 (end_time - now s1)) stderr s2 = (Inr [b], s3)" "ok s3"
    "prefix (w @ rest @ more) (content s3)" "now s2 \<le> now s3" "now s3 \<le> now s2 + 5 * d" by blast
  have c3: "prefix (w @ rest) (content s3)" using s3(3) by (metis append.assoc append_prefixD)
  have in_time: "\<not> end_time < now s" using budget assms(2) by linarith
  have time: "now s \<le> now s3" "now s3 \<le> now s + 7 * d" using s1 s2 s3 by linarith+
  show ?case
  proof (cases "w = []")
    case True
    then have "sublist delims (buf @ [b])" using Cons.prems(6) by (simp add: first_until_def)
    moreover have "now s3 \<le> now s + 8 * d * int (length (b # w))" using time(2) assms(2) True by simp
    ultimately show ?thesis
      using s1(1) s2(1) s3 c3 in_time True time(1) by (intro exI [of _ s3]) (simp add: fuel py_simps)
  next
    case False
    then have "strict_prefix (buf @ [b]) (buf @ b # w)" by (simp add: strict_prefix_def)
    then have no: "\<not> sublist delims (buf @ [b])" using Cons.prems(6) by (simp add: first_until_def)
    have ih: "now s3 + 8 * d * int (length w) \<le> end_time" using budget time(2) assms(2) by linarith
    from Cons.IH [OF False s3(2) c3 _ ih, of fuel' "buf @ [b]"] Cons.prems(4,6) fuel obtain t where t:
      "until_loop fuel' OS m delims dropping end_time stderr (buf @ [b]) s3 =
        (Inr (if dropping then drop_delims delims (buf @ b # w) else buf @ b # w), t)"
      "ok t" "prefix rest (content t)" "now s3 \<le> now t" "now t \<le> now s3 + 8 * d * int (length w)" by auto
    have "now t \<le> now s + 8 * d * int (length (b # w))" using t(5) time(2) assms(2) by (simp add: algebra_simps)
    then show ?thesis
      using s1(1) s2(1) s3(1) t time(1) in_time no by (intro exI [of _ t]) (simp add: fuel py_simps)
  qed
qed simp

text \<open>Several times in a row, on a stream of such pieces.\<close>

lemma occurrences_exact:
  assumes laws: "pipe_laws OS fd content now d ok" and "0 \<le> d" and fd: "fd = (if stderr then pm_stderr_read m else pm_stdout_read m)"
  shows "\<forall>w \<in> set ws. first_until delims w \<Longrightarrow> ok s \<Longrightarrow> prefix (concat ws @ rest) (content s) \<Longrightarrow> length (concat ws) \<le> fuel \<Longrightarrow>
    now s + d * (8 * int (length (concat ws)) + 2 * int (length ws)) \<le> end_time \<Longrightarrow>
    \<exists>t. occurrences_loop fuel (length ws) OS m delims dropping end_time stderr buf s =
        (Inr (buf @ concat (map (\<lambda>w. if dropping then drop_delims delims w else w) ws)), t) \<and> ok t \<and> prefix rest (content t)"
proof (induction ws arbitrary: buf s)
  case Nil
  then show ?case by (simp add: ret_def)
next
  case (Cons w ws)
  let ?piece = "\<lambda>w. if dropping then drop_delims delims w else w"
  have w: "first_until delims ([] @ w)" "w \<noteq> []" using Cons.prems(1) by (auto simp: first_until_def)
  have d0: "0 \<le> d * int (length (concat ws))" "0 \<le> d * int (length ws)" "0 \<le> d * int (length w)" using assms(2) by simp_all
  have budget: "now s + 2 * d + 8 * d * int (length w) + d * (8 * int (length (concat ws)) + 2 * int (length ws)) \<le> end_time"
    using Cons.prems(5) by (simp add: algebra_simps)
  from pipe_time [OF laws Cons.prems(2)] obtain s1 where s1: "po_time OS s = (Inr (now s), s1)" "ok s1" "now s < now s1"
    "now s1 \<le> now s + d" "prefix (content s) (content s1)" by blast
  from pipe_time [OF laws s1(2)] obtain s2 where s2: "po_time OS s1 = (Inr (now s1), s2)" "ok s2" "now s1 < now s2"
    "now s2 \<le> now s1 + d" "prefix (content s1) (content s2)" by blast
  let ?until = "now s1 + max 0 (end_time - now s)"
  have c2: "prefix (w @ concat ws @ rest) (content s2)"
    using prefix_order.trans [OF prefix_order.trans [OF Cons.prems(3) s1(5)] s2(5)] by simp
  have in_time: "now s2 + 8 * d * int (length w) \<le> ?until"
  proof -
    have "0 \<le> d * (8 * int (length (concat ws)) + 2 * int (length ws))" using assms(2) by simp
    then show ?thesis using budget s1(3,4) s2(4) by linarith
  qed
  from until_loop_exact [OF laws assms(2) fd w s2(2) c2 _ in_time, of fuel dropping] Cons.prems(4) obtain t where t:
    "until_loop fuel OS m delims dropping ?until stderr [] s2 = (Inr (?piece w), t)" "ok t" "prefix (concat ws @ rest) (content t)"
    "now t \<le> now s2 + 8 * d * int (length w)" by auto
  have once: "recvonceuntil fuel OS m delims dropping (max 0 (end_time - now s)) stderr s1 = (Inr (?piece w), t)"
    using s2(1) t(1) by (simp add: recvonceuntil_def py_simps)
  have "now t + d * (8 * int (length (concat ws)) + 2 * int (length ws)) \<le> end_time"
    using budget t(4) s1(4) s2(4) by linarith
  from Cons.IH [OF _ t(2,3) _ this, of "buf @ ?piece w"] Cons.prems(1,4) obtain u where
    "occurrences_loop fuel (length ws) OS m delims dropping end_time stderr (buf @ ?piece w) t =
      (Inr ((buf @ ?piece w) @ concat (map ?piece ws)), u)" "ok u" "prefix rest (content u)" by auto
  then show ?case using s1(1) once by (intro exI [of _ u]) (simp add: py_simps)
qed

section \<open>Every call ends\<close>

text \<open>The clock alone bounds the loops: each round starts with a later reading.\<close>

lemma recv_loop_goes_on:
  assumes laws: "pipe_laws OS fd content now d ok"
  shows "ok s \<Longrightarrow> \<exists>data t. recv_loop OS fd end_time numb buf s = (Inr data, t) \<and> ok t \<and> now s \<le> now t"
proof (induction "nat numb" arbitrary: numb buf s rule: less_induct)
  case less
  show ?case
  proof (cases "0 < numb")
    case False
    then show ?thesis using less.prems by (simp add: recv_loop.simps)
  next
    case True
    have "\<exists>r t. recv_round OS fd end_time numb s = (Inr r, t) \<and> ok t \<and> now s \<le> now t"
    proof -
      from pipe_time [OF laws less.prems] obtain s1 where s1: "po_time OS s = (Inr (now s), s1)" "ok s1" "now s < now s1" by blast
      from pipe_time [OF laws s1(2)] obtain s2 where s2: "po_time OS s1 = (Inr (now s1), s2)" "ok s2" "now s1 < now s2" by blast
      from pipe_select [OF laws s2(2), of "max 0 (end_time - now s1)"] obtain b s3 where s3:
        "po_select OS fd (max 0 (end_time - now s1)) s2 = (Inr b, s3)" "ok s3" "now s2 \<le> now s3" by blast
      from pipe_read [OF laws s3(2) True] obtain data s4 where s4: "po_read OS fd numb s3 = (Inr data, s4)" "ok s4" "now s3 \<le> now s4"
        by blast
      show ?thesis
        using s1 s2 s3 s4 by (cases "end_time < now s"; cases b) (auto simp: recv_round_def py_simps)
    qed
    then obtain r t where r: "recv_round OS fd end_time numb s = (Inr r, t)" "ok t" "now s \<le> now t" by blast
    show ?thesis
    proof (cases "r = None \<or> r = Some []")
      case True
      then show ?thesis using r \<open>0 < numb\<close> by (auto simp: recv_loop.simps)
    next
      case False
      then obtain data where data: "r = Some data" "data \<noteq> []" by (cases r) auto
      then have "nat (numb - int (length data)) < nat numb" using True by (cases data) auto
      from less.hyps [OF this r(2), of "buf @ data"] obtain x u where
        "recv_loop OS fd end_time (numb - int (length data)) (buf @ data) t = (Inr x, u)" "ok u" "now t \<le> now u" by blast
      then show ?thesis using r data True by (auto simp: recv_loop.simps [of OS fd end_time numb])
    qed
  qed
qed

lemma until_loop_ends:
  assumes laws: "pipe_laws OS fd content now d ok" and fd: "fd = (if stderr then pm_stderr_read m else pm_stdout_read m)"
  shows "ok s \<Longrightarrow> nat (end_time + 1 - now s) < fuel \<Longrightarrow>
    \<exists>r t. until_loop fuel OS m delims dropping end_time stderr buf s = (r, t) \<and> r \<noteq> Inl Diverges \<and> ok t \<and> now s \<le> now t"
proof (induction fuel arbitrary: buf s)
  case (Suc fuel)
  from pipe_time [OF laws Suc.prems(1)] obtain s1 where s1: "po_time OS s = (Inr (now s), s1)" "ok s1" "now s < now s1" by blast
  show ?case
  proof (cases "end_time < now s")
    case True
    then show ?thesis using s1 by (simp add: py_simps)
  next
    case False
    from pipe_time [OF laws s1(2)] obtain s2 where s2: "po_time OS s1 = (Inr (now s1), s2)" "ok s2" "now s1 < now s2" by blast
    from pipe_time [OF laws s2(2)] obtain s3 where s3: "po_time OS s2 = (Inr (now s2), s3)" "ok s3" "now s2 < now s3" by blast
    from recv_loop_goes_on [OF laws s3(2), of "now s2 + max 0 (end_time - now s1)" 1 "[]"] obtain data s4 where
      s4: "recv_loop OS fd (now s2 + max 0 (end_time - now s1)) 1 [] s3 = (Inr data, s4)" "ok s4" "now s3 \<le> now s4" by blast
    have one: "recv_at_most OS m (Some 1) (max 0 (end_time - now s1)) stderr s2 = (Inr data, s4)"
      using s3(1) s4(1) pipe_fd [OF laws] by (simp add: recv_at_most_def fd [symmetric] py_simps)
    have "nat (end_time + 1 - now s4) < fuel" using Suc.prems(2) False s1 s2 s3 s4 by linarith
    from Suc.IH [OF s4(2) this, of "buf @ data"] obtain r t where
      "until_loop fuel OS m delims dropping end_time stderr (buf @ data) s4 = (r, t)" "r \<noteq> Inl Diverges" "ok t" "now s4 \<le> now t" by blast
    then show ?thesis using False s1 s2 s3 s4 one by (auto simp: py_simps)
  qed
qed simp

lemma occurrences_end:
  assumes laws: "pipe_laws OS fd content now d ok" and "0 \<le> d" and fd: "fd = (if stderr then pm_stderr_read m else pm_stdout_read m)"
  shows "ok s \<Longrightarrow> nat (end_time + 2 * d + 1 - now s) < fuel \<Longrightarrow> 2 * d + 1 < int fuel \<Longrightarrow>
    fst (occurrences_loop fuel k OS m delims dropping end_time stderr buf s) \<noteq> Inl Diverges"
proof (induction k arbitrary: buf s)
  case (Suc k)
  from pipe_time [OF laws Suc.prems(1)] obtain s1 where s1: "po_time OS s = (Inr (now s), s1)" "ok s1" "now s < now s1"
    "now s1 \<le> now s + d" by blast
  from pipe_time [OF laws s1(2)] obtain s2 where s2: "po_time OS s1 = (Inr (now s1), s2)" "ok s2" "now s1 < now s2"
    "now s2 \<le> now s1 + d" by blast
  have "nat (now s1 + max 0 (end_time - now s) + 1 - now s2) < fuel" using Suc.prems(2,3) s1 s2 assms(2) by linarith
  from until_loop_ends [OF laws fd s2(2) this, of delims dropping "[]"] obtain r t where
    t: "until_loop fuel OS m delims dropping (now s1 + max 0 (end_time - now s)) stderr [] s2 = (r, t)" "r \<noteq> Inl Diverges" "ok t"
    "now s2 \<le> now t" by blast
  have "nat (end_time + 2 * d + 1 - now t) < fuel" using Suc.prems(2) s1 s2 t(4) by linarith
  from Suc.IH [OF t(3) this Suc.prems(3)] show ?case
    using s1(1) s2(1) t(1,2) by (cases r) (simp_all add: recvonceuntil_def py_simps)
qed (simp add: ret_def)

section \<open>Properties\<close>

text \<open>A system for the witnesses: what is in the pipe and a clock that counts the calls.\<close>

record sample_pipe =
  sp_content :: "byte list"
  sp_now :: int

definition sample_pipe_os :: "sample_pipe pipe_os" where
  "sample_pipe_os = \<lparr>po_time = (\<lambda>s. (Inr (sp_now s), s\<lparr>sp_now := sp_now s + 1\<rparr>)),
     po_select = (\<lambda>fd w s. (Inr (sp_content s \<noteq> []), s\<lparr>sp_now := sp_now s + (if sp_content s = [] then max 0 w else 1)\<rparr>)),
     po_read = (\<lambda>fd n s. (Inr (take (nat n) (sp_content s)), \<lparr>sp_content = drop (nat n) (sp_content s), sp_now = sp_now s + 1\<rparr>)),
     po_write = (\<lambda>fd data s. (Inr (int (length data)), s)),
     po_close = (\<lambda>fd s. (Inr (), s))\<rparr>"

definition sample_manager :: pipe_manager where
  "sample_manager = \<lparr>pm_stdin_write = 3, pm_stdout_read = 4, pm_stderr_read = 5\<rparr>"

lemma sample_pipe_laws: "pipe_laws sample_pipe_os 4 sp_content sp_now 1 (\<lambda>s. True)"
proof -
  have "\<exists>rest. content = take (nat n) content @ rest \<and> prefix rest (drop (nat n) content) \<and> int (min (length content) (nat n)) \<le> n"
    if "0 < n" for n :: int and content :: "byte list"
    using that by (intro exI [of _ "drop (nat n) content"]) (auto simp: min_def)
  then show ?thesis by (auto simp: pipe_laws_def sample_pipe_os_def)
qed

lemma sample_short_reads: "short_reads sample_pipe_os"
  by (auto simp: short_reads_def sample_pipe_os_def min_def)

text \<open>C21: recvuntil returns exactly the wanted occurrences.\<close>

theorem recvuntil_exact:
  assumes laws: "pipe_laws OS fd content now d ok" and "0 \<le> d" and "fd = pm_stdout_read m" and "ok s" and "ws \<noteq> []"
    and pieces: "list_all (first_until delims) ws" and there: "prefix (concat ws @ rest) (content s)"
    and "length (concat ws) \<le> fuel" and "d * (8 * int (length (concat ws)) + 2 * int (length ws) + 1) \<le> timeout"
  shows "\<exists>t. recvuntil fuel OS m delims (int (length ws)) dropping timeout s =
      (Inr (concat (map (\<lambda>w. if dropping then drop_delims delims w else w) ws)), t) \<and> prefix rest (content t)"
proof -
  from pipe_time [OF laws assms(4)] obtain s1 where s1: "po_time OS s = (Inr (now s), s1)" "ok s1" "now s < now s1"
    "now s1 \<le> now s + d" "prefix (content s) (content s1)" by blast
  have there1: "prefix (concat ws @ rest) (content s1)" using there s1(5) by (rule prefix_order.trans)
  have budget: "now s1 + d * (8 * int (length (concat ws)) + 2 * int (length ws)) \<le> now s + timeout"
    using assms(9) s1(4) by (simp add: algebra_simps)
  have "\<forall>w \<in> set ws. first_until delims w" using pieces by (simp add: list_all_iff)
  from occurrences_exact [OF laws assms(2) _ this s1(2) there1 assms(8) budget, of False m dropping "[]"] assms(3)
  obtain t where "occurrences_loop fuel (length ws) OS m delims dropping (now s + timeout) False [] s1 =
      (Inr ([] @ concat (map (\<lambda>w. if dropping then drop_delims delims w else w) ws)), t)" "prefix rest (content t)" by auto
  then show ?thesis
    using s1(1) assms(5) by (intro exI [of _ t]) (simp add: recvuntil_def recvuntil_from_def py_simps)
qed

theorem recvuntil_exact_witness:
  "\<exists>t. recvuntil 100 sample_pipe_os sample_manager [0x0A] 2 True 100 \<lparr>sp_content = [1, 2, 0x0A, 3, 0x0A, 7], sp_now = 50\<rparr> =
      (Inr [1, 2, 3], t) \<and> prefix [7] (sp_content t)"
proof -
  have first: "list_all (first_until [0x0A :: byte]) [[1, 2, 0x0A], [3, 0x0A]]"
    by (auto simp: first_until_def sublist_Cons_right strict_prefix_def prefix_Cons)
  show ?thesis
    using recvuntil_exact [OF sample_pipe_laws _ _ _ _ first, of sample_manager "[7]"
        "\<lparr>sp_content = [1, 2, 0x0A, 3, 0x0A, 7], sp_now = 50\<rparr>" 100 100 True]
    by (simp add: sample_manager_def drop_delims_def)
qed

text \<open>Recv returns at most what was asked for.\<close>

lemma recv_bounded:
  assumes "short_reads OS" and "recv OS m numb timeout s = (Inr data, t)"
  shows "int (length data) \<le> (case numb of Some n \<Rightarrow> if n = 0 then 4096 else n | None \<Rightarrow> 4096)"
proof (cases "\<exists>n. numb = Some n \<and> n \<noteq> 0")
  case True
  then obtain n where n: "numb = Some n" "n \<noteq> 0" by blast
  then have "0 < n" using assms(2) by (auto simp: recv_def recv_at_most_def Let_def py_simps split: if_splits)
  moreover have "\<exists>e u. recv_loop OS (pm_stdout_read m) e n [] u = (Inr data, t)"
    using assms(2) n by (auto simp: recv_def recv_at_most_def Let_def py_simps split: if_splits prod.splits sum.splits)
  ultimately show ?thesis using recv_loop_bound [OF assms(1), of n] n by fastforce
next
  case False
  then have "(\<exists>fd u. po_read OS fd 4096 u = (Inr data, t)) \<or> data = []"
    using assms(2) by (cases numb) (auto simp: recv_def recv_at_most_def Let_def py_simps split: if_splits prod.splits sum.splits)
  then have "int (length data) \<le> 4096" using short_readsD [OF assms(1), of 4096] by fastforce
  then show ?thesis using False by (auto split: option.splits)
qed

lemma recv_bounded_witness:
  "recv sample_pipe_os sample_manager (Some 2) 10 \<lparr>sp_content = [1, 2, 3], sp_now = 0\<rparr> =
     (Inr [1, 2], \<lparr>sp_content = [3], sp_now = 5\<rparr>) \<and> int (length [1, 2 :: byte]) \<le> 2"
proof -
  have run: "recv sample_pipe_os sample_manager (Some 2) 10 \<lparr>sp_content = [1, 2, 3], sp_now = 0\<rparr> =
     (Inr [1, 2], \<lparr>sp_content = [3], sp_now = 5\<rparr>)"
    by (simp add: recv_def recv_at_most_def recv_loop.simps recv_round_def sample_pipe_os_def sample_manager_def py_simps)
  show ?thesis using recv_bounded [OF sample_short_reads run] run by simp
qed



end
