(* ===== verification/Process_Start.thy ===== *)
theory Process_Start
  imports Py_Text
begin

text \<open>
  How \<open>run\<close> starts the program: \<open>posix_spawn\<close> (\<open>libdebug/utils/posix_spawn.py\<close>) with the arguments and
  file actions that \<open>PtraceInterface.run\<close> builds, and the C program \<open>jumpstart\<close>
  (\<open>libdebug/ptrace/jumpstart/jumpstart.c\<close>) it executes, which executes the program to debug.

  The state is the child's: its table of file descriptors, each with the open file it stands for and
  whether it survives an \<open>execve\<close>. Files are numbers. What the system decides is a parameter: opening
  a path, and the error of an \<open>execve\<close> (0 for none).
\<close>

section \<open>The child's state\<close>

type_synonym fd_table = "(int, int \<times> bool) dict"

record child =
  ch_fds :: fd_table
  ch_own_group :: bool
  ch_traced :: bool

record exec_request =
  ex_file :: string
  ex_argv :: "string list"
  ex_environ :: "string list"

record spawn_os =
  so_open :: "string \<Rightarrow> int \<Rightarrow> int \<Rightarrow> (child, int) pm"
  so_exec_error :: "exec_request \<Rightarrow> int"

text \<open>\<open>os.close\<close> and \<open>os.dup2\<close>; 9 is EBADF. A copy is inheritable.\<close>

definition os_close :: "int \<Rightarrow> (child, unit) pm" where
  "os_close fd = bind (gets ch_fds) (\<lambda>fds.
     if in_dict fd fds then upd (\<lambda>c. c\<lparr>ch_fds := AList.delete fd fds\<rparr>) else raise (OSError 9))"

definition os_dup2 :: "int \<Rightarrow> int \<Rightarrow> (child, unit) pm" where
  "os_dup2 fd fd2 = bind (gets ch_fds) (\<lambda>fds. case dict_get fds fd of
       None \<Rightarrow> raise (OSError 9)
     | Some (file, inheritable) \<Rightarrow>
         if fd2 < 0 then raise (OSError 9)
         else if fd = fd2 then ret ()
         else upd (\<lambda>c. c\<lparr>ch_fds := dict_set fd2 (file, True) fds\<rparr>))"

text \<open>\<open>os.execve\<close> refuses an empty argument list, an empty first argument, and NUL characters. The kernel
  then closes what is not inheritable.\<close>

definition no_nul :: "string \<Rightarrow> bool" where
  "no_nul s \<longleftrightarrow> CHR 0x00 \<notin> set s"

definition exec_image :: "child \<Rightarrow> child" where
  "exec_image c = c\<lparr>ch_fds := filter (\<lambda>(fd, file, inheritable). inheritable) (ch_fds c)\<rparr>"

definition os_execve :: "spawn_os \<Rightarrow> exec_request \<Rightarrow> (child, exec_request) pm" where
  "os_execve SO r =
     (case ex_argv r of
        [] \<Rightarrow> raise ValueError
      | a # _ \<Rightarrow>
          if a = [] \<or> \<not> list_all no_nul (ex_file r # ex_argv r @ ex_environ r) then raise ValueError
          else if so_exec_error SO r \<noteq> 0 then raise (OSError (so_exec_error SO r))
          else bind (upd exec_image) (\<lambda>_. ret r))"

section \<open>\<open>posix_spawn\<close>\<close>

text \<open>The tuples by their first element; SpawnOther is any that \<open>posix_spawn\<close> does not know.\<close>

datatype file_action = SpawnClose int | SpawnDup2 int int | SpawnOpen int string int int | SpawnOther int

definition run_file_action :: "spawn_os \<Rightarrow> file_action \<Rightarrow> (child, unit) pm" where
  "run_file_action SO element = (case element of
       SpawnClose fd \<Rightarrow> os_close fd
     | SpawnDup2 fd fd2 \<Rightarrow> os_dup2 fd fd2
     | SpawnOpen fd path flags mode \<Rightarrow> bind (so_open SO path flags mode) (\<lambda>opened. os_dup2 opened fd)
     | SpawnOther code \<Rightarrow> raise ValueError)"

text \<open>
  What the child does after the fork. An exception here is raised in the child, which is then a second
  copy of the debugger that goes on in its caller.
\<close>

definition posix_spawn_child ::
    "spawn_os \<Rightarrow> string \<Rightarrow> string list \<Rightarrow> string list \<Rightarrow> file_action list \<Rightarrow> int \<Rightarrow> (child, exec_request) pm" where
  "posix_spawn_child SO file argv env file_actions setpgroup =
     bind (for_each (run_file_action SO) file_actions) (\<lambda>_.
     bind (py_when (setpgroup = 0) (upd (\<lambda>c. c\<lparr>ch_own_group := True\<rparr>))) (\<lambda>_.
     os_execve SO \<lparr>ex_file = file, ex_argv = argv, ex_environ = env\<rparr>))"

section \<open>What \<open>run\<close> passes\<close>

definition env_entry :: "string \<times> string \<Rightarrow> string" where
  "env_entry kv = fst kv @ ''='' @ snd kv"

definition spawn_argv :: "string \<Rightarrow> (string, string) dict option \<Rightarrow> string list \<Rightarrow> string list" where
  "spawn_argv jumpstart env argv =
     (let env_len = (case env of None \<Rightarrow> - 1 | Some e \<Rightarrow> int (length e));
          e = (case env of None \<Rightarrow> [] | Some e \<Rightarrow> e)
      in [jumpstart, py_str env_len] @ map env_entry e @ [''NULL''] @ argv)"

record std_pipes =
  stdin_read :: int
  stdin_write :: int
  stdout_read :: int
  stdout_write :: int
  stderr_read :: int
  stderr_write :: int

definition spawn_file_actions :: "std_pipes \<Rightarrow> file_action list" where
  "spawn_file_actions p =
     [SpawnClose (stdin_write p), SpawnClose (stdout_read p), SpawnClose (stderr_read p),
      SpawnDup2 (stdin_read p) 0, SpawnDup2 (stdout_write p) 1, SpawnDup2 (stderr_write p) 2,
      SpawnClose (stdin_read p), SpawnClose (stdout_write p), SpawnClose (stderr_write p)]"

section \<open>\<open>jumpstart\<close>\<close>

text \<open>
  The array \<open>argv\<close> of C: the arguments, then NULL. A list of strings in memory ends at the first NULL.
  JumpOutside stands for an access outside the array.
\<close>

definition c_array :: "string list \<Rightarrow> string option list" where
  "c_array xs = map Some xs @ [None]"

fun c_strings :: "string option list \<Rightarrow> string list" where
  "c_strings (Some x # xs) = x # c_strings xs"
| "c_strings _ = []"

datatype jump = JumpExec exec_request | JumpNoFile | JumpOutside

definition jumpstart_request :: "string list \<Rightarrow> string list \<Rightarrow> jump" where
  "jumpstart_request args environ =
     (let argv = c_array args in
      if length args < 2 then JumpOutside
      else
        let env_len = atoi (args ! 1);
            argv_offset = (if 0 < env_len then nat env_len else 0)
        in if length args < 3 + argv_offset then JumpOutside
           else
             let argv = argv[2 + argv_offset := None];
                 new_environ = c_strings (drop 2 argv);
                 new_argv = c_strings (drop (2 + argv_offset + 1) argv)
             in case new_argv of
                 [] \<Rightarrow> JumpNoFile
               | file # _ \<Rightarrow> JumpExec \<lparr>ex_file = file, ex_argv = new_argv,
                   ex_environ = (if env_len = - 1 then environ else new_environ)\<rparr>)"

text \<open>An \<open>execve\<close> that fails lets \<open>main\<close> return: the child exits.\<close>

datatype child_end = Runs exec_request | Exits

definition jumpstart_main :: "spawn_os \<Rightarrow> string list \<Rightarrow> string list \<Rightarrow> (child, child_end) pm" where
  "jumpstart_main SO args environ =
     (case jumpstart_request args environ of
        JumpOutside \<Rightarrow> ret Exits
      | JumpNoFile \<Rightarrow> bind (upd (\<lambda>c. c\<lparr>ch_traced := True\<rparr>)) (\<lambda>_. ret Exits)
      | JumpExec r \<Rightarrow>
          bind (upd (\<lambda>c. c\<lparr>ch_traced := True\<rparr>)) (\<lambda>_.
          if so_exec_error SO r \<noteq> 0 then ret Exits
          else bind (upd exec_image) (\<lambda>_. ret (Runs r))))"

text \<open>The child from the fork to the program: the interpreter, then \<open>jumpstart\<close>.\<close>

definition start_child ::
    "spawn_os \<Rightarrow> string \<Rightarrow> string list \<Rightarrow> (string, string) dict option \<Rightarrow> string list \<Rightarrow> std_pipes \<Rightarrow> (child, child_end) pm" where
  "start_child SO jumpstart environ env argv p =
     bind (posix_spawn_child SO jumpstart (spawn_argv jumpstart env argv) environ (spawn_file_actions p) 0) (\<lambda>r.
     jumpstart_main SO (ex_argv r) (ex_environ r))"

section \<open>The arguments arrive\<close>

lemma c_strings_array [simp]: "c_strings (map Some xs @ None # ys) = xs"
  by (induction xs) auto

lemma c_array_cut:
  "(c_array (x # y # es @ z # ys))[2 + length es := None] = Some x # Some y # map Some es @ None # c_array ys"
  by (simp add: c_array_def list_update_append)

lemma jumpstart_request_spawn:
  assumes "argv \<noteq> []"
  shows "jumpstart_request (spawn_argv jumpstart env argv) environ = JumpExec \<lparr>ex_file = hd argv, ex_argv = argv,
    ex_environ = (case env of None \<Rightarrow> environ | Some e \<Rightarrow> map env_entry e)\<rparr>"
proof -
  define es where "es = (case env of None \<Rightarrow> [] | Some e \<Rightarrow> map env_entry e)"
  define l where "l = (if env = None then - 1 else int (length es))"
  have args: "spawn_argv jumpstart env argv = jumpstart # py_str l # es @ ''NULL'' # argv"
    by (simp add: spawn_argv_def es_def l_def Let_def split: option.splits)
  have count: "atoi ((jumpstart # py_str l # es @ ''NULL'' # argv) ! 1) = l" by (simp add: atoi_py_str)
  have off: "(if 0 < l then nat l else 0) = length es" by (simp add: l_def es_def)
  have cut: "(c_array (jumpstart # py_str l # es @ ''NULL'' # argv))[2 + length es := None] =
      Some jumpstart # Some (py_str l) # map Some es @ None # c_array argv"
    by (rule c_array_cut)
  have "drop (2 + length es + 1) (x # y # map Some es @ z # ys) = ys" for x y z :: "string option" and ys by simp
  moreover have "c_strings (c_array argv) = argv" using c_strings_array [of argv "[]"] by (simp add: c_array_def)
  moreover have "c_strings (drop 2 (x # y # map Some es @ None # ys)) = es" for x y :: "string option" and ys by simp
  moreover obtain a rest where "argv = a # rest" using assms by (cases argv) auto
  ultimately have "jumpstart_request (spawn_argv jumpstart env argv) environ =
      JumpExec \<lparr>ex_file = hd argv, ex_argv = argv, ex_environ = (if l = - 1 then environ else es)\<rparr>"
    unfolding jumpstart_request_def Let_def args count off cut by simp
  then show ?thesis by (simp add: l_def es_def split: option.split)
qed

lemma list_all_no_nul_spawn:
  assumes "no_nul jumpstart" and "list_all no_nul argv" and "\<And>e. env = Some e \<Longrightarrow> list_all no_nul (map env_entry e)"
  shows "list_all no_nul (spawn_argv jumpstart env argv)"
proof -
  have "no_nul (py_str l)" for l by (simp add: no_nul_def py_str_no_nul)
  moreover have "no_nul ''NULL''" by (simp add: no_nul_def)
  ultimately show ?thesis using assms by (cases env) (simp_all add: spawn_argv_def Let_def)
qed

section \<open>The descriptors arrive\<close>

text \<open>The six descriptors of the debugger: distinct, none of them a standard stream, open on these files.\<close>

definition pipe_fds :: "std_pipes \<Rightarrow> int list" where
  "pipe_fds p = [stdin_read p, stdin_write p, stdout_read p, stdout_write p, stderr_read p, stderr_write p]"

definition pipes_open :: "std_pipes \<Rightarrow> fd_table \<Rightarrow> int \<Rightarrow> int \<Rightarrow> int \<Rightarrow> bool" where
  "pipes_open p fds input output errors \<longleftrightarrow> wf_dict fds \<and> distinct (pipe_fds p) \<and> list_all (\<lambda>fd. 2 < fd \<and> in_dict fd fds) (pipe_fds p) \<and>
     map_option fst (dict_get fds (stdin_read p)) = Some input \<and>
     map_option fst (dict_get fds (stdout_write p)) = Some output \<and>
     map_option fst (dict_get fds (stderr_write p)) = Some errors"

definition inherited :: "fd_table \<Rightarrow> int \<Rightarrow> (int \<times> bool) option" where
  "inherited fds fd = (case dict_get fds fd of Some (file, True) \<Rightarrow> Some (file, True) | _ \<Rightarrow> None)"

lemma exec_image_get: "wf_dict (ch_fds c) \<Longrightarrow> dict_get (ch_fds (exec_image c)) fd = inherited (ch_fds c) fd"
proof -
  have "wf_dict fds \<Longrightarrow> map_of (filter (\<lambda>(fd, file, i). i) fds) fd = inherited fds fd" for fds :: fd_table
  proof (induction fds)
    case (Cons e fds)
    have "map_of fds (fst e) = None" using Cons.prems by (simp add: wf_dict_def map_of_eq_None_iff)
    with Cons show ?case by (cases e) (auto simp: wf_dict_def inherited_def)
  qed (simp add: inherited_def)
  then show "wf_dict (ch_fds c) \<Longrightarrow> ?thesis" by (simp add: exec_image_def)
qed

lemma exec_image_wf: "wf_dict (ch_fds c) \<Longrightarrow> wf_dict (ch_fds (exec_image c))"
  by (simp add: exec_image_def wf_dict_def distinct_map_filter)

lemma inherited_twice: "(\<And>x. dict_get fds x = inherited fds0 x) \<Longrightarrow> inherited fds fd = inherited fds0 fd"
  by (simp add: inherited_def split: option.splits bool.splits prod.splits)

lemma file_actions_done:
  assumes "pipes_open p (ch_fds c) input output errors"
  shows "\<exists>fds. for_each (run_file_action SO) (spawn_file_actions p) c = (Inr (), c\<lparr>ch_fds := fds\<rparr>) \<and> wf_dict fds \<and>
    (\<forall>fd. dict_get fds fd = (if fd = 0 then Some (input, True) else if fd = 1 then Some (output, True)
       else if fd = 2 then Some (errors, True) else if fd \<in> set (pipe_fds p) then None else dict_get (ch_fds c) fd))"
proof -
  obtain i j k where "dict_get (ch_fds c) (stdin_read p) = Some (input, i)" "dict_get (ch_fds c) (stdout_write p) = Some (output, j)"
    "dict_get (ch_fds c) (stderr_write p) = Some (errors, k)"
    using assms by (auto simp: pipes_open_def)
  note files = this and p = assms [unfolded pipes_open_def pipe_fds_def]
  have high: "list_all (\<lambda>fd. fd \<noteq> 0 \<and> fd \<noteq> 1 \<and> fd \<noteq> 2 \<and> 0 \<noteq> fd \<and> 1 \<noteq> fd \<and> 2 \<noteq> fd) (pipe_fds p)"
    using assms by (auto simp: pipes_open_def list_all_iff)
  let ?copied = "dict_set 2 (errors, True) (dict_set 1 (output, True) (dict_set 0 (input, True)
    (AList.delete (stderr_read p) (AList.delete (stdout_read p) (AList.delete (stdin_write p) (ch_fds c))))))"
  let ?fds = "AList.delete (stderr_write p) (AList.delete (stdout_write p) (AList.delete (stdin_read p) ?copied))"
  have "distinct (rev (pipe_fds p))" using assms by (simp add: pipes_open_def)
  then have apart: "distinct (pipe_fds p)" "distinct (rev (pipe_fds p))" by simp_all
  have "for_each (run_file_action SO) (spawn_file_actions p) c = (Inr (), c\<lparr>ch_fds := ?fds\<rparr>)"
    using files high p apart unfolding pipe_fds_def by (simp add: spawn_file_actions_def run_file_action_def os_close_def os_dup2_def in_dict_def
        dict_get_delete dict_get_set py_simps)
  moreover have "dict_get ?fds fd = (if fd = 0 then Some (input, True) else if fd = 1 then Some (output, True)
       else if fd = 2 then Some (errors, True) else if fd \<in> set (pipe_fds p) then None else dict_get (ch_fds c) fd)" for fd
    using high apart unfolding pipe_fds_def by (simp add: dict_get_delete dict_get_set)
  moreover have "wf_dict ?fds" using p by simp
  ultimately show ?thesis by blast
qed

section \<open>Properties\<close>


definition sample_spawn_os :: spawn_os where
  "sample_spawn_os = \<lparr>so_open = (\<lambda>path flags mode. raise (OSError 2)), so_exec_error = (\<lambda>r. 0)\<rparr>"

definition sample_pipes :: std_pipes where
  "sample_pipes = \<lparr>stdin_read = 3, stdin_write = 4, stdout_read = 5, stdout_write = 6, stderr_read = 7, stderr_write = 8\<rparr>"

definition sample_child :: child where
  "sample_child = \<lparr>ch_fds = [(0, 10, True), (1, 11, True), (2, 12, True), (3, 13, False), (4, 14, False), (5, 15, False),
     (6, 16, False), (7, 17, False), (8, 18, False), (9, 19, True)], ch_own_group = False, ch_traced = False\<rparr>"

lemma sample_pipes_open: "pipes_open sample_pipes (ch_fds sample_child) 13 16 18"
  by (simp add: pipes_open_def sample_pipes_def sample_child_def pipe_fds_def wf_dict_def in_dict_def ex_bool_eq)


text \<open>A debugger whose own standard input is closed can get 0 as a descriptor of the pipe: the program then has
  no standard input.\<close>

lemma low_descriptor_lost:
  assumes "p = \<lparr>stdin_read = 0, stdin_write = 3, stdout_read = 4, stdout_write = 5, stderr_read = 6, stderr_write = 7\<rparr>"
    and "ch_fds c = [(1, 11, True), (2, 12, True), (0, 13, False), (3, 14, False), (4, 15, False), (5, 16, False), (6, 17, False), (7, 18, False)]"
  shows "\<exists>d. for_each (run_file_action SO) (spawn_file_actions p) c = (Inr (), d) \<and> dict_get (ch_fds d) 0 = None"
  by (simp add: assms spawn_file_actions_def run_file_action_def os_close_def os_dup2_def in_dict_def ex_bool_eq py_simps)

end
