(* ===== verification/Dbg_State.thy ===== *)
theory Dbg_State
  imports Dbg_Objects Hw_Breakpoints Ptrace_C Names_Printing Memory_Maps Pipe_Manager Process_Start
begin

text \<open>
  The state that \<open>InternalDebugger\<close>, \<open>PtraceInterface\<close>, \<open>PtraceStatusHandler\<close> and the
  \<open>ThreadContext\<close>s share, in one record: these objects hold references to each other, and a method
  of one writes attributes of another. Breakpoints, catchers, handlers and threads are objects the
  user also holds, so they live in heaps and the dictionaries hold references.

  \<open>env\<close> is what the code takes from outside: the operating system, the user's callbacks (any method
  of the debugger's state), the tables of names, the ELF files, \<open>/proc\<close>, and starting a process.
\<close>

section \<open>Threads\<close>

text \<open>\<open>tc_regs\<close> points to the C thread whose register file the context reads and writes.\<close>

record thread_context =
  tc_thread_id :: int
  tc_regs :: nat
  tc_dead :: bool
  tc_exit_code :: "int option"
  tc_exit_signal :: "int option"
  tc_signal_number :: int

definition ThreadContext :: "int \<Rightarrow> nat \<Rightarrow> thread_context" where
  "ThreadContext thread_id register_file = \<lparr>tc_thread_id = thread_id, tc_regs = register_file, tc_dead = False,
     tc_exit_code = None, tc_exit_signal = None, tc_signal_number = 0\<rparr>"

section \<open>Commands\<close>

text \<open>
  What the user's thread puts on the queue of the polling thread: a bound method and its arguments.
  A response is the exception that a command raised, or the bytes that a peek returned. CTerminate is
  \<open>THREAD_TERMINATE\<close>, which ends the polling thread.
\<close>

datatype command =
    CRun | CAttach int | CDetach | CKill | CCont | CWait
  | CBreakpoint nat | CCatchSignal nat | CHandleSyscall nat | CUnhandleSyscall nat
  | CStep nat | CStepUntil nat int int | CFinish nat string
  | CGdb | CMigrateFromGdb | CPeek int | CPoke int "byte list" | CTerminate

text \<open>The polling thread: running, ended, or removed by \<open>terminate\<close>.\<close>

datatype poller_thread = PollerRunning | PollerEnded | PollerNone

type_synonym response = "byte list result"

text \<open>What \<open>psutil\<close> says of the command line of a process.\<close>

datatype proc_cmdline = Cmdline "string list" | ZombieProcess | NoCmdline py_exc

section \<open>The record\<close>

text \<open>
  \<open>d_background\<close> is \<open>_is_in_background()\<close>: whether the running method was called by the polling
  thread. \<open>d_maps_cache\<close> and \<open>d_fds_cache\<close> are the caches of \<open>get_process_maps\<close> and \<open>get_open_fds\<close>, \<open>d_path_cache\<close> and \<open>d_name_cache\<close> those of
  \<open>_get_process_full_path\<close> and \<open>_get_process_name\<close> for this debugger. \<open>d_pipe_manager\<close> is None before a run.
\<close>

record 'k dbg =
  d_kernel :: 'k
  d_gs :: global_state
  d_bp_heap :: "nat \<Rightarrow> breakpoint"
  d_catcher_heap :: "nat \<Rightarrow> signal_catcher"
  d_handler_heap :: "nat \<Rightarrow> syscall_handler"
  d_thread_heap :: "nat \<Rightarrow> thread_context"
  d_next :: nat
  d_breakpoints :: "(int, nat) dict"
  d_handled_syscalls :: "(int, nat) dict"
  d_caught_signals :: "(int, nat) dict"
  d_signals_to_block :: "int list"
  d_syscalls_to_pprint :: "int list option"
  d_syscalls_to_not_pprint :: "int list option"
  d_pprint_syscalls :: bool
  d_threads :: "nat list"
  d_process_id :: int
  d_instanced :: bool
  d_is_running :: bool
  d_resume_context :: resume_context
  d_hw_helpers :: "(int, nat hw_manager) dict"
  d_iface_process_id :: int
  d_detached :: bool
  d_forward_signal :: bool
  d_assume_race_sigstop :: bool
  d_output :: string
  d_argv :: "string list"
  d_env :: "(string, string) dict option"
  d_aslr_enabled :: bool
  d_autoreach_entrypoint :: bool
  d_escape_antidebug :: bool
  d_auto_interrupt :: bool
  d_pipe_manager :: "pipe_manager option"
  d_disabled_aslr :: bool
  d_background :: bool
  d_commands :: "command list"
  d_poller :: poller_thread
  d_maps_cache :: "(int, memory_map list) dict"
  d_fds_cache :: "(int, int list) dict"
  d_path_cache :: "string option"
  d_name_cache :: "string option"

record ('k, 's) env =
  e_os :: "'k os"
  e_garbage :: regfile
  e_user_callback :: "nat \<Rightarrow> nat \<Rightarrow> nat \<Rightarrow> ('s, unit) pm"
  e_signals :: signal_module
  e_syscalls :: syscall_table
  e_arch :: string
  e_fuel :: nat
  e_elf :: elf_env
  e_maps_lines :: "int \<Rightarrow> 'k \<Rightarrow> string list result"
  e_open_fds :: "int \<Rightarrow> 'k \<Rightarrow> string list result"
  e_exe_link :: "int \<Rightarrow> 'k \<Rightarrow> string result"
  e_comm :: "int \<Rightarrow> 'k \<Rightarrow> string result"
  e_is_file :: "string \<Rightarrow> bool"
  e_is_executable :: "string \<Rightarrow> bool"
  e_personality :: "int \<Rightarrow> ('k, int) pm"
  e_pipe :: "('k, int \<times> int) pm"
  e_openpty :: "('k, int \<times> int) pm"
  e_setraw :: "int \<Rightarrow> ('k, unit) pm"
  e_pipe_os :: "'k pipe_os"
  e_spawn_os :: spawn_os
  e_fork :: "(child, exec_request) pm \<Rightarrow> ('k, int) pm"
  e_jumpstart :: string
  e_environ :: "string list"
  e_errno :: "'k \<Rightarrow> int"
  e_terminal :: "string list"
  e_gdb_goback :: string
  e_fork_exec :: "string list result \<Rightarrow> ('k, int) pm"
  e_sigint :: "bool \<Rightarrow> ('k, unit) pm"
  e_popen :: "string list \<Rightarrow> ('k, int) pm"
  e_processes :: "'k \<Rightarrow> (int \<times> proc_cmdline) list"
  e_proc_alive :: "int \<Rightarrow> ('k, bool) pm"

text \<open>An environment whose callbacks work on the debugger's own state.\<close>

type_synonym 'k denv = "('k, 'k dbg) env"

type_synonym ('k, 'a) dm = "('k dbg, 'a) pm"

section \<open>Parts of the state\<close>

definition in_c :: "('k c_state, 'a) pm \<Rightarrow> ('k, 'a) dm" where
  "in_c m = (\<lambda>s. case m (d_gs s, d_kernel s) of (r, (g, k)) \<Rightarrow> (r, s\<lparr>d_gs := g, d_kernel := k\<rparr>))"

definition in_kernel :: "('k, 'a) pm \<Rightarrow> ('k, 'a) dm" where
  "in_kernel m = zoom d_kernel (\<lambda>k s. s\<lparr>d_kernel := k\<rparr>) m"

definition upd_bp :: "nat \<Rightarrow> (breakpoint \<Rightarrow> breakpoint) \<Rightarrow> ('k, unit) dm" where
  "upd_bp b f = upd (\<lambda>s. s\<lparr>d_bp_heap := (d_bp_heap s)(b := f (d_bp_heap s b))\<rparr>)"

definition upd_catcher :: "nat \<Rightarrow> (signal_catcher \<Rightarrow> signal_catcher) \<Rightarrow> ('k, unit) dm" where
  "upd_catcher c f = upd (\<lambda>s. s\<lparr>d_catcher_heap := (d_catcher_heap s)(c := f (d_catcher_heap s c))\<rparr>)"

definition upd_handler :: "nat \<Rightarrow> (syscall_handler \<Rightarrow> syscall_handler) \<Rightarrow> ('k, unit) dm" where
  "upd_handler h f = upd (\<lambda>s. s\<lparr>d_handler_heap := (d_handler_heap s)(h := f (d_handler_heap s h))\<rparr>)"

definition upd_thread :: "nat \<Rightarrow> (thread_context \<Rightarrow> thread_context) \<Rightarrow> ('k, unit) dm" where
  "upd_thread t f = upd (\<lambda>s. s\<lparr>d_thread_heap := (d_thread_heap s)(t := f (d_thread_heap s t))\<rparr>)"

definition upd_resume :: "(resume_context \<Rightarrow> resume_context) \<Rightarrow> ('k, unit) dm" where
  "upd_resume f = upd (\<lambda>s. s\<lparr>d_resume_context := f (d_resume_context s)\<rparr>)"

definition get_bp :: "nat \<Rightarrow> ('k, breakpoint) dm" where
  "get_bp b = gets (\<lambda>s. d_bp_heap s b)"

definition get_catcher :: "nat \<Rightarrow> ('k, signal_catcher) dm" where
  "get_catcher c = gets (\<lambda>s. d_catcher_heap s c)"

definition get_handler :: "nat \<Rightarrow> ('k, syscall_handler) dm" where
  "get_handler h = gets (\<lambda>s. d_handler_heap s h)"

definition get_thread :: "nat \<Rightarrow> ('k, thread_context) dm" where
  "get_thread t = gets (\<lambda>s. d_thread_heap s t)"

definition print_str :: "string \<Rightarrow> ('k, unit) dm" where
  "print_str x = upd (\<lambda>s. s\<lparr>d_output := d_output s @ x\<rparr>)"

text \<open>A new object in a heap, and its reference.\<close>

definition new_bp :: "breakpoint \<Rightarrow> ('k, nat) dm" where
  "new_bp b = bind (gets d_next) (\<lambda>r. bind (upd (\<lambda>s. s\<lparr>d_next := r + 1, d_bp_heap := (d_bp_heap s)(r := b)\<rparr>)) (\<lambda>_. ret r))"

definition new_catcher :: "signal_catcher \<Rightarrow> ('k, nat) dm" where
  "new_catcher c = bind (gets d_next) (\<lambda>r. bind (upd (\<lambda>s. s\<lparr>d_next := r + 1, d_catcher_heap := (d_catcher_heap s)(r := c)\<rparr>)) (\<lambda>_. ret r))"

definition new_handler :: "syscall_handler \<Rightarrow> ('k, nat) dm" where
  "new_handler h = bind (gets d_next) (\<lambda>r. bind (upd (\<lambda>s. s\<lparr>d_next := r + 1, d_handler_heap := (d_handler_heap s)(r := h)\<rparr>)) (\<lambda>_. ret r))"

definition new_thread :: "thread_context \<Rightarrow> ('k, nat) dm" where
  "new_thread t = bind (gets d_next) (\<lambda>r. bind (upd (\<lambda>s. s\<lparr>d_next := r + 1, d_thread_heap := (d_thread_heap s)(r := t)\<rparr>)) (\<lambda>_. ret r))"

section \<open>Registers of a thread\<close>

text \<open>A method of the register file that the thread's context points to.\<close>

definition on_regs :: "nat \<Rightarrow> (regfile, 'a) pm \<Rightarrow> ('k, 'a) dm" where
  "on_regs t m = (\<lambda>s. let p = tc_regs (d_thread_heap s t) in
     case m (ct_regs (gs_nodes (d_gs s) p)) of (r, rf) \<Rightarrow> (r, s\<lparr>d_gs := node_regs p rf (d_gs s)\<rparr>))"

definition thread_get :: "nat \<Rightarrow> string \<Rightarrow> ('k, int) dm" where
  "thread_get t n = on_regs t (attr_get thread_class n)"

definition thread_set :: "nat \<Rightarrow> string \<Rightarrow> int \<Rightarrow> ('k, unit) dm" where
  "thread_set t n v = on_regs t (attr_set thread_class n v)"

definition syscall_args :: "nat \<Rightarrow> ('k, int list) dm" where
  "syscall_args t =
     bind (thread_get t ''syscall_arg0'') (\<lambda>a0. bind (thread_get t ''syscall_arg1'') (\<lambda>a1.
     bind (thread_get t ''syscall_arg2'') (\<lambda>a2. bind (thread_get t ''syscall_arg3'') (\<lambda>a3.
     bind (thread_get t ''syscall_arg4'') (\<lambda>a4. bind (thread_get t ''syscall_arg5'') (\<lambda>a5.
     ret [a0, a1, a2, a3, a4, a5]))))))"

section \<open>The debugger's table of threads\<close>

definition get_thread_by_id :: "int \<Rightarrow> ('k, nat option) dm" where
  "get_thread_by_id thread_id = gets (\<lambda>s.
     List.find (\<lambda>t. tc_thread_id (d_thread_heap s t) = thread_id \<and> \<not> tc_dead (d_thread_heap s t)) (d_threads s))"

text \<open>
  \<open>thread in self.threads\<close>: no context defines equality, so a new one is never in the list; the test
  is on references.
\<close>

definition insert_new_thread :: "nat \<Rightarrow> ('k, unit) dm" where
  "insert_new_thread t = bind (gets d_threads) (\<lambda>ts.
     if t \<in> set ts then raise RuntimeError else upd (\<lambda>s. s\<lparr>d_threads := ts @ [t]\<rparr>))"

definition set_thread_as_dead :: "int \<Rightarrow> int option \<Rightarrow> int option \<Rightarrow> ('k, unit) dm" where
  "set_thread_as_dead thread_id exit_code exit_signal = bind (gets id) (\<lambda>s.
     case List.find (\<lambda>t. tc_thread_id (d_thread_heap s t) = thread_id) (d_threads s) of
       None \<Rightarrow> ret ()
     | Some t \<Rightarrow> upd_thread t (\<lambda>tc. tc\<lparr>tc_dead := True, tc_exit_code := exit_code, tc_exit_signal := exit_signal\<rparr>))"

section \<open>The signal of a thread\<close>

text \<open>
  \<open>thread.signal = value\<close>; the debug message resolves the names of the old and the new number, and
  raises ValueError for a number without a name.
\<close>

datatype signal_value = SigNum int | SigName string

definition set_signal :: "('k, 's) env \<Rightarrow> nat \<Rightarrow> signal_value \<Rightarrow> ('k, unit) dm" where
  "set_signal E t v =
     bind (get_thread t) (\<lambda>tc.
     bind (if tc_signal_number tc \<noteq> 0
           then bind (lift (resolve_signal_name (e_signals E) (tc_signal_number tc))) (\<lambda>_.
                case v of SigNum n \<Rightarrow> bind (lift (resolve_signal_name (e_signals E) n)) (\<lambda>_. ret ())
                | SigName _ \<Rightarrow> ret ())
           else ret ()) (\<lambda>_.
     bind (case v of SigNum n \<Rightarrow> ret n | SigName n \<Rightarrow> lift (resolve_signal_number (e_signals E) n)) (\<lambda>n.
     bind (upd_thread t (\<lambda>tc. tc\<lparr>tc_signal_number := n\<rparr>)) (\<lambda>_.
     upd_resume (\<lambda>rc. rc\<lparr>rc_threads_with_signals_to_forward :=
       rc_threads_with_signals_to_forward rc @ [tc_thread_id tc]\<rparr>)))))"

definition get_signal :: "('k, 's) env \<Rightarrow> nat \<Rightarrow> ('k, string option) dm" where
  "get_signal E t = bind (get_thread t) (\<lambda>tc.
     if tc_signal_number tc = 0 then ret None
     else bind (lift (resolve_signal_name (e_signals E) (tc_signal_number tc))) (\<lambda>n. ret (Some n)))"

text \<open>\<open>thread.exit_code\<close> (a warning that names the exit signal may raise) and \<open>thread.exit_signal\<close>\<close>

definition thread_exit_code :: "('k, 's) env \<Rightarrow> nat \<Rightarrow> ('k, int option) dm" where
  "thread_exit_code E t = bind (get_thread t) (\<lambda>tc.
     case tc_exit_signal tc of
       Some n \<Rightarrow> if tc_dead tc \<and> tc_exit_code tc = None
                 then bind (lift (resolve_signal_name (e_signals E) n)) (\<lambda>_. ret (tc_exit_code tc)) else ret (tc_exit_code tc)
     | None \<Rightarrow> ret (tc_exit_code tc))"

definition thread_exit_signal :: "('k, 's) env \<Rightarrow> nat \<Rightarrow> ('k, string option) dm" where
  "thread_exit_signal E t = bind (get_thread t) (\<lambda>tc.
     if \<not> tc_dead tc then ret None
     else (case tc_exit_signal tc of
         Some n \<Rightarrow> bind (lift (resolve_signal_name (e_signals E) n)) (\<lambda>s. ret (Some s))
       | None \<Rightarrow> if tc_exit_code tc \<noteq> None then ret None else raise ValueError))"

section \<open>Hardware managers\<close>

text \<open>A call of the manager of one thread; the managers peek and poke the user area of their thread.\<close>

definition on_helper :: "int \<Rightarrow> (nat hw_manager \<times> 'k, 'a) pm \<Rightarrow> ('k, 'a) dm" where
  "on_helper tid m = (\<lambda>s. case dict_get (d_hw_helpers s) tid of
       None \<Rightarrow> (Inl KeyError, s)
     | Some h \<Rightarrow> (case m (h, d_kernel s) of (r, (h', k)) \<Rightarrow>
         (r, s\<lparr>d_hw_helpers := dict_set tid h' (d_hw_helpers s), d_kernel := k\<rparr>)))"

definition helper_install :: "('k, 's) env \<Rightarrow> nat \<Rightarrow> int \<Rightarrow> ('k, unit) dm" where
  "helper_install E b tid = bind (gets d_bp_heap) (\<lambda>deref.
     on_helper tid (install_breakpoint (peek_user (e_os E)) (poke_user (e_os E)) deref b))"

definition helper_remove :: "('k, 's) env \<Rightarrow> nat \<Rightarrow> int \<Rightarrow> ('k, unit) dm" where
  "helper_remove E b tid = bind (gets d_bp_heap) (\<lambda>deref.
     on_helper tid (remove_breakpoint (peek_user (e_os E)) (poke_user (e_os E)) deref b))"

definition helper_watchpoint :: "('k, 's) env \<Rightarrow> int \<Rightarrow> ('k, nat option) dm" where
  "helper_watchpoint E tid = bind (gets d_bp_heap) (\<lambda>deref.
     on_helper tid (is_watchpoint_hit (peek_user (e_os E)) deref))"

definition software_breakpoint_byte_size :: "string \<Rightarrow> int result" where
  "software_breakpoint_byte_size arch = (if arch = ''amd64'' \<or> arch = ''x86'' then Inr 1 else Inl ValueError)"

section \<open>Callbacks\<close>

text \<open>The requests \<open>Commands\<close> knows; another number is a ValueError.\<close>

definition ptrace_commands :: "int list" where
  "ptrace_commands = [0, 1, 2, 3, 4, 5, 6, 7, 8, 9, 12, 13, 14, 15, 16, 17, 18, 19, 24, 0x4200, 0x4201, 0x4202, 0x4203,
     0x4204, 0x4205, 0x4206, 0x4207, 0x4208, 0x4209, 0x420A, 0x420B, 0x420C, 0x420D, 0x420E]"

definition on_enter_ptrace :: "nat \<Rightarrow> nat \<Rightarrow> ('k, unit) dm" where
  "on_enter_ptrace t h =
     bind (thread_get t ''syscall_arg0'') (\<lambda>a.
     bind (upd_handler h (\<lambda>sh. sh\<lparr>sh_command := Some a\<rparr>)) (\<lambda>_.
     if a \<in> set ptrace_commands then ret () else raise ValueError))"

definition on_exit_ptrace :: "nat \<Rightarrow> nat \<Rightarrow> ('k, unit) dm" where
  "on_exit_ptrace t h =
     bind (get_handler h) (\<lambda>sh.
     if sh_command sh = Some 0 \<and> \<not> sh_traceme_called sh then
       bind (upd_handler h (\<lambda>sh. sh\<lparr>sh_traceme_called := True\<rparr>)) (\<lambda>_. thread_set t ''syscall_return'' 0)
     else ret ())"

text \<open>A callback applied to a thread and an object (a breakpoint, catcher or handler).\<close>

fun run_callback :: "'k denv \<Rightarrow> callback \<Rightarrow> nat \<Rightarrow> nat \<Rightarrow> ('k, unit) dm" where
  "run_callback E (UserCallback n) t ob = e_user_callback E n t ob"
| "run_callback E (HijackSignal n) t ob = set_signal E t (SigNum n)"
| "run_callback E (HijackSyscall n kwargs) t ob = on_regs t (hijack_on_enter n kwargs)"
| "run_callback E OnEnterPtrace t ob = on_enter_ptrace t ob"
| "run_callback E OnExitPtrace t ob = on_exit_ptrace t ob"

definition pprint_on_enter :: "('k, 's) env \<Rightarrow> nat \<Rightarrow> int \<Rightarrow> pprint_mode \<Rightarrow> ('k, unit) dm" where
  "pprint_on_enter E t syscall_number mode =
     bind (lift (resolve_syscall_name (e_syscalls E) syscall_number)) (\<lambda>_.
     bind (lift (resolve_syscall_arguments (e_syscalls E) syscall_number)) (\<lambda>_.
     bind (syscall_args t) (\<lambda>values.
     bind (lift (pprint_enter_text (e_syscalls E) values syscall_number mode)) print_str)))"

definition pprint_on_exit :: "int option \<Rightarrow> int \<Rightarrow> ('k, unit) dm" where
  "pprint_on_exit before after = print_str (pprint_exit_text before after)"

end
