(* ===== verification/Ptrace_Objects.thy ===== *)
theory Ptrace_Objects
  imports Dbg_State
begin

text \<open>
  The methods of \<open>PtraceInterface\<close> (\<open>libdebug/ptrace/ptrace_interface.py\<close>) that keep the three views
  of the same thing together: threads (the C list, the debugger's list, the hardware managers),
  breakpoints (the C list or the debug registers, the debugger's dictionary), handlers and catchers.
  An address handed to C as \<open>uint64_t\<close> first has to fit.
\<close>

section \<open>Threads\<close>

definition register_holder_provider :: "string \<Rightarrow> unit result" where
  "register_holder_provider arch = (if arch = ''amd64'' then Inr () else Inl NotImplementedError)"

definition hw_manager_provider :: "string \<Rightarrow> int \<Rightarrow> nat hw_manager result" where
  "hw_manager_provider arch tid = (if arch = ''amd64'' then Inr (hw_init tid) else Inl NotImplementedError)"

definition register_new_thread :: "('k, 's) env \<Rightarrow> int \<Rightarrow> ('k, unit) dm" where
  "register_new_thread E new_thread_id =
     bind (in_c (register_thread (e_os E) (e_garbage E) new_thread_id)) (\<lambda>register_file.
     bind (lift (register_holder_provider (e_arch E))) (\<lambda>_.
     bind (new_thread (ThreadContext new_thread_id register_file)) (\<lambda>thread.
     bind (insert_new_thread thread) (\<lambda>_.
     bind (lift (hw_manager_provider (e_arch E) new_thread_id)) (\<lambda>helper.
     bind (upd (\<lambda>s. s\<lparr>d_hw_helpers := dict_set new_thread_id helper (d_hw_helpers s)\<rparr>)) (\<lambda>_.
     bind (gets (\<lambda>s. dict_values (d_breakpoints s))) (\<lambda>bps.
     for_each (\<lambda>b. bind (get_bp b) (\<lambda>bp. py_when (bp_hardware bp) (helper_install E b new_thread_id))) bps)))))))"

definition unregister_thread :: "int \<Rightarrow> int option \<Rightarrow> int option \<Rightarrow> ('k, unit) dm" where
  "unregister_thread thread_id code sig =
     bind (upd (\<lambda>s. s\<lparr>d_gs := unregister_thread_c thread_id (d_gs s)\<rparr>)) (\<lambda>_.
     bind (set_thread_as_dead thread_id code sig) (\<lambda>_.
     bind (gets d_hw_helpers) (\<lambda>hs.
     bind (lift (dict_del thread_id hs)) (\<lambda>hs'. upd (\<lambda>s. s\<lparr>d_hw_helpers := hs'\<rparr>)))))"

definition iface_reset :: "('k, unit) dm" where
  "iface_reset = upd (\<lambda>s. s\<lparr>d_hw_helpers := [], d_gs := free_breakpoints (free_thread_list (d_gs s))\<rparr>)"

section \<open>Breakpoints\<close>

definition set_sw_breakpoint :: "('k, 's) env \<Rightarrow> nat \<Rightarrow> ('k, unit) dm" where
  "set_sw_breakpoint E b =
     bind (get_bp b) (\<lambda>bp. bind (lift (c_u64 (bp_address bp))) (\<lambda>a.
     bind (gets d_iface_process_id) (\<lambda>pid. in_c (register_breakpoint (e_os E) pid a))))"

definition unset_sw_breakpoint :: "nat \<Rightarrow> ('k, unit) dm" where
  "unset_sw_breakpoint b =
     bind (get_bp b) (\<lambda>bp. bind (lift (c_u64 (bp_address bp))) (\<lambda>a.
     upd (\<lambda>s. s\<lparr>d_gs := unregister_breakpoint a (d_gs s)\<rparr>)))"

definition enable_breakpoint_py :: "('k, 's) env \<Rightarrow> nat \<Rightarrow> ('k, unit) dm" where
  "enable_breakpoint_py E b =
     bind (get_bp b) (\<lambda>bp. bind (lift (c_u64 (bp_address bp))) (\<lambda>a. in_c (enable_breakpoint (e_os E) a)))"

definition disable_breakpoint_py :: "('k, 's) env \<Rightarrow> nat \<Rightarrow> ('k, unit) dm" where
  "disable_breakpoint_py E b =
     bind (get_bp b) (\<lambda>bp. bind (lift (c_u64 (bp_address bp))) (\<lambda>a. in_c (disable_breakpoint (e_os E) a)))"

definition set_breakpoint :: "('k, 's) env \<Rightarrow> nat \<Rightarrow> bool \<Rightarrow> ('k, unit) dm" where
  "set_breakpoint E b ins =
     bind (get_bp b) (\<lambda>bp.
     bind (if bp_hardware bp then bind (gets (\<lambda>s. dict_keys (d_hw_helpers s))) (for_each (helper_install E b))
           else if ins then set_sw_breakpoint E b
           else enable_breakpoint_py E b) (\<lambda>_.
     py_when ins (upd (\<lambda>s. s\<lparr>d_breakpoints := dict_set (bp_address bp) b (d_breakpoints s)\<rparr>))))"

definition unset_breakpoint :: "('k, 's) env \<Rightarrow> nat \<Rightarrow> bool \<Rightarrow> ('k, unit) dm" where
  "unset_breakpoint E b del =
     bind (get_bp b) (\<lambda>bp.
     bind (if bp_hardware bp then bind (gets (\<lambda>s. dict_keys (d_hw_helpers s))) (for_each (helper_remove E b))
           else if del then unset_sw_breakpoint b
           else disable_breakpoint_py E b) (\<lambda>_.
     py_when del (bind (gets d_breakpoints) (\<lambda>bps. bind (lift (dict_del (bp_address bp) bps)) (\<lambda>bps'.
       upd (\<lambda>s. s\<lparr>d_breakpoints := bps'\<rparr>))))))"

section \<open>Handlers and catchers\<close>

definition set_syscall_handler :: "nat \<Rightarrow> ('k, unit) dm" where
  "set_syscall_handler h = bind (get_handler h) (\<lambda>sh.
     upd (\<lambda>s. s\<lparr>d_handled_syscalls := dict_set (sh_syscall_number sh) h (d_handled_syscalls s)\<rparr>))"

definition unset_syscall_handler :: "nat \<Rightarrow> ('k, unit) dm" where
  "unset_syscall_handler h = bind (get_handler h) (\<lambda>sh. bind (gets d_handled_syscalls) (\<lambda>d.
     bind (lift (dict_del (sh_syscall_number sh) d)) (\<lambda>d'. upd (\<lambda>s. s\<lparr>d_handled_syscalls := d'\<rparr>))))"

definition set_signal_catcher :: "nat \<Rightarrow> ('k, unit) dm" where
  "set_signal_catcher c = bind (get_catcher c) (\<lambda>sc.
     upd (\<lambda>s. s\<lparr>d_caught_signals := dict_set (sc_signal_number sc) c (d_caught_signals s)\<rparr>))"

definition unset_signal_catcher :: "nat \<Rightarrow> ('k, unit) dm" where
  "unset_signal_catcher c = bind (get_catcher c) (\<lambda>sc. bind (gets d_caught_signals) (\<lambda>d.
     bind (lift (dict_del (sc_signal_number sc) d)) (\<lambda>d'. upd (\<lambda>s. s\<lparr>d_caught_signals := d'\<rparr>))))"

end
