(* ===== verification/Hijack_Chain.thy ===== *)
theory Hijack_Chain
  imports Py_Prelude
begin

text \<open>
  Signals and system calls can be hijacked in a chain: the callback for a number changes it, and the
  handler of the new number is consulted in turn. Both chains of the status handler have the same
  shape: a visit of one handler says whether to go on, a set of the numbers already taken stops a
  loop with an exception, and an action follows on the way back. The recursion is bounded by fuel;
  the interface \<open>hijack_steps\<close> is what makes the number of handlers enough fuel.
\<close>

fun hijack_chain ::
    "('h \<Rightarrow> int \<Rightarrow> ('s, ('h \<times> int) option) pm) \<Rightarrow> ('h \<Rightarrow> ('s, unit) pm) \<Rightarrow> nat \<Rightarrow> 'h \<Rightarrow> int \<Rightarrow> int set \<Rightarrow> ('s, unit) pm" where
  "hijack_chain visit post 0 h n hijacked_set = raise Diverges"
| "hijack_chain visit post (Suc fuel) h n hijacked_set =
     bind (visit h n) (\<lambda>next.
     bind (case next of
         None \<Rightarrow> ret ()
       | Some (h', m) \<Rightarrow> if m \<in> hijacked_set then raise RuntimeError
                       else hijack_chain visit post fuel h' m (insert m hijacked_set)) (\<lambda>_.
     post h))"

locale hijack_steps =
  fixes visit :: "'h \<Rightarrow> int \<Rightarrow> ('s, ('h \<times> int) option) pm" and post :: "'h \<Rightarrow> ('s, unit) pm"
    and numbers :: "int set" and ok :: "'s \<Rightarrow> bool"
  assumes finite_numbers: "finite numbers"
    and visit_number: "ok s \<Longrightarrow> visit h n s = (Inr (Some (h', m)), t) \<Longrightarrow> m \<in> numbers"
    and visit_ok: "ok s \<Longrightarrow> visit h n s = (Inr x, t) \<Longrightarrow> ok t"
    and visit_stops: "ok s \<Longrightarrow> fst (visit h n s) \<noteq> Inl Diverges"
    and post_stops: "fst (post h s) \<noteq> Inl Diverges"
begin

lemma chain_stops:
  "ok s \<Longrightarrow> card (numbers - hijacked_set) < fuel \<Longrightarrow> fst (hijack_chain visit post fuel h n hijacked_set s) \<noteq> Inl Diverges"
proof (induction fuel arbitrary: h n hijacked_set s)
  case 0
  then show ?case by simp
next
  case (Suc fuel)
  obtain r t where v: "visit h n s = (r, t)" by (cases "visit h n s")
  show ?case
  proof (cases r)
    case (Inl e)
    then show ?thesis using visit_stops [OF Suc.prems(1), of h n] v by (simp add: bind_def)
  next
    case (Inr x)
    with v have vis: "visit h n s = (Inr x, t)" by simp
    note t = visit_ok [OF Suc.prems(1) vis]
    have "fst ((case x of None \<Rightarrow> ret () | Some (h', m) \<Rightarrow> if m \<in> hijacked_set then raise RuntimeError
        else hijack_chain visit post fuel h' m (insert m hijacked_set)) t) \<noteq> Inl Diverges"
    proof (cases x)
      case (Some p)
      obtain h' m where p: "p = (h', m)" by (cases p)
      show ?thesis
      proof (cases "m \<in> hijacked_set")
        case False
        have "m \<in> numbers" using visit_number [OF Suc.prems(1)] vis Some p by blast
        then have "numbers - insert m hijacked_set \<subset> numbers - hijacked_set" using False by auto
        then have "card (numbers - insert m hijacked_set) < card (numbers - hijacked_set)"
          by (rule psubset_card_mono [rotated]) (simp add: finite_numbers)
        with Suc.prems(2) have "card (numbers - insert m hijacked_set) < fuel" by simp
        from Suc.IH [OF t this] show ?thesis using Some p False by simp
      qed (simp add: Some p raise_def)
    qed (simp add: ret_def)
    then show ?thesis
      using post_stops vis by (auto simp: bind_def split: prod.splits sum.splits)
  qed
qed

end

end
