(* ===== verification/Status_Handler.thy ===== *)
theory Status_Handler
  imports Ptrace_Objects Hijack_Chain
begin

text \<open>
  \<open>PtraceStatusHandler\<close> (\<open>libdebug/ptrace/ptrace_status_handler.py\<close>): what the debugger does with each
  status that \<open>waitpid\<close> returns. Arguments of debug messages are evaluated by Python whether or not
  the message is shown, so the names they resolve are part of the methods. Handlers, catchers and
  threads are read again after a callback, which may have changed them.
\<close>

section \<open>Statuses\<close>

definition WIFSTOPPED :: "int \<Rightarrow> bool" where
  "WIFSTOPPED status \<longleftrightarrow> status AND 0xFF = 0x7F"

definition WSTOPSIG :: "int \<Rightarrow> int" where
  "WSTOPSIG status = drop_bit 8 status AND 0xFF"

definition WIFEXITED :: "int \<Rightarrow> bool" where
  "WIFEXITED status \<longleftrightarrow> status AND 0x7F = 0"

definition WEXITSTATUS :: "int \<Rightarrow> int" where
  "WEXITSTATUS status = drop_bit 8 status AND 0xFF"

definition WIFSIGNALED :: "int \<Rightarrow> bool" where
  "WIFSIGNALED status \<longleftrightarrow> status AND 0x7F \<noteq> 0 \<and> status AND 0x7F \<noteq> 0x7F"

definition WTERMSIG :: "int \<Rightarrow> int" where
  "WTERMSIG status = status AND 0x7F"

definition SIGTRAP :: int where "SIGTRAP = 5"
definition SIGSTOP :: int where "SIGSTOP = 19"
definition SYSCALL_SIGTRAP :: int where "SYSCALL_SIGTRAP = 0x80 OR SIGTRAP"

definition stop_event :: "int \<Rightarrow> int" where
  "stop_event ev = SIGTRAP OR push_bit 8 ev"

definition CLONE_EVENT :: int where "CLONE_EVENT = stop_event 3"
definition SECCOMP_EVENT :: int where "SECCOMP_EVENT = stop_event 7"
definition EXIT_EVENT :: int where "EXIT_EVENT = stop_event 6"
definition FORK_EVENT :: int where "FORK_EVENT = stop_event 1"

section \<open>Small updates\<close>

definition set_forward :: "bool \<Rightarrow> ('k, unit) dm" where
  "set_forward b = upd (\<lambda>s. s\<lparr>d_forward_signal := b\<rparr>)"

definition stop_process :: "('k, unit) dm" where
  "stop_process = upd_resume (\<lambda>rc. rc\<lparr>rc_resume := False\<rparr>)"

section \<open>Threads\<close>

text \<open>\<open>os.waitpid\<close> raises ChildProcessError (ECHILD) when there is nothing to wait for.\<close>

definition os_waitpid :: "('k, 's) env \<Rightarrow> int \<Rightarrow> ('k, unit) dm" where
  "os_waitpid E tid = bind (in_c (sys (sys_waitpid (e_os E) tid False))) (\<lambda>(w, status).
     if w = - 1 then raise (OSError 10) else ret ())"

definition handle_clone :: "('k, 's) env \<Rightarrow> int \<Rightarrow> (int \<times> int) list \<Rightarrow> ('k, unit) dm" where
  "handle_clone E thread_id results =
     bind (py_when ((thread_id, 4991) \<notin> set results) (os_waitpid E thread_id)) (\<lambda>_.
     register_new_thread E thread_id)"

definition handle_exit :: "int \<Rightarrow> int option \<Rightarrow> int option \<Rightarrow> ('k, unit) dm" where
  "handle_exit thread_id code sig = bind (get_thread_by_id thread_id) (\<lambda>t.
     py_when (t \<noteq> None) (unregister_thread thread_id code sig))"

section \<open>Breakpoints\<close>

text \<open>\<open>breakpoints.get(ip)\<close> followed by the test of the two flags.\<close>

definition live_bp_at :: "int \<Rightarrow> 'k dbg \<Rightarrow> nat option" where
  "live_bp_at ip s = (case dict_get (d_breakpoints s) ip of None \<Rightarrow> None
     | Some b \<Rightarrow> if bp_enabled (d_bp_heap s b) \<and> \<not> bp_disabled_for_step (d_bp_heap s b) then Some b else None)"

definition handle_breakpoints :: "'k denv \<Rightarrow> int \<Rightarrow> ('k, unit) dm" where
  "handle_breakpoints E thread_id =
     bind (get_thread_by_id thread_id) (\<lambda>found. case found of
         None \<Rightarrow> bind stop_process (\<lambda>_. set_forward False)
       | Some thread \<Rightarrow>
         bind (thread_get thread ''instruction_pointer'') (\<lambda>ip.
         bind (gets (live_bp_at ip)) (\<lambda>hw.
         bind (case hw of
             Some b \<Rightarrow> ret (Some b)
           | None \<Rightarrow>
             bind (lift (software_breakpoint_byte_size (e_arch E))) (\<lambda>bsize.
             bind (gets (live_bp_at (ip - bsize))) (\<lambda>sw. case sw of
                 None \<Rightarrow> ret None
               | Some b \<Rightarrow>
                 bind (thread_set thread ''instruction_pointer'' (ip - bsize)) (\<lambda>_.
                 bind (upd_bp b (\<lambda>bp. bp\<lparr>bp_linked_thread_ids := bp_linked_thread_ids bp @ [thread_id]\<rparr>)) (\<lambda>_.
                 ret (Some b)))))) (\<lambda>hit.
         bind (case hit of Some b \<Rightarrow> ret (Some b) | None \<Rightarrow> helper_watchpoint E thread_id) (\<lambda>bp. case bp of
             None \<Rightarrow> ret ()
           | Some b \<Rightarrow>
             bind (set_forward False) (\<lambda>_.
             bind (upd_bp b (\<lambda>bp. bp\<lparr>bp_hit_count := bp_hit_count bp + 1\<rparr>)) (\<lambda>_.
             bind (get_bp b) (\<lambda>o_bp. case bp_callback o_bp of
                 Some cb \<Rightarrow> run_callback E cb thread b
               | None \<Rightarrow> stop_process))))))))"

section \<open>System calls\<close>

definition mark_entered :: "nat \<Rightarrow> ('k, unit) dm" where
  "mark_entered h = upd_handler h (\<lambda>sh. sh\<lparr>sh_has_entered := True\<rparr>)"

definition mark_skipped :: "nat \<Rightarrow> ('k, unit) dm" where
  "mark_skipped h = upd_handler h (\<lambda>sh. sh\<lparr>sh_has_entered := True, sh_skip_exit := True\<rparr>)"

text \<open>
  The body of \<open>_manage_syscall_on_enter\<close> up to its recursive call: Some handler and number to go on
  with, or None. What follows the call is \<open>syscall_post\<close>.
\<close>

definition syscall_visit :: "'k denv \<Rightarrow> nat \<Rightarrow> nat \<Rightarrow> int \<Rightarrow> ('k, (nat \<times> int) option) dm" where
  "syscall_visit E thread h syscall_number =
     bind (get_handler h) (\<lambda>sh.
     case (if sh_enabled sh then sh_on_enter_user sh else None) of
       Some cb \<Rightarrow>
         bind (syscall_args thread) (\<lambda>old_args.
         bind (run_callback E cb thread h) (\<lambda>_.
         bind (thread_get thread ''syscall_number'') (\<lambda>after.
         bind (get_handler h) (\<lambda>sh.
         if after \<noteq> syscall_number then
           bind (py_when (sh_on_enter_pprint sh) (pprint_on_enter E thread syscall_number (Hijacked old_args))) (\<lambda>_.
           bind (gets d_handled_syscalls) (\<lambda>handled.
           case dict_get handled after of
             None \<Rightarrow> ret None
           | Some h' \<Rightarrow>
             if sh_recursive sh then ret (Some (h', after))
             else
               bind (get_handler h') (\<lambda>sh'.
               bind (py_when (sh_on_enter_pprint sh') (pprint_on_enter E thread after Plain)) (\<lambda>_.
               bind (mark_skipped h') (\<lambda>_. ret None)))))
         else if sh_on_enter_pprint sh then
           bind (pprint_on_enter E thread syscall_number UserHandled) (\<lambda>_. bind (mark_entered h) (\<lambda>_. ret None))
         else bind (mark_entered h) (\<lambda>_. ret None)))))
     | None \<Rightarrow>
         if sh_on_enter_pprint sh then
           bind (pprint_on_enter E thread syscall_number Plain) (\<lambda>_. bind (mark_entered h) (\<lambda>_. ret None))
         else if sh_on_exit_pprint sh \<or> sh_on_exit_user sh \<noteq> None then bind (mark_entered h) (\<lambda>_. ret None)
         else ret None)"

definition no_user_callback :: "syscall_handler \<Rightarrow> bool" where
  "no_user_callback sh \<longleftrightarrow> sh_on_enter_user sh = None \<and> sh_on_exit_user sh = None \<and> sh_enabled sh"

definition syscall_post :: "nat \<Rightarrow> ('k, unit) dm" where
  "syscall_post h = bind (get_handler h) (\<lambda>sh.
     py_when (no_user_callback sh) (bind (mark_entered h) (\<lambda>_. stop_process)))"

definition manage_syscall_on_enter :: "'k denv \<Rightarrow> nat \<Rightarrow> nat \<Rightarrow> int \<Rightarrow> int set \<Rightarrow> ('k, unit) dm" where
  "manage_syscall_on_enter E h thread syscall_number hijacked_set =
     hijack_chain (syscall_visit E thread) syscall_post (e_fuel E) h syscall_number hijacked_set"

definition syscall_exit :: "'k denv \<Rightarrow> nat \<Rightarrow> nat \<Rightarrow> ('k, unit) dm" where
  "syscall_exit E thread h =
     bind (get_handler h) (\<lambda>sh.
     bind (py_when (sh_enabled sh \<and> \<not> sh_skip_exit sh) (upd_handler h (\<lambda>sh. sh\<lparr>sh_hit_count := sh_hit_count sh + 1\<rparr>))) (\<lambda>_.
     bind (case (if sh_enabled sh \<and> \<not> sh_skip_exit sh then sh_on_exit_user sh else None) of
         Some cb \<Rightarrow>
           bind (if sh_on_exit_pprint sh then bind (thread_get thread ''syscall_return'') (\<lambda>r. ret (Some r)) else ret None) (\<lambda>before.
           bind (run_callback E cb thread h) (\<lambda>_.
           bind (get_handler h) (\<lambda>sh.
           if sh_on_exit_pprint sh then
             bind (thread_get thread ''syscall_return'') (\<lambda>after. case before of
                 None \<Rightarrow> raise NameError
               | Some b \<Rightarrow> pprint_on_exit (if after \<noteq> b then Some b else None) after)
           else ret ())))
       | None \<Rightarrow>
           if sh_on_exit_pprint sh then bind (thread_get thread ''syscall_return'') (pprint_on_exit None)
           else ret ()) (\<lambda>_.
     bind (upd_handler h (\<lambda>sh. sh\<lparr>sh_has_entered := False, sh_skip_exit := False\<rparr>)) (\<lambda>_.
     bind (get_handler h) (\<lambda>sh. py_when (no_user_callback sh) stop_process)))))"

definition handle_syscall_trap :: "'k denv \<Rightarrow> int \<Rightarrow> ('k, unit) dm" where
  "handle_syscall_trap E thread_id =
     bind (get_thread_by_id thread_id) (\<lambda>found. case found of
         None \<Rightarrow> ret ()
       | Some thread \<Rightarrow>
         bind (thread_get thread ''syscall_number'') (\<lambda>n.
         bind (gets d_handled_syscalls) (\<lambda>handled. case dict_get handled n of
             None \<Rightarrow> ret ()
           | Some h \<Rightarrow>
             bind (get_handler h) (\<lambda>sh.
             if \<not> sh_has_entered sh then manage_syscall_on_enter E h thread n {n}
             else syscall_exit E thread h))))"

section \<open>Signals\<close>

definition signal_name_known :: "('k, 's) env \<Rightarrow> int \<Rightarrow> ('k, unit) dm" where
  "signal_name_known E n = bind (lift (resolve_signal_name (e_signals E) n)) (\<lambda>_. ret ())"

definition signal_visit :: "'k denv \<Rightarrow> nat \<Rightarrow> nat \<Rightarrow> int \<Rightarrow> ('k, (nat \<times> int) option) dm" where
  "signal_visit E thread c signal_number =
     bind (get_catcher c) (\<lambda>sc.
     if \<not> sc_enabled sc then ret None
     else
       bind (upd_catcher c (\<lambda>sc. sc\<lparr>sc_hit_count := sc_hit_count sc + 1\<rparr>)) (\<lambda>_.
       bind (signal_name_known E signal_number) (\<lambda>_.
       case sc_callback sc of
         None \<Rightarrow> bind stop_process (\<lambda>_. ret None)
       | Some cb \<Rightarrow>
         bind (run_callback E cb thread c) (\<lambda>_.
         bind (get_thread thread) (\<lambda>tc.
         let new = tc_signal_number tc in
         if new = signal_number then ret None
         else
           bind (signal_name_known E signal_number) (\<lambda>_.
           bind (signal_name_known E new) (\<lambda>_.
           bind (get_catcher c) (\<lambda>sc.
           bind (gets d_caught_signals) (\<lambda>caught.
           ret (if sc_recursive sc then map_option (\<lambda>c'. (c', new)) (dict_get caught new) else None))))))))))"

definition manage_caught_signal :: "'k denv \<Rightarrow> nat \<Rightarrow> nat \<Rightarrow> int \<Rightarrow> int set \<Rightarrow> ('k, unit) dm" where
  "manage_caught_signal E c thread signal_number hijacked_set =
     hijack_chain (signal_visit E thread) (\<lambda>c. ret ()) (e_fuel E) c signal_number hijacked_set"

definition handle_signal :: "'k denv \<Rightarrow> nat \<Rightarrow> ('k, unit) dm" where
  "handle_signal E thread =
     bind (get_thread thread) (\<lambda>tc. bind (gets d_caught_signals) (\<lambda>caught.
     case dict_get caught (tc_signal_number tc) of
       None \<Rightarrow> ret ()
     | Some c \<Rightarrow> manage_caught_signal E c thread (tc_signal_number tc) {tc_signal_number tc}))"

section \<open>Statuses\<close>

definition get_event_msg :: "('k, 's) env \<Rightarrow> int \<Rightarrow> ('k, int) dm" where
  "get_event_msg E pid = bind (in_c (sys (sys_geteventmsg (e_os E) pid))) (\<lambda>x. ret (to_u64 x))"

definition handle_event :: "('k, 's) env \<Rightarrow> int \<Rightarrow> (int \<times> int) list \<Rightarrow> int \<Rightarrow> ('k, unit) dm" where
  "handle_event E pid results event =
     (if event = CLONE_EVENT then
        bind (get_event_msg E pid) (\<lambda>message. bind (handle_clone E message results) (\<lambda>_. set_forward False))
      else if event = SECCOMP_EVENT then set_forward False
      else if event = EXIT_EVENT then bind (get_event_msg E pid) (\<lambda>_. set_forward False)
      else if event = FORK_EVENT then set_forward False
      else ret ())"

definition internal_signal_handler :: "'k denv \<Rightarrow> int \<Rightarrow> int \<Rightarrow> (int \<times> int) list \<Rightarrow> int \<Rightarrow> ('k, unit) dm" where
  "internal_signal_handler E pid signum results status =
     bind (gets d_resume_context) (\<lambda>rc.
     if signum = SYSCALL_SIGTRAP then bind (handle_syscall_trap E pid) (\<lambda>_. set_forward False)
     else if signum = SIGSTOP \<and> rc_force_interrupt rc then
       bind (signal_name_known E signum) (\<lambda>_.
       bind (upd_resume (\<lambda>rc. rc\<lparr>rc_resume := False, rc_force_interrupt := False\<rparr>)) (\<lambda>_. set_forward False))
     else if signum = SIGTRAP then
       bind (handle_breakpoints E pid) (\<lambda>_.
       bind (gets d_resume_context) (\<lambda>rc.
       bind (py_when (rc_is_a_step rc)
         (bind (upd_resume (\<lambda>rc. rc\<lparr>rc_resume := False, rc_is_a_step := False\<rparr>)) (\<lambda>_. set_forward False))) (\<lambda>_.
       handle_event E pid results (drop_bit 8 status))))
     else ret ())"

text \<open>The part of \<open>_handle_change\<close> for a stopped thread.\<close>

definition handle_stop :: "'k denv \<Rightarrow> int \<Rightarrow> int \<Rightarrow> (int \<times> int) list \<Rightarrow> ('k, unit) dm" where
  "handle_stop E pid status results =
     (let signum = WSTOPSIG status in
      bind (py_when (signum \<noteq> SIGSTOP) (upd (\<lambda>s. s\<lparr>d_assume_race_sigstop := False\<rparr>))) (\<lambda>_.
      bind (internal_signal_handler E pid signum results status) (\<lambda>_.
      bind (get_thread_by_id pid) (\<lambda>found. case found of
          None \<Rightarrow> ret ()
        | Some thread \<Rightarrow>
          bind (upd_thread thread (\<lambda>tc. tc\<lparr>tc_signal_number := signum\<rparr>)) (\<lambda>_.
          bind (handle_signal E thread) (\<lambda>_.
          bind (gets d_forward_signal) (\<lambda>forward.
          py_when (forward \<and> signum \<noteq> SIGSTOP)
            (upd_resume (\<lambda>rc. rc\<lparr>rc_threads_with_signals_to_forward := rc_threads_with_signals_to_forward rc @ [pid]\<rparr>)))))))))"

definition handle_change :: "'k denv \<Rightarrow> int \<Rightarrow> int \<Rightarrow> (int \<times> int) list \<Rightarrow> ('k, unit) dm" where
  "handle_change E pid status results =
     bind (set_forward True) (\<lambda>_.
     bind (gets d_resume_context) (\<lambda>rc.
     if WIFSTOPPED status \<and> rc_is_startup rc then ret ()
     else
       bind (py_when (WIFSTOPPED status) (handle_stop E pid status results)) (\<lambda>_.
       bind (py_when (WIFEXITED status) (handle_exit pid (Some (WEXITSTATUS status)) None)) (\<lambda>_.
       py_when (WIFSIGNALED status)
         (handle_exit pid None (Some (WTERMSIG status)))))))"

definition manage_change :: "'k denv \<Rightarrow> (int \<times> int) list \<Rightarrow> ('k, unit) dm" where
  "manage_change E results =
     bind (upd (\<lambda>s. s\<lparr>d_assume_race_sigstop := True\<rparr>)) (\<lambda>_.
     for_each (\<lambda>(pid, status). py_when (pid \<noteq> - 1) (handle_change E pid status results)) results)"

text \<open>
  \<open>check_for_new_threads\<close> calls \<open>register_new_thread\<close> with one argument too many, a TypeError, for
  every thread that is not known yet.
\<close>

definition check_for_new_threads :: "('k, 's) env \<Rightarrow> int \<Rightarrow> ('k, unit) dm" where
  "check_for_new_threads E pid = bind (gets d_kernel) (\<lambda>k. case sys_tasks (e_os E) pid k of
       None \<Rightarrow> ret ()
     | Some tids \<Rightarrow> for_each (\<lambda>tid. bind (get_thread_by_id tid) (\<lambda>found.
         case found of Some _ \<Rightarrow> ret () | None \<Rightarrow> raise TypeError)) tids)"

end
