(* ===== verification/Dbg_Frames.thy ===== *)
theory Dbg_Frames
  imports Status_Handler
begin

text \<open>
  What the small methods leave alone. \<open>keeps f m\<close>: the method \<open>m\<close> does not change the part \<open>f\<close> of
  the state; \<open>returns m\<close>: it does not run out of fuel. Both pass through the combinators; the
  collections \<open>keeps_rules\<close> and \<open>returns_rules\<close> carry the proofs.
\<close>

named_theorems keeps_rules \<open>methods that leave a part of the state alone\<close>
named_theorems returns_rules \<open>methods that do not run out of fuel\<close>

definition keeps :: "('s \<Rightarrow> 'b) \<Rightarrow> ('s, 'a) pm \<Rightarrow> bool" where
  "keeps f m \<longleftrightarrow> (\<forall>s. f (snd (m s)) = f s)"

definition returns :: "('s, 'a) pm \<Rightarrow> bool" where
  "returns m \<longleftrightarrow> (\<forall>s. fst (m s) \<noteq> Inl Diverges)"

lemma keepsI: "(\<And>s r t. m s = (r, t) \<Longrightarrow> f t = f s) \<Longrightarrow> keeps f m"
  unfolding keeps_def by (metis prod.collapse)

lemma returnsI: "(\<And>s t. m s \<noteq> (Inl Diverges, t)) \<Longrightarrow> returns m"
  unfolding returns_def by (metis prod.collapse)

lemma returnsD: "returns m \<Longrightarrow> m s \<noteq> (Inl Diverges, t)"
  unfolding returns_def by (metis fst_conv)

lemma keepsD: "keeps f m \<Longrightarrow> m s = (r, t) \<Longrightarrow> f t = f s"
  by (metis keeps_def snd_conv)

section \<open>Combinators\<close>

lemma keeps_pure [keeps_rules]:
  "keeps f (ret x)" "keeps f (raise e)" "keeps f (gets g)" "keeps f (lift r)"
  by (simp_all add: keeps_def py_simps)

lemma keeps_bind [keeps_rules]: "keeps f m \<Longrightarrow> (\<And>x. keeps f (g x)) \<Longrightarrow> keeps f (bind m g)"
  by (rule keepsI) (auto simp: bind_def dest!: keepsD split: prod.splits sum.splits, metis keepsD)

lemma keeps_when [keeps_rules]: "keeps f m \<Longrightarrow> keeps f (py_when b m)"
  by (simp add: py_when_def keeps_rules)

lemma keeps_if [keeps_rules]: "keeps f m \<Longrightarrow> keeps f n \<Longrightarrow> keeps f (if b then m else n)"
  by simp

lemma keeps_option [keeps_rules]:
  "keeps f m \<Longrightarrow> (\<And>y. keeps f (g y)) \<Longrightarrow> keeps f (case x of None \<Rightarrow> m | Some y \<Rightarrow> g y)"
  by (cases x) simp_all

lemma keeps_for_each [keeps_rules]: "(\<And>x. keeps f (g x)) \<Longrightarrow> keeps f (for_each g xs)"
  by (induction xs) (simp_all add: keeps_rules)

lemma keeps_upd: "(\<And>s. f (g s) = f s) \<Longrightarrow> keeps f (upd g)"
  by (simp add: keeps_def upd_def)

lemma returns_pure [returns_rules]:
  "returns (ret x)" "e \<noteq> Diverges \<Longrightarrow> returns (raise e)" "returns (gets g)" "returns (upd h)"
  by (simp_all add: returns_def py_simps)

lemma returns_bind [returns_rules]: "returns m \<Longrightarrow> (\<And>x. returns (g x)) \<Longrightarrow> returns (bind m g)"
  by (rule returnsI) (auto simp: bind_def dest: returnsD split: prod.splits sum.splits)

lemma returns_when [returns_rules]: "returns m \<Longrightarrow> returns (py_when b m)"
  by (simp add: py_when_def returns_rules)

lemma returns_if [returns_rules]: "returns m \<Longrightarrow> returns n \<Longrightarrow> returns (if b then m else n)"
  by simp

lemma returns_option [returns_rules]:
  "returns m \<Longrightarrow> (\<And>y. returns (g y)) \<Longrightarrow> returns (case x of None \<Rightarrow> m | Some y \<Rightarrow> g y)"
  by (cases x) simp_all

lemma returns_for_each: "(\<And>x. returns (g x)) \<Longrightarrow> returns (for_each g xs)"
  by (induction xs) (simp_all add: returns_rules)

lemma returns_lift: "r \<noteq> Inl Diverges \<Longrightarrow> returns (lift r)"
  by (simp add: returns_def lift_def)

section \<open>Small methods\<close>

text \<open>The dictionaries and lists that callbacks of libdebug's own never change.\<close>

definition tables :: "'k dbg \<Rightarrow> (int, nat) dict \<times> (int, nat) dict \<times> (int, nat) dict \<times> nat list" where
  "tables s = (d_breakpoints s, d_handled_syscalls s, d_caught_signals s, d_threads s)"

lemma keeps_tables_small [keeps_rules]:
  "keeps tables (upd_bp b f1)" "keeps tables (upd_catcher c f2)" "keeps tables (upd_handler h f3)"
  "keeps tables (upd_thread t f4)" "keeps tables (upd_resume f5)" "keeps tables (print_str x)"
  "keeps tables (set_forward y)" "keeps tables stop_process" "keeps tables (mark_entered h)" "keeps tables (mark_skipped h)"
  by (simp_all add: keeps_def tables_def py_simps upd_bp_def upd_catcher_def upd_handler_def upd_thread_def upd_resume_def
      print_str_def set_forward_def stop_process_def mark_entered_def mark_skipped_def)

lemma keeps_gets_small [keeps_rules]:
  "keeps f (get_bp b)" "keeps f (get_catcher c)" "keeps f (get_handler h)" "keeps f (get_thread t)" "keeps f (get_thread_by_id n)"
  by (simp_all add: keeps_rules get_bp_def get_catcher_def get_handler_def get_thread_def get_thread_by_id_def)

lemma keeps_tables_regs [keeps_rules]: "keeps tables (on_regs t m)"
  by (simp add: keeps_def tables_def on_regs_def Let_def split: prod.splits)

lemma keeps_tables_attrs [keeps_rules]:
  "keeps tables (thread_get t n)" "keeps tables (thread_set t n v)" "keeps tables (syscall_args t)"
  by (simp_all add: thread_get_def thread_set_def syscall_args_def keeps_rules)

lemma keeps_tables_signal [keeps_rules]:
  "keeps tables (set_signal E t v)" "keeps tables (signal_name_known E n)"
  "keeps tables (on_enter_ptrace t h)" "keeps tables (on_exit_ptrace t h)"
  "keeps tables (pprint_on_enter E t n m)" "keeps tables (pprint_on_exit before after)"
  by (auto simp: set_signal_def signal_name_known_def on_enter_ptrace_def on_exit_ptrace_def pprint_on_enter_def
      pprint_on_exit_def split: signal_value.splits intro!: keeps_rules)

lemma names_return:
  "resolve_signal_name l n \<noteq> Inl Diverges" "resolve_signal_number l m \<noteq> Inl Diverges"
  by (simp_all add: resolve_signal_name_def resolve_signal_number_def split: option.splits)

lemma syscall_names_return:
  "t \<noteq> Inl Diverges \<Longrightarrow> resolve_syscall_name t n \<noteq> Inl Diverges"
  "t \<noteq> Inl Diverges \<Longrightarrow> resolve_syscall_arguments t n \<noteq> Inl Diverges"
  "t \<noteq> Inl Diverges \<Longrightarrow> pprint_enter_text t vs n m \<noteq> Inl Diverges"
  by (cases t; simp add: resolve_syscall_name_def resolve_syscall_arguments_def first_syscall_def pprint_enter_text_def
      split: option.splits)+

lemma prop_returns: "returns (prop_getter p)" "returns (prop_setter p v)"
proof -
  have g: "returns (reg_getattr n)" and s: "returns (reg_setattr n v)" for n v
    by (auto simp: returns_def reg_getattr_def reg_setattr_def c_u64_def split: sum.splits if_splits)
  obtain w n where p: "p = (w, n)" by (cases p)
  show "returns (prop_getter p)" "returns (prop_setter p v)"
    by (cases w; simp add: p g s returns_rules)+
qed

lemma attr_returns: "returns (attr_get cls n)" "returns (attr_set cls n v)"
  by (auto simp: attr_get_def attr_set_def prop_returns returns_rules split: option.splits)

lemma on_regs_returns [returns_rules]: "returns m \<Longrightarrow> returns (on_regs t m)"
  by (rule returnsI) (auto simp: on_regs_def Let_def dest: returnsD split: prod.splits)

lemma hijack_returns: "returns (hijack_on_enter n kwargs)"
  by (auto simp: hijack_on_enter_def hijack_arg_def attr_returns intro!: returns_rules returns_for_each)

lemma returns_small [returns_rules]:
  "returns (upd_bp b f1)" "returns (upd_catcher c f2)" "returns (upd_handler h f3)"
  "returns (upd_thread t f4)" "returns (upd_resume f5)" "returns (print_str x)" "returns (set_forward y)"
  "returns stop_process" "returns (mark_entered h)" "returns (mark_skipped h)"
  "returns (get_bp b)" "returns (get_catcher c)" "returns (get_handler h)" "returns (get_thread t)" "returns (get_thread_by_id n)"
  by (simp_all add: returns_rules upd_bp_def upd_catcher_def upd_handler_def upd_thread_def upd_resume_def
      print_str_def set_forward_def stop_process_def mark_entered_def mark_skipped_def get_bp_def get_catcher_def
      get_handler_def get_thread_def get_thread_by_id_def)

lemma returns_attrs [returns_rules]:
  "returns (thread_get t n)" "returns (thread_set t n v)" "returns (syscall_args t)"
  by (auto simp: thread_get_def thread_set_def syscall_args_def attr_returns intro!: returns_rules)

lemma returns_signal [returns_rules]:
  "returns (set_signal E t v)" "returns (signal_name_known E n)" "returns (on_enter_ptrace t h)" "returns (on_exit_ptrace t h)"
  "returns (pprint_on_exit before after)"
  by (auto simp: set_signal_def signal_name_known_def on_enter_ptrace_def on_exit_ptrace_def pprint_on_exit_def names_return
      split: signal_value.splits intro!: returns_rules returns_lift)

lemma returns_pprint: "e_syscalls E \<noteq> Inl Diverges \<Longrightarrow> returns (pprint_on_enter E t n m)"
  by (auto simp: pprint_on_enter_def syscall_names_return intro!: returns_rules returns_lift)

section \<open>Callbacks\<close>

text \<open>
  A calm environment: the user's callbacks return or raise, and do not add or remove handlers,
  catchers, breakpoints or threads; the table of system calls could be looked up or not.
\<close>

definition calm :: "'k denv \<Rightarrow> bool" where
  "calm E \<longleftrightarrow> (\<forall>n t ob. returns (e_user_callback E n t ob) \<and> keeps tables (e_user_callback E n t ob)) \<and>
     e_syscalls E \<noteq> Inl Diverges"

lemma run_callback_calm:
  assumes "calm E"
  shows "returns (run_callback E cb t ob)" "keeps tables (run_callback E cb t ob)"
  using assms by (cases cb; auto simp: calm_def hijack_returns intro!: returns_rules keeps_rules)+

section \<open>Registers of a thread\<close>

definition regs_of :: "'k dbg \<Rightarrow> nat \<Rightarrow> regfile" where
  "regs_of s t = ct_regs (gs_nodes (d_gs s) (tc_regs (d_thread_heap s t)))"

lemma node_regs_same [simp]: "node_regs p (ct_regs (gs_nodes g p)) g = g"
  by (simp add: node_regs_def set_node_def fun_upd_idem)

lemma thread_regs: "''rip'' \<in> set AMD64_REGS" "''rax'' \<in> set AMD64_REGS"
  "dict_get thread_class ''instruction_pointer'' = Some (P64, ''rip'')"
  "dict_get thread_class ''syscall_return'' = Some (P64, ''rax'')"
  by (code_simp | simp add: AMD64_REGS_def)+

lemma thread_get_64:
  "dict_get thread_class n = Some (P64, r) \<Longrightarrow> r \<in> set AMD64_REGS \<Longrightarrow> thread_get t n s = (Inr (regs_of s t r), s)"
  by (simp add: thread_get_def on_regs_def Let_def attr_get_def reg_getattr_def regs_of_def)

lemma thread_set_64:
  "dict_get thread_class n = Some (P64, r) \<Longrightarrow> r \<in> set AMD64_REGS \<Longrightarrow> fits_u64 v \<Longrightarrow>
   thread_set t n v s = (Inr (), s\<lparr>d_gs := node_regs (tc_regs (d_thread_heap s t)) ((regs_of s t)(r := v)) (d_gs s)\<rparr>)"
  by (simp add: thread_set_def on_regs_def Let_def attr_set_def reg_setattr_def c_u64_def regs_of_def)

lemmas get_ip = thread_get_64 [OF thread_regs(3,1)] and set_ip = thread_set_64 [OF thread_regs(3,1)]
lemmas get_syscall_number = thread_get_64 [OF thread_class_args(1) syscall_regs(1)]

lemmas small_methods = upd_bp_def upd_catcher_def upd_handler_def upd_thread_def upd_resume_def print_str_def
  set_forward_def stop_process_def mark_entered_def mark_skipped_def get_bp_def get_catcher_def get_handler_def
  get_thread_def get_thread_by_id_def

definition thread_of :: "'k dbg \<Rightarrow> int \<Rightarrow> nat option" where
  "thread_of s thread_id = List.find (\<lambda>t. tc_thread_id (d_thread_heap s t) = thread_id \<and> \<not> tc_dead (d_thread_heap s t)) (d_threads s)"

lemma get_thread_by_id_eq: "get_thread_by_id n s = (Inr (thread_of s n), s)"
  by (simp add: get_thread_by_id_def gets_def thread_of_def)

end
