(* ===== verification/Status_Properties.thy ===== *)
theory Status_Properties
  imports Dbg_Frames Sw_Breakpoints
begin

text \<open>
  The status handler's promises: chains of hijacked signals and system calls end, a software
  breakpoint is recognised and its thread put back on the instruction, a signal nobody catches is
  forwarded once, an exited thread is taken out of every table, and the two halves of a system call
  are told apart.
\<close>

section \<open>Hijack chains\<close>

lemma keeps_syscall_visit: "calm E \<Longrightarrow> keeps tables (syscall_visit E t h n)"
  by (auto simp: syscall_visit_def run_callback_calm intro!: keeps_rules)

lemma returns_syscall_visit: "calm E \<Longrightarrow> returns (syscall_visit E t h n)"
  by (auto simp: syscall_visit_def run_callback_calm returns_pprint calm_def intro!: returns_rules)

lemma keeps_signal_visit: "calm E \<Longrightarrow> keeps tables (signal_visit E t c n)"
  by (auto simp: signal_visit_def run_callback_calm Let_def intro!: keeps_rules)

lemma returns_signal_visit: "calm E \<Longrightarrow> returns (signal_visit E t c n)"
  by (auto simp: signal_visit_def run_callback_calm Let_def intro!: returns_rules)

lemma returns_syscall_post: "returns (syscall_post h)"
  by (auto simp: syscall_post_def intro!: returns_rules)

text \<open>A visit only goes on to a number that has a handler: an entry of the dictionary after the callback.\<close>

definition goes_on_in :: "('s \<Rightarrow> (int, nat) dict) \<Rightarrow> ('s, (nat \<times> int) option) pm \<Rightarrow> bool" where
  "goes_on_in d m \<longleftrightarrow> (\<forall>s h n t. m s = (Inr (Some (h, n)), t) \<longrightarrow> n \<in> fst ` set (d t))"

named_theorems goes_rules

lemma goes_none [goes_rules]: "goes_on_in d (ret None)"
  by (simp add: goes_on_in_def ret_def)

lemma goes_bind [goes_rules]: "(\<And>x. goes_on_in d (g x)) \<Longrightarrow> goes_on_in d (bind m g)"
  by (fastforce simp: goes_on_in_def bind_def split: prod.splits sum.splits)

lemma goes_if [goes_rules]: "goes_on_in d m \<Longrightarrow> goes_on_in d n \<Longrightarrow> goes_on_in d (if b then m else n)"
  by simp

lemma goes_option [goes_rules]:
  "goes_on_in d m \<Longrightarrow> (\<And>y. goes_on_in d (g y)) \<Longrightarrow> goes_on_in d (case x of None \<Rightarrow> m | Some y \<Rightarrow> g y)"
  by (cases x) simp_all

lemma map_of_key: "map_of d k = Some v \<Longrightarrow> k \<in> fst ` set d"
  by (drule map_of_SomeD) force

lemma goes_lookup [goes_rules]:
  "goes_on_in d (bind (gets d) (\<lambda>dd. ret (if b then map_option (\<lambda>c. (c, n)) (dict_get dd n) else None)))"
  by (auto simp: goes_on_in_def py_simps dest: map_of_key split: if_splits)

lemma goes_lookup_case [goes_rules]:
  "(\<And>h. goes_on_in d (g h)) \<Longrightarrow>
   goes_on_in d (bind (gets d) (\<lambda>dd. case dict_get dd n of None \<Rightarrow> ret None | Some h \<Rightarrow> if b then ret (Some (h, n)) else g h))"
  by (auto simp: goes_on_in_def py_simps dest: map_of_key split: option.splits if_splits)

lemma goes_signal: "goes_on_in d_caught_signals (signal_visit E t c n)"
  unfolding signal_visit_def Let_def by (intro goes_lookup goes_none goes_if goes_option goes_bind)

lemma goes_syscall: "goes_on_in d_handled_syscalls (syscall_visit E t h n)"
  unfolding syscall_visit_def by (intro goes_lookup_case goes_none goes_if goes_option goes_bind)

interpretation signal_chain: hijack_steps "signal_visit E t" "\<lambda>c. ret ()" "fst ` set d"
    "\<lambda>s. calm E \<and> d_caught_signals s = d" for E :: "'k denv" and t d
proof
  fix s s' :: "'k dbg" and h n h' m and x :: "(nat \<times> int) option"
  show "finite (fst ` set d)" by simp
  assume ok: "calm E \<and> d_caught_signals s = d"
  show keep: "calm E \<and> d_caught_signals s' = d" if "signal_visit E t h n s = (Inr x, s')" for x
    using ok keepsD [OF keeps_signal_visit that] by (simp add: tables_def)
  show "m \<in> fst ` set d" if "signal_visit E t h n s = (Inr (Some (h', m)), s')"
    using goes_signal [of E t h n] that keep [OF that] unfolding goes_on_in_def by blast
  show "fst (signal_visit E t h n s) \<noteq> Inl Diverges"
    using ok returns_signal_visit unfolding returns_def by blast
qed (simp add: ret_def)

interpretation syscall_chain: hijack_steps "syscall_visit E t" syscall_post "fst ` set d"
    "\<lambda>s. calm E \<and> d_handled_syscalls s = d" for E :: "'k denv" and t d
proof
  fix s s' :: "'k dbg" and h n h' m and x :: "(nat \<times> int) option"
  show "finite (fst ` set d)" by simp
  assume ok: "calm E \<and> d_handled_syscalls s = d"
  show keep: "calm E \<and> d_handled_syscalls s' = d" if "syscall_visit E t h n s = (Inr x, s')" for x
    using ok keepsD [OF keeps_syscall_visit that] by (simp add: tables_def)
  show "m \<in> fst ` set d" if "syscall_visit E t h n s = (Inr (Some (h', m)), s')"
    using goes_syscall [of E t h n] that keep [OF that] unfolding goes_on_in_def by blast
  show "fst (syscall_visit E t h n s) \<noteq> Inl Diverges"
    using ok returns_syscall_visit unfolding returns_def by blast
next
  fix h and s :: "'k dbg"
  show "fst (syscall_post h s) \<noteq> Inl Diverges" using returns_syscall_post unfolding returns_def by blast
qed

text \<open>A fact about a method's outcome in one state, through a first step that keeps the tables.\<close>

lemma bind_returns_at:
  assumes "returns m" and "\<And>x t. m s = (Inr x, t) \<Longrightarrow> fst (g x t) \<noteq> Inl Diverges"
  shows "fst (bind m g s) \<noteq> Inl Diverges"
  using assms returnsD [OF assms(1), of s] by (auto simp: bind_def split: prod.splits sum.splits)

lemma card_keys: "card (fst ` set d - S) \<le> length d"
proof -
  have "card (fst ` set d - S) \<le> card (fst ` set d)" by (rule card_mono) auto
  also have "\<dots> \<le> card (set d)" by (rule card_image_le) simp
  also have "\<dots> \<le> length d" by (rule card_length)
  finally show ?thesis .
qed

lemma signal_chain_returns:
  assumes "calm E" and "length (d_caught_signals s) < e_fuel E"
  shows "fst (manage_caught_signal E c t n S s) \<noteq> Inl Diverges"
  unfolding manage_caught_signal_def
  by (rule signal_chain.chain_stops [where d = "d_caught_signals s"]) (use assms card_keys le_less_trans in blast)+

lemma syscall_chain_returns:
  assumes "calm E" and "length (d_handled_syscalls s) < e_fuel E"
  shows "fst (manage_syscall_on_enter E h t n S s) \<noteq> Inl Diverges"
  unfolding manage_syscall_on_enter_def
  by (rule syscall_chain.chain_stops [where d = "d_handled_syscalls s"]) (use assms card_keys le_less_trans in blast)+

lemma returns_syscall_exit: "calm E \<Longrightarrow> returns (syscall_exit E t h)"
  by (auto simp: syscall_exit_def run_callback_calm intro!: returns_rules)

section \<open>A sample state\<close>

text \<open>
  Two threads, 1 and 2, whose registers all hold 0x1003; a breakpoint at 0x1002, a handler of the
  system call 0x1003, and catchers that turn SIGUSR1 (10) into SIGUSR2 (12) and back.
\<close>

definition sample_env :: "flat denv" where
  "sample_env = \<lparr>e_os = flat_os, e_garbage = (\<lambda>r. 0), e_user_callback = (\<lambda>n t ob. ret ()),
     e_signals = [(''SIGTRAP'', 5), (''SIGUSR1'', 10), (''SIGUSR2'', 12), (''SIGSTOP'', 19)], e_syscalls = Inr [],
     e_arch = ''amd64'', e_fuel = 5, e_elf = sample_elf, 
     e_maps_lines = (\<lambda>pid k. Inr [maps_line (0, 0x1000) (0, 0x2000) ''r-xp'' (0, 0) ''08:01'' ''7'' 1 ''/bin/p'']),
     e_open_fds = (\<lambda>pid k. Inr [''0'', ''1'', ''2'']), e_exe_link = (\<lambda>pid k. Inr ''/bin/p''), e_comm = (\<lambda>pid k. Inr ''p''), e_is_file = (\<lambda>f. True), e_is_executable = (\<lambda>f. True),
     e_personality = (\<lambda>p. ret 0), e_pipe = ret (3, 4), e_openpty = ret (5, 6), e_setraw = (\<lambda>fd. ret ()),
     e_pipe_os = \<lparr>po_time = ret 0, po_select = (\<lambda>fd w. ret False), po_read = (\<lambda>fd n. ret []), po_write = (\<lambda>fd bs. ret (int (length bs))),
       po_close = (\<lambda>fd. ret ())\<rparr>,
     e_spawn_os = sample_spawn_os, e_fork = (\<lambda>child. ret 1), e_jumpstart = ''/j'', e_environ = [], e_errno = (\<lambda>k. 3),
     e_terminal = [], e_gdb_goback = ''gdb.py'', e_fork_exec = (\<lambda>args. ret 1), e_sigint = (\<lambda>ignored. ret ()),
     e_popen = (\<lambda>args. ret 1), e_processes = (\<lambda>k. []), e_proc_alive = (\<lambda>pid. ret False)\<rparr>"

definition sample_dbg :: "flat dbg" where
  "sample_dbg = \<lparr>d_kernel = flat_page, d_gs = fresh_gs, d_bp_heap = (\<lambda>b. default_breakpoint 0x1002 False),
     d_catcher_heap = (\<lambda>c. if c = 0 then SignalCatcher 10 (Some (HijackSignal 12)) True
        else SignalCatcher 12 (Some (HijackSignal 10)) True),
     d_handler_heap = (\<lambda>h. SyscallHandler 0x1003 None None False False False),
     d_thread_heap = (\<lambda>t. ThreadContext (if t = 0 then 1 else 2) 0), d_next = 7, d_breakpoints = [(0x1002, 0)],
     d_handled_syscalls = [(0x1003, 0)], d_caught_signals = [(10, 0), (12, 1)], d_signals_to_block = [],
     d_syscalls_to_pprint = None, d_syscalls_to_not_pprint = None, d_pprint_syscalls = False, d_threads = [0, 1],
     d_process_id = 1, d_instanced = True, d_is_running = False, d_resume_context = ResumeContext,
     d_hw_helpers = [(1, hw_init 1), (2, hw_init 2)], d_iface_process_id = 1, d_detached = False,
     d_forward_signal = True, d_assume_race_sigstop = True, d_output = [],
     d_argv = [''/bin/p''], d_env = None, d_aslr_enabled = True, d_autoreach_entrypoint = False, d_escape_antidebug = False,
     d_auto_interrupt = False, d_pipe_manager = Some \<lparr>pm_stdin_write = 4, pm_stdout_read = 5, pm_stderr_read = 7\<rparr>, d_disabled_aslr = False, d_background = True, d_commands = [], d_poller = PollerRunning,
     d_maps_cache = [], d_fds_cache = [], d_path_cache = None, d_name_cache = None\<rparr>"

lemma sample_env_fields [simp]:
  "e_arch sample_env = ''amd64''" "e_fuel sample_env = 5" "e_os sample_env = flat_os"
  by (simp_all add: sample_env_def)

lemma sample_calm: "calm sample_env"
  by (simp add: calm_def sample_env_def keeps_rules returns_rules)

lemma sample_names:
  "resolve_signal_name (e_signals sample_env) 10 = Inr ''SIGUSR1''" "resolve_signal_name (e_signals sample_env) 12 = Inr ''SIGUSR2''"
  by (simp_all add: resolve_signal_name_def create_signal_mappings_def sample_env_def is_signal_name_def)

lemma sample_regs: "regs_of sample_dbg t r = 0x1003" "thread_of sample_dbg 1 = Some 0" "thread_of sample_dbg 2 = Some 1"
  by (simp_all add: regs_of_def thread_of_def sample_dbg_def fresh_gs_def ThreadContext_def)

section \<open>Properties\<close>

text \<open>C20: handling a signal or a system call stop always comes to an end, whatever hijacks are installed:
  when the callbacks return and do not install handlers themselves, one round per handler is
  enough for the chain to finish or to be refused as a loop.\<close>

theorem hijack_chains_return:
  assumes "calm E" and "length (d_caught_signals s) < e_fuel E" and "length (d_handled_syscalls s) < e_fuel E"
  shows "fst (handle_signal E t s) \<noteq> Inl Diverges \<and> fst (handle_syscall_trap E thread_id s) \<noteq> Inl Diverges"
proof
  show "fst (handle_signal E t s) \<noteq> Inl Diverges"
    using signal_chain_returns [OF assms(1,2)]
    by (simp add: handle_signal_def get_thread_def gets_def bind_def ret_def split: option.splits)
  show "fst (handle_syscall_trap E thread_id s) \<noteq> Inl Diverges"
    unfolding handle_syscall_trap_def
  proof (rule bind_returns_at)
    show "returns (get_thread_by_id thread_id)" by (rule returns_rules)
    fix found and s1 :: "'a dbg"
    assume "get_thread_by_id thread_id s = (Inr found, s1)"
    then have s1: "s1 = s" by (simp add: get_thread_by_id_def gets_def)
    show "fst ((case found of None \<Rightarrow> ret () | Some thread \<Rightarrow> bind (thread_get thread ''syscall_number'') (\<lambda>n.
         bind (gets d_handled_syscalls) (\<lambda>handled. case dict_get handled n of None \<Rightarrow> ret ()
           | Some h \<Rightarrow> bind (get_handler h) (\<lambda>sh. if \<not> sh_has_entered sh then manage_syscall_on_enter E h thread n {n}
             else syscall_exit E thread h)))) s1) \<noteq> Inl Diverges"
    proof (cases found)
      case (Some thread)
      have "fst (bind (thread_get thread ''syscall_number'') (\<lambda>n.
         bind (gets d_handled_syscalls) (\<lambda>handled. case dict_get handled n of None \<Rightarrow> ret ()
           | Some h \<Rightarrow> bind (get_handler h) (\<lambda>sh. if \<not> sh_has_entered sh then manage_syscall_on_enter E h thread n {n}
             else syscall_exit E thread h))) s) \<noteq> Inl Diverges"
      proof (rule bind_returns_at)
        show "returns (thread_get thread ''syscall_number'')" by (rule returns_rules)
        fix n and s2 :: "'a dbg"
        assume "thread_get thread ''syscall_number'' s = (Inr n, s2)"
        then have "d_handled_syscalls s2 = d_handled_syscalls s"
          using keepsD [OF keeps_tables_attrs(1)] by (fastforce simp: tables_def)
        then show "fst (bind (gets d_handled_syscalls) (\<lambda>handled. case dict_get handled n of None \<Rightarrow> ret ()
           | Some h \<Rightarrow> bind (get_handler h) (\<lambda>sh. if \<not> sh_has_entered sh then manage_syscall_on_enter E h thread n {n}
             else syscall_exit E thread h)) s2) \<noteq> Inl Diverges"
          using syscall_chain_returns [OF assms(1), of s2] assms(3) returns_syscall_exit [OF assms(1)]
          by (auto simp: gets_def bind_def get_handler_def ret_def returns_def split: option.splits)
      qed
      then show ?thesis by (simp add: Some s1)
    qed (simp add: ret_def)
  qed
qed

theorem hijack_chains_return_witness:
  "fst (handle_signal sample_env 0 sample_dbg) \<noteq> Inl Diverges \<and> fst (handle_syscall_trap sample_env 1 sample_dbg) \<noteq> Inl Diverges"
  by (rule hijack_chains_return [OF sample_calm]) (simp_all add: sample_dbg_def)

text \<open>A path of catchers that hijack one signal after the other, up to the signal \<open>z\<close>.\<close>

fun hijack_path :: "'k denv \<Rightarrow> 'k dbg \<Rightarrow> (int \<times> nat) list \<Rightarrow> int \<Rightarrow> bool" where
  "hijack_path E s [] z \<longleftrightarrow> True"
| "hijack_path E s ((a, c) # path) z \<longleftrightarrow> (let b = (case path of [] \<Rightarrow> z | (b, _) # _ \<Rightarrow> b) in
     a \<noteq> b \<and> dict_get (d_caught_signals s) a = Some c \<and> sc_enabled (d_catcher_heap s c) \<and> sc_recursive (d_catcher_heap s c) \<and>
     sc_callback (d_catcher_heap s c) = Some (HijackSignal b) \<and>
     (\<exists>n. resolve_signal_name (e_signals E) a = Inr n) \<and> (\<exists>n. resolve_signal_name (e_signals E) b = Inr n) \<and>
     hijack_path E s path z)"

lemma hijack_path_caught: "hijack_path E s ps z \<Longrightarrow> (x, k) \<in> set ps \<Longrightarrow> dict_get (d_caught_signals s) x = Some k"
  by (induction ps) (auto simp: Let_def)

definition hijacked :: "nat \<Rightarrow> nat \<Rightarrow> int \<Rightarrow> 'k dbg \<Rightarrow> 'k dbg" where
  "hijacked t c b s = s\<lparr>
     d_catcher_heap := (d_catcher_heap s)(c := (d_catcher_heap s c)\<lparr>sc_hit_count := sc_hit_count (d_catcher_heap s c) + 1\<rparr>),
     d_thread_heap := (d_thread_heap s)(t := (d_thread_heap s t)\<lparr>tc_signal_number := b\<rparr>),
     d_resume_context := (d_resume_context s)\<lparr>rc_threads_with_signals_to_forward :=
       rc_threads_with_signals_to_forward (d_resume_context s) @ [tc_thread_id (d_thread_heap s t)]\<rparr>\<rparr>"

lemma hijack_visit:
  assumes "hijack_path E s ((a, c) # path) z" and "tc_signal_number (d_thread_heap s t) = a"
    and "b = (case path of [] \<Rightarrow> z | (b, _) # _ \<Rightarrow> b)"
  shows "signal_visit E t c a s = (Inr (map_option (\<lambda>c'. (c', b)) (dict_get (d_caught_signals s) b)), hijacked t c b s)"
  using assms
  by (auto simp: signal_visit_def set_signal_def signal_name_known_def hijacked_def small_methods py_simps Let_def)

lemma hijack_path_step:
  "hijack_path E s path z \<Longrightarrow> c \<notin> snd ` set path \<Longrightarrow> hijack_path E (hijacked t c b s) path z"
  by (induction path) (auto simp: hijacked_def Let_def)

lemma hijack_path_run:
  assumes "hijack_path E s ((a, c) # path) z" and "tc_signal_number (d_thread_heap s t) = a"
    and "distinct (map fst ((a, c) # path))" and "distinct (map snd ((a, c) # path))"
    and "a \<in> H" and "fst ` set path \<inter> H = {}" and "z \<in> H \<union> fst ` set path \<or> dict_get (d_caught_signals s) z = None"
    and "length ((a, c) # path) \<le> fuel"
  shows "\<exists>s'. hijack_chain (signal_visit E t) (\<lambda>c. ret ()) fuel c a H s =
      (if dict_get (d_caught_signals s) z = None then Inr () else Inl RuntimeError, s') \<and>
    tc_signal_number (d_thread_heap s' t) = z \<and>
    (\<forall>k. d_catcher_heap s' k = (if k \<in> snd ` set ((a, c) # path)
       then (d_catcher_heap s k)\<lparr>sc_hit_count := sc_hit_count (d_catcher_heap s k) + 1\<rparr> else d_catcher_heap s k))"
  using assms
proof (induction path arbitrary: a c H s fuel)
  case Nil
  obtain n where fuel: "fuel = Suc n" using Nil.prems(8) by (cases fuel) auto
  from hijack_visit [OF Nil.prems(1,2) refl] have visit:
    "signal_visit E t c a s = (Inr (map_option (\<lambda>c'. (c', z)) (dict_get (d_caught_signals s) z)), hijacked t c z s)" by simp
  show ?case
    using Nil.prems(7) visit by (cases "dict_get (d_caught_signals s) z") (auto simp: fuel bind_def ret_def raise_def hijacked_def)
next
  case (Cons p path)
  obtain b d where p: "p = (b, d)" by (cases p)
  obtain n where fuel: "fuel = Suc n" using Cons.prems(8) by (cases fuel) auto
  let ?u = "hijacked t c b s"
  have bd: "dict_get (d_caught_signals s) b = Some d" "b \<notin> H" using Cons.prems(1,6) by (auto simp: p Let_def)
  with hijack_visit [OF Cons.prems(1,2) refl] have visit: "signal_visit E t c a s = (Inr (Some (d, b)), ?u)" by (simp add: p)
  have "hijack_path E s (p # path) z" "c \<notin> snd ` set (p # path)" using Cons.prems(1,4) by (auto simp: Let_def)
  from hijack_path_step [OF this] have "hijack_path E ?u ((b, d) # path) z" by (simp only: p)
  moreover have "tc_signal_number (d_thread_heap ?u t) = b" "d_caught_signals ?u = d_caught_signals s" by (simp_all add: hijacked_def)
  ultimately obtain s' where s': "hijack_chain (signal_visit E t) (\<lambda>c. ret ()) n d b (insert b H) ?u =
      (if dict_get (d_caught_signals s) z = None then Inr () else Inl RuntimeError, s')"
    "tc_signal_number (d_thread_heap s' t) = z"
    "\<forall>k. d_catcher_heap s' k = (if k \<in> snd ` set ((b, d) # path)
       then (d_catcher_heap ?u k)\<lparr>sc_hit_count := sc_hit_count (d_catcher_heap ?u k) + 1\<rparr> else d_catcher_heap ?u k)"
    using Cons.IH [of ?u b d "insert b H" n] Cons.prems(3-8) by (auto simp: p fuel)
  have "hijack_chain (signal_visit E t) (\<lambda>c. ret ()) fuel c a H s =
      (if dict_get (d_caught_signals s) z = None then Inr () else Inl RuntimeError, s')"
    using visit bd(2) s'(1) by (simp add: fuel bind_def ret_def)
  moreover have "c \<notin> snd ` set ((b, d) # path)" using Cons.prems(4) by (auto simp: p)
  then have "\<forall>k. d_catcher_heap s' k = (if k \<in> snd ` set ((a, c) # p # path)
       then (d_catcher_heap s k)\<lparr>sc_hit_count := sc_hit_count (d_catcher_heap s k) + 1\<rparr> else d_catcher_heap s k)"
    using s'(3) by (auto simp: hijacked_def p)
  ultimately show ?case using s'(2) by blast
qed

text \<open>C37: hijacks are followed: when the catchers along a path of distinct signals each turn their signal into the
  next one, the thread ends up with the last signal and each catcher of the path, and no other, was hit
  once; this succeeds when nobody catches the last signal, and is refused with RuntimeError when it is one
  of the path, that is, when the hijacks form a loop.\<close>

theorem hijacks_followed:
  assumes "hijack_path E s ((a, c) # path) z" and "tc_signal_number (d_thread_heap s t) = a"
    and "distinct (map fst ((a, c) # path))" and "distinct (map snd ((a, c) # path))"
    and "z \<in> fst ` set ((a, c) # path) \<or> dict_get (d_caught_signals s) z = None"
    and "length ((a, c) # path) \<le> e_fuel E"
  shows "\<exists>s'. handle_signal E t s = (if z \<in> fst ` set ((a, c) # path) then Inl RuntimeError else Inr (), s') \<and>
    tc_signal_number (d_thread_heap s' t) = z \<and>
    (\<forall>k. d_catcher_heap s' k = (if k \<in> snd ` set ((a, c) # path)
       then (d_catcher_heap s k)\<lparr>sc_hit_count := sc_hit_count (d_catcher_heap s k) + 1\<rparr> else d_catcher_heap s k))"
proof -
  have "dict_get (d_caught_signals s) z \<noteq> None" if "z \<in> fst ` set ((a, c) # path)"
  proof -
    from that obtain k where "(z, k) \<in> set ((a, c) # path)" by (metis imageE prod.collapse)
    from hijack_path_caught [OF assms(1) this] show ?thesis by simp
  qed
  with assms(5) have "z \<in> fst ` set ((a, c) # path) \<longleftrightarrow> dict_get (d_caught_signals s) z \<noteq> None" by metis
  moreover have "handle_signal E t s = hijack_chain (signal_visit E t) (\<lambda>c. ret ()) (e_fuel E) c a {a} s"
    using assms(1,2) by (simp add: handle_signal_def manage_caught_signal_def small_methods py_simps Let_def)
  ultimately show ?thesis
    using hijack_path_run [OF assms(1-4), of "{a}" "e_fuel E"] assms(3,5,6) by auto
qed

theorem hijacks_followed_witness:
  "\<exists>s'. handle_signal sample_env 0 (sample_dbg\<lparr>d_thread_heap := (\<lambda>t. (ThreadContext 1 0)\<lparr>tc_signal_number := 10\<rparr>)\<rparr>) = (Inl RuntimeError, s') \<and>
    sc_hit_count (d_catcher_heap s' 0) = 1 \<and> sc_hit_count (d_catcher_heap s' 1) = 1"
proof -
  let ?s = "sample_dbg\<lparr>d_thread_heap := (\<lambda>t. (ThreadContext 1 0)\<lparr>tc_signal_number := 10\<rparr>)\<rparr>"
  have "hijack_path sample_env ?s [(10, 0), (12, 1)] 10"
    using sample_names by (simp add: sample_dbg_def SignalCatcher_def)
  from hijacks_followed [OF this, of 0] show ?thesis by (auto simp: sample_dbg_def SignalCatcher_def)
qed

text \<open>The state after a trap of the thread \<open>t\<close> was found to be a hit of \<open>b\<close>.\<close>

definition counted_hit :: "int \<Rightarrow> nat \<Rightarrow> int \<Rightarrow> nat \<Rightarrow> 'k dbg \<Rightarrow> 'k dbg" where
  "counted_hit thread_id t a b s = s\<lparr>d_gs := node_regs (tc_regs (d_thread_heap s t)) ((regs_of s t)(''rip'' := a)) (d_gs s),
     d_forward_signal := False, d_bp_heap := (d_bp_heap s)(b := (d_bp_heap s b)\<lparr>
       bp_linked_thread_ids := bp_linked_thread_ids (d_bp_heap s b) @ [thread_id], bp_hit_count := bp_hit_count (d_bp_heap s b) + 1\<rparr>)\<rparr>"

lemma software_hit_run:
  assumes "thread_of s thread_id = Some t" and "regs_of s t ''rip'' = ip" and "e_arch E = ''amd64''"
    and "live_bp_at ip s = None" and "live_bp_at (ip - 1) s = Some b" and "fits_u64 (ip - 1)"
  shows "handle_breakpoints E thread_id s = (case bp_callback (d_bp_heap s b) of
      Some cb \<Rightarrow> run_callback E cb t b (counted_hit thread_id t (ip - 1) b s) | None \<Rightarrow> stop_process (counted_hit thread_id t (ip - 1) b s))"
  using assms
  by (cases "bp_callback (d_bp_heap s b)")
     (simp_all add: handle_breakpoints_def get_thread_by_id_eq get_ip set_ip software_breakpoint_byte_size_def counted_hit_def
      bind_def gets_def lift_def ret_def upd_def upd_bp_def set_forward_def get_bp_def)

text \<open>C31: when a thread traps one byte past an enabled software breakpoint, it is put back on the breakpoint's
  address, the hit is counted and linked to the thread, the trap is not forwarded, and then the
  callback runs on exactly that state, or the process stops when there is none.\<close>

theorem software_breakpoint_hit:
  assumes "thread_of s thread_id = Some t" and "regs_of s t ''rip'' = ip" and "e_arch E = ''amd64''"
    and "live_bp_at ip s = None" and "live_bp_at (ip - 1) s = Some b" and "fits_u64 (ip - 1)"
  shows "\<exists>s'. regs_of s' t = (regs_of s t)(''rip'' := ip - 1) \<and> \<not> d_forward_signal s' \<and>
    d_bp_heap s' = (d_bp_heap s)(b := (d_bp_heap s b)\<lparr>
      bp_linked_thread_ids := bp_linked_thread_ids (d_bp_heap s b) @ [thread_id],
      bp_hit_count := bp_hit_count (d_bp_heap s b) + 1\<rparr>) \<and>
    d_kernel s' = d_kernel s \<and> tables s' = tables s \<and> d_resume_context s' = d_resume_context s \<and>
    handle_breakpoints E thread_id s = (case bp_callback (d_bp_heap s b) of
        Some cb \<Rightarrow> run_callback E cb t b s' | None \<Rightarrow> stop_process s')"
proof -
  let ?s' = "counted_hit thread_id t (ip - 1) b s"
  have "regs_of ?s' t = (regs_of s t)(''rip'' := ip - 1)"
    by (simp add: counted_hit_def regs_of_def node_regs_def set_node_def)
  then show ?thesis
    using software_hit_run [OF assms] by (intro exI [of _ ?s']) (simp add: counted_hit_def tables_def)
qed

theorem software_breakpoint_hit_witness:
  "\<exists>s'. regs_of s' 0 ''rip'' = 0x1002 \<and> bp_hit_count (d_bp_heap s' 0) = 1 \<and>
    handle_breakpoints sample_env 1 sample_dbg = stop_process s'"
proof -
  have live: "live_bp_at 0x1003 sample_dbg = None" "live_bp_at (0x1003 - 1) sample_dbg = Some 0" "fits_u64 (0x1003 - 1)"
    "bp_callback (d_bp_heap sample_dbg 0) = None" "bp_hit_count (d_bp_heap sample_dbg 0) = 0"
    by (simp_all add: live_bp_at_def sample_dbg_def default_breakpoint_def Breakpoint_def fits_u64_def)
  from software_breakpoint_hit [OF sample_regs(2) sample_regs(1) sample_env_fields(1) live(1,2,3)]
  obtain s' where "regs_of s' 0 = (regs_of sample_dbg 0)(''rip'' := 0x1003 - 1)"
    "d_bp_heap s' = (d_bp_heap sample_dbg)(0 := (d_bp_heap sample_dbg 0)\<lparr>
      bp_linked_thread_ids := bp_linked_thread_ids (d_bp_heap sample_dbg 0) @ [1], bp_hit_count := bp_hit_count (d_bp_heap sample_dbg 0) + 1\<rparr>)"
    "handle_breakpoints sample_env 1 sample_dbg = (case bp_callback (d_bp_heap sample_dbg 0) of
      Some cb \<Rightarrow> run_callback sample_env cb 0 0 s' | None \<Rightarrow> stop_process s')" by blast
  with live(4,5) show ?thesis by (intro exI [of _ s']) simp
qed

text \<open>
  The status word of a thread stopped by a signal (no event), and of one that exited.
\<close>

definition stopped_by :: "int \<Rightarrow> int" where
  "stopped_by signum = push_bit 8 signum OR 0x7F"

definition exited_with :: "int \<Rightarrow> int" where
  "exited_with code = push_bit 8 code"

lemma bit_small: "bit (0x7F :: int) n \<longleftrightarrow> n < 7" "bit (0xFF :: int) n \<longleftrightarrow> n < 8"
proof -
  have m: "(0x7F :: int) = mask 7" "(0xFF :: int) = mask 8" by (simp_all add: mask_eq_exp_minus_1)
  show "bit (0x7F :: int) n \<longleftrightarrow> n < 7" "bit (0xFF :: int) n \<longleftrightarrow> n < 8"
    unfolding m by (simp_all add: bit_mask_iff)
qed

lemma low_bits: "push_bit 8 x AND (0x7F :: int) = 0" "push_bit 8 x AND (0xFF :: int) = 0"
  by (rule bit_eqI, auto simp: bit_and_iff bit_push_bit_iff bit_small)+

lemma stopped_by_parts:
  assumes "0 \<le> signum" and "signum < 256"
  shows "WIFSTOPPED (stopped_by signum)" "WSTOPSIG (stopped_by signum) = signum"
    "\<not> WIFEXITED (stopped_by signum)" "\<not> WIFSIGNALED (stopped_by signum)"
proof -
  have a: "(push_bit 8 signum OR 0x7F) AND 0xFF = (0x7F :: int)" "(push_bit 8 signum OR 0x7F) AND 0x7F = (0x7F :: int)"
    by (rule bit_eqI, auto simp: bit_and_iff bit_or_iff bit_push_bit_iff bit_small)+
  have "drop_bit 8 (push_bit 8 signum OR 0x7F) AND 0xFF = signum"
    by (rule bit_eqI) (use bit_less_exp [of signum 8] assms in
      \<open>auto simp: bit_and_iff bit_or_iff bit_push_bit_iff bit_drop_bit_eq bit_small\<close>)
  with a show "WIFSTOPPED (stopped_by signum)" "WSTOPSIG (stopped_by signum) = signum"
    "\<not> WIFEXITED (stopped_by signum)" "\<not> WIFSIGNALED (stopped_by signum)"
    by (simp_all add: WIFSTOPPED_def WSTOPSIG_def WIFEXITED_def WIFSIGNALED_def stopped_by_def)
qed

lemma exited_with_parts:
  assumes "0 \<le> code" and "code < 256"
  shows "\<not> WIFSTOPPED (exited_with code)" "WIFEXITED (exited_with code)" "WEXITSTATUS (exited_with code) = code"
    "\<not> WIFSIGNALED (exited_with code)"
proof -
  have "drop_bit 8 (push_bit 8 code) AND 0xFF = code"
    by (rule bit_eqI) (use bit_less_exp [of code 8] assms in
      \<open>auto simp: bit_and_iff bit_push_bit_iff bit_drop_bit_eq bit_small\<close>)
  then show "\<not> WIFSTOPPED (exited_with code)" "WIFEXITED (exited_with code)" "WEXITSTATUS (exited_with code) = code"
    "\<not> WIFSIGNALED (exited_with code)"
    by (simp_all add: WIFSTOPPED_def WIFEXITED_def WEXITSTATUS_def WIFSIGNALED_def exited_with_def low_bits)
qed

lemma signal_constants: "SIGTRAP = 5" "SIGSTOP = 19" "SYSCALL_SIGTRAP = 0x85"
  by code_simp+

text \<open>C30: a signal that no catcher waits for does not stop the process: the number is recorded on the thread and
  the thread is queued for forwarding, exactly once; nothing else changes.\<close>

theorem uncaught_signal_forwarded:
  assumes "0 < signum" and "signum < 128" and "signum \<noteq> 5" and "signum \<noteq> 19"
    and "dict_get (d_caught_signals s) signum = None" and "thread_of s pid = Some t" and "\<not> rc_is_startup (d_resume_context s)"
  shows "handle_change E pid (stopped_by signum) results s = (Inr (), s\<lparr>d_forward_signal := True, d_assume_race_sigstop := False,
    d_thread_heap := (d_thread_heap s)(t := (d_thread_heap s t)\<lparr>tc_signal_number := signum\<rparr>),
    d_resume_context := (d_resume_context s)\<lparr>rc_threads_with_signals_to_forward :=
      rc_threads_with_signals_to_forward (d_resume_context s) @ [pid]\<rparr>\<rparr>)"
proof -
  note parts = stopped_by_parts [of signum]
  have f: "thread_of (s\<lparr>d_forward_signal := True, d_assume_race_sigstop := False\<rparr>) pid = Some t"
    using assms(6) by (simp add: thread_of_def)
  show ?thesis
    using assms parts f
    by (simp add: handle_change_def handle_stop_def internal_signal_handler_def signal_constants get_thread_by_id_eq
        handle_signal_def set_forward_def upd_thread_def upd_resume_def get_thread_def py_simps Let_def)
qed

theorem uncaught_signal_forwarded_witness:
  "\<exists>s'. handle_change sample_env 1 (stopped_by 11) [] sample_dbg = (Inr (), s') \<and>
    rc_threads_with_signals_to_forward (d_resume_context s') = [1] \<and> tc_signal_number (d_thread_heap s' 0) = 11"
proof -
  have "dict_get (d_caught_signals sample_dbg) 11 = None" "\<not> rc_is_startup (d_resume_context sample_dbg)"
    "rc_threads_with_signals_to_forward (d_resume_context sample_dbg) = []"
    by (simp_all add: sample_dbg_def ResumeContext_def)
  then show ?thesis using uncaught_signal_forwarded [OF _ _ _ _ _ sample_regs(2), of 11 sample_env "[]"] by simp
qed

lemma find_unregistered:
  assumes "distinct (map (node_tid g) (gs_t_HEAD g))"
  shows "find_thread tid (unregister_thread_c tid g) = None"
proof (cases "find_thread tid g")
  case (Some p)
  then have p: "p \<in> set (gs_t_HEAD g)" "node_tid g p = tid" using find_SomeD unfolding find_thread_def by fastforce+
  have "node_tid g q \<noteq> tid" if "q \<in> set (remove1 p (gs_t_HEAD g))" for q
  proof -
    have "distinct (gs_t_HEAD g)" and inj: "inj_on (node_tid g) (set (gs_t_HEAD g))"
      using assms by (simp_all add: distinct_map)
    then have q: "q \<in> set (gs_t_HEAD g)" "q \<noteq> p" using that by simp_all
    then show ?thesis using inj_onD [OF inj _ q(1) p(1)] p(2) by auto
  qed
  moreover have "unregister_thread_c tid g = g\<lparr>gs_t_HEAD := remove1 p (gs_t_HEAD g), gs_dead_t_HEAD := p # gs_dead_t_HEAD g\<rparr>"
    by (simp add: unregister_thread_c_def Some)
  ultimately show ?thesis by (simp add: find_thread_def find_None_iff node_tid_def)
qed (simp add: unregister_thread_c_def)

lemma find_first_only:
  assumes "List.find P l = Some t" and "\<And>u. u \<in> set l \<Longrightarrow> Q u \<Longrightarrow> u = t" and "Q t"
  shows "List.find Q l = Some t"
  using assms(1,2)
proof (induction l)
  case (Cons x l)
  show ?case
  proof (cases "Q x")
    case True
    then show ?thesis using Cons.prems(2) [of x] by simp
  next
    case False
    then have "x \<noteq> t" using assms(3) by blast
    with Cons.prems(1) have "List.find P l = Some t" by (simp split: if_splits)
    with Cons.IH Cons.prems(2) False show ?thesis by simp
  qed
qed simp

lemma handle_change_exited:
  assumes "0 \<le> code" and "code < 256"
  shows "handle_change E pid (exited_with code) results s = handle_exit pid (Some code) None (s\<lparr>d_forward_signal := True\<rparr>)"
  using exited_with_parts [OF assms]
  by (cases "handle_exit pid (Some code) None (s\<lparr>d_forward_signal := True\<rparr>)")
     (simp add: handle_change_def set_forward_def upd_def bind_def gets_def py_when_def ret_def split: sum.splits)

lemma mark_dead_run:
  assumes "List.find (\<lambda>u. tc_thread_id (d_thread_heap s u) = pid) (d_threads s) = Some t"
  shows "set_thread_as_dead pid c sg s = (Inr (), s\<lparr>d_thread_heap := (d_thread_heap s)(t := (d_thread_heap s t)\<lparr>
    tc_dead := True, tc_exit_code := c, tc_exit_signal := sg\<rparr>)\<rparr>)"
  using assms by (simp add: set_thread_as_dead_def bind_def gets_def upd_thread_def upd_def)

lemma handle_exit_run:
  assumes "thread_of s pid = Some u" and "List.find (\<lambda>u. tc_thread_id (d_thread_heap s u) = pid) (d_threads s) = Some t"
    and "dict_get (d_hw_helpers s) pid = Some h"
  shows "handle_exit pid c sg s = (Inr (), s\<lparr>d_gs := unregister_thread_c pid (d_gs s),
     d_thread_heap := (d_thread_heap s)(t := (d_thread_heap s t)\<lparr>tc_dead := True, tc_exit_code := c, tc_exit_signal := sg\<rparr>),
     d_hw_helpers := AList.delete pid (d_hw_helpers s)\<rparr>)"
proof -
  let ?s1 = "s\<lparr>d_gs := unregister_thread_c pid (d_gs s)\<rparr>"
  have "set_thread_as_dead pid c sg ?s1 = (Inr (), ?s1\<lparr>d_thread_heap := (d_thread_heap s)(t := (d_thread_heap s t)\<lparr>
    tc_dead := True, tc_exit_code := c, tc_exit_signal := sg\<rparr>)\<rparr>)"
    using mark_dead_run [of ?s1 pid t c sg] assms(2) by simp
  then show ?thesis
    using assms(1,3)
    by (simp add: handle_exit_def get_thread_by_id_eq bind_def py_when_def unregister_thread_def upd_def gets_def lift_def
        dict_del_def in_dict_def)
qed

text \<open>C29: a thread that exits leaves every table: its context is dead with its exit code, the debugger finds no
  live thread with its id, the C list and the hardware managers no longer have it.\<close>

theorem exited_thread_removed:
  assumes "0 \<le> code" and "code < 256" and "thread_of s pid = Some t" and "dict_get (d_hw_helpers s) pid = Some h"
    and "\<forall>u \<in> set (d_threads s). tc_thread_id (d_thread_heap s u) = pid \<longrightarrow> u = t"
    and "distinct (map (node_tid (d_gs s)) (gs_t_HEAD (d_gs s)))"
  shows "\<exists>s'. handle_change E pid (exited_with code) results s = (Inr (), s') \<and> tc_dead (d_thread_heap s' t) \<and>
    tc_exit_code (d_thread_heap s' t) = Some code \<and> tc_exit_signal (d_thread_heap s' t) = None \<and> thread_of s' pid = None \<and>
    find_thread pid (d_gs s') = None \<and> \<not> in_dict pid (d_hw_helpers s') \<and>
    (\<forall>u. u \<noteq> t \<longrightarrow> d_thread_heap s' u = d_thread_heap s u)"
proof -
  let ?tc = "(d_thread_heap s t)\<lparr>tc_dead := True, tc_exit_code := Some code, tc_exit_signal := None\<rparr>"
  let ?s' = "s\<lparr>d_forward_signal := True, d_gs := unregister_thread_c pid (d_gs s),
     d_thread_heap := (d_thread_heap s)(t := ?tc), d_hw_helpers := AList.delete pid (d_hw_helpers s)\<rparr>"
  have t: "tc_thread_id (d_thread_heap s t) = pid" using find_SomeD [OF assms(3) [unfolded thread_of_def]] by simp
  have find: "List.find (\<lambda>u. tc_thread_id (d_thread_heap s u) = pid) (d_threads s) = Some t"
    by (rule find_first_only [OF assms(3) [unfolded thread_of_def]]) (use assms(5) t in blast)+
  have "handle_change E pid (exited_with code) results s = (Inr (), ?s')"
    using handle_exit_run [of "s\<lparr>d_forward_signal := True\<rparr>" pid t t h] assms(3,4) find
    by (simp add: handle_change_exited [OF assms(1,2)] thread_of_def)
  moreover have "\<not> (tc_thread_id (((d_thread_heap s)(t := ?tc)) u) = pid \<and> \<not> tc_dead (((d_thread_heap s)(t := ?tc)) u))"
    if "u \<in> set (d_threads s)" for u
    using bspec [OF assms(5) that] by (cases "u = t") simp_all
  then have "thread_of ?s' pid = None" by (simp add: thread_of_def find_None_iff)
  ultimately show ?thesis
    using find_unregistered [OF assms(6)] by (intro exI [of _ ?s']) (simp add: in_dict_def dict_get_delete)
qed

theorem exited_thread_removed_witness:
  "\<exists>s'. handle_change sample_env 1 (exited_with 3) [] sample_dbg = (Inr (), s') \<and> tc_exit_code (d_thread_heap s' 0) = Some 3 \<and>
    thread_of s' 1 = None"
proof -
  have "dict_get (d_hw_helpers sample_dbg) 1 = Some (hw_init 1)" "distinct (map (node_tid (d_gs sample_dbg)) (gs_t_HEAD (d_gs sample_dbg)))"
    "\<forall>u \<in> set (d_threads sample_dbg). tc_thread_id (d_thread_heap sample_dbg u) = 1 \<longrightarrow> u = 0"
    by (simp_all add: sample_dbg_def fresh_gs_def ThreadContext_def)
  then show ?thesis using exited_thread_removed [of 3 sample_dbg 1 0 "hw_init 1" sample_env "[]"] sample_regs(2) by auto
qed

text \<open>Thread ids are reused by the system, but the thread to mark dead is looked up among dead threads too: when
  an earlier thread had the same id, the new one's exit is recorded on the old one, and the new one
  stays alive for ever in the debugger's eyes, without a hardware manager.\<close>

lemma reused_thread_id_never_dies:
  assumes "0 \<le> code" and "code < 256" and "d_threads s = old # new # rest" and "old \<noteq> new"
    and "tc_thread_id (d_thread_heap s old) = pid" and "tc_dead (d_thread_heap s old)"
    and "tc_thread_id (d_thread_heap s new) = pid" and "\<not> tc_dead (d_thread_heap s new)"
    and "dict_get (d_hw_helpers s) pid = Some h"
  shows "\<exists>s'. handle_change E pid (exited_with code) results s = (Inr (), s') \<and> thread_of s' pid = Some new \<and>
    tc_exit_code (d_thread_heap s' new) = tc_exit_code (d_thread_heap s new) \<and>
    tc_exit_code (d_thread_heap s' old) = Some code \<and> \<not> in_dict pid (d_hw_helpers s')"
  using handle_exit_run [of "s\<lparr>d_forward_signal := True\<rparr>" pid new old h "Some code" None] assms(3-9)
  by (simp add: handle_change_exited [OF assms(1,2)] thread_of_def in_dict_def dict_get_delete)

lemma reused_thread_id_never_dies_witness:
  "\<exists>s'. handle_change sample_env 2 (exited_with 3) [] (sample_dbg\<lparr>d_threads := [5, 6],
     d_thread_heap := (d_thread_heap sample_dbg)(5 := (ThreadContext 2 0)\<lparr>tc_dead := True\<rparr>)\<rparr>) = (Inr (), s') \<and> thread_of s' 2 = Some 6"
  using reused_thread_id_never_dies [of 3 "sample_dbg\<lparr>d_threads := [5, 6],
     d_thread_heap := (d_thread_heap sample_dbg)(5 := (ThreadContext 2 0)\<lparr>tc_dead := True\<rparr>)\<rparr>" 5 6 "[]" 2 "hw_init 2" sample_env "[]"]
  by (auto simp: sample_dbg_def ThreadContext_def)

text \<open>C32: a system call handled without callbacks stops the process twice, when it is entered and when it is left,
  and is counted once, when it is left.\<close>

theorem syscall_stops_twice:
  assumes "thread_of s thread_id = Some t" and "regs_of s t ''orig_rax'' = n" and "dict_get (d_handled_syscalls s) n = Some h"
    and "d_handler_heap s h = SyscallHandler n None None False False r" and "0 < e_fuel E"
  shows "\<exists>s1 s2. handle_syscall_trap E thread_id s = (Inr (), s1) \<and> sh_has_entered (d_handler_heap s1 h) \<and>
    sh_hit_count (d_handler_heap s1 h) = 0 \<and> \<not> rc_resume (d_resume_context s1) \<and>
    handle_syscall_trap E thread_id (s1\<lparr>d_resume_context := ResumeContext\<rparr>) = (Inr (), s2) \<and> \<not> sh_has_entered (d_handler_heap s2 h) \<and>
    sh_hit_count (d_handler_heap s2 h) = 1 \<and> \<not> rc_resume (d_resume_context s2)"
proof -
  obtain fuel where fuel: "e_fuel E = Suc fuel" using assms(5) by (cases "e_fuel E") auto
  let ?s1 = "s\<lparr>d_handler_heap := (d_handler_heap s)(h := (d_handler_heap s h)\<lparr>sh_has_entered := True\<rparr>),
     d_resume_context := (d_resume_context s)\<lparr>rc_resume := False\<rparr>\<rparr>"
  have 1: "handle_syscall_trap E thread_id s = (Inr (), ?s1)"
    using assms(1-4)
    by (simp add: handle_syscall_trap_def get_thread_by_id_eq get_syscall_number manage_syscall_on_enter_def fuel
        syscall_visit_def syscall_post_def no_user_callback_def SyscallHandler_def get_handler_def mark_entered_def upd_handler_def
        stop_process_def upd_resume_def py_simps)
  let ?t = "?s1\<lparr>d_resume_context := ResumeContext\<rparr>"
  have t: "thread_of ?t thread_id = Some t" "regs_of ?t t ''orig_rax'' = n"
    using assms(1,2) by (simp_all add: thread_of_def regs_of_def)
  have 2: "\<exists>s2. handle_syscall_trap E thread_id ?t = (Inr (), s2) \<and> \<not> sh_has_entered (d_handler_heap s2 h) \<and>
    sh_hit_count (d_handler_heap s2 h) = 1 \<and> \<not> rc_resume (d_resume_context s2)"
    using assms(3,4) t
    by (simp add: handle_syscall_trap_def get_thread_by_id_eq get_syscall_number syscall_exit_def no_user_callback_def
        SyscallHandler_def get_handler_def upd_handler_def stop_process_def upd_resume_def py_simps)
  have "sh_has_entered (d_handler_heap ?s1 h) \<and> sh_hit_count (d_handler_heap ?s1 h) = 0 \<and> \<not> rc_resume (d_resume_context ?s1)"
    using assms(4) by (simp add: SyscallHandler_def)
  with 1 2 show ?thesis by blast
qed

theorem syscall_stops_twice_witness:
  "\<exists>s1 s2. handle_syscall_trap sample_env 1 sample_dbg = (Inr (), s1) \<and> \<not> rc_resume (d_resume_context s1) \<and>
    handle_syscall_trap sample_env 1 (s1\<lparr>d_resume_context := ResumeContext\<rparr>) = (Inr (), s2) \<and> sh_hit_count (d_handler_heap s2 0) = 1"
proof -
  have "dict_get (d_handled_syscalls sample_dbg) 0x1003 = Some 0"
    "d_handler_heap sample_dbg 0 = SyscallHandler 0x1003 None None False False False" "0 < e_fuel sample_env"
    by (simp_all add: sample_dbg_def)
  from syscall_stops_twice [OF sample_regs(2) sample_regs(1) this] show ?thesis by blast
qed

text \<open>Whether a system call is being entered is remembered per handler, not per thread: when a second thread
  enters the same system call while the first is inside, its entry is taken for an exit. The call is
  counted although no thread has left it, and the next stop is taken for an entry.\<close>

lemma second_entry_taken_for_exit:
  assumes "thread_of s tid1 = Some t1" and "thread_of s tid2 = Some t2" and "t1 \<noteq> t2"
    and "regs_of s t1 ''orig_rax'' = n" and "regs_of s t2 ''orig_rax'' = n" and "dict_get (d_handled_syscalls s) n = Some h"
    and "d_handler_heap s h = SyscallHandler n None None False False r" and "0 < e_fuel E"
  shows "\<exists>s1 s2. handle_syscall_trap E tid1 s = (Inr (), s1) \<and> handle_syscall_trap E tid2 s1 = (Inr (), s2) \<and>
    sh_hit_count (d_handler_heap s2 h) = 1 \<and> \<not> sh_has_entered (d_handler_heap s2 h)"
proof -
  obtain fuel where fuel: "e_fuel E = Suc fuel" using assms(8) by (cases "e_fuel E") auto
  let ?s1 = "s\<lparr>d_handler_heap := (d_handler_heap s)(h := (d_handler_heap s h)\<lparr>sh_has_entered := True\<rparr>),
     d_resume_context := (d_resume_context s)\<lparr>rc_resume := False\<rparr>\<rparr>"
  have 1: "handle_syscall_trap E tid1 s = (Inr (), ?s1)"
    using assms(1,4,6,7)
    by (simp add: handle_syscall_trap_def get_thread_by_id_eq get_syscall_number manage_syscall_on_enter_def fuel
        syscall_visit_def syscall_post_def no_user_callback_def SyscallHandler_def get_handler_def mark_entered_def upd_handler_def
        stop_process_def upd_resume_def py_simps)
  have t: "thread_of ?s1 tid2 = Some t2" "regs_of ?s1 t2 ''orig_rax'' = n"
    using assms(2,5) by (simp_all add: thread_of_def regs_of_def)
  have "\<exists>s2. handle_syscall_trap E tid2 ?s1 = (Inr (), s2) \<and> sh_hit_count (d_handler_heap s2 h) = 1 \<and>
    \<not> sh_has_entered (d_handler_heap s2 h)"
    using assms(6,7) t
    by (simp add: handle_syscall_trap_def get_thread_by_id_eq get_syscall_number syscall_exit_def no_user_callback_def
        SyscallHandler_def get_handler_def upd_handler_def stop_process_def upd_resume_def py_simps)
  then show ?thesis using 1 by blast
qed

lemma second_entry_taken_for_exit_witness:
  "\<exists>s1 s2. handle_syscall_trap sample_env 1 sample_dbg = (Inr (), s1) \<and> handle_syscall_trap sample_env 2 s1 = (Inr (), s2) \<and>
    sh_hit_count (d_handler_heap s2 0) = 1"
proof -
  have "dict_get (d_handled_syscalls sample_dbg) 0x1003 = Some 0"
    "d_handler_heap sample_dbg 0 = SyscallHandler 0x1003 None None False False False" "0 < e_fuel sample_env"
    by (simp_all add: sample_dbg_def)
  from second_entry_taken_for_exit [OF sample_regs(2,3) _ sample_regs(1) sample_regs(1) this] show ?thesis by auto
qed

end
