(* ===== verification/Command_Queue.thy ===== *)
theory Command_Queue
  imports Main
begin

text \<open>
  The two threads of a debugger (\<open>libdebug/debugger/internal_debugger.py\<close>): the user's thread puts
  commands on a queue and joins it, and the polling thread (\<open>__polling_thread_function\<close>) takes them,
  executes them and reports what they return on a second queue, which it then joins itself. Both
  queues are \<open>queue.Queue\<close>s: each counts the items that were put and not yet marked done.

  \<open>exec\<close> is what a command does to the debugger's state: Some response when it returns a value or
  raises, None when it returns None.
\<close>

section \<open>The two threads\<close>

text \<open>\<open>Get\<close> and \<open>Ack\<close> are the halves of taking a response: \<open>get()\<close>, then \<open>task_done()\<close> and raising or returning it.\<close>

datatype ('c, 'r) main_op = Put 'c | Join | Check | Get | Ack 'r

datatype 'c item = Do 'c | Terminate

datatype ('c, 'r) poller = At_get | Holding 'c | Executed "'r option" | Reported | Joining | Stopped

record ('c, 'r, 's) cq =
  q_commands :: "'c item list"
  q_unfinished :: nat
  q_responses :: "'r list"
  q_resp_unfinished :: nat
  q_poller :: "('c, 'r) poller"
  q_main :: "('c item, 'r) main_op list"
  q_answer :: "'r option"
  q_state :: 's

type_synonym ('c, 'r, 's) exec = "'c \<Rightarrow> 's \<Rightarrow> 'r option \<times> 's"

inductive cq_step :: "('c, 'r, 's) exec \<Rightarrow> ('c, 'r, 's) cq \<Rightarrow> ('c, 'r, 's) cq \<Rightarrow> bool" for exec where
  put: "q_main q = Put c # m \<Longrightarrow>
    cq_step exec q (q\<lparr>q_commands := q_commands q @ [c], q_unfinished := Suc (q_unfinished q), q_main := m\<rparr>)"
| join: "q_main q = Join # m \<Longrightarrow> q_unfinished q = 0 \<Longrightarrow> cq_step exec q (q\<lparr>q_main := m\<rparr>)"
| check_empty: "q_main q = Check # m \<Longrightarrow> q_responses q = [] \<Longrightarrow> cq_step exec q (q\<lparr>q_main := m\<rparr>)"
| check_response: "q_main q = Check # m \<Longrightarrow> q_responses q \<noteq> [] \<Longrightarrow> cq_step exec q (q\<lparr>q_main := Get # m\<rparr>)"
| get: "q_main q = Get # m \<Longrightarrow> q_responses q = r # rs \<Longrightarrow>
    cq_step exec q (q\<lparr>q_responses := rs, q_main := Ack r # m\<rparr>)"
| ack: "q_main q = Ack r # m \<Longrightarrow>
    cq_step exec q (q\<lparr>q_resp_unfinished := q_resp_unfinished q - 1, q_answer := Some r, q_main := []\<rparr>)"
| take_command: "q_poller q = At_get \<Longrightarrow> q_commands q = Do c # cs \<Longrightarrow>
    cq_step exec q (q\<lparr>q_commands := cs, q_poller := Holding c\<rparr>)"
| take_terminate: "q_poller q = At_get \<Longrightarrow> q_commands q = Terminate # cs \<Longrightarrow>
    cq_step exec q (q\<lparr>q_commands := cs, q_unfinished := q_unfinished q - 1, q_poller := Stopped\<rparr>)"
| run: "q_poller q = Holding c \<Longrightarrow> exec c (q_state q) = (r, s) \<Longrightarrow>
    cq_step exec q (q\<lparr>q_state := s, q_poller := Executed r\<rparr>)"
| report: "q_poller q = Executed (Some r) \<Longrightarrow>
    cq_step exec q (q\<lparr>q_responses := q_responses q @ [r], q_resp_unfinished := Suc (q_resp_unfinished q), q_poller := Reported\<rparr>)"
| quiet: "q_poller q = Executed None \<Longrightarrow>
    cq_step exec q (q\<lparr>q_unfinished := q_unfinished q - 1, q_poller := At_get\<rparr>)"
| reported: "q_poller q = Reported \<Longrightarrow>
    cq_step exec q (q\<lparr>q_unfinished := q_unfinished q - 1, q_poller := Joining\<rparr>)"
| resume: "q_poller q = Joining \<Longrightarrow> q_resp_unfinished q = 0 \<Longrightarrow> cq_step exec q (q\<lparr>q_poller := At_get\<rparr>)"

inductive_cases cq_stepE: "cq_step exec q q'"

definition cq_stuck :: "('c, 'r, 's) exec \<Rightarrow> ('c, 'r, 's) cq \<Rightarrow> bool" where
  "cq_stuck exec q \<longleftrightarrow> (\<forall>q'. \<not> cq_step exec q q')"

text \<open>Between calls: nothing queued, the polling thread waits for a command.\<close>

definition cq_idle :: "('c item, 'r) main_op list \<Rightarrow> 'r option \<Rightarrow> 's \<Rightarrow> ('c, 'r, 's) cq" where
  "cq_idle m a s = \<lparr>q_commands = [], q_unfinished = 0, q_responses = [], q_resp_unfinished = 0, q_poller = At_get,
     q_main = m, q_answer = a, q_state = s\<rparr>"

text \<open>A call puts commands, then \<open>_join_and_check_status\<close>.\<close>

definition cq_call :: "'c list \<Rightarrow> ('c item, 'r) main_op list" where
  "cq_call cs = map (Put \<circ> Do) cs @ [Join, Check]"

section \<open>The sequential reading\<close>

text \<open>
  The commands run in order. A response of the last one is the answer of the call; a response of an
  earlier one is never fetched, because the user's thread waits for all commands to be done, while
  the polling thread waits for the response to be taken.
\<close>

datatype 'r outcome = Answer "'r option" | Deadlock

fun drain :: "('c, 'r, 's) exec \<Rightarrow> 'c list \<Rightarrow> 's \<Rightarrow> 'r outcome \<times> 's" where
  "drain exec [] s = (Answer None, s)"
| "drain exec (c # cs) s = (case exec c s of
     (None, t) \<Rightarrow> drain exec cs t
   | (Some r, t) \<Rightarrow> (if cs = [] then Answer (Some r) else Deadlock, t))"

text \<open>Whether the commands all return None, and the state after them.\<close>

fun silent :: "('c, 'r, 's) exec \<Rightarrow> 'c list \<Rightarrow> 's \<Rightarrow> 's option" where
  "silent exec [] s = Some s"
| "silent exec (c # cs) s = (case exec c s of (None, t) \<Rightarrow> silent exec cs t | (Some r, t) \<Rightarrow> None)"

lemma silent_snoc: "silent exec ds s = Some t \<Longrightarrow> exec c t = (None, u) \<Longrightarrow> silent exec (ds @ [c]) s = Some u"
  by (induction ds arbitrary: s) (auto split: prod.splits option.splits)

lemma drain_append: "silent exec ds s = Some t \<Longrightarrow> drain exec (ds @ cs) s = drain exec cs t"
  by (induction ds arbitrary: s) (auto split: prod.splits option.splits)

section \<open>The invariant of a call\<close>

text \<open>\<open>ds\<close> are the commands done, \<open>ps\<close> those not yet put; where the user's thread can be.\<close>

definition no_response :: "('c, 'r, 's) cq \<Rightarrow> bool" where
  "no_response q \<longleftrightarrow> q_responses q = [] \<and> q_resp_unfinished q = 0 \<and> q_answer q = None"

definition idle_phase :: "('c, 'r, 's) exec \<Rightarrow> 'c list \<Rightarrow> 's \<Rightarrow> ('c, 'r, 's) cq \<Rightarrow> bool" where
  "idle_phase exec cs s q \<longleftrightarrow> (\<exists>ds ws ps. cs = ds @ ws @ ps \<and> q_commands q = map Do ws \<and> q_poller q = At_get \<and>
     silent exec ds s = Some (q_state q) \<and> q_unfinished q = length ws \<and> no_response q \<and>
     (q_main q = cq_call ps \<or> ws = [] \<and> ps = [] \<and> (q_main q = [Check] \<or> q_main q = [])))"

definition held_phase :: "('c, 'r, 's) exec \<Rightarrow> 'c list \<Rightarrow> 's \<Rightarrow> ('c, 'r, 's) cq \<Rightarrow> bool" where
  "held_phase exec cs s q \<longleftrightarrow> (\<exists>ds c ws ps. cs = ds @ c # ws @ ps \<and> q_commands q = map Do ws \<and> q_poller q = Holding c \<and>
     silent exec ds s = Some (q_state q) \<and> q_unfinished q = Suc (length ws) \<and> no_response q \<and> q_main q = cq_call ps)"

definition executed_phase :: "('c, 'r, 's) exec \<Rightarrow> 'c list \<Rightarrow> 's \<Rightarrow> ('c, 'r, 's) cq \<Rightarrow> bool" where
  "executed_phase exec cs s q \<longleftrightarrow> (\<exists>ds c ws ps t r. cs = ds @ c # ws @ ps \<and> q_commands q = map Do ws \<and>
     q_poller q = Executed r \<and> silent exec ds s = Some t \<and> exec c t = (r, q_state q) \<and>
     q_unfinished q = Suc (length ws) \<and> no_response q \<and> q_main q = cq_call ps)"

definition reported_phase :: "('c, 'r, 's) exec \<Rightarrow> 'c list \<Rightarrow> 's \<Rightarrow> ('c, 'r, 's) cq \<Rightarrow> bool" where
  "reported_phase exec cs s q \<longleftrightarrow> (\<exists>ds c ws ps t r. cs = ds @ c # ws @ ps \<and> q_commands q = map Do ws \<and>
     q_poller q = Reported \<and> silent exec ds s = Some t \<and> exec c t = (Some r, q_state q) \<and>
     q_unfinished q = Suc (length ws) \<and> q_responses q = [r] \<and> q_resp_unfinished q = 1 \<and> q_answer q = None \<and> q_main q = cq_call ps)"

definition joining_phase :: "('c, 'r, 's) exec \<Rightarrow> 'c list \<Rightarrow> 's \<Rightarrow> ('c, 'r, 's) cq \<Rightarrow> bool" where
  "joining_phase exec cs s q \<longleftrightarrow> (\<exists>ds c ws ps t r. cs = ds @ c # ws @ ps \<and> q_commands q = map Do ws \<and>
     q_poller q = Joining \<and> silent exec ds s = Some t \<and> exec c t = (Some r, q_state q) \<and> q_unfinished q = length ws \<and>
     (q_responses q = [r] \<and> q_resp_unfinished q = 1 \<and> q_answer q = None \<and>
        (q_main q = cq_call ps \<or> ws = [] \<and> ps = [] \<and> (q_main q = [Check] \<or> q_main q = [Get])) \<or>
      ws = [] \<and> ps = [] \<and> q_responses q = [] \<and> q_resp_unfinished q = 1 \<and> q_answer q = None \<and> q_main q = [Ack r] \<or>
      ws = [] \<and> ps = [] \<and> q_responses q = [] \<and> q_resp_unfinished q = 0 \<and> q_answer q = Some r \<and> q_main q = []))"

definition answered_phase :: "('c, 'r, 's) exec \<Rightarrow> 'c list \<Rightarrow> 's \<Rightarrow> ('c, 'r, 's) cq \<Rightarrow> bool" where
  "answered_phase exec cs s q \<longleftrightarrow> (\<exists>ds c t r. cs = ds @ [c] \<and> silent exec ds s = Some t \<and> exec c t = (Some r, q_state q) \<and>
     q = cq_idle [] (Some r) (q_state q))"

definition call_inv :: "('c, 'r, 's) exec \<Rightarrow> 'c list \<Rightarrow> 's \<Rightarrow> ('c, 'r, 's) cq \<Rightarrow> bool" where
  "call_inv exec cs s q \<longleftrightarrow> idle_phase exec cs s q \<or> held_phase exec cs s q \<or> executed_phase exec cs s q \<or>
     reported_phase exec cs s q \<or> joining_phase exec cs s q \<or> answered_phase exec cs s q"

lemma cq_call_simps [simp]:
  "cq_call [] = [Join, Check]" "cq_call (c # cs) = Put (Do c) # cq_call cs"
  by (simp_all add: cq_call_def)

lemma cq_call_heads [simp]:
  "Check # m \<noteq> cq_call ps" "Get # m \<noteq> cq_call ps" "Ack r # m \<noteq> cq_call ps" "cq_call ps \<noteq> []"
  "cq_call ps \<noteq> Check # m" "cq_call ps \<noteq> Get # m" "cq_call ps \<noteq> Ack r # m"
  "Put Terminate # m \<noteq> cq_call ps" "Join # m = cq_call ps \<longleftrightarrow> ps = [] \<and> m = [Check]"
  by (cases ps; auto)+

lemma map_Do_cases [simp]: "map Do ws = Do c # cs \<longleftrightarrow> (\<exists>ws'. ws = c # ws' \<and> cs = map Do ws')" "map Do ws \<noteq> Terminate # cs"
  by (cases ws; auto)+

lemma idle_step:
  assumes "idle_phase exec cs s q" and "cq_step exec q q'"
  shows "call_inv exec cs s q'"
proof -
  from assms(1) obtain ds ws ps where i: "cs = ds @ ws @ ps" "q_commands q = map Do ws" "q_poller q = At_get"
    "silent exec ds s = Some (q_state q)" "q_unfinished q = length ws" "no_response q"
    and m: "q_main q = cq_call ps \<or> ws = [] \<and> ps = [] \<and> (q_main q = [Check] \<or> q_main q = [])"
    unfolding idle_phase_def by blast
  from assms(2) show ?thesis
  proof cases
    case (put c m)
    with m obtain d ps' where "ps = d # ps'" "c = Do d" "m = cq_call ps'" by (cases ps) auto
    then have "idle_phase exec cs s q'"
      unfolding idle_phase_def using put i by (intro exI [of _ ds] exI [of _ "ws @ [d]"] exI [of _ ps']) (simp add: no_response_def)
    then show ?thesis by (simp add: call_inv_def)
  next
    case (take_command c rest)
    with i(2) obtain ws' where ws: "ws = c # ws'" "rest = map Do ws'" by auto
    with m have "q_main q = cq_call ps" by simp
    then have "held_phase exec cs s q'"
      unfolding held_phase_def using take_command i ws
      by (intro exI [of _ ds] exI [of _ c] exI [of _ ws'] exI [of _ ps]) (simp add: no_response_def)
    then show ?thesis by (simp add: call_inv_def)
  next
    case (join m)
    with m i have "idle_phase exec cs s q'"
      unfolding idle_phase_def by (intro exI [of _ ds] exI [of _ ws] exI [of _ ps]) (cases ps; auto simp: no_response_def)
    then show ?thesis by (simp add: call_inv_def)
  next
    case (check_empty m)
    with m i have "idle_phase exec cs s q'"
      unfolding idle_phase_def by (intro exI [of _ ds] exI [of _ ws] exI [of _ ps]) (cases ps; auto simp: no_response_def)
    then show ?thesis by (simp add: call_inv_def)
  qed (use m i in \<open>auto simp: no_response_def\<close>)
qed

lemma held_step:
  assumes "held_phase exec cs s q" and "cq_step exec q q'"
  shows "call_inv exec cs s q'"
proof -
  from assms(1) obtain ds d ws ps where i: "cs = ds @ d # ws @ ps" "q_commands q = map Do ws" "q_poller q = Holding d"
    "silent exec ds s = Some (q_state q)" "q_unfinished q = Suc (length ws)" "no_response q" "q_main q = cq_call ps"
    unfolding held_phase_def by blast
  from assms(2) show ?thesis
  proof cases
    case (put c m)
    with i obtain e ps' where "ps = e # ps'" "c = Do e" "m = cq_call ps'" by (cases ps) auto
    then have "held_phase exec cs s q'"
      unfolding held_phase_def using put i
      by (intro exI [of _ ds] exI [of _ d] exI [of _ "ws @ [e]"] exI [of _ ps']) (simp add: no_response_def)
    then show ?thesis by (simp add: call_inv_def)
  next
    case (run c r t)
    with i have "executed_phase exec cs s q'"
      unfolding executed_phase_def
      by (intro exI [of _ ds] exI [of _ d] exI [of _ ws] exI [of _ ps] exI [of _ "q_state q"] exI [of _ r]) (simp add: no_response_def)
    then show ?thesis by (simp add: call_inv_def)
  qed (use i in auto)
qed

lemma executed_step:
  assumes "executed_phase exec cs s q" and "cq_step exec q q'"
  shows "call_inv exec cs s q'"
proof -
  from assms(1) obtain ds d ws ps t r where i: "cs = ds @ d # ws @ ps" "q_commands q = map Do ws" "q_poller q = Executed r"
    "silent exec ds s = Some t" "exec d t = (r, q_state q)" "q_unfinished q = Suc (length ws)" "no_response q" "q_main q = cq_call ps"
    unfolding executed_phase_def by blast
  from assms(2) show ?thesis
  proof cases
    case (put c m)
    with i obtain e ps' where "ps = e # ps'" "c = Do e" "m = cq_call ps'" by (cases ps) auto
    then have "executed_phase exec cs s q'"
      unfolding executed_phase_def using put i
      by (intro exI [of _ ds] exI [of _ d] exI [of _ "ws @ [e]"] exI [of _ ps'] exI [of _ t] exI [of _ r]) (simp add: no_response_def)
    then show ?thesis by (simp add: call_inv_def)
  next
    case (report x)
    with i have "reported_phase exec cs s q'"
      unfolding reported_phase_def
      by (intro exI [of _ ds] exI [of _ d] exI [of _ ws] exI [of _ ps] exI [of _ t] exI [of _ x]) (simp add: no_response_def)
    then show ?thesis by (simp add: call_inv_def)
  next
    case quiet
    with i have "idle_phase exec cs s q'"
      unfolding idle_phase_def
      by (intro exI [of _ "ds @ [d]"] exI [of _ ws] exI [of _ ps]) (simp add: no_response_def silent_snoc)
    then show ?thesis by (simp add: call_inv_def)
  qed (use i in auto)
qed

lemma reported_step:
  assumes "reported_phase exec cs s q" and "cq_step exec q q'"
  shows "call_inv exec cs s q'"
proof -
  from assms(1) obtain ds d ws ps t r where i: "cs = ds @ d # ws @ ps" "q_commands q = map Do ws" "q_poller q = Reported"
    "silent exec ds s = Some t" "exec d t = (Some r, q_state q)" "q_unfinished q = Suc (length ws)"
    "q_responses q = [r]" "q_resp_unfinished q = 1" "q_answer q = None" "q_main q = cq_call ps"
    unfolding reported_phase_def by blast
  from assms(2) show ?thesis
  proof cases
    case (put c m)
    with i obtain e ps' where "ps = e # ps'" "c = Do e" "m = cq_call ps'" by (cases ps) auto
    then have "reported_phase exec cs s q'"
      unfolding reported_phase_def using put i
      by (intro exI [of _ ds] exI [of _ d] exI [of _ "ws @ [e]"] exI [of _ ps'] exI [of _ t] exI [of _ r]) simp
    then show ?thesis by (simp add: call_inv_def)
  next
    case reported
    with i have "joining_phase exec cs s q'"
      unfolding joining_phase_def
      by (intro exI [of _ ds] exI [of _ d] exI [of _ ws] exI [of _ ps] exI [of _ t] exI [of _ r]) simp
    then show ?thesis by (simp add: call_inv_def)
  qed (use i in auto)
qed

lemma joining_step:
  assumes "joining_phase exec cs s q" and "cq_step exec q q'"
  shows "call_inv exec cs s q'"
proof -
  from assms(1) obtain ds d ws ps t r where i: "cs = ds @ d # ws @ ps" "q_commands q = map Do ws" "q_poller q = Joining"
    "silent exec ds s = Some t" "exec d t = (Some r, q_state q)" "q_unfinished q = length ws"
    and m: "q_responses q = [r] \<and> q_resp_unfinished q = 1 \<and> q_answer q = None \<and>
        (q_main q = cq_call ps \<or> ws = [] \<and> ps = [] \<and> (q_main q = [Check] \<or> q_main q = [Get])) \<or>
      ws = [] \<and> ps = [] \<and> q_responses q = [] \<and> q_resp_unfinished q = 1 \<and> q_answer q = None \<and> q_main q = [Ack r] \<or>
      ws = [] \<and> ps = [] \<and> q_responses q = [] \<and> q_resp_unfinished q = 0 \<and> q_answer q = Some r \<and> q_main q = []"
    unfolding joining_phase_def by blast
  have again: "joining_phase exec cs s q'"
    if "q_commands q' = map Do ws" "q_poller q' = Joining" "q_state q' = q_state q" "q_unfinished q' = length ws"
      "q_responses q' = [r] \<and> q_resp_unfinished q' = 1 \<and> q_answer q' = None \<and>
        (q_main q' = cq_call ps \<or> ws = [] \<and> ps = [] \<and> (q_main q' = [Check] \<or> q_main q' = [Get])) \<or>
      ws = [] \<and> ps = [] \<and> q_responses q' = [] \<and> q_resp_unfinished q' = 1 \<and> q_answer q' = None \<and> q_main q' = [Ack r] \<or>
      ws = [] \<and> ps = [] \<and> q_responses q' = [] \<and> q_resp_unfinished q' = 0 \<and> q_answer q' = Some r \<and> q_main q' = []"
    unfolding joining_phase_def using that i
    by (intro exI [of _ ds] exI [of _ d] exI [of _ ws] exI [of _ ps] exI [of _ t] exI [of _ r]) simp
  from assms(2) show ?thesis
  proof cases
    case (put c m')
    with m obtain e ps' where e: "ps = e # ps'" "c = Do e" "m' = cq_call ps'" by (cases ps) auto
    with m put have "joining_phase exec cs s q'"
      unfolding joining_phase_def using i
      by (intro exI [of _ ds] exI [of _ d] exI [of _ "ws @ [e]"] exI [of _ ps'] exI [of _ t] exI [of _ r]) simp
    then show ?thesis by (simp add: call_inv_def)
  next
    case resume
    with m i have "answered_phase exec cs s q'"
      unfolding answered_phase_def cq_idle_def
      by (intro exI [of _ ds] exI [of _ d] exI [of _ t] exI [of _ r]) auto
    then show ?thesis by (simp add: call_inv_def)
  next
    case (join m')
    then have "joining_phase exec cs s q'" by (intro again) (use m i in auto)
    then show ?thesis by (simp add: call_inv_def)
  next
    case (check_response m')
    then have "joining_phase exec cs s q'" by (intro again) (use m i in auto)
    then show ?thesis by (simp add: call_inv_def)
  next
    case (get r' rs m')
    then have "joining_phase exec cs s q'" by (intro again) (use m i in auto)
    then show ?thesis by (simp add: call_inv_def)
  next
    case (ack r' m')
    then have "joining_phase exec cs s q'" by (intro again) (use m i in auto)
    then show ?thesis by (simp add: call_inv_def)
  qed (use i m in auto)
qed

lemma idle_end_stuck: "q_main q = [] \<Longrightarrow> q_commands q = [] \<Longrightarrow> q_poller q = At_get \<Longrightarrow> \<not> cq_step exec q q'"
  by (auto elim: cq_stepE)

lemma cq_idle_fields [simp]:
  "q_main (cq_idle m a s) = m" "q_commands (cq_idle m a s) = []" "q_poller (cq_idle m a s) = At_get"
  "q_answer (cq_idle m a s) = a" "q_state (cq_idle m a s) = s"
  by (simp_all add: cq_idle_def)

lemma answered_stuck: "answered_phase exec cs s q \<Longrightarrow> \<not> cq_step exec q q'"
  unfolding answered_phase_def by (metis idle_end_stuck cq_idle_fields(1,2,3))

lemma call_inv_step: "call_inv exec cs s q \<Longrightarrow> cq_step exec q q' \<Longrightarrow> call_inv exec cs s q'"
  unfolding call_inv_def [of exec cs s q]
  by (elim disjE) (rule idle_step held_step executed_step reported_step joining_step, assumption, assumption |
      simp add: answered_stuck)+

lemma call_inv_start: "call_inv exec cs s (cq_idle (cq_call cs) None s)"
  unfolding call_inv_def idle_phase_def
  by (rule disjI1, intro exI [of _ "[]"] exI [of _ cs]) (simp add: cq_idle_def no_response_def)

definition cq_run :: "('c, 'r, 's) exec \<Rightarrow> ('c, 'r, 's) cq \<Rightarrow> ('c, 'r, 's) cq \<Rightarrow> bool" where
  "cq_run exec = (cq_step exec)\<^sup>*\<^sup>*"

lemma call_inv_run: "cq_run exec (cq_idle (cq_call cs) None s) q \<Longrightarrow> call_inv exec cs s q"
  unfolding cq_run_def by (induction rule: rtranclp_induct) (simp_all add: call_inv_start call_inv_step)

section \<open>Where a call can stop\<close>

lemma held_moves: "held_phase exec cs s q \<Longrightarrow> \<not> cq_stuck exec q"
  unfolding held_phase_def cq_stuck_def by (metis cq_step.run surj_pair)

lemma executed_moves: "executed_phase exec cs s q \<Longrightarrow> \<not> cq_stuck exec q"
  unfolding executed_phase_def cq_stuck_def by (metis cq_step.report cq_step.quiet option.exhaust)

lemma reported_moves: "reported_phase exec cs s q \<Longrightarrow> \<not> cq_stuck exec q"
  unfolding reported_phase_def cq_stuck_def by (metis cq_step.reported)

text \<open>The two ways a call stops: back between calls, or each thread waiting for the other.\<close>

definition cq_deadlocked :: "('c, 'r, 's) cq \<Rightarrow> bool" where
  "cq_deadlocked q \<longleftrightarrow> (\<exists>m. q_main q = Join # m) \<and> q_poller q = Joining \<and> 0 < q_unfinished q \<and> 0 < q_resp_unfinished q"

definition cq_ends :: "'r outcome \<times> 's \<Rightarrow> ('c, 'r, 's) cq \<Rightarrow> bool" where
  "cq_ends o_s q = (case o_s of (Answer a, t) \<Rightarrow> q = cq_idle [] a t | (Deadlock, t) \<Rightarrow> cq_deadlocked q \<and> q_state q = t)"

lemma stuck_call:
  assumes "cq_stuck exec q" and "q_main q = cq_call ps"
  shows "ps = [] \<and> q_unfinished q \<noteq> 0"
proof (cases ps)
  case Nil
  with assms(2) have "q_main q = Join # [Check]" by simp
  from cq_step.join [OF this, of exec] assms(1) Nil show ?thesis unfolding cq_stuck_def by blast
next
  case (Cons c ps')
  with assms(2) have "q_main q = Put (Do c) # cq_call ps'" by simp
  from cq_step.put [OF this, of exec] assms(1) show ?thesis unfolding cq_stuck_def by blast
qed

lemma idle_stuck:
  assumes "idle_phase exec cs s q" and "cq_stuck exec q"
  shows "cq_ends (drain exec cs s) q"
proof -
  from assms(1) obtain ds ws ps where i: "cs = ds @ ws @ ps" "q_commands q = map Do ws" "q_poller q = At_get"
    "silent exec ds s = Some (q_state q)" "q_unfinished q = length ws" "no_response q"
    and m: "q_main q = cq_call ps \<or> ws = [] \<and> ps = [] \<and> (q_main q = [Check] \<or> q_main q = [])"
    unfolding idle_phase_def by blast
  have stuck: "\<not> cq_step exec q q'" for q' using assms(2) by (simp add: cq_stuck_def)
  have ws: "ws = []" using stuck i(2) cq_step.take_command [OF i(3), of _ _ exec] by (cases ws) (simp, metis list.simps(9))
  with m have "q_main q = cq_call ps \<or> ps = [] \<and> (q_main q = [Check] \<or> q_main q = [])" by blast
  moreover have "q_main q \<noteq> cq_call ps"
    using stuck_call [OF assms(2)] i(5) ws by auto
  moreover have "q_main q \<noteq> [Check]"
    using stuck i(6) cq_step.check_empty [of q "[]" exec] unfolding no_response_def by blast
  ultimately have "ps = []" "q_main q = []" by auto
  moreover from this have "drain exec cs s = (Answer None, q_state q)" using i(1) ws drain_append [OF i(4), of "[]"] by simp
  moreover have "q = cq_idle [] None (q_state q)" if "q_main q = []"
    using that i ws by (intro cq.equality) (simp_all add: no_response_def cq_idle_def)
  ultimately show ?thesis unfolding cq_ends_def by (simp only: prod.case outcome.case)
qed

lemma joining_stuck:
  assumes "joining_phase exec cs s q" and "cq_stuck exec q"
  shows "cq_ends (drain exec cs s) q"
proof -
  from assms(1) obtain ds d ws ps t r where i: "cs = ds @ d # ws @ ps" "q_commands q = map Do ws" "q_poller q = Joining"
    "silent exec ds s = Some t" "exec d t = (Some r, q_state q)" "q_unfinished q = length ws"
    and m: "q_responses q = [r] \<and> q_resp_unfinished q = 1 \<and> q_answer q = None \<and>
        (q_main q = cq_call ps \<or> ws = [] \<and> ps = [] \<and> (q_main q = [Check] \<or> q_main q = [Get])) \<or>
      ws = [] \<and> ps = [] \<and> q_responses q = [] \<and> q_resp_unfinished q = 1 \<and> q_answer q = None \<and> q_main q = [Ack r] \<or>
      ws = [] \<and> ps = [] \<and> q_responses q = [] \<and> q_resp_unfinished q = 0 \<and> q_answer q = Some r \<and> q_main q = []"
    unfolding joining_phase_def by blast
  have stuck: "\<not> cq_step exec q q'" for q' using assms(2) by (simp add: cq_stuck_def)
  have "ps = [] \<and> ws \<noteq> []" if c: "q_main q = cq_call ps"
    using stuck_call [OF assms(2) c] i(6) by auto
  moreover have "q_main q \<noteq> [Get]"
  proof
    assume get: "q_main q = [Get]"
    with m have "q_responses q = [r]" by simp
    with stuck cq_step.get [OF get, of r "[]" exec] show False by blast
  qed
  moreover have "q_main q \<noteq> [Check]" using stuck cq_step.check_response [of q] cq_step.check_empty [of q] by blast
  moreover have "q_main q \<noteq> [Ack r]" using stuck cq_step.ack [of q] by blast
  moreover have "q_resp_unfinished q \<noteq> 0" using stuck i(3) cq_step.resume [of q] by blast
  ultimately have "ps = []" "ws \<noteq> []" "q_main q = [Join, Check]" "q_resp_unfinished q = 1" using m by auto
  then show ?thesis
    using i drain_append [OF i(4), of "d # ws"] by (simp add: cq_ends_def cq_deadlocked_def)
qed

lemma answered_ends: "answered_phase exec cs s q \<Longrightarrow> cq_ends (drain exec cs s) q"
  unfolding answered_phase_def cq_ends_def using drain_append by fastforce

section \<open>Every run ends\<close>

fun op_weight :: "('c item, 'r) main_op \<Rightarrow> nat" where
  "op_weight (Put c) = 7"
| "op_weight Join = 1"
| "op_weight Check = 3"
| "op_weight Get = 2"
| "op_weight (Ack r) = 1"

fun poller_weight :: "('c, 'r) poller \<Rightarrow> nat" where
  "poller_weight (Holding c) = 5"
| "poller_weight (Executed r) = 4"
| "poller_weight Reported = 3"
| "poller_weight Joining = 2"
| "poller_weight At_get = 1"
| "poller_weight Stopped = 0"

definition cq_weight :: "('c, 'r, 's) cq \<Rightarrow> nat" where
  "cq_weight q = sum_list (map op_weight (q_main q)) + 6 * length (q_commands q) + poller_weight (q_poller q)"

lemma cq_step_weight: "cq_step exec q q' \<Longrightarrow> cq_weight q' < cq_weight q"
  by (cases rule: cq_step.cases, assumption) (simp_all add: cq_weight_def)

lemma wf_cq_step: "wf {(q', q). cq_step exec q q'}"
  by (rule wf_subset [OF wf_measure [of cq_weight]]) (auto dest: cq_step_weight)

lemma cq_reaches_stuck: "\<exists>q'. cq_run exec q q' \<and> cq_stuck exec q'"
proof (induction q rule: wf_induct_rule [OF wf_cq_step [of exec]])
  case (1 q)
  show ?case
  proof (cases "cq_stuck exec q")
    case True
    then show ?thesis unfolding cq_run_def by blast
  next
    case False
    then obtain q1 where step: "cq_step exec q q1" by (auto simp: cq_stuck_def)
    with 1 [of q1] obtain q' where "cq_run exec q1 q'" "cq_stuck exec q'" by auto
    with step show ?thesis unfolding cq_run_def by (meson converse_rtranclp_into_rtranclp)
  qed
qed

lemma call_ends:
  assumes "cq_run exec (cq_idle (cq_call cs) None s) q" and "cq_stuck exec q"
  shows "cq_ends (drain exec cs s) q"
  using call_inv_run [OF assms(1)] unfolding call_inv_def
  by (elim disjE) (use assms(2) held_moves executed_moves reported_moves idle_stuck joining_stuck answered_ends in metis)+

section \<open>Properties\<close>

text \<open>C15: however the two threads interleave, a call does what its commands do one after the other: every run of
  the two threads ends, and where it ends the queues are empty again, the state is the sequential one
  and the caller has got the last command's response, unless an earlier command responded.\<close>

theorem command_queue_sequential:
  assumes "cq_run exec (cq_idle (cq_call cs) None s) q"
  shows "(\<exists>q'. cq_run exec q q' \<and> cq_stuck exec q') \<and> (cq_stuck exec q \<longrightarrow> cq_ends (drain exec cs s) q)"
  using cq_reaches_stuck call_ends [OF assms] by blast

definition sample_exec :: "(nat, bool, nat) exec" where
  "sample_exec c s = (if c = 0 then Some True else None, s + c)"

theorem command_queue_sequential_witness:
  "\<exists>q. cq_run sample_exec (cq_idle (cq_call [2, 3, 0]) None 1) q \<and> q = cq_idle [] (Some True) 6"
proof -
  have start: "cq_run sample_exec q q" for q by (simp add: cq_run_def)
  from command_queue_sequential [OF this] obtain q where
    q: "cq_run sample_exec (cq_idle (cq_call [2, 3, 0]) None 1) q" "cq_stuck sample_exec q" by blast
  moreover have "drain sample_exec [2, 3, 0] 1 = (Answer (Some True), 6)" by (simp add: sample_exec_def)
  ultimately show ?thesis using command_queue_sequential [OF q(1)] q(2) by (auto simp: cq_ends_def)
qed

text \<open>A call that puts several commands hangs when one before the last responds or raises, whatever the
  interleaving: the user's thread waits for the commands, the polling thread for its response to be
  taken. \<open>step\<close> and \<open>run\<close> with the anti-debugging escape put two commands.\<close>

lemma early_response_deadlocks:
  assumes "exec c s = (Some r, t)" and "cs \<noteq> []" and "cq_run exec (cq_idle (cq_call (c # cs)) None s) q"
  shows "\<exists>q'. cq_run exec q q' \<and> cq_stuck exec q' \<and> cq_deadlocked q'"
proof -
  obtain q' where q': "cq_run exec q q'" "cq_stuck exec q'" using cq_reaches_stuck by blast
  then have "cq_run exec (cq_idle (cq_call (c # cs)) None s) q'" using assms(3) unfolding cq_run_def by simp
  from call_ends [OF this q'(2)] have "cq_deadlocked q'" using assms(1,2) by (simp add: cq_ends_def)
  with q' show ?thesis by blast
qed

lemma early_response_deadlocks_witness:
  "\<exists>q'. cq_run sample_exec (cq_idle (cq_call [0, 1]) None 1) q' \<and> cq_stuck sample_exec q' \<and> cq_deadlocked q'"
proof -
  have "sample_exec 0 1 = (Some True, 1)" by (simp add: sample_exec_def)
  from early_response_deadlocks [where exec = sample_exec and c = 0 and s = 1 and cs = "[1]", OF this] show ?thesis
    unfolding cq_run_def by blast
qed

end
