(* ===== verification/Process_Info.thy ===== *)
theory Process_Info
  imports Status_Handler
begin

text \<open>
  What the debugger asks \<open>/proc\<close>: the memory maps (\<open>get_process_maps\<close> of
  \<open>libdebug/utils/process_utils.py\<close>, cached until \<open>invalidate_process_cache\<close>), the path of the
  executable and the name of the process (cached once and for all per debugger), and the resolvers
  of \<open>InternalDebugger\<close> on top of them. Memory is reached through a \<open>MemoryView\<close> over these.
\<close>

section \<open>Caches\<close>

fun parse_maps :: "string list \<Rightarrow> memory_map list result" where
  "parse_maps [] = Inr []"
| "parse_maps (l # ls) = rbind (MemoryMap_parse l) (\<lambda>m. rbind (parse_maps ls) (\<lambda>ms. Inr (m # ms)))"

definition get_process_maps :: "('k, 's) env \<Rightarrow> int \<Rightarrow> ('k, memory_map list) dm" where
  "get_process_maps E process_id = bind (gets id) (\<lambda>s. case dict_get (d_maps_cache s) process_id of
       Some maps \<Rightarrow> ret maps
     | None \<Rightarrow> bind (lift (rbind (e_maps_lines E process_id (d_kernel s)) parse_maps)) (\<lambda>maps.
         bind (upd (\<lambda>s. s\<lparr>d_maps_cache := dict_set process_id maps (d_maps_cache s)\<rparr>)) (\<lambda>_. ret maps)))"

fun parse_fds :: "string list \<Rightarrow> int list result" where
  "parse_fds [] = Inr []"
| "parse_fds (fd # fds) = rbind (py_int fd) (\<lambda>n. rbind (parse_fds fds) (\<lambda>ns. Inr (n # ns)))"

definition get_open_fds :: "('k, 's) env \<Rightarrow> int \<Rightarrow> ('k, int list) dm" where
  "get_open_fds E process_id = bind (gets id) (\<lambda>s. case dict_get (d_fds_cache s) process_id of
       Some fds \<Rightarrow> ret fds
     | None \<Rightarrow> bind (lift (rbind (e_open_fds E process_id (d_kernel s)) parse_fds)) (\<lambda>fds.
         bind (upd (\<lambda>s. s\<lparr>d_fds_cache := dict_set process_id fds (d_fds_cache s)\<rparr>)) (\<lambda>_. ret fds)))"

definition invalidate_process_cache :: "('k, unit) dm" where
  "invalidate_process_cache = upd (\<lambda>s. s\<lparr>d_maps_cache := [], d_fds_cache := []\<rparr>)"

text \<open>The descriptors are read back as the kernel prints them, and once until the cache is invalidated.\<close>

lemma open_fds_exact:
  assumes "e_open_fds E pid (d_kernel s) = Inr (map py_str fds)" and "d_fds_cache s = []"
  shows "\<exists>t. get_open_fds E pid s = (Inr fds, t) \<and> get_open_fds (E\<lparr>e_open_fds := gone\<rparr>) pid t = (Inr fds, t) \<and>
    snd (invalidate_process_cache t) = snd (invalidate_process_cache s)"
proof -
  have "parse_fds (map py_str fds) = Inr fds" by (induction fds) (simp_all add: py_int_str rbind_def)
  with assms show ?thesis by (simp add: get_open_fds_def invalidate_process_cache_def rbind_def py_simps)
qed

definition get_process_full_path :: "('k, 's) env \<Rightarrow> ('k, string) dm" where
  "get_process_full_path E = bind (gets id) (\<lambda>s. case d_path_cache s of
       Some p \<Rightarrow> ret p
     | None \<Rightarrow> bind (lift (e_exe_link E (d_process_id s) (d_kernel s))) (\<lambda>p.
         bind (upd (\<lambda>s. s\<lparr>d_path_cache := Some p\<rparr>)) (\<lambda>_. ret p)))"

definition get_process_name :: "('k, 's) env \<Rightarrow> ('k, string) dm" where
  "get_process_name E = bind (gets id) (\<lambda>s. case d_name_cache s of
       Some n \<Rightarrow> ret n
     | None \<Rightarrow> bind (lift (e_comm E (d_process_id s) (d_kernel s))) (\<lambda>c.
         bind (upd (\<lambda>s. s\<lparr>d_name_cache := Some (py_strip c)\<rparr>)) (\<lambda>_. ret (py_strip c))))"

text \<open>\<open>PtraceInterface.maps\<close>\<close>

definition iface_maps :: "('k, 's) env \<Rightarrow> ('k, memory_map list) dm" where
  "iface_maps E = bind (gets d_iface_process_id) (get_process_maps E)"

section \<open>Resolvers and memory\<close>

definition dbg_proc :: "('k, 's) env \<Rightarrow> 'k dbg proc_info" where
  "dbg_proc E = \<lparr>pi_maps = iface_maps E, pi_full_path = get_process_full_path E, pi_name = get_process_name E\<rparr>"

definition dbg_resolve_address :: "('k, 's) env \<Rightarrow> int \<Rightarrow> string \<Rightarrow> bool \<Rightarrow> ('k, int) dm" where
  "dbg_resolve_address E = resolve_address (dbg_proc E)"

definition dbg_resolve_symbol :: "('k, 's) env \<Rightarrow> string \<Rightarrow> string \<Rightarrow> ('k, int) dm" where
  "dbg_resolve_symbol E = resolve_symbol (e_elf E) (dbg_proc E)"

definition dbg_resolver :: "('k, 's) env \<Rightarrow> 'k dbg resolver" where
  "dbg_resolver E = (\<lambda>a f. dbg_resolve_address E a f True, dbg_resolve_symbol E)"

text \<open>The getter and the setter of the view, as the polling thread runs them.\<close>

definition bg_getter :: "('k, 's) env \<Rightarrow> 'k dbg getter" where
  "bg_getter E address = bind (gets d_iface_process_id) (\<lambda>pid. in_kernel (threaded_peek_memory (e_os E) pid address))"

definition bg_setter :: "('k, 's) env \<Rightarrow> 'k dbg setter" where
  "bg_setter E address data = bind (gets d_iface_process_id) (\<lambda>pid. in_kernel (threaded_poke_memory (e_os E) pid address data))"

text \<open>\<open>target.memory[address, n]\<close> for two integers\<close>

definition memory_at :: "('k, 's) env \<Rightarrow> 'k dbg getter \<Rightarrow> int \<Rightarrow> int \<Rightarrow> ('k, byte list) dm" where
  "memory_at E getter address n = mv_getitem getter (dbg_resolver E) default_view (KTuple [KInt address, KInt n])"

text \<open>\<open>errno\<close> after a failed call; \<open>errno.errorcode[errno_val]\<close> has no entry for 0.\<close>

definition raise_errno :: "('k, 's) env \<Rightarrow> ('k, 'a) dm" where
  "raise_errno E = bind (gets d_kernel) (\<lambda>k. if e_errno E k = 0 then raise KeyError else raise (OSError (e_errno E k)))"

end
