(* ===== verification/Stack_Unwinder.thy ===== *)
theory Stack_Unwinder
  imports Process_Info
begin

text \<open>
  \<open>Amd64StackUnwinder\<close> (\<open>libdebug/architectures/amd64/amd64_stack_unwinder.py\<close>): the backtrace follows
  the chain of saved frame pointers. \<open>getter\<close> is the memory view's, \<open>check\<close> what every access to a
  register first does (\<open>_ensure_process_stopped\<close>). The loop over the frames runs on fuel: nothing in
  the code bounds it.
\<close>

definition stack_unwinding_provider :: "string \<Rightarrow> unit result" where
  "stack_unwinding_provider arch = (if arch = ''amd64'' then Inr () else Inl NotImplementedError)"

text \<open>\<open>target.regs.name\<close>\<close>

definition regs_get :: "('k, unit) dm \<Rightarrow> nat \<Rightarrow> string \<Rightarrow> ('k, int) dm" where
  "regs_get check t n = bind check (\<lambda>_. on_regs t (attr_get regs_class n))"

text \<open>\<open>part in whole\<close> for bytes\<close>

fun bytes_in :: "byte list \<Rightarrow> byte list \<Rightarrow> bool" where
  "bytes_in part [] = (part = [])"
| "bytes_in part (b # bs) = (take (length part) (b # bs) = part \<or> bytes_in part bs)"

definition preamble_state :: "byte list \<Rightarrow> int" where
  "preamble_state instruction_window =
     (if bytes_in [0xF3, 0x0F, 0x1E, 0xFA] instruction_window \<or> bytes_in [0x55] instruction_window then 1
      else if bytes_in [0x48, 0x89, 0xE5] instruction_window then 2 else 0)"

definition get_return_address ::
    "('k, 's) env \<Rightarrow> 'k dbg getter \<Rightarrow> ('k, unit) dm \<Rightarrow> nat \<Rightarrow> ('k, int) dm" where
  "get_return_address E getter check t =
     bind (regs_get check t ''rip'') (\<lambda>rip.
     bind (memory_at E getter rip 4) (\<lambda>instruction_window.
     bind (if preamble_state instruction_window = 0 then
             bind (regs_get check t ''rbp'') (\<lambda>rbp. memory_at E getter (rbp + 8) 8)
           else if preamble_state instruction_window = 1 then
             bind (regs_get check t ''rsp'') (\<lambda>rsp. memory_at E getter rsp 8)
           else bind (regs_get check t ''rsp'') (\<lambda>rsp. memory_at E getter (rsp + 8) 8)) (\<lambda>return_address.
     ret (from_le return_address))))"

definition os_or_value :: "py_exc \<Rightarrow> bool" where
  "os_or_value e \<longleftrightarrow> is_OSError e \<or> e = ValueError"

text \<open>The body of the loop: the next frame pointer and the return address, or None for a break.\<close>

definition unwind_frame ::
    "('k, 's) env \<Rightarrow> 'k dbg getter \<Rightarrow> memory_map list \<Rightarrow> int \<Rightarrow> ('k, (int \<times> int) option) dm" where
  "unwind_frame E getter vmaps current_rbp =
     try_except
       (bind (memory_at E getter (current_rbp + 8) 8) (\<lambda>r.
        if \<not> list_ex (vmap_contains (from_le r)) vmaps then ret None
        else bind (memory_at E getter current_rbp 8) (\<lambda>b. ret (Some (from_le b, from_le r)))))
       os_or_value (\<lambda>_. ret None)"

fun unwind_loop ::
    "nat \<Rightarrow> ('k, 's) env \<Rightarrow> 'k dbg getter \<Rightarrow> memory_map list \<Rightarrow> int \<Rightarrow> int list \<Rightarrow> ('k, int list) dm" where
  "unwind_loop 0 E getter vmaps current_rbp stack_trace = raise Diverges"
| "unwind_loop (Suc fuel) E getter vmaps current_rbp stack_trace =
     (if current_rbp = 0 then ret stack_trace
      else bind (unwind_frame E getter vmaps current_rbp) (\<lambda>r. case r of
          None \<Rightarrow> ret stack_trace
        | Some (rbp, return_address) \<Rightarrow> unwind_loop fuel E getter vmaps rbp (stack_trace @ [return_address])))"

text \<open>
  The correction for a function's prologue. \<open>stack_trace[1]\<close> does not exist when no frame was found:
  IndexError, which the handler does not name. The handler itself calls \<open>logging.WARNING\<close>, an integer.
\<close>

definition insert_first_return ::
    "('k, 's) env \<Rightarrow> 'k dbg getter \<Rightarrow> ('k, unit) dm \<Rightarrow> nat \<Rightarrow> int list \<Rightarrow> ('k, int list) dm" where
  "insert_first_return E getter check t stack_trace =
     try_except
       (bind (get_return_address E getter check t) (\<lambda>first_return_address. case stack_trace of
            rip # second # rest \<Rightarrow> ret (if first_return_address \<noteq> second then rip # first_return_address # second # rest
                                     else stack_trace)
          | _ \<Rightarrow> raise IndexError))
       os_or_value (\<lambda>_. raise TypeError)"

definition unwind :: "('k, 's) env \<Rightarrow> 'k dbg getter \<Rightarrow> ('k, unit) dm \<Rightarrow> nat \<Rightarrow> ('k, int list) dm" where
  "unwind E getter check t =
     bind (regs_get check t ''rip'') (\<lambda>_.
     bind (regs_get check t ''rbp'') (\<lambda>_.
     bind (regs_get check t ''rbp'') (\<lambda>current_rbp.
     bind (regs_get check t ''rip'') (\<lambda>rip.
     bind (iface_maps E) (\<lambda>vmaps.
     bind (unwind_loop (e_fuel E) E getter vmaps current_rbp [rip]) (\<lambda>stack_trace.
     insert_first_return E getter check t stack_trace))))))"

text \<open>\<open>ThreadContext.current_return_address\<close>: its handler turns OSError and ValueError into ValueError.\<close>

definition current_return_address :: "('k, 's) env \<Rightarrow> 'k dbg getter \<Rightarrow> ('k, unit) dm \<Rightarrow> nat \<Rightarrow> ('k, int) dm" where
  "current_return_address E getter check t =
     bind check (\<lambda>_. bind (lift (stack_unwinding_provider (e_arch E))) (\<lambda>_.
     try_except (get_return_address E getter check t) os_or_value (\<lambda>_. raise ValueError)))"

end
