(* ===== verification/Ptrace_Interface.thy ===== *)
theory Ptrace_Interface
  imports Stack_Unwinder
begin

text \<open>
  The rest of \<open>PtraceInterface\<close> (\<open>libdebug/ptrace/ptrace_interface.py\<close>): starting, attaching to and
  leaving a process, running and stepping it, waiting for it, and handing it to GDB and back. These
  methods run in the polling thread, so registers and memory are reached directly.
\<close>

section \<open>Signals\<close>

text \<open>
  The loop over the C list of threads. A thread to forward to that has died in the meantime is
  skipped by \<open>continue\<close> without moving the cursor, so the loop never ends.
\<close>

fun forward_loop :: "int list \<Rightarrow> nat list \<Rightarrow> ('k, unit) dm" where
  "forward_loop threads [] = ret ()"
| "forward_loop threads (p # ps) =
     bind (gets (\<lambda>s. node_tid (d_gs s) p)) (\<lambda>tid.
     if tid \<in> set threads then
       bind (get_thread_by_id tid) (\<lambda>found. case found of
           None \<Rightarrow> raise Diverges
         | Some t \<Rightarrow>
           bind (get_thread t) (\<lambda>tc. bind (gets d_signals_to_block) (\<lambda>blocked.
           bind (py_when (tc_signal_number tc \<noteq> 0 \<and> tc_signal_number tc \<notin> set blocked)
             (bind (upd (\<lambda>s. s\<lparr>d_gs := node_signal p (tc_signal_number tc) (d_gs s)\<rparr>)) (\<lambda>_.
              upd_thread t (\<lambda>tc. tc\<lparr>tc_signal_number := 0\<rparr>)))) (\<lambda>_.
           forward_loop threads ps))))
     else forward_loop threads ps)"

definition forward_signal :: "('k, unit) dm" where
  "forward_signal =
     bind (gets (\<lambda>s. rc_threads_with_signals_to_forward (d_resume_context s))) (\<lambda>threads.
     bind (gets (\<lambda>s. gs_t_HEAD (d_gs s))) (\<lambda>ps.
     bind (forward_loop threads ps) (\<lambda>_.
     upd_resume (\<lambda>rc. rc\<lparr>rc_threads_with_signals_to_forward := []\<rparr>))))"

section \<open>Running\<close>

text \<open>The first loop over the breakpoints: the flags are reset, the changed ones collected.\<close>

fun collect_changed :: "nat list \<Rightarrow> nat list \<Rightarrow> ('k, nat list) dm" where
  "collect_changed [] changed = ret changed"
| "collect_changed (b # bs) changed =
     bind (upd_bp b (\<lambda>bp. bp\<lparr>bp_disabled_for_step := False\<rparr>)) (\<lambda>_.
     bind (get_bp b) (\<lambda>bp.
     if bp_changed bp then bind (upd_bp b (\<lambda>bp. bp\<lparr>bp_changed := False\<rparr>)) (\<lambda>_. collect_changed bs (changed @ [b]))
     else collect_changed bs changed))"

text \<open>Then each changed one is installed or removed.\<close>

definition apply_changes :: "('k, 's) env \<Rightarrow> ('k, unit) dm" where
  "apply_changes E =
     bind (gets (\<lambda>s. dict_values (d_breakpoints s))) (\<lambda>bps.
     bind (collect_changed bps []) (\<lambda>changed.
     for_each (\<lambda>b. bind (get_bp b) (\<lambda>bp.
       if bp_enabled bp then set_breakpoint E b False else unset_breakpoint E b False)) changed))"

definition wants_syscalls :: "syscall_handler \<Rightarrow> bool" where
  "wants_syscalls sh \<longleftrightarrow> sh_enabled sh \<or> sh_on_enter_pprint sh \<or> sh_on_exit_pprint sh"

definition iface_cont :: "('k, 's) env \<Rightarrow> ('k, unit) dm" where
  "iface_cont E =
     bind (gets d_resume_context) (\<lambda>rc.
     bind (py_when (rc_threads_with_signals_to_forward rc \<noteq> []) forward_signal) (\<lambda>_.
     bind (apply_changes E) (\<lambda>_.
     bind (gets (\<lambda>s. list_ex (\<lambda>h. wants_syscalls (d_handler_heap s h)) (dict_values (d_handled_syscalls s)))) (\<lambda>wanted.
     bind (upd (\<lambda>s. s\<lparr>d_gs := (d_gs s)\<lparr>gs_handle_syscall_enabled := wanted\<rparr>\<rparr>)) (\<lambda>_.
     bind (gets d_iface_process_id) (\<lambda>pid.
     bind (in_c (cont_all_and_set_bps (e_os E) pid)) (\<lambda>result.
     if result < 0 then raise_errno E else ret ())))))))"

definition disable_for_step :: "('k, unit) dm" where
  "disable_for_step = bind (gets (\<lambda>s. dict_values (d_breakpoints s)))
     (for_each (\<lambda>b. upd_bp b (\<lambda>bp. bp\<lparr>bp_disabled_for_step := True\<rparr>)))"

definition iface_step :: "('k, 's) env \<Rightarrow> nat \<Rightarrow> ('k, unit) dm" where
  "iface_step E t =
     bind disable_for_step (\<lambda>_.
     bind (get_thread t) (\<lambda>tc.
     bind (in_c (singlestep (e_os E) (tc_thread_id tc))) (\<lambda>result.
     if result = - 1 then raise_errno E
     else upd_resume (\<lambda>rc. rc\<lparr>rc_is_a_step := True\<rparr>))))"

text \<open>The arguments of a C function are converted first: an int that does not fit raises OverflowError.\<close>

definition c_int :: "int \<Rightarrow> int result" where
  "c_int x = (if - (2 ^ 31) \<le> x \<and> x < 2 ^ 31 then Inr x else Inl OverflowError)"

definition iface_step_until :: "('k, 's) env \<Rightarrow> nat \<Rightarrow> int \<Rightarrow> int \<Rightarrow> ('k, unit) dm" where
  "iface_step_until E t address max_steps =
     bind disable_for_step (\<lambda>_.
     bind (get_thread t) (\<lambda>tc.
     bind (lift (c_u64 address)) (\<lambda>a. bind (lift (c_int max_steps)) (\<lambda>m.
     bind (in_c (step_until_c (e_fuel E) (e_os E) (tc_thread_id tc) a m)) (\<lambda>result.
     if result = - 1 then raise_errno E else invalidate_process_cache)))))"

section \<open>Waiting\<close>

definition iface_wait :: "'k denv \<Rightarrow> ('k, unit) dm" where
  "iface_wait E =
     bind (gets d_iface_process_id) (\<lambda>pid.
     bind (in_c (wait_all_and_update_regs (e_fuel E) (e_os E) pid)) (\<lambda>results.
     bind invalidate_process_cache (\<lambda>_.
     manage_change E results)))"

section \<open>Finishing a function\<close>

definition bp_at :: "int \<Rightarrow> 'k dbg \<Rightarrow> nat option" where
  "bp_at address s = List.find (\<lambda>b. bp_address (d_bp_heap s b) = address) (dict_values (d_breakpoints s))"

definition finish_backtrace :: "'k denv \<Rightarrow> nat \<Rightarrow> ('k, unit) dm" where
  "finish_backtrace E t =
     bind (current_return_address E (bg_getter E) (ret ()) t) (\<lambda>return_ip.
     bind (gets (bp_at return_ip)) (\<lambda>found.
     bind (case found of
         None \<Rightarrow>
           bind (get_thread t) (\<lambda>tc.
           bind (on_helper (tc_thread_id tc) (\<lambda>(h, k). (Inr (0 < available_breakpoints h), (h, k)))) (\<lambda>install_hw_bp.
           bind (new_bp (default_breakpoint return_ip install_hw_bp)) (\<lambda>b.
           bind (set_breakpoint E b True) (\<lambda>_. ret b))))
       | Some b \<Rightarrow> bind (get_bp b) (\<lambda>bp. bind (py_when (\<not> bp_enabled bp) (enable_breakpoint_py E b)) (\<lambda>_. ret b))) (\<lambda>b.
     bind (iface_cont E) (\<lambda>_.
     bind (iface_wait E) (\<lambda>_.
     py_when (found = None) (unset_breakpoint E b True))))))"

definition iface_finish :: "'k denv \<Rightarrow> nat \<Rightarrow> string \<Rightarrow> ('k, unit) dm" where
  "iface_finish E t heuristic =
     (if heuristic = ''step-mode'' then
        bind (get_thread t) (\<lambda>tc.
        bind (in_c (stepping_finish (e_fuel E) (e_os E) (tc_thread_id tc))) (\<lambda>result.
        if result = - 1 then raise_errno E else invalidate_process_cache))
      else if heuristic = ''backtrace'' then finish_backtrace E t
      else raise ValueError)"

section \<open>Starting and leaving\<close>

definition set_startup :: "bool \<Rightarrow> ('k, unit) dm" where
  "set_startup b = upd_resume (\<lambda>rc. rc\<lparr>rc_is_startup := b\<rparr>)"

definition set_options :: "('k, 's) env \<Rightarrow> ('k, unit) dm" where
  "set_options E = bind (gets d_iface_process_id) (\<lambda>pid. in_c (sys_do (sys_setoptions (e_os E) pid)))"

definition reach_entry_point :: "'k denv \<Rightarrow> ('k, unit) dm" where
  "reach_entry_point E =
     bind (gets d_argv) (\<lambda>argv.
     bind (case argv of [] \<Rightarrow> raise IndexError | a # _ \<Rightarrow> lift (get_entry_point (e_elf E) a)) (\<lambda>entry.
     bind (iface_maps E) (\<lambda>maps.
     bind (lift (normalize_and_validate_address entry maps)) (\<lambda>entry_point.
     bind (new_bp (default_breakpoint entry_point True)) (\<lambda>b.
     bind (set_breakpoint E b True) (\<lambda>_.
     bind (iface_cont E) (\<lambda>_.
     bind (iface_wait E) (\<lambda>_.
     unset_breakpoint E b True))))))))"

definition setup_parent :: "'k denv \<Rightarrow> bool \<Rightarrow> ('k, unit) dm" where
  "setup_parent E continue_to_entry_point =
     bind (set_startup True) (\<lambda>_.
     bind (iface_wait E) (\<lambda>_.
     bind (set_startup False) (\<lambda>_.
     bind (set_options E) (\<lambda>_.
     bind (py_when continue_to_entry_point (reach_entry_point E)) (\<lambda>_.
     invalidate_process_cache)))))"

text \<open>A new \<open>PtraceStatusHandler\<close>\<close>

definition new_status_handler :: "('k, unit) dm" where
  "new_status_handler = upd (\<lambda>s. s\<lparr>d_forward_signal := True, d_assume_race_sigstop := True\<rparr>)"

definition started :: "('k, 's) env \<Rightarrow> int \<Rightarrow> ('k, unit) dm" where
  "started E pid =
     bind (upd (\<lambda>s. s\<lparr>d_iface_process_id := pid, d_detached := False, d_process_id := pid\<rparr>)) (\<lambda>_.
     register_new_thread E pid)"

text \<open>The six descriptors are attributes that only this method and \<open>_setup_pipe\<close> use.\<close>

definition create_pipes :: "('k, 's) env \<Rightarrow> ('k, std_pipes) dm" where
  "create_pipes E =
     bind (in_kernel (e_pipe E)) (\<lambda>(stdin_r, stdin_w).
     bind (in_kernel (e_openpty E)) (\<lambda>(stdout_r, stdout_w).
     bind (in_kernel (e_openpty E)) (\<lambda>(stderr_r, stderr_w).
     bind (in_kernel (e_setraw E stdout_r)) (\<lambda>_.
     bind (in_kernel (e_setraw E stderr_r)) (\<lambda>_.
     ret \<lparr>stdin_read = stdin_r, stdin_write = stdin_w, stdout_read = stdout_r, stdout_write = stdout_w,
       stderr_read = stderr_r, stderr_write = stderr_w\<rparr>)))))"

text \<open>\<open>posix_spawn\<close> in the parent: \<open>e_fork\<close> starts a process that does what it is given, and returns its number.\<close>

definition posix_spawn :: "('k, 's) env \<Rightarrow> string \<Rightarrow> string list \<Rightarrow> string list \<Rightarrow> file_action list \<Rightarrow> int \<Rightarrow> ('k, int) dm" where
  "posix_spawn E file argv env file_actions setpgroup =
     in_kernel (e_fork E (posix_spawn_child (e_spawn_os E) file argv env file_actions setpgroup))"

definition setup_pipe :: "('k, 's) env \<Rightarrow> std_pipes \<Rightarrow> ('k, pipe_manager) dm" where
  "setup_pipe E p =
     bind (try_except
       (in_kernel (bind (po_close (e_pipe_os E) (stdin_read p)) (\<lambda>_.
          bind (po_close (e_pipe_os E) (stdout_write p)) (\<lambda>_. po_close (e_pipe_os E) (stderr_write p)))))
       (\<lambda>e. e \<noteq> Diverges) (\<lambda>e. raise GenericException)) (\<lambda>_.
     ret \<lparr>pm_stdin_write = stdin_write p, pm_stdout_read = stdout_read p, pm_stderr_read = stderr_read p\<rparr>)"

text \<open>
  Disabling randomisation is a global effect on the debugger's own process: the C function asks for
  the personality and sets it again with the flag \<open>ADDR_NO_RANDOMIZE\<close>.
\<close>

definition disable_aslr :: "('k, 's) env \<Rightarrow> ('k, int) dm" where
  "disable_aslr E = in_kernel (bind (e_personality E 0xffffffff) (\<lambda>persona. e_personality E (persona OR 0x40000)))"

definition disable_self_aslr :: "('k, 's) env \<Rightarrow> ('k, unit) dm" where
  "disable_self_aslr E = bind (disable_aslr E) (\<lambda>retval. if retval = - 1 then raise RuntimeError else ret ())"

definition iface_run :: "'k denv \<Rightarrow> ('k, unit) dm" where
  "iface_run E =
     bind (gets id) (\<lambda>s.
     bind (py_when (\<not> d_disabled_aslr s \<and> \<not> d_aslr_enabled s)
       (bind (disable_self_aslr E) (\<lambda>_. upd (\<lambda>s. s\<lparr>d_disabled_aslr := True\<rparr>)))) (\<lambda>_.
     bind new_status_handler (\<lambda>_.
     bind (create_pipes E) (\<lambda>p.
     bind (posix_spawn E (e_jumpstart E) (spawn_argv (e_jumpstart E) (d_env s) (d_argv s)) (e_environ E)
       (spawn_file_actions p) 0) (\<lambda>child_pid.
     bind (started E child_pid) (\<lambda>_.
     bind (gets d_autoreach_entrypoint) (\<lambda>continue_to_entry_point.
     bind (setup_parent E continue_to_entry_point) (\<lambda>_.
     bind (setup_pipe E p) (\<lambda>m.
     upd (\<lambda>s. s\<lparr>d_pipe_manager := Some m\<rparr>))))))))))"

definition iface_attach :: "'k denv \<Rightarrow> int \<Rightarrow> ('k, unit) dm" where
  "iface_attach E pid =
     bind new_status_handler (\<lambda>_.
     bind (in_c (sys (sys_attach (e_os E) pid))) (\<lambda>(res, err).
     if res = - 1 then (if err = 0 then raise KeyError else raise (OSError err))
     else bind (started E pid) (\<lambda>_. setup_parent E False)))"

definition iface_detach :: "('k, 's) env \<Rightarrow> ('k, unit) dm" where
  "iface_detach E =
     bind (gets (\<lambda>s. dict_values (d_breakpoints s))) (\<lambda>bps.
     bind (for_each (\<lambda>b. bind (get_bp b) (\<lambda>bp. py_when (bp_enabled bp) (unset_breakpoint E b True))) bps) (\<lambda>_.
     bind (gets d_iface_process_id) (\<lambda>pid.
     bind (in_c (ptrace_detach_and_cont (e_os E) pid)) (\<lambda>_.
     upd (\<lambda>s. s\<lparr>d_detached := True\<rparr>)))))"

text \<open>\<open>os.kill\<close> raises the error of the call.\<close>

definition os_kill :: "('k, 's) env \<Rightarrow> int \<Rightarrow> int \<Rightarrow> ('k, unit) dm" where
  "os_kill E pid signum = bind (in_c (sys (sys_kill (e_os E) pid signum))) (\<lambda>(res, err).
     if res = - 1 then raise (OSError err) else ret ())"

definition iface_kill :: "('k, 's) env \<Rightarrow> ('k, unit) dm" where
  "iface_kill E =
     bind (gets id) (\<lambda>s. let pid = d_iface_process_id s in
     if \<not> d_detached s then in_c (ptrace_detach_for_kill (e_os E) pid)
     else bind (os_kill E pid 9) (\<lambda>_. os_waitpid E pid))"

section \<open>GDB\<close>

definition migrate_to_gdb :: "('k, 's) env \<Rightarrow> ('k, unit) dm" where
  "migrate_to_gdb E = bind (gets d_iface_process_id) (\<lambda>pid. in_c (ptrace_detach_for_migration (e_os E) pid))"

definition migrate_from_gdb :: "('k, 's) env \<Rightarrow> ('k, unit) dm" where
  "migrate_from_gdb E =
     bind (gets d_iface_process_id) (\<lambda>pid.
     bind (in_c (ptrace_reattach_from_gdb (e_os E) pid)) (\<lambda>_.
     bind invalidate_process_cache (\<lambda>_.
     bind (check_for_new_threads E pid) (\<lambda>_.
     bind (gets (\<lambda>s. dict_values (d_breakpoints s)))
       (for_each (\<lambda>b. bind (get_bp b) (\<lambda>bp. py_when (bp_hardware bp \<and> bp_enabled bp)
          (bind (gets (\<lambda>s. dict_keys (d_hw_helpers s)))
            (for_each (\<lambda>tid. bind (helper_remove E b tid) (\<lambda>_. helper_install E b tid)))))))))))"

end
