(* ===== verification/Poller.thy ===== *)
theory Poller
  imports Ptrace_Interface Command_Queue
begin

text \<open>
  The polling thread's side of \<open>InternalDebugger\<close> (\<open>libdebug/debugger/internal_debugger.py\<close>): the
  \<open>__threaded\<close> methods, one for each command of the queue, and what joining the queue does to the
  debugger's state. A command that is queued and not joined yet (\<open>cont\<close> leaves a wait behind) runs in
  the model when the user's thread next joins the queue; \<open>Command_Queue\<close> shows that the interleaving
  makes no difference to what the join returns.
\<close>

section \<open>The commands\<close>

definition set_running :: "bool \<Rightarrow> ('k, unit) dm" where
  "set_running b = upd (\<lambda>s. s\<lparr>d_is_running := b\<rparr>)"

text \<open>\<open>self.threads[0].dead\<close>\<close>

definition first_thread_dead :: "('k, bool) dm" where
  "first_thread_dead = bind (gets id) (\<lambda>s. case d_threads s of
       [] \<Rightarrow> raise IndexError | t # _ \<Rightarrow> ret (tc_dead (d_thread_heap s t)))"

definition threaded_run :: "'k denv \<Rightarrow> ('k, unit) dm" where
  "threaded_run E =
     bind (gets d_argv) (\<lambda>argv.
     if argv = [] then raise IndexError else bind (iface_run E) (\<lambda>_. set_running False))"

definition threaded_attach :: "'k denv \<Rightarrow> int \<Rightarrow> ('k, unit) dm" where
  "threaded_attach E pid = bind (iface_attach E pid) (\<lambda>_. set_running False)"

definition threaded_detach :: "('k, 's) env \<Rightarrow> ('k, unit) dm" where
  "threaded_detach E = bind (iface_detach E) (\<lambda>_. set_running False)"

definition threaded_kill :: "('k, 's) env \<Rightarrow> ('k, unit) dm" where
  "threaded_kill E = iface_kill E"

definition threaded_cont :: "('k, 's) env \<Rightarrow> ('k, unit) dm" where
  "threaded_cont E = bind (set_running True) (\<lambda>_. iface_cont E)"

fun wait_loop :: "nat \<Rightarrow> 'k denv \<Rightarrow> ('k, unit) dm" where
  "wait_loop 0 E = raise Diverges"
| "wait_loop (Suc fuel) E =
     bind first_thread_dead (\<lambda>dead.
     if dead then ret ()
     else
       bind (upd_resume (\<lambda>rc. rc\<lparr>rc_resume := True\<rparr>)) (\<lambda>_.
       bind (iface_wait E) (\<lambda>_.
       bind (gets d_resume_context) (\<lambda>rc.
       if rc_resume rc then bind (iface_cont E) (\<lambda>_. wait_loop fuel E) else ret ()))))"

definition threaded_wait :: "'k denv \<Rightarrow> ('k, unit) dm" where
  "threaded_wait E = bind (wait_loop (e_fuel E) E) (\<lambda>_. set_running False)"

definition threaded_breakpoint :: "('k, 's) env \<Rightarrow> nat \<Rightarrow> ('k, unit) dm" where
  "threaded_breakpoint E b = set_breakpoint E b True"

text \<open>The debug message names the signal, so a number without a name raises ValueError.\<close>

definition threaded_catch_signal :: "('k, 's) env \<Rightarrow> nat \<Rightarrow> ('k, unit) dm" where
  "threaded_catch_signal E c =
     bind (get_catcher c) (\<lambda>sc. bind (signal_name_known E (sc_signal_number sc)) (\<lambda>_. set_signal_catcher c))"

definition threaded_handle_syscall :: "nat \<Rightarrow> ('k, unit) dm" where
  "threaded_handle_syscall h = set_syscall_handler h"

definition threaded_unhandle_syscall :: "nat \<Rightarrow> ('k, unit) dm" where
  "threaded_unhandle_syscall h = unset_syscall_handler h"

definition threaded_step :: "('k, 's) env \<Rightarrow> nat \<Rightarrow> ('k, unit) dm" where
  "threaded_step E t = bind (iface_step E t) (\<lambda>_. set_running True)"

definition threaded_step_until :: "('k, 's) env \<Rightarrow> nat \<Rightarrow> int \<Rightarrow> int \<Rightarrow> ('k, unit) dm" where
  "threaded_step_until E t address max_steps = bind (iface_step_until E t address max_steps) (\<lambda>_. set_running False)"

definition threaded_finish :: "'k denv \<Rightarrow> nat \<Rightarrow> string \<Rightarrow> ('k, unit) dm" where
  "threaded_finish E t heuristic = bind (iface_finish E t heuristic) (\<lambda>_. set_running False)"

definition threaded_gdb :: "('k, 's) env \<Rightarrow> ('k, unit) dm" where
  "threaded_gdb E = migrate_to_gdb E"

definition threaded_migrate_from_gdb :: "('k, 's) env \<Rightarrow> ('k, unit) dm" where
  "threaded_migrate_from_gdb E = migrate_from_gdb E"

definition no_value :: "('k, unit) dm \<Rightarrow> ('k, byte list option) dm" where
  "no_value m = bind m (\<lambda>_. ret None)"

fun exec_body :: "'k denv \<Rightarrow> command \<Rightarrow> ('k, byte list option) dm" where
  "exec_body E CRun = no_value (threaded_run E)"
| "exec_body E (CAttach pid) = no_value (threaded_attach E pid)"
| "exec_body E CDetach = no_value (threaded_detach E)"
| "exec_body E CKill = no_value (threaded_kill E)"
| "exec_body E CCont = no_value (threaded_cont E)"
| "exec_body E CWait = no_value (threaded_wait E)"
| "exec_body E (CBreakpoint b) = no_value (threaded_breakpoint E b)"
| "exec_body E (CCatchSignal c) = no_value (threaded_catch_signal E c)"
| "exec_body E (CHandleSyscall h) = no_value (threaded_handle_syscall h)"
| "exec_body E (CUnhandleSyscall h) = no_value (threaded_unhandle_syscall h)"
| "exec_body E (CStep t) = no_value (threaded_step E t)"
| "exec_body E (CStepUntil t a m) = no_value (threaded_step_until E t a m)"
| "exec_body E (CFinish t h) = no_value (threaded_finish E t h)"
| "exec_body E CGdb = no_value (threaded_gdb E)"
| "exec_body E CMigrateFromGdb = no_value (threaded_migrate_from_gdb E)"
| "exec_body E (CPeek a) = bind (bg_getter E a) (\<lambda>bs. ret (Some bs))"
| "exec_body E (CPoke a bs) = no_value (bg_setter E a bs)"
| "exec_body E CTerminate = ret None"

section \<open>Taking a command\<close>

definition in_background :: "bool \<Rightarrow> 'k dbg \<Rightarrow> 'k dbg" where
  "in_background b s = s\<lparr>d_background := b\<rparr>"

text \<open>
  One round of \<open>__polling_thread_function\<close>: None when the command returned None, otherwise the value
  or exception it put on the response queue. The method itself raises only \<open>Diverges\<close>, for a command
  that never returns.
\<close>

definition poll_command :: "'k denv \<Rightarrow> command \<Rightarrow> ('k, response option) dm" where
  "poll_command E c s = (case exec_body E c (in_background True s) of
       (Inl Diverges, t) \<Rightarrow> (Inl Diverges, in_background False t)
     | (Inl e, t) \<Rightarrow> (Inr (Some (Inl e)), in_background False t)
     | (Inr None, t) \<Rightarrow> (Inr None, in_background False t)
     | (Inr (Some bs), t) \<Rightarrow> (Inr (Some (Inr bs)), in_background False t))"

section \<open>The user's thread\<close>

definition put_command :: "command \<Rightarrow> ('k, unit) dm" where
  "put_command c = upd (\<lambda>s. s\<lparr>d_commands := d_commands s @ [c]\<rparr>)"

text \<open>
  Waiting until every queued command is done. A response that is not the last command's is never
  taken: the threads wait for each other. The same happens to the polling thread itself when a
  callback joins the queue, since its own command is not done, and to the user's thread when the
  polling thread has ended with commands left.
\<close>

fun drain_commands :: "'k denv \<Rightarrow> command list \<Rightarrow> ('k, response option) dm" where
  "drain_commands E [] = ret None"
| "drain_commands E (c # cs) =
     (if c = CTerminate then bind (upd (\<lambda>s. s\<lparr>d_poller := PollerEnded\<rparr>)) (\<lambda>_. if cs = [] then ret None else raise Diverges)
      else bind (poll_command E c) (\<lambda>r. case r of
          None \<Rightarrow> drain_commands E cs
        | Some x \<Rightarrow> if cs = [] then ret (Some x) else raise Diverges))"

definition join_queue :: "'k denv \<Rightarrow> ('k, response option) dm" where
  "join_queue E =
     bind (gets d_background) (\<lambda>bg. if bg then raise Diverges
     else bind (gets id) (\<lambda>s.
       if d_poller s \<noteq> PollerRunning then (if d_commands s = [] then ret None else raise Diverges)
       else bind (upd (\<lambda>s. s\<lparr>d_commands := []\<rparr>)) (\<lambda>_. drain_commands E (d_commands s))))"

text \<open>\<open>raise response\<close> with bytes is a TypeError.\<close>

definition join_and_check_status :: "'k denv \<Rightarrow> ('k, unit) dm" where
  "join_and_check_status E = bind (join_queue E) (\<lambda>r. case r of
     None \<Rightarrow> ret () | Some (Inl e) \<Rightarrow> raise e | Some (Inr bs) \<Rightarrow> raise TypeError)"

text \<open>A call of the user's that queues commands and waits for them.\<close>

definition submit :: "'k denv \<Rightarrow> command \<Rightarrow> ('k, unit) dm" where
  "submit E c = bind (put_command c) (\<lambda>_. join_and_check_status E)"

end
