(* ===== verification/Internal_Debugger.thy ===== *)
theory Internal_Debugger
  imports Poller
begin

text \<open>
  The methods of \<open>InternalDebugger\<close> (\<open>libdebug/debugger/internal_debugger.py\<close>) that the user's thread
  calls, with the decorators of \<open>libdebug/utils/debugger_wrappers.py\<close>. A method called from a callback
  runs in the polling thread (\<open>d_background\<close>): \<open>background_alias\<close> then takes the other method.
\<close>

section \<open>The decorators\<close>

definition background_alias :: "('k, 'a) dm \<Rightarrow> ('k, 'a) dm \<Rightarrow> ('k, 'a) dm" where
  "background_alias alias_method m = bind (gets d_background) (\<lambda>bg. if bg then alias_method else m)"

definition background_invalid_call :: "('k, 'a) dm" where
  "background_invalid_call = raise RuntimeError"

definition require_instanced :: "('k, unit) dm" where
  "require_instanced = bind (gets d_instanced) (\<lambda>i. if i then ret () else raise RuntimeError)"

definition require_alive :: "('k, unit) dm" where
  "require_alive = bind first_thread_dead (\<lambda>dead. if dead then raise RuntimeError else ret ())"

section \<open>Waiting and interrupting\<close>

definition id_wait :: "'k denv \<Rightarrow> ('k, unit) dm" where
  "id_wait E = background_alias background_invalid_call
     (bind require_instanced (\<lambda>_.
      bind (join_and_check_status E) (\<lambda>_.
      bind first_thread_dead (\<lambda>dead.
      bind (gets d_is_running) (\<lambda>running.
      if dead \<or> \<not> running then ret () else submit E CWait)))))"

definition id_interrupt :: "'k denv \<Rightarrow> ('k, unit) dm" where
  "id_interrupt E = background_alias background_invalid_call
     (bind require_instanced (\<lambda>_.
      bind require_alive (\<lambda>_.
      bind (gets d_is_running) (\<lambda>running.
      if \<not> running then ret ()
      else
        bind (upd_resume (\<lambda>rc. rc\<lparr>rc_force_interrupt := True\<rparr>)) (\<lambda>_.
        bind (gets d_process_id) (\<lambda>pid.
        bind (os_kill E pid 19) (\<lambda>_. id_wait E)))))))"

definition ensure_process_stopped :: "'k denv \<Rightarrow> ('k, unit) dm" where
  "ensure_process_stopped E = background_alias (ret ())
     (bind (gets id) (\<lambda>s.
      if \<not> d_is_running s then ret ()
      else bind (py_when (d_auto_interrupt s) (id_interrupt E)) (\<lambda>_. join_and_check_status E)))"

definition change_state_function_process :: "'k denv \<Rightarrow> ('k, 'a) dm \<Rightarrow> ('k, 'a) dm" where
  "change_state_function_process E m =
     bind require_instanced (\<lambda>_. bind (ensure_process_stopped E) (\<lambda>_. bind require_alive (\<lambda>_. m)))"

definition change_state_function_thread :: "'k denv \<Rightarrow> nat \<Rightarrow> ('k, 'a) dm \<Rightarrow> ('k, 'a) dm" where
  "change_state_function_thread E t m =
     bind require_instanced (\<lambda>_. bind (ensure_process_stopped E) (\<lambda>_.
     bind (get_thread t) (\<lambda>tc. if tc_dead tc then raise RuntimeError else m)))"

text \<open>Most methods: not in a callback, and only on a stopped process that is alive.\<close>

definition user_method :: "'k denv \<Rightarrow> ('k, 'a) dm \<Rightarrow> ('k, 'a) dm" where
  "user_method E m = background_alias background_invalid_call (change_state_function_process E m)"

section \<open>Starting and leaving a process\<close>

definition id_clear :: "('k, unit) dm" where
  "id_clear = upd (\<lambda>s. s\<lparr>d_breakpoints := [], d_handled_syscalls := [], d_caught_signals := [],
     d_syscalls_to_pprint := None, d_syscalls_to_not_pprint := None, d_signals_to_block := [], d_pprint_syscalls := False,
     d_pipe_manager := None, d_process_id := 0, d_threads := [], d_instanced := False, d_is_running := False,
     d_resume_context := rc_clear (d_resume_context s)\<rparr>)"

text \<open>\<open>except (OSError, RuntimeError)\<close>, which also names RuntimeError's subclass NotImplementedError\<close>

definition os_or_runtime :: "py_exc \<Rightarrow> bool" where
  "os_or_runtime e \<longleftrightarrow> is_OSError e \<or> e = RuntimeError \<or> e = NotImplementedError"

definition close_pipes :: "('k, 's) env \<Rightarrow> ('k, unit) dm" where
  "close_pipes E = bind (gets d_pipe_manager) (\<lambda>pipe. case pipe of
       None \<Rightarrow> ret () | Some m \<Rightarrow> in_kernel (close_pipe_manager (e_pipe_os E) m))"

definition id_kill :: "'k denv \<Rightarrow> ('k, unit) dm" where
  "id_kill E = background_alias background_invalid_call
     (bind (try_except (ensure_process_stopped E) os_or_runtime (\<lambda>_. ret ())) (\<lambda>_.
      bind (put_command CKill) (\<lambda>_.
      bind (upd (\<lambda>s. s\<lparr>d_instanced := False\<rparr>)) (\<lambda>_.
      bind (close_pipes E) (\<lambda>_.
      join_and_check_status E)))))"

text \<open>The common start of \<open>run\<close> and \<open>attach\<close>.\<close>

definition begin_session :: "'k denv \<Rightarrow> ('k, unit) dm" where
  "begin_session E =
     bind (gets d_instanced) (\<lambda>instanced.
     bind (py_when instanced (id_kill E)) (\<lambda>_.
     bind (gets d_threads) (\<lambda>threads.
     bind (py_when (threads \<noteq> []) (bind id_clear (\<lambda>_. iface_reset))) (\<lambda>_.
     bind (upd (\<lambda>s. s\<lparr>d_instanced := True\<rparr>)) (\<lambda>_.
     bind (gets d_commands) (\<lambda>cs. if cs \<noteq> [] then raise RuntimeError else ret ()))))))"

definition enable_antidebug_escaping :: "('k, 's) env \<Rightarrow> ('k, unit) dm" where
  "enable_antidebug_escaping E =
     bind (lift (resolve_syscall_number (e_syscalls E) ''ptrace'')) (\<lambda>n.
     bind (new_handler (SyscallHandler n (Some OnEnterPtrace) (Some OnExitPtrace) False False False)) (\<lambda>h.
     bind (put_command (CHandleSyscall h)) (\<lambda>_.
     upd_handler h (\<lambda>sh. sh\<lparr>sh_traceme_called := False, sh_command := None\<rparr>))))"

definition id_run :: "'k denv \<Rightarrow> ('k, pipe_manager) dm" where
  "id_run E =
     bind (gets d_argv) (\<lambda>argv. case argv of
         [] \<Rightarrow> raise RuntimeError
       | path # _ \<Rightarrow>
         if \<not> e_is_file E path then raise RuntimeError
         else if \<not> e_is_executable E path then raise RuntimeError
         else
           bind (begin_session E) (\<lambda>_.
           bind (put_command CRun) (\<lambda>_.
           bind (gets d_escape_antidebug) (\<lambda>escape.
           bind (py_when escape (enable_antidebug_escaping E)) (\<lambda>_.
           bind (join_and_check_status E) (\<lambda>_.
           bind (gets d_pipe_manager) (\<lambda>pipe. case pipe of None \<Rightarrow> raise RuntimeError | Some m \<Rightarrow> ret m)))))))"

definition id_attach :: "'k denv \<Rightarrow> int \<Rightarrow> ('k, unit) dm" where
  "id_attach E pid = bind (begin_session E) (\<lambda>_. submit E (CAttach pid))"

definition id_detach :: "'k denv \<Rightarrow> ('k, unit) dm" where
  "id_detach E = bind require_instanced (\<lambda>_. bind (ensure_process_stopped E) (\<lambda>_. submit E CDetach))"

text \<open>
  \<open>terminate\<close> waits for the polling thread, which first does what is queued before: it never ends when
  something is reported, because nobody takes the report. A thread cannot join itself.
\<close>

fun stop_poller :: "'k denv \<Rightarrow> command list \<Rightarrow> ('k, unit) dm" where
  "stop_poller E [] = raise Diverges"
| "stop_poller E (c # cs) =
     (if c = CTerminate then upd (\<lambda>s. s\<lparr>d_poller := PollerEnded, d_commands := cs\<rparr>)
      else bind (poll_command E c) (\<lambda>r. if r = None then stop_poller E cs else raise Diverges))"

definition id_terminate :: "'k denv \<Rightarrow> ('k, unit) dm" where
  "id_terminate E =
     bind (gets d_poller) (\<lambda>p.
     if p = PollerNone then ret ()
     else
       bind (put_command CTerminate) (\<lambda>_.
       bind (gets id) (\<lambda>s.
       if d_background s then raise RuntimeError
       else
         bind (py_when (p = PollerRunning) (bind (upd (\<lambda>s. s\<lparr>d_commands := []\<rparr>)) (\<lambda>_. stop_poller E (d_commands s)))) (\<lambda>_.
         upd (\<lambda>s. s\<lparr>d_poller := PollerNone\<rparr>)))))"

definition id_cont :: "'k denv \<Rightarrow> ('k, unit) dm" where
  "id_cont E = user_method E (bind (submit E CCont) (\<lambda>_. put_command CWait))"

definition id_maps :: "'k denv \<Rightarrow> ('k, memory_map list) dm" where
  "id_maps E = bind (ensure_process_stopped E) (\<lambda>_. iface_maps E)"

section \<open>Breakpoints\<close>

datatype position = PosInt int | PosStr string

definition resolve_position :: "('k, 's) env \<Rightarrow> position \<Rightarrow> string \<Rightarrow> ('k, int) dm" where
  "resolve_position E position file = (case position of
     PosStr x \<Rightarrow> dbg_resolve_symbol E x file | PosInt a \<Rightarrow> dbg_resolve_address E a file False)"

definition lower_char :: "char \<Rightarrow> char" where
  "lower_char c = (if c = CHR ''W'' then CHR ''w'' else if c = CHR ''R'' then CHR ''r'' else if c = CHR ''X'' then CHR ''x'' else c)"

text \<open>
  The checks of a condition. Lower case is only ever compared with the three names, so only the
  letters in them matter; the condition is stored as it was given.
\<close>

definition check_condition :: "bool \<Rightarrow> string \<Rightarrow> int \<Rightarrow> unit result" where
  "check_condition hardware condition len =
     (if \<not> hardware then Inl ValueError
      else if map lower_char condition \<notin> {''w'', ''rw'', ''x''} then Inl ValueError
      else if len \<notin> {1, 2, 4, 8} then Inl ValueError else Inr ())"

definition id_breakpoint ::
    "'k denv \<Rightarrow> position \<Rightarrow> bool \<Rightarrow> string option \<Rightarrow> int \<Rightarrow> callback option \<Rightarrow> string \<Rightarrow> ('k, nat) dm" where
  "id_breakpoint E position hardware condition len callback file = user_method E
     (bind (resolve_position E position file) (\<lambda>address.
      bind (if truthy condition then lift (check_condition hardware (the condition) len) else ret ()) (\<lambda>_.
      let condition = (if hardware \<and> \<not> truthy condition then Some ''x'' else condition);
          symbol = (case position of PosStr x \<Rightarrow> x | PosInt _ \<Rightarrow> py_hex address) in
      bind (new_bp (Breakpoint address symbol hardware callback condition len)) (\<lambda>b.
      bind (submit E (CBreakpoint b)) (\<lambda>_.
      bind (gets d_breakpoints) (\<lambda>bps. if in_dict address bps then ret b else raise RuntimeError))))))"

section \<open>Signals\<close>

definition signal_number_of :: "('k, 's) env \<Rightarrow> signal_value \<Rightarrow> int result" where
  "signal_number_of E v = (case v of SigName n \<Rightarrow> resolve_signal_number (e_signals E) n | SigNum n \<Rightarrow> Inr n)"

definition id_catch_signal :: "'k denv \<Rightarrow> signal_value \<Rightarrow> callback option \<Rightarrow> bool \<Rightarrow> ('k, nat) dm" where
  "id_catch_signal E signal callback recursive = user_method E
     (bind (lift (signal_number_of E signal)) (\<lambda>n.
      if n = 9 \<or> n = 19 \<or> n = 5 then raise ValueError
      else
        bind (gets d_caught_signals) (\<lambda>caught.
        bind (py_when (in_dict n caught) (signal_name_known E n)) (\<lambda>_.
        bind (new_catcher (SignalCatcher n callback recursive)) (\<lambda>c.
        bind (submit E (CCatchSignal c)) (\<lambda>_. ret c))))))"

definition id_hijack_signal :: "'k denv \<Rightarrow> signal_value \<Rightarrow> signal_value \<Rightarrow> bool \<Rightarrow> ('k, nat) dm" where
  "id_hijack_signal E original new recursive = user_method E
     (bind (lift (signal_number_of E original)) (\<lambda>original_number.
      bind (lift (signal_number_of E new)) (\<lambda>new_number.
      if original_number = new_number then raise ValueError
      else id_catch_signal E (SigNum original_number) (Some (HijackSignal new_number)) recursive)))"

section \<open>System calls\<close>

datatype syscall_value = SysNum int | SysName string

definition syscall_number_of :: "('k, 's) env \<Rightarrow> syscall_value \<Rightarrow> int result" where
  "syscall_number_of E v = (case v of SysName n \<Rightarrow> resolve_syscall_number (e_syscalls E) n | SysNum n \<Rightarrow> Inr n)"

definition syscall_name_known :: "('k, 's) env \<Rightarrow> int \<Rightarrow> ('k, unit) dm" where
  "syscall_name_known E n = bind (lift (resolve_syscall_name (e_syscalls E) n)) (\<lambda>_. ret ())"

text \<open>An existing handler gets the new callbacks; otherwise a new one is installed.\<close>

definition install_handler ::
    "'k denv \<Rightarrow> int \<Rightarrow> callback option \<Rightarrow> callback option \<Rightarrow> bool \<Rightarrow> ('k, unit) dm \<Rightarrow> ('k, nat) dm" where
  "install_handler E n on_enter on_exit recursive overriding =
     bind (gets d_handled_syscalls) (\<lambda>handled. case dict_get handled n of
         Some h \<Rightarrow>
           bind (get_handler h) (\<lambda>sh.
           bind (py_when (sh_on_enter_user sh \<noteq> None \<or> sh_on_exit_user sh \<noteq> None) overriding) (\<lambda>_.
           bind (upd_handler h (\<lambda>sh. sh\<lparr>sh_on_enter_user := on_enter, sh_on_exit_user := on_exit,
              sh_recursive := recursive, sh_enabled := True\<rparr>)) (\<lambda>_. ret h)))
       | None \<Rightarrow>
           bind (new_handler (SyscallHandler n on_enter on_exit False False recursive)) (\<lambda>h.
           bind (submit E (CHandleSyscall h)) (\<lambda>_. ret h)))"

definition id_handle_syscall ::
    "'k denv \<Rightarrow> syscall_value \<Rightarrow> callback option \<Rightarrow> callback option \<Rightarrow> bool \<Rightarrow> ('k, nat) dm" where
  "id_handle_syscall E syscall on_enter on_exit recursive = user_method E
     (bind (lift (syscall_number_of E syscall)) (\<lambda>n.
      install_handler E n on_enter on_exit recursive (syscall_name_known E n)))"

definition syscall_hijacking_provider :: "string \<Rightarrow> unit result" where
  "syscall_hijacking_provider arch = (if arch = ''amd64'' then Inr () else Inl NotImplementedError)"

definition id_hijack_syscall ::
    "'k denv \<Rightarrow> syscall_value \<Rightarrow> syscall_value \<Rightarrow> bool \<Rightarrow> (string \<times> int) list \<Rightarrow> ('k, nat) dm" where
  "id_hijack_syscall E original new recursive kwargs = user_method E
     (bind (lift (syscall_hijacking_provider (e_arch E))) (\<lambda>_.
      if \<not> fst ` set kwargs \<subseteq> set hijacker_allowed_args then raise ValueError
      else
        bind (lift (syscall_number_of E original)) (\<lambda>original_number.
        bind (lift (syscall_number_of E new)) (\<lambda>new_number.
        if original_number = new_number then raise ValueError
        else install_handler E original_number (Some (HijackSyscall new_number kwargs)) None recursive (ret ())))))"

section \<open>Stepping\<close>

definition background_step :: "'k denv \<Rightarrow> nat \<Rightarrow> ('k, unit) dm" where
  "background_step E t = bind (threaded_step E t) (\<lambda>_. threaded_wait E)"

definition id_step :: "'k denv \<Rightarrow> nat \<Rightarrow> ('k, unit) dm" where
  "id_step E t = background_alias (background_step E t)
     (change_state_function_thread E t
       (bind (ensure_process_stopped E) (\<lambda>_.
        bind (put_command (CStep t)) (\<lambda>_.
        bind (put_command CWait) (\<lambda>_. join_and_check_status E)))))"

definition background_step_until :: "'k denv \<Rightarrow> nat \<Rightarrow> position \<Rightarrow> int \<Rightarrow> string \<Rightarrow> ('k, unit) dm" where
  "background_step_until E t position max_steps file =
     bind (resolve_position E position file) (\<lambda>address. threaded_step_until E t address max_steps)"

definition id_step_until :: "'k denv \<Rightarrow> nat \<Rightarrow> position \<Rightarrow> int \<Rightarrow> string \<Rightarrow> ('k, unit) dm" where
  "id_step_until E t position max_steps file = background_alias (background_step_until E t position max_steps file)
     (change_state_function_thread E t
       (bind (resolve_position E position file) (\<lambda>address. submit E (CStepUntil t address max_steps))))"

definition background_finish :: "'k denv \<Rightarrow> nat \<Rightarrow> string \<Rightarrow> ('k, unit) dm" where
  "background_finish E t heuristic = threaded_finish E t heuristic"

definition id_finish :: "'k denv \<Rightarrow> nat \<Rightarrow> string \<Rightarrow> ('k, unit) dm" where
  "id_finish E t heuristic = background_alias (background_finish E t heuristic)
     (change_state_function_thread E t (submit E (CFinish t heuristic)))"

section \<open>Memory\<close>

definition id_peek_memory :: "'k denv \<Rightarrow> 'k dbg getter" where
  "id_peek_memory E address = background_alias (bg_getter E address)
     (bind require_instanced (\<lambda>_.
      bind (ensure_process_stopped E) (\<lambda>_.
      bind (put_command (CPeek address)) (\<lambda>_.
      bind (join_queue E) (\<lambda>r. case r of
          None \<Rightarrow> raise Diverges | Some (Inl e) \<Rightarrow> raise e | Some (Inr bs) \<Rightarrow> ret bs)))))"

definition id_poke_memory :: "'k denv \<Rightarrow> 'k dbg setter" where
  "id_poke_memory E address data = background_alias (bg_setter E address data)
     (bind require_instanced (\<lambda>_.
      bind (ensure_process_stopped E) (\<lambda>_. submit E (CPoke address data))))"

section \<open>Pretty printing\<close>

definition or_list :: "int list option \<Rightarrow> int list \<Rightarrow> int list" where
  "or_list l d = (case l of None \<Rightarrow> d | Some xs \<Rightarrow> if xs = [] then d else xs)"

definition wants_pprint :: "int list \<Rightarrow> 'k dbg \<Rightarrow> int \<Rightarrow> bool" where
  "wants_pprint syscall_numbers s n \<longleftrightarrow>
     n \<notin> set (or_list (d_syscalls_to_not_pprint s) []) \<and> n \<in> set (or_list (d_syscalls_to_pprint s) syscall_numbers)"

definition enable_one_pprint :: "'k denv \<Rightarrow> int list \<Rightarrow> int \<Rightarrow> ('k, unit) dm" where
  "enable_one_pprint E syscall_numbers n =
     bind (gets id) (\<lambda>s. case dict_get (d_handled_syscalls s) n of
         Some h \<Rightarrow> upd_handler h (\<lambda>sh. sh\<lparr>sh_on_enter_pprint := wants_pprint syscall_numbers s n,
                      sh_on_exit_pprint := wants_pprint syscall_numbers s n\<rparr>)
       | None \<Rightarrow> py_when (wants_pprint syscall_numbers s n)
           (bind (new_handler (SyscallHandler n None None True True False)) (\<lambda>h.
            bind (ensure_process_stopped E) (\<lambda>_.
            bind (upd_handler h (sh_set_enabled False)) (\<lambda>_.
            put_command (CHandleSyscall h))))))"

definition enable_pretty_print :: "'k denv \<Rightarrow> ('k, unit) dm" where
  "enable_pretty_print E =
     bind (ensure_process_stopped E) (\<lambda>_.
     bind (lift (get_all_syscall_numbers (e_syscalls E))) (\<lambda>syscall_numbers.
     bind (for_each (enable_one_pprint E syscall_numbers) syscall_numbers) (\<lambda>_.
     join_and_check_status E)))"

definition disable_one_pprint :: "nat \<Rightarrow> ('k, unit) dm" where
  "disable_one_pprint h = bind (get_handler h) (\<lambda>sh.
     py_when (sh_on_enter_pprint sh \<or> sh_on_exit_pprint sh)
       (if sh_on_enter_user sh \<noteq> None \<or> sh_on_exit_user sh \<noteq> None
        then upd_handler h (\<lambda>sh. sh\<lparr>sh_on_enter_pprint := False, sh_on_exit_pprint := False\<rparr>)
        else put_command (CUnhandleSyscall h)))"

definition disable_pretty_print :: "'k denv \<Rightarrow> ('k, unit) dm" where
  "disable_pretty_print E =
     bind (ensure_process_stopped E) (\<lambda>_.
     bind (gets (\<lambda>s. dict_values (d_handled_syscalls s))) (\<lambda>installed_handlers.
     bind (for_each disable_one_pprint installed_handlers) (\<lambda>_.
     join_and_check_status E)))"

section \<open>GDB\<close>

definition gdb_watch :: "string \<Rightarrow> breakpoint \<Rightarrow> string" where
  "gdb_watch cmd bp = cmd @ '' *(int'' @ py_str (bp_length bp * 8) @ ''_t *) '' @ fmt_x (bp_address bp)"

definition gdb_breakpoint :: "breakpoint \<Rightarrow> string" where
  "gdb_breakpoint bp =
     (if bp_hardware bp \<and> bp_condition bp = Some ''rw'' then gdb_watch ''awatch'' bp
      else if bp_hardware bp \<and> bp_condition bp = Some ''w'' then gdb_watch ''watch'' bp
      else if bp_hardware bp then ''hb *'' @ py_hex (bp_address bp)
      else ''b *'' @ py_hex (bp_address bp))"

fun gdb_args :: "int \<Rightarrow> breakpoint list \<Rightarrow> string list" where
  "gdb_args ip [] = []"
| "gdb_args ip (bp # bps) =
     (if bp_enabled bp then [''-ex'', gdb_breakpoint bp] @
        (if ip = bp_address bp \<and> \<not> bp_hardware bp then [''-ex'', ''ni''] else []) else []) @ gdb_args ip bps"

text \<open>The instruction pointer is read for each enabled breakpoint, with the check of the process's state.\<close>

definition craft_gdb_migration_command :: "'k denv \<Rightarrow> ('k, string list) dm" where
  "craft_gdb_migration_command E =
     bind (gets id) (\<lambda>s.
     let bps = map (d_bp_heap s) (dict_values (d_breakpoints s)) in
     bind (if list_ex bp_enabled bps then
             (case d_threads s of [] \<Rightarrow> raise IndexError
              | t # _ \<Rightarrow> bind (ensure_process_stopped E) (\<lambda>_. thread_get t ''instruction_pointer''))
           else ret 0) (\<lambda>ip.
     ret ([''/bin/gdb'', ''-q'', ''--pid'', py_str (d_process_id s), ''-ex'', ''source '' @ e_gdb_goback E,
       ''-ex'', ''ni'', ''-ex'', ''ni''] @ gdb_args ip bps)))"

text \<open>
  A terminal starts GDB in another process: it is found by its command line among all processes, and
  polled until it is gone. A process that ends while its command line is read raises psutil's exception.
\<close>

fun find_gdb :: "string list \<Rightarrow> (int \<times> proc_cmdline) list \<Rightarrow> int result" where
  "find_gdb args [] = Inl RuntimeError"
| "find_gdb args ((pid, c) # procs) = (case c of
     ZombieProcess \<Rightarrow> find_gdb args procs
   | NoCmdline e \<Rightarrow> Inl e
   | Cmdline cmdline \<Rightarrow> if args = cmdline then Inr pid else find_gdb args procs)"

fun await_process :: "nat \<Rightarrow> ('k, 's) env \<Rightarrow> int \<Rightarrow> ('k, unit) dm" where
  "await_process 0 E pid = raise Diverges"
| "await_process (Suc fuel) E pid =
     bind (in_kernel (e_proc_alive E pid)) (\<lambda>alive. if alive then await_process fuel E pid else ret ())"

definition open_gdb_in_new_process :: "'k denv \<Rightarrow> ('k, unit) dm" where
  "open_gdb_in_new_process E =
     bind (craft_gdb_migration_command E) (\<lambda>args.
     bind (in_kernel (e_popen E (e_terminal E @ args))) (\<lambda>initial_pid.
     bind (os_waitpid E initial_pid) (\<lambda>_.
     bind (gets (\<lambda>s. e_processes E (d_kernel s))) (\<lambda>procs.
     bind (lift (find_gdb args procs)) (\<lambda>gdb_process.
     await_process (e_fuel E) E gdb_process)))))"

text \<open>
  The child of the fork has its own copy of the debugger, crafts the command from it and executes GDB,
  or fails there: \<open>e_fork_exec\<close> gets the outcome. The parent ignores SIGINT meanwhile.
\<close>

definition open_gdb_in_shell :: "'k denv \<Rightarrow> ('k, unit) dm" where
  "open_gdb_in_shell E =
     bind (gets id) (\<lambda>s.
     bind (in_kernel (e_fork_exec E (fst (craft_gdb_migration_command E s)))) (\<lambda>gdb_pid.
     bind (in_kernel (e_sigint E True)) (\<lambda>_.
     bind (os_waitpid E gdb_pid) (\<lambda>_.
     in_kernel (e_sigint E False)))))"

definition open_gdb :: "'k denv \<Rightarrow> bool \<Rightarrow> ('k, unit) dm" where
  "open_gdb E open_in_new_process =
     (if open_in_new_process \<and> e_terminal E \<noteq> [] then open_gdb_in_new_process E else open_gdb_in_shell E)"

definition id_gdb :: "'k denv \<Rightarrow> bool \<Rightarrow> ('k, unit) dm" where
  "id_gdb E open_in_new_process = user_method E
     (bind (id_interrupt E) (\<lambda>_.
      bind (submit E CGdb) (\<lambda>_.
      bind (open_gdb E open_in_new_process) (\<lambda>_.
      submit E CMigrateFromGdb))))"

end
