(* ===== verification/Debugger_Api.thy ===== *)
theory Debugger_Api
  imports Internal_Debugger Stack_Unwinder
begin

text \<open>
  What the user of the library calls: the function \<open>debugger\<close> (\<open>libdebug/libdebug.py\<close>), the facade
  \<open>Debugger\<close> (\<open>libdebug/debugger/debugger.py\<close>), the methods of \<open>ThreadContext\<close>, and switching
  breakpoints, catchers and handlers on and off.

  An argument that Python checks with \<open>isinstance\<close> is a datatype with one constructor per case.
\<close>

section \<open>Creating a debugger\<close>

datatype argv_arg = ArgvStr string | ArgvList "string list"

definition no_thread :: c_thread where
  "no_thread = \<lparr>ct_tid = 0, ct_regs = (\<lambda>_. 0), ct_signal_to_forward = 0\<rparr>"

text \<open>\<open>InternalDebugger.__init__\<close>. The heaps are empty: what they hold at a reference nobody owns is arbitrary.\<close>

definition InternalDebugger :: "'k \<Rightarrow> 'k dbg" where
  "InternalDebugger k = \<lparr>d_kernel = k,
     d_gs = \<lparr>gs_nodes = (\<lambda>_. no_thread), gs_next = 0, gs_t_HEAD = [], gs_dead_t_HEAD = [], gs_b_HEAD = [],
        gs_handle_syscall_enabled = False\<rparr>,
     d_bp_heap = (\<lambda>_. default_breakpoint 0 False), d_catcher_heap = (\<lambda>_. SignalCatcher 0 None False),
     d_handler_heap = (\<lambda>_. SyscallHandler 0 None None False False False), d_thread_heap = (\<lambda>_. ThreadContext 0 0), d_next = 0,
     d_breakpoints = [], d_handled_syscalls = [], d_caught_signals = [], d_signals_to_block = [],
     d_syscalls_to_pprint = None, d_syscalls_to_not_pprint = None, d_pprint_syscalls = False, d_threads = [],
     d_process_id = 0, d_instanced = False, d_is_running = False, d_resume_context = ResumeContext,
     d_hw_helpers = [], d_iface_process_id = 0, d_detached = False, d_forward_signal = True, d_assume_race_sigstop = True,
     d_output = [], d_argv = [], d_env = Some [], d_aslr_enabled = False, d_autoreach_entrypoint = True, d_escape_antidebug = False,
     d_auto_interrupt = False, d_pipe_manager = None, d_disabled_aslr = False, d_background = False, d_commands = [], d_poller = PollerNone,
     d_maps_cache = [], d_fds_cache = [], d_path_cache = None, d_name_cache = None\<rparr>"

text \<open>\<open>PtraceInterface.__init__\<close>\<close>

definition new_ptrace_interface :: "('k, unit) dm" where
  "new_ptrace_interface =
     bind (upd (\<lambda>s. s\<lparr>d_gs := (d_gs s)\<lparr>gs_t_HEAD := [], gs_dead_t_HEAD := [], gs_b_HEAD := []\<rparr>,
        d_iface_process_id := 0, d_detached := False, d_hw_helpers := [], d_disabled_aslr := False\<rparr>)) (\<lambda>_.
     iface_reset)"

definition start_processing_thread :: "('k, unit) dm" where
  "start_processing_thread = upd (\<lambda>s. s\<lparr>d_poller := PollerRunning\<rparr>)"

definition start_up :: "('k, unit) dm" where
  "start_up = bind start_processing_thread (\<lambda>_. new_ptrace_interface)"

definition debugger ::
    "'k \<Rightarrow> argv_arg \<Rightarrow> bool \<Rightarrow> (string, string) dict option \<Rightarrow> bool \<Rightarrow> bool \<Rightarrow> bool \<Rightarrow> 'k dbg" where
  "debugger k argv aslr env escape_antidebug continue_to_binary_entrypoint auto_interrupt_on_command =
     snd (start_up ((InternalDebugger k)\<lparr>d_argv := (case argv of ArgvStr x \<Rightarrow> [x] | ArgvList xs \<Rightarrow> xs), d_env := env,
       d_aslr_enabled := aslr, d_autoreach_entrypoint := continue_to_binary_entrypoint,
       d_auto_interrupt := auto_interrupt_on_command, d_escape_antidebug := escape_antidebug\<rparr>))"

section \<open>Memory and registers\<close>

text \<open>The view that \<open>start_up\<close> creates: every access asks the polling thread.\<close>

definition user_memory_read :: "'k denv \<Rightarrow> mem_key \<Rightarrow> ('k, byte list) dm" where
  "user_memory_read E key = mv_getitem (id_peek_memory E) (dbg_resolver E) default_view key"

definition user_memory_write :: "'k denv \<Rightarrow> mem_key \<Rightarrow> byte list option \<Rightarrow> ('k, unit) dm" where
  "user_memory_write E key v = mv_setitem (id_peek_memory E) (id_poke_memory E) (dbg_resolver E) default_view key v"

definition user_regs_get :: "'k denv \<Rightarrow> nat \<Rightarrow> string \<Rightarrow> ('k, int) dm" where
  "user_regs_get E = regs_get (ensure_process_stopped E)"

definition user_regs_set :: "'k denv \<Rightarrow> nat \<Rightarrow> string \<Rightarrow> int \<Rightarrow> ('k, unit) dm" where
  "user_regs_set E t n v = bind (ensure_process_stopped E) (\<lambda>_. on_regs t (attr_set regs_class n v))"

section \<open>Threads\<close>

text \<open>The plain attributes; \<open>pid\<close>, \<open>tid\<close> and \<open>mem\<close> are the same.\<close>

definition thread_dead :: "nat \<Rightarrow> ('k, bool) dm" where
  "thread_dead t = bind (get_thread t) (\<lambda>tc. ret (tc_dead tc))"

definition thread_process_id :: "nat \<Rightarrow> ('k, int) dm" where
  "thread_process_id t = gets d_process_id"

definition thread_thread_id :: "nat \<Rightarrow> ('k, int) dm" where
  "thread_thread_id t = bind (get_thread t) (\<lambda>tc. ret (tc_thread_id tc))"

definition id_running :: "('k, bool) dm" where
  "id_running = gets d_is_running"

definition thread_running :: "nat \<Rightarrow> ('k, bool) dm" where
  "thread_running t = id_running"

definition thread_memory_read :: "'k denv \<Rightarrow> nat \<Rightarrow> mem_key \<Rightarrow> ('k, byte list) dm" where
  "thread_memory_read E t key = user_memory_read E key"

definition thread_memory_write :: "'k denv \<Rightarrow> nat \<Rightarrow> mem_key \<Rightarrow> byte list option \<Rightarrow> ('k, unit) dm" where
  "thread_memory_write E t key v = user_memory_write E key v"

definition thread_context_exit_code :: "'k denv \<Rightarrow> nat \<Rightarrow> ('k, int option) dm" where
  "thread_context_exit_code E t = bind (ensure_process_stopped E) (\<lambda>_. thread_exit_code E t)"

definition thread_context_exit_signal :: "'k denv \<Rightarrow> nat \<Rightarrow> ('k, string option) dm" where
  "thread_context_exit_signal E t = bind (ensure_process_stopped E) (\<lambda>_. thread_exit_signal E t)"

definition thread_context_signal :: "'k denv \<Rightarrow> nat \<Rightarrow> ('k, string option) dm" where
  "thread_context_signal E t = bind (ensure_process_stopped E) (\<lambda>_. get_signal E t)"

definition thread_context_set_signal :: "'k denv \<Rightarrow> nat \<Rightarrow> signal_value \<Rightarrow> ('k, unit) dm" where
  "thread_context_set_signal E t v = bind (ensure_process_stopped E) (\<lambda>_. set_signal E t v)"

fun each_result :: "('a \<Rightarrow> 'b result) \<Rightarrow> 'a list \<Rightarrow> 'b list result" where
  "each_result f [] = Inr []"
| "each_result f (x # xs) = rbind (f x) (\<lambda>y. rbind (each_result f xs) (\<lambda>ys. Inr (y # ys)))"

definition user_unwind :: "'k denv \<Rightarrow> nat \<Rightarrow> ('k, int list) dm" where
  "user_unwind E t =
     bind (ensure_process_stopped E) (\<lambda>_.
     bind (lift (stack_unwinding_provider (e_arch E))) (\<lambda>_.
     unwind E (id_peek_memory E) (ensure_process_stopped E) t))"

datatype backtrace = Addresses "int list" | Symbols "string list"

definition thread_backtrace :: "'k denv \<Rightarrow> nat \<Rightarrow> bool \<Rightarrow> ('k, backtrace) dm" where
  "thread_backtrace E t as_symbols =
     bind (user_unwind E t) (\<lambda>trace.
     if as_symbols then
       bind (iface_maps E) (\<lambda>maps.
       bind (lift (each_result (\<lambda>x. resolve_address_in_maps (e_elf E) x maps) trace)) (\<lambda>names. ret (Symbols names)))
     else ret (Addresses trace))"

definition backtrace_line :: "int \<Rightarrow> string \<Rightarrow> string" where
  "backtrace_line return_address return_address_symbol =
     (if take 2 return_address_symbol = ''0x'' then RED @ py_hex return_address @ '' '' @ RESET @ newline
      else RED @ py_hex return_address @ '' <'' @ return_address_symbol @ ''> '' @ RESET @ newline)"

text \<open>The lines before an address that does not resolve are printed.\<close>

definition thread_print_backtrace :: "'k denv \<Rightarrow> nat \<Rightarrow> ('k, unit) dm" where
  "thread_print_backtrace E t =
     bind (user_unwind E t) (\<lambda>trace.
     bind (iface_maps E) (\<lambda>maps.
     for_each (\<lambda>return_address. bind (lift (resolve_address_in_maps (e_elf E) return_address maps)) (\<lambda>name.
       print_str (backtrace_line return_address name))) trace))"

definition thread_current_return_address :: "'k denv \<Rightarrow> nat \<Rightarrow> ('k, int) dm" where
  "thread_current_return_address E = current_return_address E (id_peek_memory E) (ensure_process_stopped E)"

definition thread_step :: "'k denv \<Rightarrow> nat \<Rightarrow> ('k, unit) dm" where
  "thread_step E t = id_step E t"

definition thread_step_until :: "'k denv \<Rightarrow> nat \<Rightarrow> position \<Rightarrow> int \<Rightarrow> string \<Rightarrow> ('k, unit) dm" where
  "thread_step_until E t position max_steps file = id_step_until E t position max_steps file"

definition thread_finish :: "'k denv \<Rightarrow> nat \<Rightarrow> string \<Rightarrow> ('k, unit) dm" where
  "thread_finish E t heuristic = id_finish E t heuristic"

text \<open>\<open>su\<close> has no argument for the file.\<close>

definition thread_su :: "'k denv \<Rightarrow> nat \<Rightarrow> position \<Rightarrow> int \<Rightarrow> ('k, unit) dm" where
  "thread_su E t position max_steps = id_step_until E t position max_steps ''hybrid''"

definition thread_si :: "'k denv \<Rightarrow> nat \<Rightarrow> ('k, unit) dm" where
  "thread_si E t = id_step E t"

definition thread_fin :: "'k denv \<Rightarrow> nat \<Rightarrow> string \<Rightarrow> ('k, unit) dm" where
  "thread_fin E t heuristic = id_finish E t heuristic"

section \<open>Printing the maps\<close>

definition map_repr :: "memory_map \<Rightarrow> string" where
  "map_repr m = ''MemoryMap(start='' @ py_hex (mm_start m) @ '', end='' @ py_hex (mm_end m) @ '', permissions='' @
     mm_permissions m @ '', size='' @ py_hex (mm_size m) @ '', offset='' @ py_hex (mm_offset m) @ '', backing_file='' @
     mm_backing_file m @ '')''"

definition map_line :: "memory_map \<Rightarrow> string" where
  "map_line m =
     (if CHR ''x'' \<in> set (mm_permissions m) then RED @ map_repr m @ RESET
      else if CHR ''w'' \<in> set (mm_permissions m) then YELLOW @ map_repr m @ RESET
      else if CHR ''r'' \<in> set (mm_permissions m) then GREEN @ map_repr m @ RESET
      else map_repr m) @ newline"

definition id_print_maps :: "'k denv \<Rightarrow> ('k, unit) dm" where
  "id_print_maps E =
     bind (ensure_process_stopped E) (\<lambda>_.
     bind (id_maps E) (\<lambda>maps.
     for_each (\<lambda>memory_map. print_str (map_line memory_map)) maps))"

definition dbg_print_maps :: "'k denv \<Rightarrow> ('k, unit) dm" where
  "dbg_print_maps E = id_print_maps E"

section \<open>Switching objects on and off\<close>

definition breakpoint_switch :: "'k denv \<Rightarrow> nat \<Rightarrow> bool \<Rightarrow> ('k, unit) dm" where
  "breakpoint_switch E b on = bind (ensure_process_stopped E) (\<lambda>_. upd_bp b (bp_set_enabled on))"

definition catcher_switch :: "'k denv \<Rightarrow> nat \<Rightarrow> bool \<Rightarrow> ('k, unit) dm" where
  "catcher_switch E c on = bind (ensure_process_stopped E) (\<lambda>_. upd_catcher c (sc_set_enabled on))"

definition handler_switch :: "'k denv \<Rightarrow> nat \<Rightarrow> bool \<Rightarrow> ('k, unit) dm" where
  "handler_switch E h on = bind (ensure_process_stopped E) (\<lambda>_. upd_handler h (sh_set_enabled on))"

definition breakpoint_hit_on :: "'k denv \<Rightarrow> nat \<Rightarrow> nat \<Rightarrow> ('k, bool) dm" where
  "breakpoint_hit_on E b t = bind (get_bp b) (\<lambda>bp.
     if bp_enabled bp then
       bind (ensure_process_stopped E) (\<lambda>_. bind (thread_get t ''instruction_pointer'') (\<lambda>ip.
       bind (get_bp b) (\<lambda>bp. ret (ip = bp_address bp))))
     else ret False)"

section \<open>The facade\<close>

definition dbg_run :: "'k denv \<Rightarrow> ('k, pipe_manager) dm" where
  "dbg_run E = id_run E"

definition dbg_attach :: "'k denv \<Rightarrow> int \<Rightarrow> ('k, unit) dm" where
  "dbg_attach E pid = id_attach E pid"

definition dbg_detach :: "'k denv \<Rightarrow> ('k, unit) dm" where
  "dbg_detach E = id_detach E"

definition dbg_kill :: "'k denv \<Rightarrow> ('k, unit) dm" where
  "dbg_kill E = id_kill E"

definition dbg_terminate :: "'k denv \<Rightarrow> ('k, unit) dm" where
  "dbg_terminate E = id_terminate E"

definition dbg_cont :: "'k denv \<Rightarrow> ('k, unit) dm" where
  "dbg_cont E = id_cont E"

definition dbg_interrupt :: "'k denv \<Rightarrow> ('k, unit) dm" where
  "dbg_interrupt E = id_interrupt E"

definition dbg_wait :: "'k denv \<Rightarrow> ('k, unit) dm" where
  "dbg_wait E = id_wait E"

definition dbg_maps :: "'k denv \<Rightarrow> ('k, memory_map list) dm" where
  "dbg_maps E = id_maps E"

definition dbg_breakpoint ::
    "'k denv \<Rightarrow> position \<Rightarrow> bool \<Rightarrow> string option \<Rightarrow> int \<Rightarrow> callback option \<Rightarrow> string \<Rightarrow> ('k, nat) dm" where
  "dbg_breakpoint E position hardware condition len callback file =
     id_breakpoint E position hardware condition len callback file"

definition dbg_watchpoint :: "'k denv \<Rightarrow> position \<Rightarrow> string \<Rightarrow> int \<Rightarrow> callback option \<Rightarrow> string \<Rightarrow> ('k, nat) dm" where
  "dbg_watchpoint E position condition len callback file =
     id_breakpoint E position True (Some condition) len callback file"

definition dbg_catch_signal :: "'k denv \<Rightarrow> signal_value \<Rightarrow> callback option \<Rightarrow> bool \<Rightarrow> ('k, nat) dm" where
  "dbg_catch_signal E signal callback recursive = id_catch_signal E signal callback recursive"

definition dbg_hijack_signal :: "'k denv \<Rightarrow> signal_value \<Rightarrow> signal_value \<Rightarrow> bool \<Rightarrow> ('k, nat) dm" where
  "dbg_hijack_signal E original_signal new_signal recursive = id_hijack_signal E original_signal new_signal recursive"

definition dbg_handle_syscall ::
    "'k denv \<Rightarrow> syscall_value \<Rightarrow> callback option \<Rightarrow> callback option \<Rightarrow> bool \<Rightarrow> ('k, nat) dm" where
  "dbg_handle_syscall E syscall on_enter on_exit recursive = id_handle_syscall E syscall on_enter on_exit recursive"

definition dbg_hijack_syscall ::
    "'k denv \<Rightarrow> syscall_value \<Rightarrow> syscall_value \<Rightarrow> bool \<Rightarrow> (string \<times> int) list \<Rightarrow> ('k, nat) dm" where
  "dbg_hijack_syscall E original_syscall new_syscall recursive kwargs =
     id_hijack_syscall E original_syscall new_syscall recursive kwargs"

definition dbg_gdb :: "'k denv \<Rightarrow> bool \<Rightarrow> ('k, unit) dm" where
  "dbg_gdb E open_in_new_process = id_gdb E open_in_new_process"

text \<open>The short names, and the tables.\<close>

definition dbg_r :: "'k denv \<Rightarrow> ('k, pipe_manager) dm" where
  "dbg_r E = id_run E"

definition dbg_c :: "'k denv \<Rightarrow> ('k, unit) dm" where
  "dbg_c E = id_cont E"

definition dbg_int :: "'k denv \<Rightarrow> ('k, unit) dm" where
  "dbg_int E = id_interrupt E"

definition dbg_w :: "'k denv \<Rightarrow> ('k, unit) dm" where
  "dbg_w E = id_wait E"

definition dbg_bp ::
    "'k denv \<Rightarrow> position \<Rightarrow> bool \<Rightarrow> string option \<Rightarrow> int \<Rightarrow> callback option \<Rightarrow> string \<Rightarrow> ('k, nat) dm" where
  "dbg_bp E position hardware condition len callback file = id_breakpoint E position hardware condition len callback file"

definition dbg_wp :: "'k denv \<Rightarrow> position \<Rightarrow> string \<Rightarrow> int \<Rightarrow> callback option \<Rightarrow> string \<Rightarrow> ('k, nat) dm" where
  "dbg_wp E position condition len callback file = id_breakpoint E position True (Some condition) len callback file"

definition dbg_threads :: "('k, nat list) dm" where
  "dbg_threads = gets d_threads"

definition dbg_breakpoints :: "('k, (int, nat) dict) dm" where
  "dbg_breakpoints = gets d_breakpoints"

definition dbg_handled_syscalls :: "('k, (int, nat) dict) dm" where
  "dbg_handled_syscalls = gets d_handled_syscalls"

definition dbg_caught_signals :: "('k, (int, nat) dict) dm" where
  "dbg_caught_signals = gets d_caught_signals"

section \<open>Attributes of the first thread\<close>

text \<open>
  A name that \<open>Debugger\<close> does not have is looked up on the first thread. A value is a number, a truth
  value, an optional number or name, or an object: a method or a part of the thread.
\<close>

datatype attr_value = AttrInt int | AttrBool bool | AttrCode "int option" | AttrName "string option" | AttrObject nat string

definition thread_objects :: "string list" where
  "thread_objects = [''regs'', ''memory'', ''mem'', ''set_as_dead'', ''backtrace'', ''print_backtrace'', ''current_return_address'',
     ''step'', ''step_until'', ''finish'', ''si'', ''su'', ''fin'', ''_internal_debugger'', ''_register_holder'']"

definition thread_getattr :: "'k denv \<Rightarrow> nat \<Rightarrow> string \<Rightarrow> ('k, attr_value) dm" where
  "thread_getattr E t name =
     (if in_dict name thread_class then bind (ensure_process_stopped E) (\<lambda>_. bind (thread_get t name) (\<lambda>v. ret (AttrInt v)))
      else if name = ''dead'' then bind (thread_dead t) (\<lambda>b. ret (AttrBool b))
      else if name = ''running'' then bind (thread_running t) (\<lambda>b. ret (AttrBool b))
      else if name \<in> {''process_id'', ''pid''} then bind (thread_process_id t) (\<lambda>n. ret (AttrInt n))
      else if name \<in> {''thread_id'', ''tid''} then bind (thread_thread_id t) (\<lambda>n. ret (AttrInt n))
      else if name = ''exit_code'' then bind (thread_context_exit_code E t) (\<lambda>c. ret (AttrCode c))
      else if name = ''exit_signal'' then bind (thread_context_exit_signal E t) (\<lambda>n. ret (AttrName n))
      else if name = ''signal'' then bind (thread_context_signal E t) (\<lambda>n. ret (AttrName n))
      else if name = ''_signal_number'' then bind (get_thread t) (\<lambda>tc. ret (AttrInt (tc_signal_number tc)))
      else if name = ''_thread_id'' then bind (get_thread t) (\<lambda>tc. ret (AttrInt (tc_thread_id tc)))
      else if name = ''_dead'' then bind (get_thread t) (\<lambda>tc. ret (AttrBool (tc_dead tc)))
      else if name = ''_exit_code'' then bind (get_thread t) (\<lambda>tc. ret (AttrCode (tc_exit_code tc)))
      else if name = ''_exit_signal'' then bind (get_thread t) (\<lambda>tc. ret (AttrCode (tc_exit_signal tc)))
      else if name \<in> set thread_objects then ret (AttrObject t name)
      else raise AttributeError)"

definition dbg_getattr :: "'k denv \<Rightarrow> string \<Rightarrow> ('k, attr_value) dm" where
  "dbg_getattr E name =
     bind (gets d_threads) (\<lambda>threads. case threads of [] \<Rightarrow> raise AttributeError | thread_context # _ \<Rightarrow> thread_getattr E thread_context name)"

text \<open>
  Setting a number. \<open>own\<close> is the assignment for a name that \<open>Debugger\<close> has. A property of the thread
  without a setter refuses; a name the thread does not have makes a new attribute, which nothing else
  reads. Overwriting \<open>regs\<close>, a method or a private attribute of the thread is left out.
\<close>

definition debugger_names :: "string list" where
  "debugger_names = [''_sentinel'', ''_internal_debugger'', ''post_init_'', ''run'', ''attach'', ''detach'', ''kill'', ''terminate'',
     ''cont'', ''interrupt'', ''wait'', ''maps'', ''print_maps'', ''breakpoint'', ''watchpoint'', ''catch_signal'', ''hijack_signal'',
     ''handle_syscall'', ''hijack_syscall'', ''gdb'', ''r'', ''c'', ''int'', ''w'', ''bp'', ''wp'', ''threads'', ''breakpoints'',
     ''handled_syscalls'', ''caught_signals'', ''pprint_syscalls'', ''pprint_syscalls_context'', ''syscalls_to_pprint'',
     ''syscalls_to_not_pprint'', ''signals_to_block'']"

definition thread_setattr :: "'k denv \<Rightarrow> nat \<Rightarrow> string \<Rightarrow> int \<Rightarrow> ('k, unit) dm" where
  "thread_setattr E t name v =
     (if in_dict name thread_class then bind (ensure_process_stopped E) (\<lambda>_. thread_set t name v)
      else if name = ''signal'' then thread_context_set_signal E t (SigNum v)
      else if name \<in> {''dead'', ''running'', ''process_id'', ''pid'', ''thread_id'', ''tid'', ''exit_code'', ''exit_signal'', ''memory'', ''mem''}
      then raise AttributeError
      else ret ())"

definition dbg_setattr :: "'k denv \<Rightarrow> (string \<Rightarrow> int \<Rightarrow> ('k, unit) dm) \<Rightarrow> string \<Rightarrow> int \<Rightarrow> ('k, unit) dm" where
  "dbg_setattr E own name v =
     (if name \<in> set debugger_names then own name v
      else bind (gets d_threads) (\<lambda>threads. case threads of [] \<Rightarrow> raise IndexError | thread_context # _ \<Rightarrow> thread_setattr E thread_context name v))"

section \<open>Settings\<close>

definition dbg_pprint_syscalls :: "('k, bool) dm" where
  "dbg_pprint_syscalls = gets d_pprint_syscalls"

datatype bool_arg = ABool bool | NotABool

definition set_pprint_syscalls :: "'k denv \<Rightarrow> bool_arg \<Rightarrow> ('k, unit) dm" where
  "set_pprint_syscalls E v = (case v of
       NotABool \<Rightarrow> raise TypeError
     | ABool b \<Rightarrow> bind (if b then enable_pretty_print E else disable_pretty_print E) (\<lambda>_.
         upd (\<lambda>s. s\<lparr>d_pprint_syscalls := b\<rparr>)))"

text \<open>\<open>with d.pprint_syscalls_context(value): body\<close>; an exception in the body ends the generator at its \<open>yield\<close>.\<close>

definition pprint_syscalls_context :: "'k denv \<Rightarrow> bool_arg \<Rightarrow> ('k, 'a) dm \<Rightarrow> ('k, 'a) dm" where
  "pprint_syscalls_context E v body =
     bind (gets d_pprint_syscalls) (\<lambda>old_value.
     bind (set_pprint_syscalls E v) (\<lambda>_.
     bind body (\<lambda>x.
     bind (set_pprint_syscalls E (ABool old_value)) (\<lambda>_. ret x))))"

datatype 'a list_arg = AList "'a list" | ANone | NotAList

definition syscall_list_arg :: "('k, 's) env \<Rightarrow> syscall_value list_arg \<Rightarrow> int list option result" where
  "syscall_list_arg E v = (case v of
       ANone \<Rightarrow> Inr None
     | AList vs \<Rightarrow> rbind (each_result (syscall_number_of E) vs) (\<lambda>ns. Inr (Some ns))
     | NotAList \<Rightarrow> Inl ValueError)"

definition refresh_pprint :: "'k denv \<Rightarrow> ('k, unit) dm" where
  "refresh_pprint E = bind (gets d_pprint_syscalls) (\<lambda>on. py_when on (enable_pretty_print E))"

definition set_syscalls_to_pprint :: "'k denv \<Rightarrow> syscall_value list_arg \<Rightarrow> ('k, unit) dm" where
  "set_syscalls_to_pprint E v =
     bind (lift (syscall_list_arg E v)) (\<lambda>l. bind (upd (\<lambda>s. s\<lparr>d_syscalls_to_pprint := l\<rparr>)) (\<lambda>_. refresh_pprint E))"

definition set_syscalls_to_not_pprint :: "'k denv \<Rightarrow> syscall_value list_arg \<Rightarrow> ('k, unit) dm" where
  "set_syscalls_to_not_pprint E v =
     bind (lift (syscall_list_arg E v)) (\<lambda>l. bind (upd (\<lambda>s. s\<lparr>d_syscalls_to_not_pprint := l\<rparr>)) (\<lambda>_. refresh_pprint E))"

definition syscall_names :: "('k, 's) env \<Rightarrow> int list option \<Rightarrow> string list option result" where
  "syscall_names E l = (case l of
     None \<Rightarrow> Inr None | Some ns \<Rightarrow> rbind (each_result (resolve_syscall_name (e_syscalls E)) ns) (\<lambda>xs. Inr (Some xs)))"

definition get_syscalls_to_pprint :: "('k, 's) env \<Rightarrow> ('k, string list option) dm" where
  "get_syscalls_to_pprint E = bind (gets d_syscalls_to_pprint) (\<lambda>l. lift (syscall_names E l))"

definition get_syscalls_to_not_pprint :: "('k, 's) env \<Rightarrow> ('k, string list option) dm" where
  "get_syscalls_to_not_pprint E = bind (gets d_syscalls_to_not_pprint) (\<lambda>l. lift (syscall_names E l))"

definition get_signals_to_block :: "('k, 's) env \<Rightarrow> ('k, string list) dm" where
  "get_signals_to_block E = bind (gets d_signals_to_block) (\<lambda>ns. lift (each_result (resolve_signal_name (e_signals E)) ns))"

definition set_signals_to_block :: "('k, 's) env \<Rightarrow> signal_value list_arg \<Rightarrow> ('k, unit) dm" where
  "set_signals_to_block E v = (case v of
       AList vs \<Rightarrow>
         bind (lift (each_result (signal_number_of E) vs)) (\<lambda>signals.
         if set signals \<subseteq> set (get_all_signal_numbers (e_signals E))
         then upd (\<lambda>s. s\<lparr>d_signals_to_block := signals\<rparr>) else raise ValueError)
     | _ \<Rightarrow> raise TypeError)"

end
