(* ===== verification/Lib_Context.thy ===== *)
theory Lib_Context
  imports Py_Prelude
begin

text \<open>
  \<open>LibContext\<close> (\<open>libdebug/utils/libcontext.py\<close>), the library's global settings, with the levels of the
  three loggers of \<open>LibLog\<close> that the setters write through to. A value of a setting may have any of
  the types the code distinguishes. \<open>Unknown\<close> is a keyword that names no attribute, which \<open>update\<close>
  ignores; keywords that name a private attribute or a method, which it would overwrite, are left out.
\<close>

datatype ctx_value = VInt int | VStr string | VList "string list"

datatype ctx_key = Sym_lvl | Debugger_logger | Pipe_logger | General_logger | Arch | Terminal | Unknown string

record lib_context =
  lc_sym_lvl :: int
  lc_debugger_logger :: string
  lc_pipe_logger :: string
  lc_general_logger :: string
  lc_arch :: string
  lc_terminal :: ctx_value

record log_levels =
  ll_debugger :: string
  ll_pipe :: string
  ll_general :: string

type_synonym ctx = "lib_context \<times> log_levels"

definition component_levels :: "string list" where
  "component_levels = [''DEBUG'', ''SILENT'']"

definition general_levels :: "string list" where
  "general_levels = [''DEBUG'', ''INFO'', ''WARNING'', ''SILENT'']"

text \<open>\<open>_set_debug_level_for_all\<close>\<close>

definition set_debug_level_for_all :: "log_levels \<Rightarrow> log_levels" where
  "set_debug_level_for_all l = l\<lparr>ll_general := ''DEBUG'', ll_debugger := ''DEBUG'', ll_pipe := ''DEBUG''\<rparr>"

text \<open>The first instance; the levels of the loggers are those \<open>LibLog\<close> sets up before.\<close>

definition liblog_init :: log_levels where
  "liblog_init = \<lparr>ll_debugger = ''SILENT'', ll_pipe = ''SILENT'', ll_general = ''INFO''\<rparr>"

definition context_defaults :: lib_context where
  "context_defaults = \<lparr>lc_sym_lvl = 3, lc_debugger_logger = ''SILENT'', lc_pipe_logger = ''SILENT'', lc_general_logger = ''INFO'',
     lc_arch = ''amd64'', lc_terminal = VList []\<rparr>"

definition context_init :: "string list \<Rightarrow> ctx" where
  "context_init argv =
     (let c = context_defaults; l = liblog_init in
      if length argv \<le> 1 then (c, l)
      else if ''debugger'' \<in> set argv then (c\<lparr>lc_debugger_logger := ''DEBUG''\<rparr>, l\<lparr>ll_debugger := ''DEBUG''\<rparr>)
      else if ''pipe'' \<in> set argv then (c\<lparr>lc_pipe_logger := ''DEBUG''\<rparr>, l\<lparr>ll_pipe := ''DEBUG''\<rparr>)
      else if ''dbg'' \<in> set argv then
        (c\<lparr>lc_debugger_logger := ''DEBUG'', lc_pipe_logger := ''DEBUG'', lc_general_logger := ''DEBUG''\<rparr>,
         set_debug_level_for_all l)
      else (c, l))"

section \<open>Setters\<close>

definition set_ctx :: "(lib_context \<Rightarrow> lib_context) \<Rightarrow> (ctx, unit) pm" where
  "set_ctx f = upd (\<lambda>(c, l). (f c, l))"

definition set_level :: "(log_levels \<Rightarrow> log_levels) \<Rightarrow> (ctx, unit) pm" where
  "set_level f = upd (\<lambda>(c, l). (c, f l))"

text \<open>Comparing a string or a list with 0 raises TypeError.\<close>

definition set_sym_lvl :: "ctx_value \<Rightarrow> (ctx, unit) pm" where
  "set_sym_lvl v = (case v of
     VInt n \<Rightarrow> if 0 \<le> n \<and> n \<le> 5 then set_ctx (\<lambda>c. c\<lparr>lc_sym_lvl := n\<rparr>) else raise ValueError
   | _ \<Rightarrow> raise TypeError)"

definition set_debugger_logger :: "ctx_value \<Rightarrow> (ctx, unit) pm" where
  "set_debugger_logger v = (case v of
     VStr x \<Rightarrow> if x \<in> set component_levels
       then bind (set_ctx (\<lambda>c. c\<lparr>lc_debugger_logger := x\<rparr>)) (\<lambda>_. set_level (\<lambda>l. l\<lparr>ll_debugger := x\<rparr>)) else raise ValueError
   | _ \<Rightarrow> raise ValueError)"

definition set_pipe_logger :: "ctx_value \<Rightarrow> (ctx, unit) pm" where
  "set_pipe_logger v = (case v of
     VStr x \<Rightarrow> if x \<in> set component_levels
       then bind (set_ctx (\<lambda>c. c\<lparr>lc_pipe_logger := x\<rparr>)) (\<lambda>_. set_level (\<lambda>l. l\<lparr>ll_pipe := x\<rparr>)) else raise ValueError
   | _ \<Rightarrow> raise ValueError)"

definition set_general_logger :: "ctx_value \<Rightarrow> (ctx, unit) pm" where
  "set_general_logger v = (case v of
     VStr x \<Rightarrow> if x \<in> set general_levels
       then bind (set_ctx (\<lambda>c. c\<lparr>lc_general_logger := x\<rparr>)) (\<lambda>_. set_level (\<lambda>l. l\<lparr>ll_general := x\<rparr>)) else raise ValueError
   | _ \<Rightarrow> raise ValueError)"

definition set_arch :: "ctx_value \<Rightarrow> (ctx, unit) pm" where
  "set_arch v = (if v = VStr ''amd64'' then set_ctx (\<lambda>c. c\<lparr>lc_arch := ''amd64''\<rparr>) else raise RuntimeError)"

definition set_terminal :: "ctx_value \<Rightarrow> (ctx, unit) pm" where
  "set_terminal v = set_ctx (\<lambda>c. c\<lparr>lc_terminal := (case v of VStr x \<Rightarrow> VList [x] | _ \<Rightarrow> v)\<rparr>)"

section \<open>Getters\<close>

definition get_sym_lvl :: "(ctx, int) pm" where
  "get_sym_lvl = gets (\<lambda>(c, l). lc_sym_lvl c)"

definition get_debugger_logger :: "(ctx, string) pm" where
  "get_debugger_logger = gets (\<lambda>(c, l). lc_debugger_logger c)"

definition get_pipe_logger :: "(ctx, string) pm" where
  "get_pipe_logger = gets (\<lambda>(c, l). lc_pipe_logger c)"

definition get_general_logger :: "(ctx, string) pm" where
  "get_general_logger = gets (\<lambda>(c, l). lc_general_logger c)"

definition get_arch :: "(ctx, string) pm" where
  "get_arch = gets (\<lambda>(c, l). lc_arch c)"

definition get_terminal :: "(ctx, ctx_value) pm" where
  "get_terminal = gets (\<lambda>(c, l). lc_terminal c)"

section \<open>Updates\<close>

definition set_key :: "ctx_key \<Rightarrow> ctx_value \<Rightarrow> (ctx, unit) pm" where
  "set_key key v = (case key of
     Sym_lvl \<Rightarrow> set_sym_lvl v
   | Debugger_logger \<Rightarrow> set_debugger_logger v
   | Pipe_logger \<Rightarrow> set_pipe_logger v
   | General_logger \<Rightarrow> set_general_logger v
   | Arch \<Rightarrow> set_arch v
   | Terminal \<Rightarrow> set_terminal v
   | Unknown _ \<Rightarrow> ret ())"

definition ctx_update :: "(ctx_key \<times> ctx_value) list \<Rightarrow> (ctx, unit) pm" where
  "ctx_update kwargs = for_each (\<lambda>(key, v). set_key key v) kwargs"

text \<open>
  \<open>with libcontext.tmp(...): body\<close>. The update is before the \<open>try\<close>; the \<open>finally\<close> restores the
  settings and the levels of two of the three loggers.
\<close>

definition restore :: "lib_context \<Rightarrow> (ctx, unit) pm" where
  "restore old = bind (set_ctx (\<lambda>_. old)) (\<lambda>_. bind (set_level (\<lambda>l. l\<lparr>ll_debugger := lc_debugger_logger old\<rparr>)) (\<lambda>_.
     set_level (\<lambda>l. l\<lparr>ll_pipe := lc_pipe_logger old\<rparr>)))"

definition ctx_tmp :: "(ctx_key \<times> ctx_value) list \<Rightarrow> (ctx, 'a) pm \<Rightarrow> (ctx, 'a) pm" where
  "ctx_tmp kwargs body = bind (gets fst) (\<lambda>old. bind (ctx_update kwargs) (\<lambda>_.
     (\<lambda>s. case body s of (r, t) \<Rightarrow> (r, snd (restore old t)))))"

section \<open>The settings stay valid\<close>

definition ctx_valid :: "lib_context \<Rightarrow> bool" where
  "ctx_valid c \<longleftrightarrow> 0 \<le> lc_sym_lvl c \<and> lc_sym_lvl c \<le> 5 \<and> lc_debugger_logger c \<in> set component_levels \<and>
     lc_pipe_logger c \<in> set component_levels \<and> lc_general_logger c \<in> set general_levels \<and> lc_arch c = ''amd64''"

definition in_step :: "ctx \<Rightarrow> bool" where
  "in_step = (\<lambda>(c, l). ll_debugger l = lc_debugger_logger c \<and> ll_pipe l = lc_pipe_logger c \<and> ll_general l = lc_general_logger c)"

definition ctx_ok :: "ctx \<Rightarrow> bool" where
  "ctx_ok s \<longleftrightarrow> ctx_valid (fst s) \<and> in_step s"

lemmas setter_defs = set_sym_lvl_def set_debugger_logger_def set_pipe_logger_def set_general_logger_def set_arch_def set_terminal_def

lemma set_key_ok: "preserves ctx_ok (set_key key v)"
  by (cases key; cases v) (auto simp: preserves_def ctx_ok_def ctx_valid_def in_step_def set_key_def setter_defs set_ctx_def set_level_def py_simps)

lemma ctx_update_ok: "preserves ctx_ok (ctx_update kwargs)"
  unfolding ctx_update_def by (intro preserves_for_each) (simp add: set_key_ok split: prod.splits)

lemma context_init_ok: "ctx_ok (context_init argv)"
  by (simp add: context_init_def ctx_ok_def ctx_valid_def in_step_def Let_def context_defaults_def liblog_init_def set_debug_level_for_all_def
      component_levels_def general_levels_def)

definition ctx_after :: "(ctx_key \<times> ctx_value) list list \<Rightarrow> ctx \<Rightarrow> ctx" where
  "ctx_after updates s = fold (\<lambda>kwargs s. snd (ctx_update kwargs s)) updates s"


text \<open>\<open>with libcontext.tmp(...)\<close> is transparent: once its arguments are accepted, whatever the body does
  to the settings and whether or not it raises, every setting is afterwards what it was, and so are the
  levels of the debugger's and the pipe's loggers. The settings are in a valid state again unless the
  general logger's level was changed meanwhile, which nothing restores.\<close>

lemma tmp_restores:
  assumes "ctx_ok s" and "fst (ctx_update kwargs s) = Inr ()" and "ctx_tmp kwargs body s = (r, t)"
  shows "fst t = fst s \<and> ll_debugger (snd t) = ll_debugger (snd s) \<and> ll_pipe (snd t) = ll_pipe (snd s) \<and>
    r = fst (body (snd (ctx_update kwargs s))) \<and> (ll_general (snd t) = ll_general (snd s) \<longrightarrow> ctx_ok t)"
proof -
  obtain c l where s: "s = (c, l)" by (cases s)
  obtain u where u: "ctx_update kwargs s = (Inr (), u)" using assms(2) by (metis prod.collapse)
  obtain q c' l' where q: "body u = (q, (c', l'))" by (metis prod.exhaust)
  from assms(3) s u q have "r = q" "t = (c, l'\<lparr>ll_debugger := lc_debugger_logger c, ll_pipe := lc_pipe_logger c\<rparr>)"
    by (auto simp: ctx_tmp_def restore_def set_ctx_def set_level_def py_simps)
  then show ?thesis using assms(1) u q s by (simp add: ctx_ok_def in_step_def)
qed

lemma tmp_restores_witness:
  "fst (snd (ctx_tmp [(Sym_lvl, VInt 5), (Pipe_logger, VStr ''DEBUG'')] (raise ValueError :: (ctx, unit) pm) (context_defaults, liblog_init))) =
    context_defaults"
proof -
  let ?kw = "[(Sym_lvl, VInt 5), (Pipe_logger, VStr ''DEBUG'')]" and ?s = "(context_defaults, liblog_init)"
  have "ctx_ok ?s" using context_init_ok [of "[]"] by (simp add: context_init_def Let_def)
  moreover have "fst (ctx_update ?kw ?s) = Inr ()"
    by (simp add: ctx_update_def set_key_def setter_defs set_ctx_def set_level_def py_simps component_levels_def)
  moreover obtain r t where "ctx_tmp ?kw (raise ValueError :: (ctx, unit) pm) ?s = (r, t)" by (cases "ctx_tmp ?kw (raise ValueError :: (ctx, unit) pm) ?s") blast
  ultimately show ?thesis using tmp_restores [of ?s ?kw "raise ValueError :: (ctx, unit) pm" r t] by simp
qed

text \<open>The level of the general logger stays at what the arguments set, and when one of them is invalid, the
  ones before it stay set.\<close>

lemma tmp_leaves_general_level:
  assumes "ctx_ok (c, l)"
  shows "snd (ctx_tmp [(General_logger, VStr ''SILENT'')] (ret ()) (c, l)) = (c, l\<lparr>ll_general := ''SILENT''\<rparr>)"
    and "ctx_tmp [(Sym_lvl, VInt 5), (Arch, VStr ''arm'')] (ret ()) (c, l) = (Inl RuntimeError, (c\<lparr>lc_sym_lvl := 5\<rparr>, l))"
  using assms
  by (simp_all add: ctx_tmp_def ctx_update_def set_key_def setter_defs set_ctx_def set_level_def restore_def py_simps
      component_levels_def general_levels_def in_step_def ctx_ok_def)

end
