(* ===== verification/Instance_Manager.thy ===== *)
theory Instance_Manager
  imports Py_Prelude
begin

text \<open>
  Which debugger an object belongs to (\<open>libdebug/debugger/internal_debugger_instance_manager.py\<close> and
  \<open>internal_debugger_holder.py\<close>): a \<open>WeakKeyDictionary\<close> from objects to debuggers, and a global one
  while objects are created. An object is a reference; \<open>same k r\<close> says that \<open>k\<close> and \<open>r\<close> are equal to
  Python, which for the dataclasses means that all their fields are, not that they are one object.
\<close>

record 'd holder =
  ih_links :: "(nat \<times> 'd) list"
  ih_global :: "'d option"
  ih_locked :: bool

definition find_link :: "(nat \<Rightarrow> nat \<Rightarrow> bool) \<Rightarrow> nat \<Rightarrow> (nat \<times> 'd) list \<Rightarrow> 'd option" where
  "find_link same r links = map_option snd (List.find (\<lambda>(k, d). same k r) links)"

text \<open>Storing under a key that is there already changes the value and keeps the old key.\<close>

fun set_link :: "(nat \<Rightarrow> nat \<Rightarrow> bool) \<Rightarrow> nat \<Rightarrow> 'd \<Rightarrow> (nat \<times> 'd) list \<Rightarrow> (nat \<times> 'd) list" where
  "set_link same r d [] = [(r, d)]"
| "set_link same r d ((k, e) # links) = (if same k r then (k, d) # links else (k, e) # set_link same r d links)"

text \<open>When nothing refers to an object any more, the entry whose key it is goes.\<close>

definition collect_object :: "nat \<Rightarrow> ('d holder, unit) pm" where
  "collect_object r = upd (\<lambda>s. s\<lparr>ih_links := filter (\<lambda>(k, d). k \<noteq> r) (ih_links s)\<rparr>)"

definition get_global_internal_debugger :: "('d holder, 'd) pm" where
  "get_global_internal_debugger = bind (gets ih_global) (\<lambda>g. case g of None \<Rightarrow> raise RuntimeError | Some d \<Rightarrow> ret d)"

definition link_to_internal_debugger :: "(nat \<Rightarrow> nat \<Rightarrow> bool) \<Rightarrow> nat \<Rightarrow> 'd \<Rightarrow> ('d holder, unit) pm" where
  "link_to_internal_debugger same r d = upd (\<lambda>s. s\<lparr>ih_links := set_link same r d (ih_links s)\<rparr>)"

definition provide_internal_debugger :: "(nat \<Rightarrow> nat \<Rightarrow> bool) \<Rightarrow> nat \<Rightarrow> ('d holder, 'd) pm" where
  "provide_internal_debugger same r =
     bind (gets ih_links) (\<lambda>links. case find_link same r links of
         Some d \<Rightarrow> ret d
       | None \<Rightarrow> bind get_global_internal_debugger (\<lambda>d. bind (link_to_internal_debugger same r d) (\<lambda>_. ret d)))"

text \<open>
  \<open>with extend_internal_debugger(referrer): body\<close>. The lock is released in any case, the global
  debugger is reset only when the body does not raise. Taking the lock twice waits for ever.
\<close>

definition extend_internal_debugger :: "(nat \<Rightarrow> nat \<Rightarrow> bool) \<Rightarrow> nat \<Rightarrow> ('d holder, 'a) pm \<Rightarrow> ('d holder, 'a) pm" where
  "extend_internal_debugger same referrer body =
     bind (gets ih_locked) (\<lambda>locked. if locked then raise Diverges
     else bind (upd (\<lambda>s. s\<lparr>ih_locked := True\<rparr>)) (\<lambda>_. \<lambda>s.
       case (case find_link same referrer (ih_links s) of
               None \<Rightarrow> raise RuntimeError
             | Some d \<Rightarrow> bind (upd (\<lambda>s. s\<lparr>ih_global := Some d\<rparr>)) (\<lambda>_.
                 bind body (\<lambda>x. bind (upd (\<lambda>s. s\<lparr>ih_global := None\<rparr>)) (\<lambda>_. ret x)))) s of
         (r, t) \<Rightarrow> (r, t\<lparr>ih_locked := False\<rparr>)))"

section \<open>Lemmas\<close>

lemma find_set_link:
  assumes "\<And>x. same x x" and "\<And>x y z. same x y \<Longrightarrow> same x z \<Longrightarrow> same y z" and "\<And>x y. same x y \<Longrightarrow> same y x"
  shows "find_link same q (set_link same r d links) = (if same r q then Some d else find_link same q links)"
proof (induction links)
  case Nil
  then show ?case using assms(3) by (auto simp: find_link_def)
next
  case (Cons p links)
  obtain k e where p: "p = (k, e)" by fastforce
  show ?case
  proof (cases "same k r")
    case True
    then have "same k q \<longleftrightarrow> same r q" using assms(2,3) by blast
    with True show ?thesis using p by (simp add: find_link_def)
  next
    case False
    show ?thesis
    proof (cases "same k q")
      case True
      then have "\<not> same r q" using False assms(2,3) by blast
      with True False show ?thesis using p by (simp add: find_link_def)
    next
      case False
      with \<open>\<not> same k r\<close> Cons p show ?thesis by (simp add: find_link_def)
    qed
  qed
qed

section \<open>Properties\<close>

text \<open>An object belongs to the debugger it was linked to last, but only as long as no equal object was linked
  before it: the entry is then still under the older object, and when that one is garbage the newer
  one belongs to no debugger. Setting the same breakpoint twice and dropping the first is enough.\<close>

lemma equal_object_loses_link:
  assumes "find_link same a (ih_links s) = None" and "same a a" and "same a b" and "ih_global s = None" and "a \<noteq> b"
    and "link_to_internal_debugger same a d s = (Inr (), s1)" and "link_to_internal_debugger same b e s1 = (Inr (), s2)"
    and "collect_object a s2 = (Inr (), s3)" and "\<And>k. same k b \<Longrightarrow> same k a"
  shows "fst (provide_internal_debugger same b s2) = Inr e \<and> fst (provide_internal_debugger same b s3) = Inl RuntimeError"
proof -
  have absent: "find_link same a links = None \<Longrightarrow> set_link same a d links = links @ [(a, d)] \<and>
      set_link same b e (links @ [(a, d)]) = links @ [(a, e)] \<and> find_link same b (links @ [(a, e)]) = Some e \<and>
      find_link same b (filter (\<lambda>(k, d). k \<noteq> a) (links @ [(a, e)])) = None" for links
    using assms(3,9) by (induction links) (auto simp: find_link_def split: if_splits)
  have "ih_links s2 = ih_links s @ [(a, e)]" "ih_links s3 = filter (\<lambda>(k, d). k \<noteq> a) (ih_links s2)" "ih_global s3 = None"
    using assms(4,6-8) absent [OF assms(1)] by (auto simp: link_to_internal_debugger_def collect_object_def upd_def)
  then show ?thesis
    using absent [OF assms(1)]
    by (simp add: provide_internal_debugger_def get_global_internal_debugger_def py_simps)
qed

lemma equal_object_loses_link_witness:
  "\<exists>s2 s3. link_to_internal_debugger (\<lambda>k r. True) 2 ''d'' \<lparr>ih_links = [(1, ''d'')], ih_global = None, ih_locked = False\<rparr> = (Inr (), s2) \<and>
     collect_object 1 s2 = (Inr (), s3) \<and> fst (provide_internal_debugger (\<lambda>k r. True) 2 s3) = Inl RuntimeError"
proof -
  let ?s = "\<lparr>ih_links = [], ih_global = None, ih_locked = False\<rparr> :: string holder"
  let ?s1 = "?s\<lparr>ih_links := [(1, ''d'')]\<rparr>"
  have "find_link (\<lambda>k r. True) 1 (ih_links ?s) = None" by (simp add: find_link_def)
  moreover have "link_to_internal_debugger (\<lambda>k r. True) 1 ''d'' ?s = (Inr (), ?s1)"
    "link_to_internal_debugger (\<lambda>k r. True) 2 ''d'' ?s1 = (Inr (), ?s1)" "collect_object 1 ?s1 = (Inr (), ?s)"
    by (simp_all add: link_to_internal_debugger_def collect_object_def upd_def)
  ultimately show ?thesis
    using equal_object_loses_link [of "\<lambda>k r. True" 1 ?s 2 "''d''" ?s1 "''d''" ?s1 ?s] by simp
qed

end
