(* ===== verification/Logging.thy ===== *)
theory Logging
  imports Lib_Context Names_Printing
begin

text \<open>
  \<open>LibLog\<close> (\<open>libdebug/liblog.py\<close>): the three loggers and the methods that write a line to one of them.
  Their levels are those of \<open>Lib_Context\<close>, by name; a message is the text after Python's \<open>%\<close> has put
  its arguments in. The output of a method is the line its handler writes, if any.
\<close>

section \<open>Levels\<close>

text \<open>The numbers of the package \<open>logging\<close>, and the level that \<open>LibLog\<close> adds.\<close>

definition level_number :: "string \<Rightarrow> int" where
  "level_number name =
     (if name = ''DEBUG'' then 10 else if name = ''INFO'' then 20 else if name = ''WARNING'' then 30
      else if name = ''ERROR'' then 40 else if name = ''SILENT'' then 60 else 0)"

definition emit :: "string \<Rightarrow> string \<Rightarrow> string \<Rightarrow> string list" where
  "emit logger_level record_level line = (if level_number logger_level \<le> level_number record_level then [line] else [])"

definition log_header :: "string \<Rightarrow> string \<Rightarrow> string \<Rightarrow> string" where
  "log_header color name message = ''['' @ color @ name @ DEFAULT_COLOR @ ''] '' @ message"

section \<open>Methods\<close>

definition log_debugger :: "log_levels \<Rightarrow> string \<Rightarrow> string list" where
  "log_debugger l message = emit (ll_debugger l) ''DEBUG'' (log_header RED ''DEBUGGER'' message)"

definition log_pipe :: "log_levels \<Rightarrow> string \<Rightarrow> string list" where
  "log_pipe l message = emit (ll_pipe l) ''DEBUG'' (log_header BLUE ''PIPE'' message)"

definition log_info :: "log_levels \<Rightarrow> string \<Rightarrow> string list" where
  "log_info l message = emit (ll_general l) ''INFO'' (log_header GREEN ''INFO'' message)"

definition log_warning :: "log_levels \<Rightarrow> string \<Rightarrow> string list" where
  "log_warning l message = emit (ll_general l) ''WARNING'' (log_header BRIGHT_YELLOW ''WARNING'' message)"

definition log_error :: "log_levels \<Rightarrow> string \<Rightarrow> string list" where
  "log_error l message = emit (ll_general l) ''ERROR'' (log_header RED ''ERROR'' message)"

section \<open>What is shown\<close>

text \<open>
  In a context whose loggers follow its settings, the setting of a component decides whether its messages
  appear, and those of the general logger appear from their level on.
\<close>

lemma logging_follows_settings:
  assumes "ctx_ok (c, l)"
  shows "log_debugger l m \<noteq> [] \<longleftrightarrow> lc_debugger_logger c = ''DEBUG''"
    and "log_pipe l m \<noteq> [] \<longleftrightarrow> lc_pipe_logger c = ''DEBUG''"
    and "log_error l m \<noteq> [] \<longleftrightarrow> lc_general_logger c \<noteq> ''SILENT''"
    and "log_warning l m \<noteq> [] \<longleftrightarrow> lc_general_logger c \<noteq> ''SILENT''"
    and "log_info l m \<noteq> [] \<longleftrightarrow> lc_general_logger c \<in> {''DEBUG'', ''INFO''}"
  using assms
  by (auto simp: ctx_ok_def ctx_valid_def in_step_def component_levels_def general_levels_def log_debugger_def log_pipe_def
      log_error_def log_warning_def log_info_def emit_def level_number_def)

end
