(* ===== verification/Debuginfod.thy ===== *)
theory Debuginfod
  imports Memory_Maps
begin

text \<open>
  Debug files from the network (\<open>_download_debuginfod\<close> and \<open>_debuginfod\<close> of \<open>utils/elf_utils.py\<close>): a file
  for each build id below the user's cache directory, and the cache of \<open>functools\<close> in front. The answer of
  the server and the disk are parameters; \<open>Memory_Maps\<close> looks symbols up in the tables that result.
\<close>

text \<open>\<open>du_get\<close> is \<open>requests.get\<close>, whether the answer is ok and its content; \<open>du_mkdir\<close> whether the directory can
  be made; \<open>du_save\<close> what is in the file after opening and writing it, if it was made at all, and what that
  raised.\<close>

record debuginfod_os =
  du_home :: string
  du_get :: "string \<Rightarrow> (bool \<times> byte list) result"
  du_mkdir :: "string \<Rightarrow> unit result"
  du_save :: "string \<Rightarrow> byte list \<Rightarrow> byte list option \<times> unit result"

record debug_store =
  ds_files :: "(string, byte list) dict"
  ds_paths :: "(string, string) dict"
  ds_requests :: "string list"

definition debuginfod_url :: "string \<Rightarrow> string" where
  "debuginfod_url buildid = ''https://debuginfod.elfutils.org/buildid/'' @ buildid @ ''/debuginfo''"

definition http_get :: "debuginfod_os \<Rightarrow> string \<Rightarrow> (debug_store, bool \<times> byte list) pm" where
  "http_get D url = bind (upd (\<lambda>s. s\<lparr>ds_requests := ds_requests s @ [url]\<rparr>)) (\<lambda>_. lift (du_get D url))"

definition save_file :: "debuginfod_os \<Rightarrow> string \<Rightarrow> byte list \<Rightarrow> (debug_store, unit) pm" where
  "save_file D path content = (case du_save D path content of (left, r) \<Rightarrow>
     bind (case left of None \<Rightarrow> ret () | Some bs \<Rightarrow> upd (\<lambda>s. s\<lparr>ds_files := dict_set path bs (ds_files s)\<rparr>)) (\<lambda>_.
     lift r))"

definition download_debuginfod :: "debuginfod_os \<Rightarrow> string \<Rightarrow> string \<Rightarrow> (debug_store, unit) pm" where
  "download_debuginfod D buildid debuginfod_path =
     try_except
       (bind (http_get D (debuginfod_url buildid)) (\<lambda>(ok, content).
        py_when ok
          (bind (lift (du_mkdir D debuginfod_path)) (\<lambda>_. save_file D debuginfod_path content))))
       (\<lambda>e. e \<noteq> Diverges) (\<lambda>e. ret ())"

definition debuginfod_file :: "debuginfod_os \<Rightarrow> string \<Rightarrow> string" where
  "debuginfod_file D buildid = du_home D @ ''/.cache/debuginfod_client/'' @ buildid @ ''/debuginfo''"

text \<open>The function is cached: the second call with a build id returns at once.\<close>

definition debuginfod :: "debuginfod_os \<Rightarrow> string \<Rightarrow> (debug_store, string) pm" where
  "debuginfod D buildid =
     bind (gets id) (\<lambda>s. case dict_get (ds_paths s) buildid of
         Some path \<Rightarrow> ret path
       | None \<Rightarrow>
         let path = debuginfod_file D buildid in
         bind (py_when (\<not> in_dict path (ds_files s)) (download_debuginfod D buildid path)) (\<lambda>_.
         bind (upd (\<lambda>s. s\<lparr>ds_paths := dict_set buildid path (ds_paths s)\<rparr>)) (\<lambda>_. ret path)))"


section \<open>Looking a name or an address up\<close>

text \<open>\<open>look\<close> is the search through the tables of \<open>resolve_symbol\<close> or of \<open>resolve_address\<close>: the network is asked
  only when the tables of the file itself and of its local debug file do not have the answer.\<close>

definition local_tables :: "elf_env \<Rightarrow> string \<Rightarrow> symbols list" where
  "local_tables E path = symbol_tables (E\<lparr>ee_debuginfod := (\<lambda>b. None)\<rparr>) path"

definition look_online :: "elf_env \<Rightarrow> debuginfod_os \<Rightarrow> (symbols list \<Rightarrow> 'a result) \<Rightarrow> string \<Rightarrow> (debug_store, 'a) pm" where
  "look_online E D look path = (case look (local_tables E path) of
       Inr x \<Rightarrow> ret x
     | Inl e \<Rightarrow>
       (case parse_elf_file E path (ee_sym_lvl E) of (own, buildid, debug_file) \<Rightarrow>
        if truthy buildid \<and> 4 < ee_sym_lvl E then
          bind (debuginfod D (the buildid)) (\<lambda>absolute_debug_path.
          bind (gets ds_files) (\<lambda>files.
          if in_dict absolute_debug_path files then lift (look [collect_external_info E absolute_debug_path]) else raise e))
        else raise e))"

definition resolve_symbol_online :: "elf_env \<Rightarrow> debuginfod_os \<Rightarrow> string \<Rightarrow> string \<Rightarrow> (debug_store, int) pm" where
  "resolve_symbol_online E D path symbol =
     (if ee_sym_lvl E = 0 then raise GenericException else look_online E D (\<lambda>ts. lookup_symbol ts symbol) path)"

definition resolve_address_online :: "elf_env \<Rightarrow> debuginfod_os \<Rightarrow> string \<Rightarrow> int \<Rightarrow> (debug_store, string) pm" where
  "resolve_address_online E D path address =
     (if ee_sym_lvl E = 0 then ret (py_hex address) else look_online E D (\<lambda>ts. lookup_address ts address) path)"

section \<open>What the cache keeps\<close>

definition paths_ok :: "debuginfod_os \<Rightarrow> debug_store \<Rightarrow> bool" where
  "paths_ok D s \<longleftrightarrow> (\<forall>b p. dict_get (ds_paths s) b = Some p \<longrightarrow> p = debuginfod_file D b)"

definition net_ends :: "debuginfod_os \<Rightarrow> bool" where
  "net_ends D \<longleftrightarrow> (\<forall>url. du_get D url \<noteq> Inl Diverges) \<and> (\<forall>p. du_mkdir D p \<noteq> Inl Diverges) \<and>
     (\<forall>p content. snd (du_save D p content) \<noteq> Inl Diverges)"

text \<open>Downloading never raises, asks the server once and touches only the file of the build id.\<close>

lemma download_runs:
  assumes "net_ends D"
  shows "\<exists>files. download_debuginfod D b p s = (Inr (), s\<lparr>ds_files := files, ds_requests := ds_requests s @ [debuginfod_url b]\<rparr>) \<and>
    (\<forall>q. q \<noteq> p \<longrightarrow> dict_get files q = dict_get (ds_files s) q)"
proof (cases "du_get D (debuginfod_url b)")
  case (Inl e)
  then have "e \<noteq> Diverges" using assms unfolding net_ends_def by metis
  with Inl show ?thesis
    by (intro exI [of _ "ds_files s"]) (simp add: download_debuginfod_def http_get_def py_simps)
next
  case (Inr a)
  obtain ok content where a: "a = (ok, content)" by fastforce
  obtain left r where save: "du_save D p content = (left, r)" by fastforce
  have ends: "r \<noteq> Inl Diverges" "du_mkdir D p \<noteq> Inl Diverges" using assms save unfolding net_ends_def by (metis snd_conv)+
  define files where "files = (if ok \<and> du_mkdir D p = Inr () then (case left of None \<Rightarrow> ds_files s | Some bs \<Rightarrow> dict_set p bs (ds_files s)) else ds_files s)"
  have "download_debuginfod D b p s = (Inr (), s\<lparr>ds_files := files, ds_requests := ds_requests s @ [debuginfod_url b]\<rparr>)"
    using Inr a save ends
    by (cases "du_mkdir D p"; cases r; cases left)
      (auto simp: download_debuginfod_def http_get_def save_file_def files_def py_simps split: sum.splits)
  moreover have "\<forall>q. q \<noteq> p \<longrightarrow> dict_get files q = dict_get (ds_files s) q"
    by (simp add: files_def update_conv' split: option.split)
  ultimately show ?thesis by blast
qed

text \<open>The path is always the one below the cache directory; the second call asks nobody.\<close>

lemma debuginfod_runs:
  assumes "net_ends D" and "paths_ok D s"
  shows "\<exists>t. debuginfod D b s = (Inr (debuginfod_file D b), t) \<and> paths_ok D t \<and> debuginfod D b t = (Inr (debuginfod_file D b), t) \<and>
    (t = s \<or> ds_requests t = ds_requests s \<or> ds_requests t = ds_requests s @ [debuginfod_url b])"
proof (cases "dict_get (ds_paths s) b")
  case (Some p)
  then have "debuginfod D b s = (Inr p, s)" "p = debuginfod_file D b"
    using assms(2) by (simp_all add: debuginfod_def paths_ok_def py_simps)
  with assms(2) show ?thesis by (intro exI [of _ s]) simp
next
  case None
  let ?p = "debuginfod_file D b"
  obtain files where d: "download_debuginfod D b ?p s = (Inr (), s\<lparr>ds_files := files, ds_requests := ds_requests s @ [debuginfod_url b]\<rparr>)"
    using download_runs [OF assms(1)] by blast
  define u where "u = (if in_dict ?p (ds_files s) then s else s\<lparr>ds_files := files, ds_requests := ds_requests s @ [debuginfod_url b]\<rparr>)"
  define t where "t = u\<lparr>ds_paths := dict_set b ?p (ds_paths u)\<rparr>"
  have "debuginfod D b s = (Inr ?p, t)"
    using None d by (simp add: debuginfod_def t_def u_def Let_def py_simps)
  moreover have "paths_ok D t" using assms(2) by (simp add: paths_ok_def t_def u_def update_conv')
  moreover have "debuginfod D b t = (Inr ?p, t)" by (simp add: debuginfod_def t_def update_conv' py_simps)
  ultimately show ?thesis by (intro exI [of _ t]) (simp add: t_def u_def)
qed

section \<open>The lookup agrees with the tables\<close>

lemma lookup_append:
  "lookup_symbol (xs @ ys) n = (case lookup_symbol xs n of Inr a \<Rightarrow> Inr a | Inl e \<Rightarrow> lookup_symbol ys n)"
  "lookup_address (xs @ ys) a = (case lookup_address xs a of Inr x \<Rightarrow> Inr x | Inl e \<Rightarrow> lookup_address ys a)"
  by (induction xs) (auto split: option.split)

lemma lookup_error: "lookup_symbol ts n = Inl e \<Longrightarrow> e = ValueError" "lookup_address ts a = Inl e \<Longrightarrow> e = ValueError"
  by (induction ts) (auto split: option.splits prod.splits)

text \<open>The tables when debuginfod's files are those of a store.\<close>

definition with_store :: "debuginfod_os \<Rightarrow> debug_store \<Rightarrow> elf_env \<Rightarrow> elf_env" where
  "with_store D s E = E\<lparr>ee_debuginfod := (\<lambda>b. if in_dict (debuginfod_file D b) (ds_files s) then Some (debuginfod_file D b) else None)\<rparr>"

lemma tables_with_store:
  "symbol_tables (with_store D t E) path = local_tables E path @
     (case parse_elf_file E path (ee_sym_lvl E) of (own, buildid, debug_file) \<Rightarrow>
        if truthy buildid \<and> 4 < ee_sym_lvl E \<and> in_dict (debuginfod_file D (the buildid)) (ds_files t)
        then [collect_external_info E (debuginfod_file D (the buildid))] else [])"
  by (simp add: symbol_tables_def local_tables_def with_store_def parse_elf_file_def collect_external_info_def split: prod.split)

lemma look_online_agrees:
  assumes "net_ends D" and "paths_ok D s"
    and app: "\<And>xs ys. look (xs @ ys) = (case look xs of Inr a \<Rightarrow> Inr a | Inl e \<Rightarrow> look ys)"
    and err: "\<And>ts e. look ts = Inl e \<Longrightarrow> e = ValueError" and none: "look [] = Inl ValueError"
  shows "\<exists>t. look_online E D look path s = (look (symbol_tables (with_store D t E) path), t) \<and> paths_ok D t"
proof (cases "look (local_tables E path)")
  case (Inr x)
  then show ?thesis using assms(2) by (intro exI [of _ s]) (simp add: look_online_def tables_with_store app ret_def)
next
  case (Inl e)
  obtain own buildid debug_file where parse: "parse_elf_file E path (ee_sym_lvl E) = (own, buildid, debug_file)" by (metis prod.exhaust)
  have e: "e = ValueError" by (rule err [OF Inl])
  obtain t where t: "debuginfod D (the buildid) s = (Inr (debuginfod_file D (the buildid)), t)" "paths_ok D t"
    using debuginfod_runs [OF assms(1,2)] by blast
  show ?thesis
  proof (cases "truthy buildid \<and> 4 < ee_sym_lvl E")
    case True
    then show ?thesis using Inl t parse none e
      by (intro exI [of _ t]) (simp add: look_online_def tables_with_store app py_simps)
  next
    case False
    then show ?thesis using Inl assms(2) parse none e
      by (intro exI [of _ s]) (auto simp add: look_online_def tables_with_store app py_simps)
  qed
qed

text \<open>So the resolvers that ask the network when they have to answer what \<open>elf_resolve_symbol\<close> and
  \<open>elf_resolve_address\<close> answer from the files that are there afterwards.\<close>

lemma resolvers_online:
  assumes "net_ends D" and "paths_ok D s"
  shows "\<exists>t. resolve_symbol_online E D path symbol s = (elf_resolve_symbol (with_store D t E) path symbol, t)"
    and "\<exists>t. resolve_address_online E D path address s = (elf_resolve_address (with_store D t E) path address, t)"
proof -
  have level: "ee_sym_lvl (with_store D t E) = ee_sym_lvl E" for t by (simp add: with_store_def)
  obtain t where "look_online E D (\<lambda>ts. lookup_symbol ts symbol) path s = (lookup_symbol (symbol_tables (with_store D t E) path) symbol, t)"
    using look_online_agrees [OF assms, of "\<lambda>ts. lookup_symbol ts symbol"] lookup_append(1) lookup_error(1) by (metis lookup_symbol.simps(1))
  then show "\<exists>t. resolve_symbol_online E D path symbol s = (elf_resolve_symbol (with_store D t E) path symbol, t)"
    by (auto simp: resolve_symbol_online_def elf_resolve_symbol_def level raise_def)
  obtain t where "look_online E D (\<lambda>ts. lookup_address ts address) path s = (lookup_address (symbol_tables (with_store D t E) path) address, t)"
    using look_online_agrees [OF assms, of "\<lambda>ts. lookup_address ts address"] lookup_append(2) lookup_error(2) by (metis lookup_address.simps(1))
  then show "\<exists>t. resolve_address_online E D path address s = (elf_resolve_address (with_store D t E) path address, t)"
    by (auto simp: resolve_address_online_def elf_resolve_address_def level ret_def)
qed

text \<open>A download that breaks off while the file is written leaves a part of it, which is taken for the whole
  from then on, in later sessions too.\<close>

lemma broken_download_kept:
  assumes "du_get D (debuginfod_url b) = Inr (True, content)" and "du_mkdir D (debuginfod_file D b) = Inr ()"
    and "du_save D (debuginfod_file D b) content = (Some part, Inl (OSError n))"
    and "\<not> in_dict (debuginfod_file D b) (ds_files s)" and "du_home E = du_home D" and "dict_get (ds_paths s) b = None"
  shows "\<exists>t. debuginfod D b s = (Inr (debuginfod_file D b), t) \<and> dict_get (ds_files t) (debuginfod_file D b) = Some part \<and>
    fst (debuginfod E b (t\<lparr>ds_paths := []\<rparr>)) = Inr (debuginfod_file E b)"
  using assms
  by (simp add: debuginfod_def download_debuginfod_def http_get_def save_file_def debuginfod_file_def in_dict_def update_conv' Let_def py_simps)

end
