(* ===== verification/Step_Properties.thy ===== *)
theory Step_Properties
  imports Status_Properties Ptrace_Interface
begin

text \<open>
  What single-stepping reaches (\<open>step_until\<close> of \<open>PtraceInterface\<close> and of \<open>ptrace_cffi_source.c\<close>), which
  signals \<open>forward_signal\<close> hands to the C threads, and what the anti-debugging handlers make of a
  \<open>ptrace\<close> call of the program.
\<close>

section \<open>Stepping until an address\<close>

text \<open>
  \<open>one\<close> is the processor: a step of the thread from a state of the system to its registers and the next
  state. The laws say that a step request succeeds and that waiting and reading the registers show it.
\<close>

definition step_laws :: "'k os \<Rightarrow> int \<Rightarrow> ('k \<Rightarrow> regfile \<times> 'k) \<Rightarrow> ('k \<Rightarrow> bool) \<Rightarrow> bool" where
  "step_laws OS tid one good \<longleftrightarrow> (\<forall>k. good k \<longrightarrow> good (snd (one k)) \<and>
     (\<exists>err k1 w k2. sys_singlestep OS tid 0 k = ((0, err), k1) \<and> sys_waitpid OS tid False k1 = (w, k2) \<and>
        sys_getregs OS tid k2 = (Some (fst (one k)), snd (one k))))"

definition after_steps :: "('k \<Rightarrow> regfile \<times> 'k) \<Rightarrow> nat \<Rightarrow> regfile \<times> 'k \<Rightarrow> regfile \<times> 'k" where
  "after_steps one n x = ((\<lambda>(r, k). one k) ^^ n) x"

definition ip_after :: "('k \<Rightarrow> regfile \<times> 'k) \<Rightarrow> regfile \<times> 'k \<Rightarrow> nat \<Rightarrow> int" where
  "ip_after one x n = instruction_pointer (fst (after_steps one n x))"

text \<open>The steps that count: a step that stays at its instruction (a repeated string instruction) does not.\<close>

definition moves :: "('k \<Rightarrow> regfile \<times> 'k) \<Rightarrow> regfile \<times> 'k \<Rightarrow> nat \<Rightarrow> int" where
  "moves one x n = int (length (filter (\<lambda>i. ip_after one x (Suc i) \<noteq> ip_after one x i) [0..<n]))"

definition stops_after :: "('k \<Rightarrow> regfile \<times> 'k) \<Rightarrow> regfile \<times> 'k \<Rightarrow> int \<Rightarrow> int \<Rightarrow> nat \<Rightarrow> bool" where
  "stops_after one x addr max_steps n \<longleftrightarrow>
     (0 < n \<and> ip_after one x n = addr) \<or> (max_steps \<noteq> - 1 \<and> max_steps \<le> moves one x n)"

lemma after_steps_simps: "after_steps one 0 x = x" "after_steps one (Suc n) x = one (snd (after_steps one n x))"
  by (simp_all add: after_steps_def split: prod.split)

lemma moves_simps: "moves one x 0 = 0"
  "moves one x (Suc n) = moves one x n + (if ip_after one x (Suc n) = ip_after one x n then 0 else 1)"
  by (simp_all add: moves_def)

lemma good_after: "step_laws OS tid one good \<Longrightarrow> good (snd x) \<Longrightarrow> good (snd (after_steps one n x))"
  by (induction n) (auto simp: after_steps_simps step_laws_def)

lemma node_regs_twice [simp]: "node_regs p r' (node_regs p r g) = node_regs p r' g"
  by (simp add: node_regs_def set_node_def)

lemma node_regs_get [simp]: "ct_regs (gs_nodes (node_regs p r g) p) = r" "node_tid (node_regs p r g) q = node_tid g q"
  by (simp_all add: node_regs_def set_node_def node_tid_def)

lemma step_loop_runs:
  assumes laws: "step_laws OS tid one good" and good: "good (snd x)" and tid: "node_tid g p = tid"
    and stop: "stops_after one x addr max_steps n" and first: "\<forall>i < n. \<not> stops_after one x addr max_steps i"
  defines "st \<equiv> \<lambda>i. (node_regs p (fst (after_steps one i x)) g, snd (after_steps one i x))"
  shows "i \<le> n \<Longrightarrow> n - i < fuel \<Longrightarrow> i = 0 \<or> \<not> stops_after one x addr (- 1) i \<Longrightarrow>
    step_loop fuel OS tid p addr max_steps (moves one x i) (st i) = (Inr 0, st n)"
proof (induction fuel arbitrary: i)
  case (Suc fuel)
  show ?case
  proof (cases "i = n")
    case True
    with stop Suc.prems(3) have "\<not> (max_steps = - 1 \<or> moves one x i < max_steps)"
      by (auto simp: stops_after_def)
    with True show ?thesis by (simp add: ret_def)
  next
    case False
    with Suc.prems have i: "i < n" by simp
    then have goes: "max_steps = - 1 \<or> moves one x i < max_steps" using first by (auto simp: stops_after_def)
    obtain err k1 w k2 where k: "sys_singlestep OS tid 0 (snd (after_steps one i x)) = ((0, err), k1)"
      "sys_waitpid OS tid False k1 = (w, k2)"
      "sys_getregs OS tid k2 = (Some (fst (after_steps one (Suc i) x)), snd (after_steps one (Suc i) x))"
      using laws good_after [OF laws good, of i] unfolding step_laws_def after_steps_simps by blast
    have ips: "instruction_pointer (fst (after_steps one j x)) = ip_after one x j" for j by (simp add: ip_after_def)
    have step: "step_loop (Suc fuel) OS tid p addr max_steps (moves one x i) (st i) =
        (if ip_after one x (Suc i) = addr then (Inr 0, st (Suc i))
         else step_loop fuel OS tid p addr max_steps (moves one x (Suc i)) (st (Suc i)))"
      using k goes tid by (simp add: st_def sys_def gs_get_def gs_upd_def getregs_def ips moves_simps py_simps)
    show ?thesis
    proof (cases "ip_after one x (Suc i) = addr")
      case True
      then have "stops_after one x addr max_steps (Suc i)" by (simp add: stops_after_def)
      with first i have "Suc i = n" using Suc_leI le_neq_implies_less by metis
      with step True show ?thesis by simp
    next
      case False
      then have "\<not> stops_after one x addr (- 1) (Suc i)" by (simp add: stops_after_def)
      with step False Suc.IH [of "Suc i"] Suc.prems i show ?thesis by simp
    qed
  qed
qed simp

lemma disable_for_step_run: "\<exists>h. disable_for_step s = (Inr (), s\<lparr>d_bp_heap := h\<rparr>)"
proof -
  have "\<exists>h. for_each (\<lambda>b. upd_bp b (\<lambda>bp. bp\<lparr>bp_disabled_for_step := True\<rparr>)) bs s = (Inr (), s\<lparr>d_bp_heap := h\<rparr>)"
    for bs and s :: "'a dbg"
  proof (induction bs arbitrary: s)
    case Nil
    have "s = s\<lparr>d_bp_heap := d_bp_heap s\<rparr>" by simp
    then show ?case by (metis for_each.simps(1) ret_def)
  next
    case (Cons b bs)
    let ?h = "(d_bp_heap s)(b := (d_bp_heap s b)\<lparr>bp_disabled_for_step := True\<rparr>)"
    from Cons [of "s\<lparr>d_bp_heap := ?h\<rparr>"] show ?case by (auto simp: bind_def upd_bp_def upd_def)
  qed
  then show ?thesis by (simp add: disable_for_step_def bind_def gets_def)
qed

text \<open>C13: \<open>step_until\<close> stops at the right instruction: where the processor first stands at the address after
  at least one step, or after exactly the number of moving steps that was allowed, whichever comes first,
  and the thread's registers are then those of that instruction. It returns when enough fuel is there.\<close>

theorem step_until_stops:
  fixes one :: "'k \<Rightarrow> regfile \<times> 'k"
  assumes "step_laws (e_os E) (tc_thread_id (d_thread_heap s t)) one good"
    and "fits_u64 addr" and "- (2 ^ 31) \<le> max_steps" and "max_steps < 2 ^ 31"
    and "filter (\<lambda>p. node_tid (d_gs s) p = tc_thread_id (d_thread_heap s t)) (gs_t_HEAD (d_gs s)) = [p]"
    and "flush_regs (e_os E) (d_gs s, d_kernel s) = (Inr (), (d_gs s, k0))" and "good k0"
    and "stops_after one (ct_regs (gs_nodes (d_gs s) p), k0) addr max_steps n"
    and "\<forall>i < n. \<not> stops_after one (ct_regs (gs_nodes (d_gs s) p), k0) addr max_steps i" and "n < e_fuel E"
  shows "\<exists>u. iface_step_until E t addr max_steps s = (Inr (), u) \<and>
    (ct_regs (gs_nodes (d_gs u) p), d_kernel u) = after_steps one n (ct_regs (gs_nodes (d_gs s) p), k0) \<and>
    (\<forall>q. q \<noteq> p \<longrightarrow> gs_nodes (d_gs u) q = gs_nodes (d_gs s) q)"
proof -
  let ?x = "(ct_regs (gs_nodes (d_gs s) p), k0)" and ?tid = "tc_thread_id (d_thread_heap s t)"
  have "p \<in> set (filter (\<lambda>p. node_tid (d_gs s) p = ?tid) (gs_t_HEAD (d_gs s)))" unfolding assms(5) by simp
  then have tid: "node_tid (d_gs s) p = ?tid" by simp
  have "step_loop (e_fuel E) (e_os E) ?tid p addr max_steps 0 (d_gs s, k0) =
      (Inr 0, (node_regs p (fst (after_steps one n ?x)) (d_gs s), snd (after_steps one n ?x)))"
    using step_loop_runs [OF assms(1) _ tid assms(8,9), of 0 "e_fuel E"] assms(7,10) by (simp add: after_steps_simps moves_simps)
  then have loop: "step_until_c (e_fuel E) (e_os E) ?tid addr max_steps (d_gs s, d_kernel s) =
      (Inr 0, (node_regs p (fst (after_steps one n ?x)) (d_gs s), snd (after_steps one n ?x)))"
    using assms(5,6) by (simp add: step_until_c_def gs_get_def py_simps)
  obtain h where h: "disable_for_step s = (Inr (), s\<lparr>d_bp_heap := h\<rparr>)" using disable_for_step_run by blast
  define u where "u = s\<lparr>d_bp_heap := h, d_gs := node_regs p (fst (after_steps one n ?x)) (d_gs s),
    d_kernel := snd (after_steps one n ?x), d_maps_cache := [], d_fds_cache := []\<rparr>"
  have "iface_step_until E t addr max_steps s = (Inr (), u)"
    using assms(2-4) loop h
    by (simp add: iface_step_until_def get_thread_def c_u64_def c_int_def in_c_def invalidate_process_cache_def u_def py_simps)
  moreover have "gs_nodes (d_gs u) q = gs_nodes (d_gs s) q" if "q \<noteq> p" for q
    using that by (simp add: u_def node_regs_def set_node_def)
  ultimately show ?thesis by (intro exI [of _ u]) (simp add: u_def)
qed

text \<open>A processor whose instructions are two bytes long.\<close>

definition walk :: "flat \<Rightarrow> flat" where
  "walk k = k\<lparr>fl_user := (fl_user k)(1 := (fl_user k 1)(3 := fl_user k 1 3 + 2))\<rparr>"

definition walking_env :: "flat denv" where
  "walking_env = sample_env\<lparr>e_os := flat_os\<lparr>sys_singlestep := (\<lambda>t s k. ((0, 0), walk k))\<rparr>\<rparr>"

definition walk_one :: "flat \<Rightarrow> regfile \<times> flat" where
  "walk_one k = (fl_user (walk k) 1 \<circ> int \<circ> length, walk k)"

theorem step_until_stops_witness:
  "\<exists>u. iface_step_until walking_env 0 6 (- 1) sample_dbg = (Inr (), u) \<and> ct_regs (gs_nodes (d_gs u) 0) ''rip'' = 6"
proof -
  let ?x = "(ct_regs (gs_nodes (d_gs sample_dbg) 0), flat_page)"
  have tid: "tc_thread_id (d_thread_heap sample_dbg 0) = 1" by (simp add: sample_dbg_def ThreadContext_def)
  have laws: "step_laws (e_os walking_env) 1 walk_one (\<lambda>k. True)"
    by (simp add: step_laws_def walking_env_def walk_one_def flat_os_def flat_kernel_def kernel.extend_def)
  have nodes: "filter (\<lambda>p. node_tid (d_gs sample_dbg) p = 1) (gs_t_HEAD (d_gs sample_dbg)) = [0]"
    by (simp add: sample_dbg_def fresh_gs_def node_tid_def)
  have flush: "flush_regs (e_os walking_env) (d_gs sample_dbg, d_kernel sample_dbg) = (Inr (), (d_gs sample_dbg, flat_page))"
    by (simp add: flush_regs_def setregs_def sys_def gs_get_def walking_env_def flat_os_def flat_kernel_def kernel.extend_def
        sample_dbg_def fresh_gs_def py_simps)
  have ips: "ip_after walk_one ?x 0 = 0x1003" "ip_after walk_one ?x 1 = 2" "ip_after walk_one ?x 2 = 4" "ip_after walk_one ?x 3 = 6"
    by (simp_all add: ip_after_def after_steps_def walk_one_def walk_def flat_page_def instruction_pointer_def sample_dbg_def
        fresh_gs_def numeral_2_eq_2 numeral_3_eq_3)
  have stop: "stops_after walk_one ?x 6 (- 1) 3" using ips by (simp add: stops_after_def)
  have "\<not> stops_after walk_one ?x 6 (- 1) i" if "i < 3" for i
  proof -
    from that consider "i = 0" | "i = 1" | "i = 2" by linarith
    then show ?thesis using ips by cases (simp_all add: stops_after_def)
  qed
  then obtain u where u: "iface_step_until walking_env 0 6 (- 1) sample_dbg = (Inr (), u)"
    "(ct_regs (gs_nodes (d_gs u) 0), d_kernel u) = after_steps walk_one 3 ?x"
    using step_until_stops [of walking_env sample_dbg 0 walk_one "\<lambda>k. True" 6 "- 1" 0 flat_page 3] laws nodes flush stop tid
    by (auto simp: fits_u64_def walking_env_def)
  have "ct_regs (gs_nodes (d_gs u) 0) ''rip'' = fst (after_steps walk_one 3 ?x) ''rip''" using u(2) by (metis fst_conv)
  with u(1) ips(4) show ?thesis by (simp add: ip_after_def instruction_pointer_def)
qed

section \<open>Forwarding signals\<close>

text \<open>The signal that the C thread \<open>p\<close> is to get: that of its live context, when the thread is in the list of
  those with signals to forward and the signal is neither 0 nor blocked.\<close>

definition pending :: "'k dbg \<Rightarrow> int list \<Rightarrow> nat \<Rightarrow> int option" where
  "pending s threads p = (if node_tid (d_gs s) p \<in> set threads then
     (case thread_of s (node_tid (d_gs s) p) of None \<Rightarrow> None
      | Some t \<Rightarrow> let sig = tc_signal_number (d_thread_heap s t) in
          if sig \<noteq> 0 \<and> sig \<notin> set (d_signals_to_block s) then Some sig else None) else None)"

definition handed_node :: "'k dbg \<Rightarrow> int list \<Rightarrow> nat list \<Rightarrow> nat \<Rightarrow> c_thread" where
  "handed_node s threads ps q = (case (if q \<in> set ps then pending s threads q else None) of
     None \<Rightarrow> gs_nodes (d_gs s) q | Some sig \<Rightarrow> (gs_nodes (d_gs s) q)\<lparr>ct_signal_to_forward := sig\<rparr>)"

definition handed_thread :: "'k dbg \<Rightarrow> int list \<Rightarrow> nat list \<Rightarrow> nat \<Rightarrow> thread_context" where
  "handed_thread s threads ps t =
     (if \<exists>p \<in> set ps. thread_of s (node_tid (d_gs s) p) = Some t \<and> pending s threads p \<noteq> None
      then (d_thread_heap s t)\<lparr>tc_signal_number := 0\<rparr> else d_thread_heap s t)"

lemma thread_of_id: "thread_of s tid = Some t \<Longrightarrow> tc_thread_id (d_thread_heap s t) = tid"
  unfolding thread_of_def by (drule find_SomeD) simp

lemma forward_loop_runs:
  "distinct ps \<Longrightarrow> inj_on (node_tid (d_gs s)) (set ps) \<Longrightarrow>
   \<forall>p \<in> set ps. node_tid (d_gs s) p \<in> set threads \<longrightarrow> thread_of s (node_tid (d_gs s) p) \<noteq> None \<Longrightarrow>
   forward_loop threads ps s =
     (Inr (), s\<lparr>d_gs := (d_gs s)\<lparr>gs_nodes := handed_node s threads ps\<rparr>, d_thread_heap := handed_thread s threads ps\<rparr>)"
proof (induction ps arbitrary: s)
  case Nil
  have "handed_node s threads [] = gs_nodes (d_gs s)" "handed_thread s threads [] = d_thread_heap s"
    by (simp_all add: handed_node_def handed_thread_def fun_eq_iff)
  then show ?case by (simp add: ret_def)
next
  case (Cons p ps)
  let ?tid = "node_tid (d_gs s) p"
  have rest: "distinct ps" "inj_on (node_tid (d_gs s)) (set ps)" "p \<notin> set ps" using Cons.prems by auto
  have other: "node_tid (d_gs s) q \<noteq> ?tid" if "q \<in> set ps" for q using Cons.prems(1,2) that by (auto simp: inj_on_def)
  show ?case
  proof (cases "pending s threads p")
    case None
    then have "handed_node s threads (p # ps) = handed_node s threads ps" "handed_thread s threads (p # ps) = handed_thread s threads ps"
      by (auto simp: handed_node_def handed_thread_def fun_eq_iff)
    moreover have "forward_loop threads (p # ps) s = forward_loop threads ps s"
      using None Cons.prems(3) by (auto simp: get_thread_by_id_eq get_thread_def pending_def Let_def py_simps split: if_splits option.splits)
    ultimately show ?thesis using Cons.IH [of s] rest Cons.prems(3) by simp
  next
    case (Some sig)
    then obtain t where t: "?tid \<in> set threads" "thread_of s ?tid = Some t" "tc_signal_number (d_thread_heap s t) = sig"
      "sig \<noteq> 0" "sig \<notin> set (d_signals_to_block s)"
      by (auto simp: pending_def Let_def split: if_splits option.splits)
    define u where "u = s\<lparr>d_gs := node_signal p sig (d_gs s),
      d_thread_heap := (d_thread_heap s)(t := (d_thread_heap s t)\<lparr>tc_signal_number := 0\<rparr>)\<rparr>"
    have run: "forward_loop threads (p # ps) s = forward_loop threads ps u"
      using t by (simp add: get_thread_by_id_eq get_thread_def upd_thread_def u_def py_simps)
    have same: "node_tid (d_gs u) = node_tid (d_gs s)" "thread_of u = thread_of s" "d_signals_to_block u = d_signals_to_block s"
      by (auto simp: u_def node_tid_def node_signal_def set_node_def thread_of_def fun_eq_iff intro!: arg_cong2 [where f = List.find])
    have heap: "x \<noteq> t \<Longrightarrow> d_thread_heap u x = d_thread_heap s x" for x by (simp add: u_def)
    have at_t: "d_thread_heap u t = (d_thread_heap s t)\<lparr>tc_signal_number := 0\<rparr>" by (simp add: u_def)
    have apart: "thread_of s (node_tid (d_gs s) q) \<noteq> Some t" if "q \<in> set ps" for q
      using other [OF that] t(2) thread_of_id by metis
    have pend: "pending u threads q = pending s threads q" if "q \<in> set ps" for q
      using apart [OF that] heap by (auto simp: pending_def same Let_def split: option.splits)
    have node: "gs_nodes (d_gs u) q = (if q = p then (gs_nodes (d_gs s) p)\<lparr>ct_signal_to_forward := sig\<rparr> else gs_nodes (d_gs s) q)" for q
      by (simp add: u_def node_signal_def set_node_def)
    have "handed_node u threads ps = handed_node s threads (p # ps)"
      using Some rest(3) by (auto simp: handed_node_def fun_eq_iff pend node split: option.splits)
    moreover have "handed_thread u threads ps x = handed_thread s threads (p # ps) x" for x
      using Some t(2) pend apart by (cases "x = t") (auto simp: handed_thread_def same heap at_t)
    then have "handed_thread u threads ps = handed_thread s threads (p # ps)" by (rule ext)
    ultimately show ?thesis
      using Cons.IH [of u] rest Cons.prems(3) run by (simp add: same) (simp add: u_def node_signal_def set_node_def)
  qed
qed

text \<open>C14: Signals are forwarded exactly once: before the process continues, each C thread in the list of those with
  a signal gets the signal of its context, unless it is 0 or blocked, and the context's is then 0; no other
  thread gets one, and the list is empty, so forwarding again changes nothing.\<close>

theorem signals_forwarded_once:
  fixes s :: "'k dbg"
  defines "threads \<equiv> rc_threads_with_signals_to_forward (d_resume_context s)" and "ps \<equiv> gs_t_HEAD (d_gs s)"
  assumes "distinct ps" and "inj_on (node_tid (d_gs s)) (set ps)"
    and "\<forall>p \<in> set ps. node_tid (d_gs s) p \<in> set threads \<longrightarrow> thread_of s (node_tid (d_gs s) p) \<noteq> None"
  shows "\<exists>u. forward_signal s = (Inr (), u) \<and> forward_signal u = (Inr (), u) \<and>
    (\<forall>p \<in> set ps. ct_signal_to_forward (gs_nodes (d_gs u) p) =
       (case pending s threads p of None \<Rightarrow> ct_signal_to_forward (gs_nodes (d_gs s) p) | Some sig \<Rightarrow> sig)) \<and>
    (\<forall>t. tc_signal_number (d_thread_heap u t) =
       (if \<exists>p \<in> set ps. thread_of s (node_tid (d_gs s) p) = Some t \<and> pending s threads p \<noteq> None then 0
        else tc_signal_number (d_thread_heap s t)))"
proof -
  define u where "u = s\<lparr>d_gs := (d_gs s)\<lparr>gs_nodes := handed_node s threads ps\<rparr>, d_thread_heap := handed_thread s threads ps,
    d_resume_context := (d_resume_context s)\<lparr>rc_threads_with_signals_to_forward := []\<rparr>\<rparr>"
  have "forward_signal s = (Inr (), u)"
    using forward_loop_runs [OF assms(3-5)]
    by (simp add: forward_signal_def upd_resume_def u_def threads_def ps_def py_simps)
  moreover have empty: "forward_loop [] qs w = (Inr (), w)" for qs and w :: "'k dbg"
    by (induction qs) (simp_all add: py_simps)
  have "forward_signal u = (Inr (), u)"
    by (simp add: forward_signal_def upd_resume_def py_simps empty) (simp add: u_def py_simps empty)
  ultimately show ?thesis
    by (intro exI [of _ u]) (auto simp: u_def handed_node_def handed_thread_def split: option.splits)
qed

definition signalled_dbg :: "flat dbg" where
  "signalled_dbg = sample_dbg\<lparr>d_thread_heap := (\<lambda>t. (d_thread_heap sample_dbg t)\<lparr>tc_signal_number := 10\<rparr>),
     d_resume_context := ResumeContext\<lparr>rc_threads_with_signals_to_forward := [1]\<rparr>\<rparr>"

theorem signals_forwarded_once_witness:
  "\<exists>u. forward_signal signalled_dbg = (Inr (), u) \<and> ct_signal_to_forward (gs_nodes (d_gs u) 0) = 10 \<and>
    tc_signal_number (d_thread_heap u 0) = 0 \<and> tc_signal_number (d_thread_heap u 1) = 10"
proof -
  have facts: "gs_t_HEAD (d_gs signalled_dbg) = [0]" "rc_threads_with_signals_to_forward (d_resume_context signalled_dbg) = [1]"
    "node_tid (d_gs signalled_dbg) 0 = 1" "thread_of signalled_dbg 1 = Some 0" "tc_signal_number (d_thread_heap signalled_dbg t) = 10"
    "d_signals_to_block signalled_dbg = []" for t
    by (simp_all add: signalled_dbg_def sample_dbg_def fresh_gs_def node_tid_def thread_of_def ThreadContext_def)
  then have "pending signalled_dbg [1] 0 = Some 10" by (simp add: pending_def)
  then show ?thesis using signals_forwarded_once [of signalled_dbg] facts by auto
qed

section \<open>Anti-debugging\<close>

definition escapes_ptrace :: "syscall_handler \<Rightarrow> bool" where
  "escapes_ptrace sh \<longleftrightarrow> sh_enabled sh \<and> sh_on_enter_user sh = Some OnEnterPtrace \<and> sh_on_exit_user sh = Some OnExitPtrace \<and>
     \<not> sh_on_enter_pprint sh \<and> \<not> sh_on_exit_pprint sh \<and> \<not> sh_has_entered sh \<and> \<not> sh_skip_exit sh"

lemma syscall_args_eq: "\<exists>xs. syscall_args t s = (Inr xs, s)"
  by (simp add: syscall_args_def thread_get_64 [OF thread_class_args(2) syscall_regs(2)] thread_get_64 [OF thread_class_args(3) syscall_regs(3)]
      thread_get_64 [OF thread_class_args(4) syscall_regs(4)] thread_get_64 [OF thread_class_args(5) syscall_regs(5)]
      thread_get_64 [OF thread_class_args(6) syscall_regs(6)] thread_get_64 [OF thread_class_args(7) syscall_regs(7)] py_simps)

text \<open>C33: A program that checks for a debugger by tracing itself is deceived: the first PTRACE_TRACEME call
  returns 0 whatever the kernel answered, a later one what the kernel answered, no other register changes,
  the process is not stopped, and the handler is ready for the next call.\<close>

theorem traceme_escaped:
  assumes "thread_of s thread_id = Some t" and "regs_of s t ''orig_rax'' = n" and "regs_of s t ''rdi'' = 0"
    and "dict_get (d_handled_syscalls s) n = Some h" and "escapes_ptrace (d_handler_heap s h)" and "0 < e_fuel E"
    and "answer ''orig_rax'' = n"
  shows "\<exists>s1 s2. handle_syscall_trap E thread_id s = (Inr (), s1) \<and>
    handle_syscall_trap E thread_id (s1\<lparr>d_gs := node_regs (tc_regs (d_thread_heap s t)) answer (d_gs s1)\<rparr>) = (Inr (), s2) \<and>
    regs_of s2 t = (if sh_traceme_called (d_handler_heap s h) then answer else answer(''rax'' := 0)) \<and>
    sh_traceme_called (d_handler_heap s2 h) \<and> escapes_ptrace (d_handler_heap s2 h) \<and> d_resume_context s2 = d_resume_context s"
proof -
  obtain fuel where fuel: "e_fuel E = Suc fuel" using assms(6) by (cases "e_fuel E") auto
  note sh = assms(5) [unfolded escapes_ptrace_def]
  define s1 where "s1 = s\<lparr>d_handler_heap := (d_handler_heap s)(h := (d_handler_heap s h)\<lparr>sh_command := Some 0, sh_has_entered := True\<rparr>)\<rparr>"
  have rdi: "thread_get t ''syscall_arg0'' s = (Inr 0, s)"
    using assms(3) thread_get_64 [OF thread_class_args(2) syscall_regs(2)] by metis
  have traceme: "0 \<in> set ptrace_commands" by (simp add: ptrace_commands_def)
  obtain xs where args: "syscall_args t s = (Inr xs, s)" using syscall_args_eq by blast
  have 1: "handle_syscall_trap E thread_id s = (Inr (), s1)"
    using assms(1,2,4) sh fuel args rdi traceme
    by (simp add: handle_syscall_trap_def get_thread_by_id_eq get_syscall_number manage_syscall_on_enter_def
        syscall_visit_def syscall_post_def no_user_callback_def get_handler_def mark_entered_def upd_handler_def on_enter_ptrace_def
        s1_def regs_of_def py_simps)
  define u where "u = s1\<lparr>d_gs := node_regs (tc_regs (d_thread_heap s t)) answer (d_gs s1)\<rparr>"
  have u: "thread_of u thread_id = Some t" "regs_of u t = answer" "dict_get (d_handled_syscalls u) n = Some h"
    "d_handler_heap u h = (d_handler_heap s h)\<lparr>sh_command := Some 0, sh_has_entered := True\<rparr>"
    "d_resume_context u = d_resume_context s"
    using assms(1,4) by (simp_all add: u_def s1_def thread_of_def regs_of_def node_regs_def set_node_def)
  have number: "thread_get t ''syscall_number'' u = (Inr n, u)" using get_syscall_number [of t u] u(2) assms(7) by simp
  have set_rax: "thread_set t ''syscall_return'' 0 w =
      (Inr (), w\<lparr>d_gs := node_regs (tc_regs (d_thread_heap w t)) ((regs_of w t)(''rax'' := 0)) (d_gs w)\<rparr>)" for w
    using thread_set_64 [OF thread_regs(4,2), of 0] by (simp add: fits_u64_def)
  let ?called = "sh_traceme_called (d_handler_heap s h)"
  have "\<exists>s2. handle_syscall_trap E thread_id u = (Inr (), s2) \<and> regs_of s2 t = (if ?called then answer else answer(''rax'' := 0)) \<and>
      sh_traceme_called (d_handler_heap s2 h) \<and> escapes_ptrace (d_handler_heap s2 h) \<and> d_resume_context s2 = d_resume_context s"
    using u sh number
    by (cases ?called) (simp_all add: handle_syscall_trap_def get_thread_by_id_eq syscall_exit_def on_exit_ptrace_def set_rax
        no_user_callback_def get_handler_def upd_handler_def escapes_ptrace_def regs_of_def node_regs_def set_node_def py_simps)
  then show ?thesis using 1 by (simp add: u_def)
qed

definition ptrace_dbg :: "flat dbg" where
  "ptrace_dbg = sample_dbg\<lparr>d_gs := node_regs 0 (\<lambda>r. if r = ''orig_rax'' then 101 else 0) (d_gs sample_dbg),
     d_handled_syscalls := [(101, 0)],
     d_handler_heap := (\<lambda>h. SyscallHandler 101 (Some OnEnterPtrace) (Some OnExitPtrace) False False False)\<rparr>"

theorem traceme_escaped_witness:
  "\<exists>s1 s2. handle_syscall_trap sample_env 1 ptrace_dbg = (Inr (), s1) \<and>
    handle_syscall_trap sample_env 1 (s1\<lparr>d_gs := node_regs 0 (\<lambda>r. if r = ''orig_rax'' then 101 else 2 ^ 64 - 1) (d_gs s1)\<rparr>) = (Inr (), s2) \<and>
    regs_of s2 0 ''rax'' = 0"
proof -
  let ?answer = "\<lambda>r :: string. if r = ''orig_rax'' then 101 else 2 ^ 64 - 1 :: int"
  have "thread_of ptrace_dbg 1 = Some 0" "regs_of ptrace_dbg 0 ''orig_rax'' = 101" "regs_of ptrace_dbg 0 ''rdi'' = 0"
    "dict_get (d_handled_syscalls ptrace_dbg) 101 = Some 0" "escapes_ptrace (d_handler_heap ptrace_dbg 0)"
    by (simp_all add: ptrace_dbg_def sample_dbg_def ThreadContext_def thread_of_def regs_of_def node_regs_def set_node_def
        escapes_ptrace_def SyscallHandler_def)
  from traceme_escaped [OF this, of sample_env ?answer] show ?thesis
    by (auto simp: ptrace_dbg_def sample_dbg_def ThreadContext_def SyscallHandler_def)
qed

end
