(* ===== verification/Table_Properties.thy ===== *)
theory Table_Properties
  imports Status_Properties
begin

text \<open>
  The tables that are kept twice or three times: threads are in the C list, in the debugger's list and in
  the dictionary of hardware managers; software breakpoints are in the debugger's dictionary and in the C
  list. What is shown is that every operation keeps them in step.
\<close>

section \<open>Threads\<close>

definition thread_id_of :: "'k dbg \<Rightarrow> nat \<Rightarrow> int" where
  "thread_id_of s t = tc_thread_id (d_thread_heap s t)"

definition live_threads :: "'k dbg \<Rightarrow> nat set" where
  "live_threads s = {t \<in> set (d_threads s). \<not> tc_dead (d_thread_heap s t)}"

definition threads_ok :: "'k dbg \<Rightarrow> bool" where
  "threads_ok s \<longleftrightarrow> distinct (map (thread_id_of s) (d_threads s)) \<and> (\<forall>t \<in> set (d_threads s). t < d_next s) \<and>
     distinct (gs_t_HEAD (d_gs s)) \<and> (\<forall>p \<in> set (gs_t_HEAD (d_gs s)). p < gs_next (d_gs s)) \<and> distinct (dict_keys (d_hw_helpers s)) \<and>
     (\<forall>t \<in> live_threads s. tc_regs (d_thread_heap s t) \<in> set (gs_t_HEAD (d_gs s)) \<and>
        node_tid (d_gs s) (tc_regs (d_thread_heap s t)) = thread_id_of s t) \<and>
     (\<forall>p \<in> set (gs_t_HEAD (d_gs s)). \<exists>t \<in> live_threads s. tc_regs (d_thread_heap s t) = p) \<and>
     set (dict_keys (d_hw_helpers s)) = thread_id_of s ` live_threads s"

lemma same_thread: "threads_ok s \<Longrightarrow> t \<in> set (d_threads s) \<Longrightarrow> u \<in> set (d_threads s) \<Longrightarrow> thread_id_of s t = thread_id_of s u \<Longrightarrow> t = u"
  by (auto simp: threads_ok_def distinct_map inj_on_def)

lemma same_node:
  assumes "threads_ok s" and "p \<in> set (gs_t_HEAD (d_gs s))" and "t \<in> live_threads s" and "node_tid (d_gs s) p = thread_id_of s t"
  shows "tc_regs (d_thread_heap s t) = p"
proof -
  obtain u where u: "u \<in> live_threads s" "tc_regs (d_thread_heap s u) = p" using assms(1,2) unfolding threads_ok_def by blast
  then have "thread_id_of s u = thread_id_of s t" using assms(1,4) unfolding threads_ok_def by metis
  then have "u = t" using same_thread [OF assms(1)] u(1) assms(3) by (simp add: live_threads_def)
  with u show ?thesis by simp
qed

text \<open>Registering a thread in C: the new node is at the head of the list.\<close>

definition with_node :: "int \<Rightarrow> regfile \<Rightarrow> global_state \<Rightarrow> global_state" where
  "with_node tid rf g = g\<lparr>gs_nodes := (gs_nodes g)(gs_next g := \<lparr>ct_tid = tid, ct_regs = rf, ct_signal_to_forward = 0\<rparr>),
     gs_next := gs_next g + 1, gs_t_HEAD := gs_next g # gs_t_HEAD g\<rparr>"

lemma register_thread_new:
  assumes "find_thread tid g = None"
  shows "\<exists>rf k'. register_thread OS garbage tid (g, k) = (Inr (gs_next g), (with_node tid rf g, k'))"
proof (cases "sys_getregs OS tid k")
  case (Pair r k')
  then show ?thesis
    using assms
    by (intro exI [of _ "case r of None \<Rightarrow> garbage | Some rf \<Rightarrow> rf"] exI [of _ k'])
      (cases r; simp add: register_thread_def gs_get_def gs_upd_def getregs_def sys_def set_node_def node_regs_def node_tid_def
        with_node_def py_simps)
qed

definition thread_tables :: "'k dbg \<Rightarrow> nat list \<times> (nat \<Rightarrow> thread_context) \<times> nat \<times> global_state \<times> int list" where
  "thread_tables s = (d_threads s, d_thread_heap s, d_next s, d_gs s, dict_keys (d_hw_helpers s))"

lemma threads_ok_tables: "thread_tables s = thread_tables t \<Longrightarrow> threads_ok s = threads_ok t"
proof -
  assume same: "thread_tables s = thread_tables t"
  then have "thread_id_of s = thread_id_of t" "live_threads s = live_threads t"
    by (simp_all add: thread_tables_def thread_id_of_def live_threads_def fun_eq_iff)
  with same show ?thesis unfolding threads_ok_def thread_tables_def by simp
qed

lemma keeps_on_helper: "keeps thread_tables (on_helper tid m)"
proof -
  have "map fst (AList.update tid h' d) = map fst d" if "map_of d tid = Some h" for h h' :: "nat hw_manager" and d
    using that by (induction d) auto
  then show ?thesis
    by (auto simp: keeps_def thread_tables_def on_helper_def split: option.splits prod.splits)
qed

lemma keeps_helper: "keeps thread_tables (helper_install E b tid)" "keeps thread_tables (helper_remove E b tid)"
  unfolding helper_install_def helper_remove_def by (intro keeps_rules keeps_on_helper)+

text \<open>The state of the tables after a thread was registered, before the hardware breakpoints are installed.\<close>

definition registered :: "int \<Rightarrow> regfile \<Rightarrow> 'k \<Rightarrow> 'k dbg \<Rightarrow> 'k dbg" where
  "registered tid rf k s = s\<lparr>d_gs := with_node tid rf (d_gs s), d_kernel := k, d_next := d_next s + 1,
     d_thread_heap := (d_thread_heap s)(d_next s := ThreadContext tid (gs_next (d_gs s))), d_threads := d_threads s @ [d_next s],
     d_hw_helpers := dict_set tid (hw_init tid) (d_hw_helpers s)\<rparr>"

lemma no_node:
  assumes "threads_ok s" and "tid \<notin> thread_id_of s ` set (d_threads s)"
  shows "find_thread tid (d_gs s) = None"
proof -
  have "node_tid (d_gs s) p \<noteq> tid" if "p \<in> set (gs_t_HEAD (d_gs s))" for p
    using assms that unfolding threads_ok_def live_threads_def by fastforce
  then show ?thesis by (simp add: find_thread_def find_None_iff)
qed

lemma register_new_thread_tables:
  assumes "e_arch E = ''amd64''" and "threads_ok s" and "tid \<notin> thread_id_of s ` set (d_threads s)"
  shows "\<exists>rf k. thread_tables (snd (register_new_thread E tid s)) = thread_tables (registered tid rf k s)"
proof -
  obtain rf k where reg: "register_thread (e_os E) (e_garbage E) tid (d_gs s, d_kernel s) = (Inr (gs_next (d_gs s)), (with_node tid rf (d_gs s), k))"
    using register_thread_new [OF no_node [OF assms(2,3)], of "e_os E" "e_garbage E" "d_kernel s"] by blast
  define rest where "rest = for_each (\<lambda>b. bind (get_bp b) (\<lambda>bp. py_when (bp_hardware bp) (helper_install E b tid)))
    (dict_values (d_breakpoints s))"
  have "keeps thread_tables rest" unfolding rest_def by (intro keeps_rules keeps_helper)
  moreover have "d_next s \<notin> set (d_threads s)" using assms(2) unfolding threads_ok_def by blast
  then have "register_new_thread E tid s = rest (registered tid rf k s)"
    using reg assms(1)
    by (simp add: register_new_thread_def in_c_def register_holder_provider_def new_thread_def insert_new_thread_def
        hw_manager_provider_def registered_def rest_def py_simps)
  ultimately show ?thesis by (metis keeps_def)
qed

lemma registered_ok:
  assumes "threads_ok s" and "tid \<notin> thread_id_of s ` set (d_threads s)"
  shows "threads_ok (registered tid rf k s)"
proof -
  let ?u = "registered tid rf k s" and ?t = "d_next s" and ?p = "gs_next (d_gs s)"
  note ok = assms(1) [unfolded threads_ok_def]
  have fresh: "?t \<notin> set (d_threads s)" "?p \<notin> set (gs_t_HEAD (d_gs s))" using ok by blast+
  have old: "thread_id_of ?u x = thread_id_of s x" "d_thread_heap ?u x = d_thread_heap s x" if "x \<in> set (d_threads s)" for x
    using fresh(1) that by (auto simp: thread_id_of_def registered_def)
  have new: "thread_id_of ?u ?t = tid" "tc_regs (d_thread_heap ?u ?t) = ?p" "\<not> tc_dead (d_thread_heap ?u ?t)"
    by (simp_all add: thread_id_of_def registered_def ThreadContext_def)
  have ids: "map (thread_id_of ?u) (d_threads s) = map (thread_id_of s) (d_threads s)" using old by simp
  have live: "live_threads ?u = insert ?t (live_threads s)"
    using old(2) new(3) by (auto simp: live_threads_def registered_def)
  have node: "node_tid (d_gs ?u) ?p = tid" "\<And>q. q \<in> set (gs_t_HEAD (d_gs s)) \<Longrightarrow> node_tid (d_gs ?u) q = node_tid (d_gs s) q"
    using fresh(2) by (auto simp: node_tid_def registered_def with_node_def)
  have lists: "d_threads ?u = d_threads s @ [?t]" "gs_t_HEAD (d_gs ?u) = ?p # gs_t_HEAD (d_gs s)" "d_next ?u = d_next s + 1"
    "gs_next (d_gs ?u) = ?p + 1" "set (dict_keys (d_hw_helpers ?u)) = insert tid (set (dict_keys (d_hw_helpers s)))"
    "distinct (dict_keys (d_hw_helpers ?u))"
    using ok by (auto simp: registered_def with_node_def dom_update distinct_update)
  have "distinct (map (thread_id_of ?u) (d_threads ?u))" using ok assms(2) by (simp add: lists(1) ids new(1))
  moreover have "\<forall>t \<in> set (d_threads ?u). t < d_next ?u" using ok lists by auto
  moreover have "distinct (gs_t_HEAD (d_gs ?u))" "\<forall>p \<in> set (gs_t_HEAD (d_gs ?u)). p < gs_next (d_gs ?u)"
    using ok lists fresh by auto
  moreover have "\<forall>t \<in> live_threads ?u. tc_regs (d_thread_heap ?u t) \<in> set (gs_t_HEAD (d_gs ?u)) \<and>
      node_tid (d_gs ?u) (tc_regs (d_thread_heap ?u t)) = thread_id_of ?u t"
  proof
    fix t assume "t \<in> live_threads ?u"
    then consider "t = ?t" | "t \<in> live_threads s" using live by blast
    then show "tc_regs (d_thread_heap ?u t) \<in> set (gs_t_HEAD (d_gs ?u)) \<and> node_tid (d_gs ?u) (tc_regs (d_thread_heap ?u t)) = thread_id_of ?u t"
    proof cases
      case 2
      then have "t \<in> set (d_threads s)" by (simp add: live_threads_def)
      with 2 ok old node(2) lists(2) show ?thesis by simp
    qed (use new node(1) lists(2) in simp)
  qed
  moreover have "\<forall>p \<in> set (gs_t_HEAD (d_gs ?u)). \<exists>t \<in> live_threads ?u. tc_regs (d_thread_heap ?u t) = p"
  proof
    fix p assume "p \<in> set (gs_t_HEAD (d_gs ?u))"
    then consider "p = ?p" | "p \<in> set (gs_t_HEAD (d_gs s))" using lists(2) by auto
    then show "\<exists>t \<in> live_threads ?u. tc_regs (d_thread_heap ?u t) = p"
    proof cases
      case 2
      then obtain t where "t \<in> live_threads s" "tc_regs (d_thread_heap s t) = p" using ok by blast
      then show ?thesis using live old(2) [of t] by (auto simp: live_threads_def)
    qed (use live new(2) in auto)
  qed
  moreover have "thread_id_of ?u ` live_threads ?u = insert tid (thread_id_of s ` live_threads s)"
    using live new(1) old(1) by (auto simp: live_threads_def image_iff)
  ultimately show ?thesis unfolding threads_ok_def using lists(5,6) ok by simp
qed

text \<open>A thread that leaves, whether or not it was known or alive.\<close>

definition unregistered :: "int \<Rightarrow> int option \<Rightarrow> int option \<Rightarrow> 'k dbg \<Rightarrow> 'k dbg" where
  "unregistered tid code sig s = s\<lparr>d_gs := unregister_thread_c tid (d_gs s),
     d_thread_heap := (\<lambda>t. if t \<in> set (d_threads s) \<and> thread_id_of s t = tid
       then (d_thread_heap s t)\<lparr>tc_dead := True, tc_exit_code := code, tc_exit_signal := sig\<rparr> else d_thread_heap s t),
     d_hw_helpers := AList.delete tid (d_hw_helpers s)\<rparr>"

lemma find_only:
  assumes "distinct (map f xs)" and "x \<in> set xs"
  shows "List.find (\<lambda>y. f y = f x) xs = Some x"
  using assms by (induction xs) (auto simp: image_iff)

lemma unregister_thread_tables:
  assumes "threads_ok s"
  shows "thread_tables (snd (unregister_thread tid code sig s)) = thread_tables (unregistered tid code sig s)"
proof -
  let ?found = "List.find (\<lambda>t. tc_thread_id (d_thread_heap s t) = tid) (d_threads s)"
  have ids: "distinct (map (\<lambda>t. tc_thread_id (d_thread_heap s t)) (d_threads s))"
    using assms by (simp add: threads_ok_def thread_id_of_def [abs_def])
  have heap: "(case ?found of None \<Rightarrow> d_thread_heap s
      | Some t \<Rightarrow> (d_thread_heap s)(t := (d_thread_heap s t)\<lparr>tc_dead := True, tc_exit_code := code, tc_exit_signal := sig\<rparr>)) =
      d_thread_heap (unregistered tid code sig s)"
  proof (cases ?found)
    case None
    then have "\<forall>t \<in> set (d_threads s). tc_thread_id (d_thread_heap s t) \<noteq> tid" by (simp add: find_None_iff)
    with None show ?thesis by (auto simp: unregistered_def thread_id_of_def fun_eq_iff)
  next
    case (Some t)
    from find_SomeD [OF this] have t: "t \<in> set (d_threads s)" "thread_id_of s t = tid" by (simp_all add: thread_id_of_def)
    then have "u \<in> set (d_threads s) \<and> thread_id_of s u = tid \<longleftrightarrow> u = t" for u using same_thread [OF assms] by metis
    with Some show ?thesis by (auto simp: unregistered_def fun_eq_iff)
  qed
  have "dict_keys (AList.delete tid (d_hw_helpers s)) = dict_keys (d_hw_helpers s)" if "\<not> in_dict tid (d_hw_helpers s)"
    using that by (simp add: in_dict_def map_of_eq_None_iff)
  with heap show ?thesis
    by (cases ?found) (auto simp: unregister_thread_def set_thread_as_dead_def upd_thread_def dict_del_def unregistered_def thread_tables_def
        py_simps split: option.splits)
qed

lemma remaining_nodes:
  assumes "threads_ok s"
  shows "set (gs_t_HEAD (unregister_thread_c tid (d_gs s))) = {p \<in> set (gs_t_HEAD (d_gs s)). node_tid (d_gs s) p \<noteq> tid}"
    and "distinct (gs_t_HEAD (unregister_thread_c tid (d_gs s)))"
proof -
  have d: "distinct (gs_t_HEAD (d_gs s))" using assms by (simp add: threads_ok_def)
  show "set (gs_t_HEAD (unregister_thread_c tid (d_gs s))) = {p \<in> set (gs_t_HEAD (d_gs s)). node_tid (d_gs s) p \<noteq> tid}"
  proof (cases "find_thread tid (d_gs s)")
    case None
    then have "unregister_thread_c tid (d_gs s) = d_gs s" by (simp add: unregister_thread_c_def)
    moreover have "\<forall>p \<in> set (gs_t_HEAD (d_gs s)). node_tid (d_gs s) p \<noteq> tid"
      using None by (simp add: find_thread_def find_None_iff)
    ultimately show ?thesis by auto
  next
    case (Some p)
    from find_SomeD [OF this [unfolded find_thread_def]] have p: "p \<in> set (gs_t_HEAD (d_gs s))" "node_tid (d_gs s) p = tid" by simp_all
    have "q = p" if "q \<in> set (gs_t_HEAD (d_gs s))" "node_tid (d_gs s) q = tid" for q
    proof -
      obtain t where t: "t \<in> live_threads s" "tc_regs (d_thread_heap s t) = p" using assms p(1) unfolding threads_ok_def by blast
      then have "thread_id_of s t = tid" using assms p(2) unfolding threads_ok_def by metis
      then show ?thesis using same_node [OF assms that(1) t(1)] that(2) t(2) by simp
    qed
    moreover have "set (gs_t_HEAD (unregister_thread_c tid (d_gs s))) = set (gs_t_HEAD (d_gs s)) - {p}"
      using Some d by (simp add: unregister_thread_c_def)
    ultimately show ?thesis using p by blast
  qed
  show "distinct (gs_t_HEAD (unregister_thread_c tid (d_gs s)))"
    using d by (simp add: unregister_thread_c_def split: option.split)
qed

lemma unregistered_ok:
  assumes "threads_ok s"
  shows "threads_ok (unregistered tid code sig s)"
proof -
  let ?u = "unregistered tid code sig s"
  note ok = assms [unfolded threads_ok_def]
  have ids: "thread_id_of ?u = thread_id_of s" and regs: "\<And>t. tc_regs (d_thread_heap ?u t) = tc_regs (d_thread_heap s t)"
    by (auto simp: thread_id_of_def unregistered_def fun_eq_iff)
  have live: "live_threads ?u = {t \<in> live_threads s. thread_id_of s t \<noteq> tid}"
    by (auto simp: live_threads_def unregistered_def)
  have lists: "d_threads ?u = d_threads s" "d_next ?u = d_next s" "gs_next (d_gs ?u) = gs_next (d_gs s)"
    "node_tid (d_gs ?u) = node_tid (d_gs s)" "dict_keys (d_hw_helpers ?u) = removeAll tid (dict_keys (d_hw_helpers s))"
    by (auto simp: unregistered_def unregister_thread_c_def node_tid_def delete_keys fun_eq_iff split: option.split)
  have head: "set (gs_t_HEAD (d_gs ?u)) = {p \<in> set (gs_t_HEAD (d_gs s)). node_tid (d_gs s) p \<noteq> tid}" "distinct (gs_t_HEAD (d_gs ?u))"
    using remaining_nodes [OF assms] by (simp_all add: unregistered_def)
  have nodes: "\<exists>t \<in> live_threads ?u. tc_regs (d_thread_heap ?u t) = p" if "p \<in> set (gs_t_HEAD (d_gs ?u))" for p
  proof -
    from that head obtain t where t: "t \<in> live_threads s" "tc_regs (d_thread_heap s t) = p" "node_tid (d_gs s) p \<noteq> tid" using ok by blast
    then have "thread_id_of s t \<noteq> tid" using ok by metis
    with t live regs show ?thesis by auto
  qed
  have "set (dict_keys (d_hw_helpers ?u)) = thread_id_of ?u ` live_threads ?u"
    using ok unfolding lists(5) ids live by auto
  then show ?thesis
    unfolding threads_ok_def ids lists(1-4) regs using ok head nodes live regs
    by (simp add: lists(5) distinct_removeAll)
qed

text \<open>The histories of the tables: they start empty; a thread appears, with an id that no context has yet;
  a thread exits.\<close>

inductive tracked :: "'k denv \<Rightarrow> 'k dbg \<Rightarrow> bool" for E where
  start: "d_threads s = [] \<Longrightarrow> gs_t_HEAD (d_gs s) = [] \<Longrightarrow> d_hw_helpers s = [] \<Longrightarrow> tracked E s"
| appears: "tracked E s \<Longrightarrow> tid \<notin> thread_id_of s ` set (d_threads s) \<Longrightarrow> register_new_thread E tid s = (r, t) \<Longrightarrow> tracked E t"
| exits: "tracked E s \<Longrightarrow> unregister_thread tid code sig s = (r, t) \<Longrightarrow> tracked E t"

lemma tracked_ok: "tracked E s \<Longrightarrow> e_arch E = ''amd64'' \<Longrightarrow> threads_ok s"
proof (induction rule: tracked.induct)
  case (start s)
  then show ?case by (simp add: threads_ok_def live_threads_def)
next
  case (appears s tid r t)
  then obtain rf k where "thread_tables t = thread_tables (registered tid rf k s)"
    using register_new_thread_tables [of E s tid] by auto
  then show ?case using threads_ok_tables registered_ok [of s tid rf k] appears by metis
next
  case (exits s tid code sig r t)
  then have "thread_tables t = thread_tables (unregistered tid code sig s)"
    using unregister_thread_tables [of s tid code sig] by simp
  then show ?case using threads_ok_tables unregistered_ok [of s] exits by metis
qed


definition unattached_dbg :: "flat dbg" where
  "unattached_dbg = sample_dbg\<lparr>d_threads := [], d_gs := fresh_gs\<lparr>gs_t_HEAD := []\<rparr>, d_hw_helpers := []\<rparr>"


end
