(* ===== verification/Breakpoint_Properties.thy ===== *)
theory Breakpoint_Properties
  imports Table_Properties Ptrace_Interface
begin

text \<open>
  Software breakpoints are kept twice, in the debugger's dictionary of breakpoint objects and in the C
  list that patches memory. Enabling or disabling an object only marks it; the next \<open>cont\<close> applies the
  marks. Shown here: the two tables agree up to the marks through every history, and \<open>cont\<close> settles them.
\<close>

section \<open>The two tables\<close>

text \<open>Whether a software breakpoint is at an address, and whether it is enabled, in either table.\<close>

definition c_flag :: "software_breakpoint list \<Rightarrow> int \<Rightarrow> bool option" where
  "c_flag bs a = map_option sb_enabled (List.find (\<lambda>b. sb_addr b = a) bs)"

definition sw_in_c :: "'k dbg \<Rightarrow> int \<Rightarrow> bool option" where
  "sw_in_c s a = c_flag (gs_b_HEAD (d_gs s)) a"

definition sw_in_python :: "'k dbg \<Rightarrow> int \<Rightarrow> bool option" where
  "sw_in_python s a = (case map_of (d_breakpoints s) a of
       None \<Rightarrow> None
     | Some b \<Rightarrow> if bp_hardware (d_bp_heap s b) then None else Some (bp_enabled (d_bp_heap s b)))"

definition is_marked :: "'k dbg \<Rightarrow> int \<Rightarrow> bool" where
  "is_marked s a \<longleftrightarrow> (\<exists>b. map_of (d_breakpoints s) a = Some b \<and> bp_changed (d_bp_heap s b))"

lemma c_flag_simps [simp]:
  "c_flag [] a = None" "c_flag (b # bs) a = (if sb_addr b = a then Some (sb_enabled b) else c_flag bs a)"
  by (simp_all add: c_flag_def)

lemma c_flag_None: "c_flag bs a = None \<longleftrightarrow> a \<notin> addrs bs"
  by (induction bs) auto

lemma c_flag_found: "c_flag (gs_b_HEAD g) a = map_option sb_enabled (find_breakpoint a g)"
  by (simp add: c_flag_def find_breakpoint_def)

lemma on_breakpoint_flags:
  "c_flag (on_breakpoint a (\<lambda>b. b\<lparr>sb_enabled := v\<rparr>) bs) x = (if x = a \<and> a \<in> addrs bs then Some v else c_flag bs x)"
  "map sb_addr (on_breakpoint a (\<lambda>b. b\<lparr>sb_enabled := v\<rparr>) bs) = map sb_addr bs"
  by (induction bs) auto

lemma remove_address_flags:
  assumes "distinct (map sb_addr bs)"
  shows "c_flag (remove_address a bs) x = (if x = a then None else c_flag bs x)" and "distinct (map sb_addr (remove_address a bs))"
    and "set (remove_address a bs) \<subseteq> set bs"
proof -
  show sub: "set (remove_address a bs) \<subseteq> set bs" for bs by (induction bs) auto
  show "c_flag (remove_address a bs) x = (if x = a then None else c_flag bs x)"
    using assms by (induction bs) (auto simp: c_flag_None)
  show "distinct (map sb_addr (remove_address a bs))"
    using assms by (induction bs) (use sub in auto)
qed

lemma insert_after_flags:
  assumes "sb_addr b \<notin> addrs bs"
  shows "c_flag (insert_after b bs) x = (if x = sb_addr b then Some (sb_enabled b) else c_flag bs x)"
    and "distinct (map sb_addr bs) \<Longrightarrow> distinct (map sb_addr (insert_after b bs))"
  using assms by (induction bs) auto

lemma insert_breakpoint_flags:
  assumes "sb_addr b \<notin> addrs bs"
  shows "c_flag (insert_breakpoint b bs) x = (if x = sb_addr b then Some (sb_enabled b) else c_flag bs x)"
    and "distinct (map sb_addr bs) \<Longrightarrow> distinct (map sb_addr (insert_breakpoint b bs))"
  using assms insert_after_flags(1) [of b "tl bs" x] insert_after_flags(2) [of b "tl bs"] set_insert_after [of b "tl bs"]
  by (cases bs; auto simp: insert_breakpoint_def)+

section \<open>What the C functions do to the list\<close>

lemma poke_runs: "\<exists>k'. poke_insn OS p a x (g, k) = (Inr (), (g, k'))"
  by (cases "sys_pokedata OS p a x k") (simp add: poke_insn_def sys_def py_simps)

lemma register_flags:
  "\<exists>bs k'. register_breakpoint OS pid a (g, k) = (Inr (), (g\<lparr>gs_b_HEAD := bs\<rparr>, k')) \<and>
     (\<forall>x. c_flag bs x = (if x = a then Some True else c_flag (gs_b_HEAD g) x)) \<and>
     (distinct (map sb_addr (gs_b_HEAD g)) \<longrightarrow> distinct (map sb_addr bs))"
proof -
  obtain res err k1 where peek: "sys_peekdata OS pid a k = ((res, err), k1)" by (metis prod.exhaust)
  define b where "b = \<lparr>sb_addr = a, sb_instruction = to_u64 res, sb_patched_instruction = INSTALL_BREAKPOINT (to_u64 res), sb_enabled = True\<rparr>"
  obtain k2 where poke: "poke_insn OS pid a (INSTALL_BREAKPOINT (to_u64 res)) (g, k1) = (Inr (), (g, k2))"
    using poke_runs [of OS pid a "INSTALL_BREAKPOINT (to_u64 res)" g k1] by auto
  let ?bs = "if find_breakpoint a g \<noteq> None then on_breakpoint a (\<lambda>b. b\<lparr>sb_enabled := True\<rparr>) (gs_b_HEAD g) else insert_breakpoint b (gs_b_HEAD g)"
  have "register_breakpoint OS pid a (g, k) = (Inr (), (g\<lparr>gs_b_HEAD := ?bs\<rparr>, k2))"
    using peek poke by (simp add: register_breakpoint_def sys_def gs_upd_def upd_def bind_def b_def Let_def)
  moreover have "c_flag ?bs x = (if x = a then Some True else c_flag (gs_b_HEAD g) x)" for x
    using insert_breakpoint_flags(1) [of b "gs_b_HEAD g" x] find_breakpoint_None [of a g]
    by (auto simp: on_breakpoint_flags b_def)
  moreover have "distinct (map sb_addr ?bs)" if "distinct (map sb_addr (gs_b_HEAD g))"
    using that insert_breakpoint_flags(2) [of b "gs_b_HEAD g"] find_breakpoint_None [of a g]
    by (auto simp: on_breakpoint_flags b_def)
  ultimately show ?thesis by blast
qed

definition with_flag :: "int \<Rightarrow> bool \<Rightarrow> global_state \<Rightarrow> global_state" where
  "with_flag a v g = g\<lparr>gs_b_HEAD := on_breakpoint a (\<lambda>b. b\<lparr>sb_enabled := v\<rparr>) (gs_b_HEAD g)\<rparr>"

lemma enable_flags: "\<exists>r k'. enable_breakpoint OS a (g, k) = (r, (with_flag a True g, k'))"
  and disable_flags: "\<exists>r k'. disable_breakpoint OS a (g, k) = (r, (with_flag a False g, k'))"
proof -
  have run: "\<exists>r k'. (case find_breakpoint a h of None \<Rightarrow> ret () | Some b \<Rightarrow> (case gs_t_HEAD h of [] \<Rightarrow> raise Diverges
      | p # _ \<Rightarrow> poke_insn OS (node_tid h p) a (f b))) (h, k) = (r, (h, k'))" for h f
    using poke_runs by (fastforce simp: ret_def raise_def split: option.splits list.splits)
  have "enable_breakpoint OS a (g, k) = (case find_breakpoint a (with_flag a True g) of None \<Rightarrow> ret ()
      | Some b \<Rightarrow> (case gs_t_HEAD (with_flag a True g) of [] \<Rightarrow> raise Diverges
          | p # _ \<Rightarrow> poke_insn OS (node_tid (with_flag a True g) p) a (sb_patched_instruction b))) (with_flag a True g, k)"
    by (simp add: enable_breakpoint_def gs_upd_def gs_get_def upd_def gets_def bind_def flip: with_flag_def split: option.split list.split)
  with run [of "with_flag a True g" sb_patched_instruction] show "\<exists>r k'. enable_breakpoint OS a (g, k) = (r, (with_flag a True g, k'))" by simp
  have "disable_breakpoint OS a (g, k) = (case find_breakpoint a (with_flag a False g) of None \<Rightarrow> ret ()
      | Some b \<Rightarrow> (case gs_t_HEAD (with_flag a False g) of [] \<Rightarrow> raise Diverges
          | p # _ \<Rightarrow> poke_insn OS (node_tid (with_flag a False g) p) a (sb_instruction b))) (with_flag a False g, k)"
    by (simp add: disable_breakpoint_def gs_upd_def gs_get_def upd_def gets_def bind_def flip: with_flag_def split: option.split list.split)
  with run [of "with_flag a False g" sb_instruction] show "\<exists>r k'. disable_breakpoint OS a (g, k) = (r, (with_flag a False g, k'))" by simp
qed

section \<open>The invariant\<close>

text \<open>The tables agree but for the objects of \<open>S\<close>, whose flag may differ.\<close>

definition agree_but :: "nat set \<Rightarrow> 'k dbg \<Rightarrow> bool" where
  "agree_but S s \<longleftrightarrow> distinct (dict_keys (d_breakpoints s)) \<and> distinct (map sb_addr (gs_b_HEAD (d_gs s))) \<and>
     (\<forall>a b. map_of (d_breakpoints s) a = Some b \<longrightarrow> bp_address (d_bp_heap s b) = a \<and> (bp_hardware (d_bp_heap s b) \<or> fits_u64 a)) \<and>
     (\<forall>a. sw_in_c s a = None \<longleftrightarrow> sw_in_python s a = None) \<and>
     (\<forall>a b. map_of (d_breakpoints s) a = Some b \<longrightarrow> b \<notin> S \<longrightarrow> sw_in_c s a = sw_in_python s a)"

definition marked :: "'k dbg \<Rightarrow> nat set" where
  "marked s = {b. bp_changed (d_bp_heap s b)}"

text \<open>What the invariant depends on.\<close>

definition bp_view :: "'k dbg \<Rightarrow> (int \<times> nat) list \<times> software_breakpoint list \<times> (int \<times> bool \<times> bool \<times> bool) list" where
  "bp_view s = (d_breakpoints s, gs_b_HEAD (d_gs s), map (\<lambda>b. (bp_address (d_bp_heap s b), bp_hardware (d_bp_heap s b),
     bp_enabled (d_bp_heap s b), bp_changed (d_bp_heap s b))) (dict_values (d_breakpoints s)))"

lemma bp_view_same:
  assumes "bp_view s = bp_view t"
  shows "d_breakpoints s = d_breakpoints t" and "sw_in_c s = sw_in_c t"
    and "map_of (d_breakpoints t) a = Some b \<Longrightarrow> bp_address (d_bp_heap s b) = bp_address (d_bp_heap t b) \<and>
      bp_hardware (d_bp_heap s b) = bp_hardware (d_bp_heap t b) \<and> bp_enabled (d_bp_heap s b) = bp_enabled (d_bp_heap t b) \<and>
      bp_changed (d_bp_heap s b) = bp_changed (d_bp_heap t b)"
proof -
  show same: "d_breakpoints s = d_breakpoints t" "sw_in_c s = sw_in_c t"
    using assms by (auto simp: bp_view_def sw_in_c_def fun_eq_iff)
  assume "map_of (d_breakpoints t) a = Some b"
  then have "b \<in> snd ` set (d_breakpoints t)" by (metis imageI map_of_SomeD snd_conv)
  then show "bp_address (d_bp_heap s b) = bp_address (d_bp_heap t b) \<and>
      bp_hardware (d_bp_heap s b) = bp_hardware (d_bp_heap t b) \<and> bp_enabled (d_bp_heap s b) = bp_enabled (d_bp_heap t b) \<and>
      bp_changed (d_bp_heap s b) = bp_changed (d_bp_heap t b)"
    using assms same by (auto simp: bp_view_def)
qed

lemma agree_view:
  assumes "bp_view s = bp_view t" and "agree_but S t"
  shows "agree_but S s"
proof -
  note same = bp_view_same [OF assms(1)]
  have "sw_in_python s = sw_in_python t"
    using same by (auto simp: sw_in_python_def fun_eq_iff split: option.splits)
  moreover have "map sb_addr (gs_b_HEAD (d_gs s)) = map sb_addr (gs_b_HEAD (d_gs t))" using assms(1) by (simp add: bp_view_def)
  ultimately show ?thesis using assms(2) same(1,2) same(3) unfolding agree_but_def by simp
qed

lemma python_same:
  assumes "d_breakpoints t = d_breakpoints s" and "\<And>b. bp_hardware (d_bp_heap t b) = bp_hardware (d_bp_heap s b)"
    and "\<And>b. bp_enabled (d_bp_heap t b) = bp_enabled (d_bp_heap s b)"
  shows "sw_in_python t = sw_in_python s"
  using assms by (intro ext) (simp add: sw_in_python_def split: option.split)

lemma agree_mono: "agree_but S s \<Longrightarrow> (\<And>a b. map_of (d_breakpoints s) a = Some b \<Longrightarrow> b \<in> S \<Longrightarrow> b \<in> T) \<Longrightarrow> agree_but T s"
  unfolding agree_but_def by blast

lemma agree_object:
  assumes "agree_but S s" and "map_of (d_breakpoints s) a = Some b" and "map_of (d_breakpoints s) x = Some b"
  shows "a = x"
  using assms unfolding agree_but_def by metis


section \<open>Setting and deleting\<close>

lemma set_sw_run:
  assumes "\<not> bp_hardware (d_bp_heap s b)"
  shows "\<exists>r g k. set_sw_breakpoint E b s = (r, s\<lparr>d_gs := g, d_kernel := k\<rparr>) \<and>
    (r = Inr () \<and> fits_u64 (bp_address (d_bp_heap s b)) \<and>
       (\<forall>x. c_flag (gs_b_HEAD g) x = (if x = bp_address (d_bp_heap s b) then Some True else sw_in_c s x)) \<and>
       (distinct (map sb_addr (gs_b_HEAD (d_gs s))) \<longrightarrow> distinct (map sb_addr (gs_b_HEAD g))) \<or>
     r = Inl OverflowError \<and> g = d_gs s \<and> k = d_kernel s)"
proof (cases "fits_u64 (bp_address (d_bp_heap s b))")
  case True
  obtain bs k where "register_breakpoint (e_os E) (d_iface_process_id s) (bp_address (d_bp_heap s b)) (d_gs s, d_kernel s) =
      (Inr (), ((d_gs s)\<lparr>gs_b_HEAD := bs\<rparr>, k))"
    "\<forall>x. c_flag bs x = (if x = bp_address (d_bp_heap s b) then Some True else c_flag (gs_b_HEAD (d_gs s)) x)"
    "distinct (map sb_addr (gs_b_HEAD (d_gs s))) \<longrightarrow> distinct (map sb_addr bs)"
    using register_flags [of "e_os E" "d_iface_process_id s" "bp_address (d_bp_heap s b)" "d_gs s" "d_kernel s"] by blast
  with True show ?thesis
    by (intro exI [of _ "Inr ()"] exI [of _ "(d_gs s)\<lparr>gs_b_HEAD := bs\<rparr>"] exI [of _ k])
      (simp add: set_sw_breakpoint_def get_bp_def c_u64_def in_c_def sw_in_c_def py_simps)
next
  case False
  then show ?thesis
    by (intro exI [of _ "Inl OverflowError"] exI [of _ "d_gs s"] exI [of _ "d_kernel s"])
      (simp add: set_sw_breakpoint_def get_bp_def c_u64_def py_simps)
qed

text \<open>A table with one more entry, or with one entry replaced.\<close>

lemma agree_set:
  assumes "agree_but S s" and "b \<notin> S" and "a = bp_address (d_bp_heap s b)" and "bp_hardware (d_bp_heap s b) \<or> fits_u64 a"
    and "d_breakpoints t = dict_set a b (d_breakpoints s)" and "d_bp_heap t = d_bp_heap s"
    and "sw_in_c t = (sw_in_c s)(a := if bp_hardware (d_bp_heap s b) then None else Some (bp_enabled (d_bp_heap s b)))"
    and "distinct (map sb_addr (gs_b_HEAD (d_gs t)))"
  shows "agree_but S t"
proof -
  have look: "map_of (d_breakpoints t) = (map_of (d_breakpoints s))(a \<mapsto> b)" by (simp add: assms(5) update_conv')
  have py: "sw_in_python t = (sw_in_python s)(a := if bp_hardware (d_bp_heap s b) then None else Some (bp_enabled (d_bp_heap s b)))"
    by (auto simp: sw_in_python_def look assms(6) fun_eq_iff split: option.split)
  have "distinct (dict_keys (d_breakpoints t))" using assms(1,5) by (simp add: agree_but_def distinct_update)
  then show ?thesis
    using assms(1-4,8) unfolding agree_but_def look py assms(6,7) by (auto split: if_splits)
qed

lemma agree_delete:
  assumes "agree_but S s" and "d_breakpoints t = AList.delete a (d_breakpoints s)" and "d_bp_heap t = d_bp_heap s"
    and "sw_in_c t = (sw_in_c s)(a := None)" and "distinct (map sb_addr (gs_b_HEAD (d_gs t)))"
  shows "agree_but S t"
proof -
  have look: "map_of (d_breakpoints t) = (map_of (d_breakpoints s))(a := None)" by (simp add: assms(2) delete_conv')
  have py: "sw_in_python t = (sw_in_python s)(a := None)"
    by (auto simp: sw_in_python_def look assms(3) fun_eq_iff split: option.split)
  have "distinct (dict_keys (d_breakpoints t))" using assms(1,2) by (simp add: agree_but_def distinct_delete)
  then show ?thesis
    using assms(1,5) unfolding agree_but_def look py assms(3,4) by (auto split: if_splits)
qed


text \<open>Installing or removing a hardware breakpoint touches neither table.\<close>

definition bp_tables :: "'k dbg \<Rightarrow> (int \<times> nat) list \<times> (nat \<Rightarrow> breakpoint) \<times> software_breakpoint list" where
  "bp_tables s = (d_breakpoints s, d_bp_heap s, gs_b_HEAD (d_gs s))"

lemma keeps_hw_helper: "keeps bp_tables (on_helper tid m)"
  by (auto simp: keeps_def bp_tables_def on_helper_def split: option.splits prod.splits)

lemma keeps_hw: "keeps bp_tables (helper_install E b tid)" "keeps bp_tables (helper_remove E b tid)"
  unfolding helper_install_def helper_remove_def by (intro keeps_rules keeps_hw_helper)+

lemma agree_tables: "bp_tables s = bp_tables t \<Longrightarrow> agree_but S s = agree_but S t"
proof -
  assume "bp_tables s = bp_tables t"
  then have "bp_view s = bp_view t" by (simp add: bp_tables_def bp_view_def)
  then show ?thesis using agree_view [of s t S] agree_view [of t s S] by metis
qed

lemma tables_same:
  assumes "bp_tables s = bp_tables t"
  shows "sw_in_c s = sw_in_c t" "sw_in_python s = sw_in_python t" "is_marked s = is_marked t" "marked s = marked t"
  using assms by (auto simp: bp_tables_def sw_in_c_def [abs_def] is_marked_def [abs_def] marked_def intro!: python_same)

lemma set_breakpoint_agrees:
  assumes "agree_but S s" and "b \<notin> S" and "bp_enabled (d_bp_heap s b)"
    and "bp_hardware (d_bp_heap s b) \<Longrightarrow> sw_in_c s (bp_address (d_bp_heap s b)) = None"
    and "set_breakpoint E b True s = (r, t)"
  shows "agree_but S t \<and> d_bp_heap t = d_bp_heap s"
proof (cases "bp_hardware (d_bp_heap s b)")
  case True
  define loop where "loop = bind (gets (\<lambda>s. dict_keys (d_hw_helpers s))) (for_each (helper_install E b))"
  have "keeps bp_tables loop" unfolding loop_def by (intro keeps_rules keeps_hw)
  moreover obtain r' u where u: "loop s = (r', u)" by fastforce
  ultimately have same: "bp_tables u = bp_tables s" by (rule keepsD)
  let ?a = "bp_address (d_bp_heap s b)"
  have "set_breakpoint E b True s = bind loop (\<lambda>_. upd (\<lambda>s. s\<lparr>d_breakpoints := dict_set ?a b (d_breakpoints s)\<rparr>)) s"
    using True by (simp add: set_breakpoint_def get_bp_def loop_def bind_def gets_def py_when_def)
  then have t: "t = u \<or> t = u\<lparr>d_breakpoints := dict_set ?a b (d_breakpoints u)\<rparr>"
    using assms(5) u by (cases r') (auto simp: bind_def upd_def)
  have "agree_but S u" using agree_tables [OF same] assms(1) by simp
  moreover from this have "distinct (map sb_addr (gs_b_HEAD (d_gs u)))" by (simp add: agree_but_def)
  moreover have "d_bp_heap u = d_bp_heap s" "sw_in_c u = sw_in_c s" using same by (simp_all add: bp_tables_def sw_in_c_def [abs_def])
  ultimately have u: "agree_but S u" "d_bp_heap u = d_bp_heap s" "sw_in_c u = sw_in_c s" "distinct (map sb_addr (gs_b_HEAD (d_gs u)))" by blast+
  have "agree_but S (u\<lparr>d_breakpoints := dict_set ?a b (d_breakpoints u)\<rparr>)"
  proof (rule agree_set [OF u(1) assms(2), of ?a])
    show "sw_in_c (u\<lparr>d_breakpoints := dict_set ?a b (d_breakpoints u)\<rparr>) =
        (sw_in_c u)(?a := if bp_hardware (d_bp_heap u b) then None else Some (bp_enabled (d_bp_heap u b)))"
      using assms(4) [OF True] True u(2,3) by (simp add: sw_in_c_def fun_eq_iff)
  qed (use True u(2,4) in simp_all)
  with t u(1,2) show ?thesis by auto
next
  case False
  obtain q g k where q: "set_sw_breakpoint E b s = (q, s\<lparr>d_gs := g, d_kernel := k\<rparr>)"
    "q = Inr () \<and> fits_u64 (bp_address (d_bp_heap s b)) \<and>
       (\<forall>x. c_flag (gs_b_HEAD g) x = (if x = bp_address (d_bp_heap s b) then Some True else sw_in_c s x)) \<and>
       (distinct (map sb_addr (gs_b_HEAD (d_gs s))) \<longrightarrow> distinct (map sb_addr (gs_b_HEAD g))) \<or>
     q = Inl OverflowError \<and> g = d_gs s \<and> k = d_kernel s"
    using set_sw_run [OF False, of E] by blast
  from q(2) show ?thesis
  proof (elim disjE conjE)
    assume ok: "q = Inr ()" "fits_u64 (bp_address (d_bp_heap s b))"
      "\<forall>x. c_flag (gs_b_HEAD g) x = (if x = bp_address (d_bp_heap s b) then Some True else sw_in_c s x)"
      "distinct (map sb_addr (gs_b_HEAD (d_gs s))) \<longrightarrow> distinct (map sb_addr (gs_b_HEAD g))"
    then have t: "t = s\<lparr>d_gs := g, d_kernel := k, d_breakpoints := dict_set (bp_address (d_bp_heap s b)) b (d_breakpoints s)\<rparr>"
      using assms(5) q(1) False by (simp add: set_breakpoint_def get_bp_def py_simps)
    have "distinct (map sb_addr (gs_b_HEAD g))" using ok(4) assms(1) by (simp add: agree_but_def)
    moreover have "sw_in_c t = (sw_in_c s)(bp_address (d_bp_heap s b) := Some True)"
      unfolding t using ok(3) by (simp add: sw_in_c_def fun_eq_iff)
    ultimately have "agree_but S t"
      using False assms(3) ok(2) t by (intro agree_set [OF assms(1,2), of "bp_address (d_bp_heap s b)"]) simp_all
    then show ?thesis by (simp add: t)
  next
    assume "q = Inl OverflowError" "g = d_gs s" "k = d_kernel s"
    then have "t = s" using assms(5) q(1) False by (simp add: set_breakpoint_def get_bp_def py_simps)
    with assms(1) show ?thesis by simp
  qed
qed

lemma unset_breakpoint_agrees:
  assumes "agree_but S s" and "dict_get (d_breakpoints s) (bp_address (d_bp_heap s b)) = Some b"
    and "unset_breakpoint E b True s = (r, t)"
  shows "agree_but S t \<and> d_bp_heap t = d_bp_heap s"
proof -
  let ?a = "bp_address (d_bp_heap s b)"
  show ?thesis
  proof (cases "bp_hardware (d_bp_heap s b)")
    case True
    define loop where "loop = bind (gets (\<lambda>s. dict_keys (d_hw_helpers s))) (for_each (helper_remove E b))"
    have "keeps bp_tables loop" unfolding loop_def by (intro keeps_rules keeps_hw)
    moreover obtain r' u where u: "loop s = (r', u)" by fastforce
    ultimately have same: "bp_tables u = bp_tables s" by (rule keepsD)
    have "unset_breakpoint E b True s = bind loop (\<lambda>_. bind (gets d_breakpoints) (\<lambda>bps. bind (lift (dict_del ?a bps)) (\<lambda>bps'.
        upd (\<lambda>s. s\<lparr>d_breakpoints := bps'\<rparr>)))) s"
      using True by (simp add: unset_breakpoint_def get_bp_def loop_def bind_def gets_def py_when_def)
    then have t: "t = u \<or> t = u\<lparr>d_breakpoints := AList.delete ?a (d_breakpoints u)\<rparr>"
      using assms(2,3) u same
      by (cases r') (auto simp: bind_def upd_def gets_def lift_def dict_del_def in_dict_def bp_tables_def)
    have u: "agree_but S u" "d_bp_heap u = d_bp_heap s" "d_breakpoints u = d_breakpoints s" "distinct (map sb_addr (gs_b_HEAD (d_gs u)))"
      using agree_tables [OF same] assms(1) same by (simp_all add: bp_tables_def agree_but_def)
    have "sw_in_python u ?a = None" using assms(2) True u(2,3) by (simp add: sw_in_python_def)
    then have "sw_in_c u ?a = None" using u(1) unfolding agree_but_def by blast
    then have "sw_in_c (u\<lparr>d_breakpoints := AList.delete ?a (d_breakpoints u)\<rparr>) = (sw_in_c u)(?a := None)"
      by (simp add: sw_in_c_def fun_eq_iff)
    from agree_delete [OF u(1) _ _ this] have "agree_but S (u\<lparr>d_breakpoints := AList.delete ?a (d_breakpoints u)\<rparr>)"
      using u(4) by simp
    with t u(1,2) show ?thesis by auto
  next
    case False
    have "fits_u64 ?a" using assms(1,2) False unfolding agree_but_def by blast
    then have t: "t = s\<lparr>d_gs := unregister_breakpoint ?a (d_gs s), d_breakpoints := AList.delete ?a (d_breakpoints s)\<rparr>"
      using assms(2,3) False
      by (simp add: unset_breakpoint_def unset_sw_breakpoint_def get_bp_def dict_del_def in_dict_def c_u64_def py_simps)
    have d: "distinct (map sb_addr (gs_b_HEAD (d_gs s)))" using assms(1) by (simp add: agree_but_def)
    have "sw_in_c t = (sw_in_c s)(?a := None)" "distinct (map sb_addr (gs_b_HEAD (d_gs t)))"
      unfolding t using remove_address_flags(1,2) [OF d] by (simp_all add: sw_in_c_def unregister_breakpoint_def fun_eq_iff)
    then have "agree_but S t" using t by (intro agree_delete [OF assms(1)]) simp_all
    then show ?thesis by (simp add: t)
  qed
qed


section \<open>Applying the marks\<close>

lemma collect_changed_run:
  "\<exists>ch h. collect_changed bs acc s = (Inr ch, s\<lparr>d_bp_heap := h\<rparr>) \<and>
     set ch = set acc \<union> {b \<in> set bs. bp_changed (d_bp_heap s b)} \<and>
     (\<forall>b. h b = (if b \<in> set bs then (d_bp_heap s b)\<lparr>bp_disabled_for_step := False, bp_changed := False\<rparr> else d_bp_heap s b))"
proof (induction bs arbitrary: acc s)
  case Nil
  then show ?case by (intro exI [of _ acc] exI [of _ "d_bp_heap s"]) (simp add: ret_def)
next
  case (Cons b bs)
  define h where "h = (d_bp_heap s)(b := (d_bp_heap s b)\<lparr>bp_disabled_for_step := False, bp_changed := False\<rparr>)"
  define acc' where "acc' = (if bp_changed (d_bp_heap s b) then acc @ [b] else acc)"
  have "collect_changed (b # bs) acc s = collect_changed bs acc' (s\<lparr>d_bp_heap := h\<rparr>)"
  proof (cases "bp_changed (d_bp_heap s b)")
    case False
    then have "(d_bp_heap s b)\<lparr>bp_disabled_for_step := False, bp_changed := False\<rparr> = (d_bp_heap s b)\<lparr>bp_disabled_for_step := False\<rparr>"
      by (cases "d_bp_heap s b") simp
    then have "h = (d_bp_heap s)(b := (d_bp_heap s b)\<lparr>bp_disabled_for_step := False\<rparr>)" by (simp add: h_def)
    with False show ?thesis
      by (simp add: bind_def upd_bp_def upd_def get_bp_def gets_def acc'_def)
  qed (simp add: bind_def upd_bp_def upd_def get_bp_def gets_def h_def acc'_def)
  moreover obtain ch h' where run: "collect_changed bs acc' (s\<lparr>d_bp_heap := h\<rparr>) = (Inr ch, s\<lparr>d_bp_heap := h'\<rparr>)"
    "set ch = set acc' \<union> {c \<in> set bs. bp_changed (h c)}"
    "\<forall>c. h' c = (if c \<in> set bs then (h c)\<lparr>bp_disabled_for_step := False, bp_changed := False\<rparr> else h c)"
    using Cons.IH [of acc' "s\<lparr>d_bp_heap := h\<rparr>"] by auto
  moreover have "set ch = set acc \<union> {c \<in> set (b # bs). bp_changed (d_bp_heap s c)}"
    using run(2) by (auto simp: h_def acc'_def)
  moreover have "\<forall>c. h' c = (if c \<in> set (b # bs) then (d_bp_heap s c)\<lparr>bp_disabled_for_step := False, bp_changed := False\<rparr> else d_bp_heap s c)"
    using run(3) by (simp add: h_def)
  ultimately show ?case by metis
qed

lemma agree_flagged:
  assumes "agree_but S s" and "dict_get (d_breakpoints s) a = Some b" and "\<not> bp_hardware (d_bp_heap s b)"
    and "d_breakpoints t = d_breakpoints s" and "d_bp_heap t = d_bp_heap s" and "d_gs t = with_flag a (bp_enabled (d_bp_heap s b)) (d_gs s)"
  shows "agree_but (S - {b}) t"
proof -
  have py: "sw_in_python t = sw_in_python s" by (rule python_same) (simp_all add: assms(4,5))
  have here: "sw_in_python s a = Some (bp_enabled (d_bp_heap s b))" using assms(2,3) by (simp add: sw_in_python_def)
  then have "sw_in_c s a \<noteq> None" using assms(1) unfolding agree_but_def by (metis option.distinct(1))
  then have "a \<in> addrs (gs_b_HEAD (d_gs s))" by (auto simp: sw_in_c_def c_flag_None)
  then have c: "sw_in_c t x = (if x = a then Some (bp_enabled (d_bp_heap s b)) else sw_in_c s x)" for x
    by (simp add: sw_in_c_def assms(6) with_flag_def on_breakpoint_flags)
  have "sw_in_c t x = sw_in_python t x" if "dict_get (d_breakpoints s) x = Some c" "c \<notin> S - {b}" for x c
  proof (cases "x = a")
    case False
    then have "c \<noteq> b" using agree_object [OF assms(1,2)] that(1) by blast
    then show ?thesis using that assms(1) False by (simp add: c py agree_but_def)
  qed (simp add: c py here)
  moreover have "sw_in_c t x = None \<longleftrightarrow> sw_in_python t x = None" for x
    using assms(1) here by (simp add: c py agree_but_def)
  ultimately show ?thesis
    using assms(1) unfolding agree_but_def assms(4,5) by (simp add: assms(6) with_flag_def on_breakpoint_flags)
qed

definition apply_one :: "('k, 's) env \<Rightarrow> nat \<Rightarrow> ('k, unit) dm" where
  "apply_one E b = bind (get_bp b) (\<lambda>bp. if bp_enabled bp then set_breakpoint E b False else unset_breakpoint E b False)"

lemma apply_one_agrees:
  assumes "agree_but S s" and "dict_get (d_breakpoints s) a = Some b" and "apply_one E b s = (r, t)"
  shows "agree_but (S - {b}) t \<and> d_breakpoints t = d_breakpoints s \<and> d_bp_heap t = d_bp_heap s"
proof (cases "bp_hardware (d_bp_heap s b)")
  case True
  define loop where "loop = (if bp_enabled (d_bp_heap s b)
    then bind (gets (\<lambda>s. dict_keys (d_hw_helpers s))) (for_each (helper_install E b))
    else bind (gets (\<lambda>s. dict_keys (d_hw_helpers s))) (for_each (helper_remove E b)))"
  have keeps: "keeps bp_tables (bind loop (\<lambda>_. ret ()))" unfolding loop_def by (intro keeps_rules keeps_hw)
  have "apply_one E b s = bind loop (\<lambda>_. ret ()) s"
    using True by (simp add: apply_one_def set_breakpoint_def unset_breakpoint_def get_bp_def loop_def bind_def gets_def py_when_def)
  then have same: "bp_tables t = bp_tables s" using assms(3) by (intro keepsD [OF keeps, of s r]) simp
  have t: "agree_but S t" "d_breakpoints t = d_breakpoints s" "d_bp_heap t = d_bp_heap s"
    using agree_tables [OF same] assms(1) same by (simp_all add: bp_tables_def)
  have "sw_in_python t a = None" using True assms(2) t(2,3) by (simp add: sw_in_python_def)
  then have "sw_in_c t a = sw_in_python t a" using t(1) unfolding agree_but_def by metis
  moreover have "x = a" if "dict_get (d_breakpoints t) x = Some b" for x
    using agree_object [OF t(1)] that assms(2) t(2) by metis
  ultimately have "agree_but (S - {b}) t" using t(1) unfolding agree_but_def by auto
  with t show ?thesis by blast
next
  case False
  have "bp_address (d_bp_heap s b) = a \<and> (bp_hardware (d_bp_heap s b) \<or> fits_u64 a)"
    using assms(1,2) unfolding agree_but_def by blast
  then have a: "bp_address (d_bp_heap s b) = a" "c_u64 a = Inr a" using False by (simp_all add: c_u64_def)
  obtain r1 k1 where on: "enable_breakpoint (e_os E) a (d_gs s, d_kernel s) = (r1, (with_flag a True (d_gs s), k1))"
    using enable_flags [of "e_os E" a "d_gs s" "d_kernel s"] by auto
  obtain r2 k2 where off: "disable_breakpoint (e_os E) a (d_gs s, d_kernel s) = (r2, (with_flag a False (d_gs s), k2))"
    using disable_flags [of "e_os E" a "d_gs s" "d_kernel s"] by auto
  have "apply_one E b s = bind (in_c (if bp_enabled (d_bp_heap s b) then enable_breakpoint (e_os E) a else disable_breakpoint (e_os E) a)) (\<lambda>_. ret ()) s"
    using False a by (simp add: apply_one_def set_breakpoint_def unset_breakpoint_def enable_breakpoint_py_def disable_breakpoint_py_def
      get_bp_def bind_def gets_def py_when_def lift_def)
  then have "t = s\<lparr>d_gs := with_flag a (bp_enabled (d_bp_heap s b)) (d_gs s), d_kernel := if bp_enabled (d_bp_heap s b) then k1 else k2\<rparr>"
    using assms(3) on off by (auto simp: bind_def in_c_def ret_def split: sum.splits if_splits)
  then show ?thesis using agree_flagged [OF assms(1,2) False, of t] by simp
qed

lemma apply_all_agrees:
  "agree_but S s \<Longrightarrow> \<forall>b \<in> set ch. \<exists>a. dict_get (d_breakpoints s) a = Some b \<Longrightarrow> for_each (apply_one E) ch s = (Inr (), t) \<Longrightarrow>
   agree_but (S - set ch) t \<and> d_breakpoints t = d_breakpoints s \<and> d_bp_heap t = d_bp_heap s"
proof (induction ch arbitrary: S s)
  case (Cons b ch)
  obtain r u where u: "apply_one E b s = (r, u)" by fastforce
  with Cons.prems(3) have rest: "for_each (apply_one E) ch u = (Inr (), t)" by (cases r) (auto simp: bind_def)
  obtain a where "dict_get (d_breakpoints s) a = Some b" using Cons.prems(2) by auto
  from apply_one_agrees [OF Cons.prems(1) this u]
  have one: "agree_but (S - {b}) u" "d_breakpoints u = d_breakpoints s" "d_bp_heap u = d_bp_heap s" by blast+
  have "\<forall>b \<in> set ch. \<exists>a. dict_get (d_breakpoints u) a = Some b" using Cons.prems(2) one(2) by simp
  from Cons.IH [OF one(1) this rest] one(2,3) show ?case
    unfolding list.set(2) Diff_insert2 [of S b "set ch"] by simp
qed (simp add: ret_def)

lemma apply_changes_agrees:
  assumes "agree_but (marked s) s" and "apply_changes E s = (Inr (), t)"
  shows "agree_but {} t \<and> sw_in_python t = sw_in_python s \<and> (\<forall>a. \<not> is_marked t a)"
proof -
  let ?bs = "dict_values (d_breakpoints s)"
  obtain ch h where run: "collect_changed ?bs [] s = (Inr ch, s\<lparr>d_bp_heap := h\<rparr>)"
    "set ch = {b \<in> set ?bs. bp_changed (d_bp_heap s b)}"
    "\<forall>b. h b = (if b \<in> set ?bs then (d_bp_heap s b)\<lparr>bp_disabled_for_step := False, bp_changed := False\<rparr> else d_bp_heap s b)"
    using collect_changed_run [of ?bs "[]" s] by auto
  define u where "u = s\<lparr>d_bp_heap := h\<rparr>"
  have kept: "bp_address (h b) = bp_address (d_bp_heap s b)" "bp_hardware (h b) = bp_hardware (d_bp_heap s b)"
    "bp_enabled (h b) = bp_enabled (d_bp_heap s b)" for b using run(3) by simp_all
  have py: "sw_in_python u = sw_in_python s" by (rule python_same) (simp_all add: u_def kept)
  have listed: "b \<in> set ?bs" if "dict_get (d_breakpoints s) a = Some b" for a b
    using that by (metis imageI map_of_SomeD set_map snd_conv)
  have "agree_but (marked s) u"
    using assms(1) unfolding agree_but_def py by (simp add: u_def kept sw_in_c_def)
  then have agree: "agree_but (set ch) u"
    by (rule agree_mono) (use listed in \<open>auto simp: u_def run(2) marked_def\<close>)
  have "distinct (dict_keys (d_breakpoints s))" using assms(1) by (simp add: agree_but_def)
  then have found: "\<forall>b \<in> set ch. \<exists>a. dict_get (d_breakpoints u) a = Some b" using run(2) by (force simp: u_def)
  have "for_each (apply_one E) ch u = (Inr (), t)"
    using assms(2) run(1) by (simp add: apply_changes_def bind_def gets_def u_def apply_one_def [abs_def])
  from apply_all_agrees [OF agree found this]
  have t: "agree_but {} t" "d_breakpoints t = d_breakpoints s" "d_bp_heap t = h" by (simp_all add: u_def)
  moreover have "sw_in_python t = sw_in_python s" by (rule python_same) (simp_all add: t kept)
  moreover have "\<not> is_marked t a" for a using listed run(3) by (auto simp: is_marked_def t)
  ultimately show ?thesis by blast
qed


section \<open>Histories\<close>

text \<open>A breakpoint is set (a hardware one not where a software one is), deleted or switched; a \<open>cont\<close>
  applies the marks; anything else leaves the list, the dictionary and these attributes alone.\<close>

inductive bp_history :: "'k denv \<Rightarrow> 'k dbg \<Rightarrow> bool" for E where
  starts: "d_breakpoints s = [] \<Longrightarrow> gs_b_HEAD (d_gs s) = [] \<Longrightarrow> bp_history E s"
| sets: "bp_history E s \<Longrightarrow> bp_enabled (d_bp_heap s b) \<Longrightarrow> \<not> bp_changed (d_bp_heap s b) \<Longrightarrow>
    \<not> bp_hardware (d_bp_heap s b) \<or> sw_in_python s (bp_address (d_bp_heap s b)) = None \<Longrightarrow>
    set_breakpoint E b True s = (r, t) \<Longrightarrow> bp_history E t"
| deletes: "bp_history E s \<Longrightarrow> dict_get (d_breakpoints s) (bp_address (d_bp_heap s b)) = Some b \<Longrightarrow>
    unset_breakpoint E b True s = (r, t) \<Longrightarrow> bp_history E t"
| switches: "bp_history E s \<Longrightarrow> bp_history E (s\<lparr>d_bp_heap := (d_bp_heap s)(b := bp_set_enabled v (d_bp_heap s b))\<rparr>)"
| applies: "bp_history E s \<Longrightarrow> apply_changes E s = (Inr (), t) \<Longrightarrow> bp_history E t"
| others: "bp_history E s \<Longrightarrow> bp_view t = bp_view s \<Longrightarrow> bp_history E t"

lemma agree_switch:
  assumes "agree_but (marked s) s"
  shows "agree_but (marked (s\<lparr>d_bp_heap := (d_bp_heap s)(b := bp_set_enabled v (d_bp_heap s b))\<rparr>))
    (s\<lparr>d_bp_heap := (d_bp_heap s)(b := bp_set_enabled v (d_bp_heap s b))\<rparr>)"
proof -
  define t where "t = s\<lparr>d_bp_heap := (d_bp_heap s)(b := bp_set_enabled v (d_bp_heap s b))\<rparr>"
  have t: "d_breakpoints t = d_breakpoints s" "d_gs t = d_gs s" "sw_in_c t = sw_in_c s" "\<And>c. c \<noteq> b \<Longrightarrow> d_bp_heap t c = d_bp_heap s c"
    "\<And>c. bp_hardware (d_bp_heap t c) = bp_hardware (d_bp_heap s c)" "\<And>c. bp_address (d_bp_heap t c) = bp_address (d_bp_heap s c)"
    "marked t = insert b (marked s)"
    by (auto simp: t_def bp_set_enabled_def sw_in_c_def [abs_def] marked_def)
  have "sw_in_python t a = None \<longleftrightarrow> sw_in_python s a = None" for a
    by (simp add: sw_in_python_def t(1,5) split: option.split)
  moreover have "sw_in_python t a = sw_in_python s a" if "dict_get (d_breakpoints s) a = Some c" "c \<noteq> b" for a c
    using that by (simp add: sw_in_python_def t(1,4))
  ultimately show ?thesis
    using assms unfolding t_def [symmetric] agree_but_def t(1,2,3,5,6,7) by auto
qed

lemma agree_marked: "(\<And>a b. dict_get (d_breakpoints t) a = Some b \<Longrightarrow> b \<in> S \<Longrightarrow> bp_changed (d_bp_heap t b)) \<Longrightarrow> agree_but S t \<Longrightarrow> agree_but (marked t) t"
  by (erule agree_mono) (simp add: marked_def)

lemma bp_history_agrees: "bp_history E s \<Longrightarrow> agree_but (marked s) s"
proof (induction rule: bp_history.induct)
  case (starts s)
  then show ?case by (simp add: agree_but_def sw_in_c_def sw_in_python_def)
next
  case (sets s b r t)
  have "bp_hardware (d_bp_heap s b) \<Longrightarrow> sw_in_c s (bp_address (d_bp_heap s b)) = None"
    using sets unfolding agree_but_def by blast
  with sets set_breakpoint_agrees [of "marked s" s b E r t] show ?case by (simp add: marked_def)
next
  case (deletes s b r t)
  with unset_breakpoint_agrees [of "marked s" s b E r t] show ?case by (simp add: marked_def)
next
  case (switches s b v)
  from switches.IH show ?case by (rule agree_switch)
next
  case (applies s t)
  with apply_changes_agrees show ?case by (metis agree_marked empty_iff)
next
  case (others s t)
  then have "agree_but (marked s) t" using agree_view by metis
  then show ?case
    by (rule agree_marked [rotated]) (use bp_view_same(1,3) [OF others.hyps(2)] in \<open>simp add: marked_def\<close>)
qed



section \<open>What cont settles\<close>

abbreviation c_list :: "'k c_state \<Rightarrow> software_breakpoint list" where
  "c_list c \<equiv> gs_b_HEAD (fst c)"

lemma keeps_c_small [keeps_rules]:
  "keeps c_list (gs_get f)" "keeps c_list (sys h)" "keeps c_list (sys_do k)" "keeps c_list (gs_upd (node_signal p x))"
  by (auto simp: keeps_def gs_get_def gets_def sys_def sys_do_def upd_def gs_upd_def node_signal_def set_node_def split: prod.splits)

lemma keeps_c_regs [keeps_rules]: "keeps c_list (setregs OS p)" "keeps c_list (flush_regs OS)" "keeps c_list (poke_insn OS pid a x)"
  unfolding flush_regs_def setregs_def poke_insn_def by (intro keeps_rules)+

lemma keeps_step_over: "keeps c_list (step_over OS ps status)"
  by (induction ps arbitrary: status) (auto simp: Let_def split_def intro!: keeps_rules)

lemma keeps_cont_all: "keeps c_list (cont_all_and_set_bps OS pid)"
  unfolding cont_all_and_set_bps_def prepare_for_run_def patch_all_def cont_thread_def
  by (intro keeps_rules keeps_step_over)

lemma keeps_in_c:
  assumes "keeps c_list m"
  shows "keeps bp_tables (in_c m)"
proof (rule keepsI)
  fix s r t assume run: "in_c m s = (r, t)"
  obtain q g k where m: "m (d_gs s, d_kernel s) = (q, (g, k))" by (metis prod.exhaust)
  with keepsD [OF assms m] run show "bp_tables t = bp_tables s" by (auto simp: in_c_def bp_tables_def)
qed

lemma keeps_forward_loop: "keeps bp_tables (forward_loop threads ps)"
proof (induction ps)
  case (Cons p ps)
  have "keeps bp_tables (upd (\<lambda>s. s\<lparr>d_gs := node_signal p x (d_gs s)\<rparr>))" "keeps bp_tables (upd_thread t f)" for x t f
    by (auto simp: keeps_def upd_def upd_thread_def bp_tables_def node_signal_def set_node_def)
  with Cons show ?case by (auto simp: get_thread_by_id_def get_thread_def split: option.splits intro!: keeps_rules)
qed (simp add: keeps_rules)

lemma keeps_forward_signal: "keeps bp_tables forward_signal"
proof -
  have "keeps bp_tables (upd_resume f)" for f by (auto simp: keeps_def upd_resume_def upd_def bp_tables_def)
  then show ?thesis unfolding forward_signal_def by (intro keeps_rules keeps_forward_loop)
qed

lemma cont_parts:
  assumes "iface_cont E s = (Inr (), t)"
  obtains u v where "bp_tables u = bp_tables s" and "apply_changes E u = (Inr (), v)" and "bp_tables t = bp_tables v"
proof -
  define rest where "rest = bind (gets (\<lambda>s. list_ex (\<lambda>h. wants_syscalls (d_handler_heap s h)) (dict_values (d_handled_syscalls s)))) (\<lambda>wanted.
     bind (upd (\<lambda>s. s\<lparr>d_gs := (d_gs s)\<lparr>gs_handle_syscall_enabled := wanted\<rparr>\<rparr>)) (\<lambda>_.
     bind (gets d_iface_process_id) (\<lambda>pid.
     bind (in_c (cont_all_and_set_bps (e_os E) pid)) (\<lambda>result.
     if result < 0 then raise_errno E else ret ()))))"
  have "keeps bp_tables (upd (\<lambda>s. s\<lparr>d_gs := (d_gs s)\<lparr>gs_handle_syscall_enabled := wanted\<rparr>\<rparr>))" for wanted
    by (simp add: keeps_def upd_def bp_tables_def)
  then have rest: "keeps bp_tables rest"
    unfolding rest_def raise_errno_def by (intro keeps_rules keeps_in_c keeps_cont_all)
  let ?forward = "py_when (rc_threads_with_signals_to_forward (d_resume_context s) \<noteq> []) forward_signal"
  obtain p u where u: "?forward s = (p, u)" by fastforce
  obtain q v where v: "apply_changes E u = (q, v)" by fastforce
  have "iface_cont E s = (case p of Inl e \<Rightarrow> (Inl e, u) | Inr _ \<Rightarrow> (case q of Inl e \<Rightarrow> (Inl e, v) | Inr _ \<Rightarrow> rest v))"
    using u v by (simp add: iface_cont_def bind_def gets_def rest_def split: sum.split)
  then have run: "q = Inr ()" "rest v = (Inr (), t)" using assms by (auto split: sum.splits)
  have "keeps bp_tables ?forward" by (intro keeps_rules keeps_forward_signal)
  then have "bp_tables u = bp_tables s" using u by (rule keepsD)
  then show ?thesis using that v run keepsD [OF rest run(2)] by blast
qed

lemma cont_settled:
  assumes "bp_history E s" and "iface_cont E s = (Inr (), t)"
  shows "sw_in_c t = sw_in_python t \<and> sw_in_python t = sw_in_python s \<and> (\<forall>a. \<not> is_marked t a)"
proof -
  obtain u v where uv: "bp_tables u = bp_tables s" "apply_changes E u = (Inr (), v)" "bp_tables t = bp_tables v"
    by (rule cont_parts [OF assms(2)])
  have same: "agree_but (marked u) u" "sw_in_python u = sw_in_python s"
    using agree_tables [OF uv(1)] tables_same [OF uv(1)] bp_history_agrees [OF assms(1)] by simp_all
  from tables_same [OF uv(3)] have "sw_in_c t = sw_in_c v" "sw_in_python t = sw_in_python v" "is_marked t = is_marked v"
    by blast+
  moreover have settled: "agree_but {} v" "sw_in_python v = sw_in_python u" "\<not> is_marked v a" for a
    using apply_changes_agrees [OF same(1) uv(2)] by blast+
  moreover have "sw_in_c v = sw_in_python v"
  proof
    fix a
    show "sw_in_c v a = sw_in_python v a"
      using settled(1) unfolding agree_but_def by (cases "dict_get (d_breakpoints v) a") (auto simp: sw_in_python_def)
  qed
  ultimately show ?thesis using same(2) by simp
qed

lemma cont_history:
  assumes "bp_history E s" and "iface_cont E s = (Inr (), t)"
  shows "bp_history E t"
proof -
  obtain u v where uv: "bp_tables u = bp_tables s" "apply_changes E u = (Inr (), v)" "bp_tables t = bp_tables v"
    by (rule cont_parts [OF assms(2)])
  have "bp_view u = bp_view s" "bp_view t = bp_view v" using uv(1,3) by (simp_all add: bp_tables_def bp_view_def)
  then show ?thesis using bp_history.others bp_history.applies assms(1) uv(2) by blast
qed

text \<open>C11: A \<open>cont\<close> that does not raise settles the tables: the C list then says exactly what the objects say, which
  is what they said before, and no object is marked as changed.\<close>

theorem cont_settles_breakpoints:
  assumes "bp_history E s" and "iface_cont E s = (Inr (), t)"
  shows "sw_in_c t = sw_in_python t \<and> sw_in_python t = sw_in_python s \<and> (\<forall>a. \<not> is_marked t a)"
  by (rule cont_settled [OF assms])


text \<open>A session in which one breakpoint is set, and the same after it was disabled.\<close>

definition no_bps :: "flat dbg" where
  "no_bps = sample_dbg\<lparr>d_breakpoints := []\<rparr>"

definition one_bp :: "flat \<Rightarrow> flat dbg" where
  "one_bp k = no_bps\<lparr>d_gs := fresh_gs\<lparr>gs_b_HEAD := [saved (fl_mem flat_page) 0x1002]\<rparr>, d_kernel := k, d_breakpoints := [(0x1002, 0)]\<rparr>"

lemma no_bps_fields [simp]:
  "d_breakpoints no_bps = []" "d_gs no_bps = fresh_gs" "d_kernel no_bps = flat_page" "d_bp_heap no_bps b = default_breakpoint 0x1002 False"
  "d_iface_process_id no_bps = 1" "d_resume_context no_bps = ResumeContext"
  by (simp_all add: no_bps_def sample_dbg_def)

lemma one_bp_set: "\<exists>k. set_breakpoint sample_env 0 True no_bps = (Inr (), one_bp k)"
proof -
  obtain k where "register_breakpoint flat_os 1 0x1002 (fresh_gs, flat_page) =
      (Inr (), fresh_gs\<lparr>gs_b_HEAD := [saved (fl_mem flat_page) 0x1002]\<rparr>, k)"
    using register_exact [OF flat_os_laws [of 1] flat_page_good flat_page_mapped [of "0x1002" 8], of fresh_gs]
    by (auto simp: fresh_gs_def insert_breakpoint_def)
  then have "set_breakpoint sample_env 0 True no_bps = (Inr (), one_bp k)"
    by (simp add: set_breakpoint_def set_sw_breakpoint_def get_bp_def c_u64_def fits_u64_def in_c_def one_bp_def
        default_breakpoint_def Breakpoint_def py_simps)
  then show ?thesis by blast
qed

lemma one_bp_history: "\<exists>k. bp_history sample_env (one_bp k)"
proof -
  have start: "bp_history sample_env no_bps" by (rule bp_history.starts) (simp_all add: fresh_gs_def)
  obtain k where "set_breakpoint sample_env 0 True no_bps = (Inr (), one_bp k)" using one_bp_set by blast
  from bp_history.sets [OF start _ _ _ this] show ?thesis by (auto simp: default_breakpoint_def Breakpoint_def)
qed



definition one_off :: "flat \<Rightarrow> flat dbg" where
  "one_off k = (one_bp k)\<lparr>d_bp_heap := (d_bp_heap (one_bp k))(0 := bp_set_enabled False (d_bp_heap (one_bp k) 0))\<rparr>"

lemma one_off_cont: "\<exists>t. iface_cont sample_env (one_off k) = (Inr (), t)"
proof -
  let ?g = "fresh_gs\<lparr>gs_b_HEAD := [(saved (fl_mem flat_page) 0x1002)\<lparr>sb_enabled := False\<rparr>]\<rparr>"
  obtain k1 where off: "disable_breakpoint flat_os 0x1002 (fresh_gs\<lparr>gs_b_HEAD := [saved (fl_mem flat_page) 0x1002]\<rparr>, k) = (Inr (), (?g, k1))"
    using poke_runs [of flat_os 1 "0x1002" "sb_instruction (saved (fl_mem flat_page) 0x1002)" ?g k]
    by (auto simp: disable_breakpoint_def gs_upd_def gs_get_def upd_def gets_def bind_def find_breakpoint_def node_tid_def fresh_gs_def)
  let ?h = "?g\<lparr>gs_handle_syscall_enabled := True\<rparr>"
  have on: "cont_all_and_set_bps flat_os 1 (?h, k1) = (Inr 0, (?h, k1))"
    by (simp add: cont_all_and_set_bps_def prepare_for_run_def flush_regs_def setregs_def patch_all_def cont_thread_def
        gs_get_def gs_upd_def sys_def sys_do_def node_tid_def node_signal_def set_node_def instruction_pointer_def flat_os_def
        kernel.extend_def fresh_gs_def py_simps Let_def fun_eq_iff)
  define v where "v = (one_off k)\<lparr>d_bp_heap := (d_bp_heap (one_off k))(0 := (d_bp_heap (one_off k) 0)\<lparr>bp_disabled_for_step := False, bp_changed := False\<rparr>),
    d_gs := ?g, d_kernel := k1\<rparr>"
  define t where "t = v\<lparr>d_gs := ?h\<rparr>"
  have "apply_changes sample_env (one_off k) = (Inr (), v)"
    using off
    by (simp add: apply_changes_def v_def one_off_def one_bp_def unset_breakpoint_def disable_breakpoint_py_def get_bp_def upd_bp_def
        in_c_def c_u64_def fits_u64_def default_breakpoint_def Breakpoint_def bp_set_enabled_def py_simps)
  moreover have "d_gs v = ?g" "d_kernel v = k1" "d_iface_process_id v = 1" "d_handled_syscalls v = [(0x1003, 0)]"
    "d_handler_heap v 0 = SyscallHandler 0x1003 None None False False False" "rc_threads_with_signals_to_forward (d_resume_context (one_off k)) = []"
    by (simp_all add: v_def one_off_def one_bp_def no_bps_def sample_dbg_def ResumeContext_def)
  moreover have "v\<lparr>d_gs := ?h, d_kernel := k1\<rparr> = t" by (simp add: t_def v_def)
  ultimately have "iface_cont sample_env (one_off k) = (Inr (), t)"
    using on by (simp add: iface_cont_def in_c_def wants_syscalls_def SyscallHandler_def py_simps)
  then show ?thesis by blast
qed

theorem cont_settles_breakpoints_witness:
  "\<exists>k t. bp_history sample_env (one_off k) \<and> sw_in_c (one_off k) 0x1002 = Some True \<and>
    iface_cont sample_env (one_off k) = (Inr (), t) \<and> sw_in_c t 0x1002 = Some False"
proof -
  obtain k where "bp_history sample_env (one_bp k)" using one_bp_history by blast
  then have history: "bp_history sample_env (one_off k)" unfolding one_off_def by (rule bp_history.switches)
  obtain t where "iface_cont sample_env (one_off k) = (Inr (), t)" using one_off_cont by blast
  moreover have "sw_in_c (one_off k) 0x1002 = Some True" "sw_in_python (one_off k) 0x1002 = Some False"
    by (simp_all add: sw_in_c_def sw_in_python_def one_off_def one_bp_def bp_set_enabled_def default_breakpoint_def Breakpoint_def)
  ultimately show ?thesis using cont_settles_breakpoints [OF history] history by metis
qed

end
