(* ===== verification/Breakpoint_Refinement.thy ===== *)
theory Breakpoint_Refinement
  imports Breakpoint_Properties
begin

text \<open>
  What the user of software breakpoints has to know: a map from addresses to whether the breakpoint there
  is enabled. The dictionary with its objects implements it at every moment, the list in C whenever the
  process has just been resumed.
\<close>

section \<open>Operations\<close>

datatype bp_op = OpSet nat | OpDelete nat | OpSwitch nat bool | OpCont

fun run_op :: "'k denv \<Rightarrow> bp_op \<Rightarrow> ('k, unit) dm" where
  "run_op E (OpSet b) = set_breakpoint E b True"
| "run_op E (OpDelete b) = unset_breakpoint E b True"
| "run_op E (OpSwitch b v) = upd_bp b (bp_set_enabled v)"
| "run_op E OpCont = iface_cont E"

text \<open>A new object is set; an object that the dictionary has is deleted or switched.\<close>

fun op_ok :: "'k dbg \<Rightarrow> bp_op \<Rightarrow> bool" where
  "op_ok s (OpSet b) \<longleftrightarrow> \<not> bp_hardware (d_bp_heap s b) \<and> bp_enabled (d_bp_heap s b) \<and> \<not> bp_changed (d_bp_heap s b)"
| "op_ok s (OpDelete b) \<longleftrightarrow> \<not> bp_hardware (d_bp_heap s b) \<and> dict_get (d_breakpoints s) (bp_address (d_bp_heap s b)) = Some b"
| "op_ok s (OpSwitch b v) \<longleftrightarrow> \<not> bp_hardware (d_bp_heap s b) \<and> dict_get (d_breakpoints s) (bp_address (d_bp_heap s b)) = Some b"
| "op_ok s OpCont \<longleftrightarrow> True"

text \<open>The map; \<open>addr\<close> is the address of an object.\<close>

fun spec_op :: "(nat \<Rightarrow> int) \<Rightarrow> bp_op \<Rightarrow> (int \<Rightarrow> bool option) \<Rightarrow> (int \<Rightarrow> bool option)" where
  "spec_op addr (OpSet b) m = m(addr b \<mapsto> True)"
| "spec_op addr (OpDelete b) m = m(addr b := None)"
| "spec_op addr (OpSwitch b v) m = m(addr b \<mapsto> v)"
| "spec_op addr OpCont m = m"

text \<open>
  The operations one after the other, with anything in between that leaves the dictionary, the list in C
  and these attributes of the objects alone: a hit, for example, only counts.
\<close>

definition bp_facts :: "'k dbg \<Rightarrow> (int, nat) dict \<times> software_breakpoint list \<times> (nat \<Rightarrow> int \<times> bool \<times> bool \<times> bool)" where
  "bp_facts s = (d_breakpoints s, gs_b_HEAD (d_gs s), (\<lambda>b. (bp_address (d_bp_heap s b), bp_hardware (d_bp_heap s b),
     bp_enabled (d_bp_heap s b), bp_changed (d_bp_heap s b))))"

inductive bp_run :: "'k denv \<Rightarrow> 'k dbg \<Rightarrow> bp_op list \<Rightarrow> 'k dbg \<Rightarrow> bool" for E s where
  nothing: "bp_run E s [] s"
| operation: "bp_run E s ops t \<Longrightarrow> op_ok t op \<Longrightarrow> run_op E op t = (Inr (), u) \<Longrightarrow> bp_run E s (ops @ [op]) u"
| between: "bp_run E s ops t \<Longrightarrow> bp_facts u = bp_facts t \<Longrightarrow> bp_run E s ops u"

section \<open>One operation\<close>

lemma set_python:
  assumes "\<not> bp_hardware (d_bp_heap s b)" and "bp_enabled (d_bp_heap s b)" and "set_breakpoint E b True s = (Inr (), t)"
  shows "sw_in_python t = (sw_in_python s)(bp_address (d_bp_heap s b) \<mapsto> True)" and "d_bp_heap t = d_bp_heap s"
proof -
  obtain r g k where run: "set_sw_breakpoint E b s = (r, s\<lparr>d_gs := g, d_kernel := k\<rparr>)" using set_sw_run [OF assms(1)] by blast
  have t: "t = s\<lparr>d_gs := g, d_kernel := k, d_breakpoints := dict_set (bp_address (d_bp_heap s b)) b (d_breakpoints s)\<rparr>"
    using assms(1,3) run by (auto simp: set_breakpoint_def get_bp_def py_simps split: sum.splits)
  then show "d_bp_heap t = d_bp_heap s" by simp
  show "sw_in_python t = (sw_in_python s)(bp_address (d_bp_heap s b) \<mapsto> True)"
    using assms(1,2) by (auto simp: t sw_in_python_def dict_get_set fun_eq_iff split: option.split)
qed

lemma delete_python:
  assumes "\<not> bp_hardware (d_bp_heap s b)" and "unset_breakpoint E b True s = (Inr (), t)"
  shows "sw_in_python t = (sw_in_python s)(bp_address (d_bp_heap s b) := None)" and "d_bp_heap t = d_bp_heap s"
proof -
  let ?a = "bp_address (d_bp_heap s b)"
  let ?u = "s\<lparr>d_gs := unregister_breakpoint ?a (d_gs s)\<rparr>"
  have "unset_breakpoint E b True s = (if \<not> fits_u64 ?a then (Inl OverflowError, s)
      else if in_dict ?a (d_breakpoints s) then (Inr (), ?u\<lparr>d_breakpoints := AList.delete ?a (d_breakpoints s)\<rparr>) else (Inl KeyError, ?u))"
    using assms(1) by (simp add: unset_breakpoint_def unset_sw_breakpoint_def get_bp_def dict_del_def c_u64_def py_simps)
  then have t: "t = ?u\<lparr>d_breakpoints := AList.delete ?a (d_breakpoints s)\<rparr>"
    using assms(2) by (cases "fits_u64 ?a"; cases "in_dict ?a (d_breakpoints s)") simp_all
  then show "d_bp_heap t = d_bp_heap s" by simp
  show "sw_in_python t = (sw_in_python s)(bp_address (d_bp_heap s b) := None)"
    by (auto simp: t sw_in_python_def dict_get_delete fun_eq_iff split: option.split)
qed

lemma switch_python:
  assumes "\<not> bp_hardware (d_bp_heap s b)" and "dict_get (d_breakpoints s) (bp_address (d_bp_heap s b)) = Some b" and "agree_but S s"
    and "upd_bp b (bp_set_enabled v) s = (Inr (), t)"
  shows "sw_in_python t = (sw_in_python s)(bp_address (d_bp_heap s b) \<mapsto> v)"
proof -
  have t: "t = s\<lparr>d_bp_heap := (d_bp_heap s)(b := bp_set_enabled v (d_bp_heap s b))\<rparr>"
    using assms(4) by (simp add: upd_bp_def py_simps)
  show ?thesis
  proof
    fix x
    show "sw_in_python t x = ((sw_in_python s)(bp_address (d_bp_heap s b) \<mapsto> v)) x"
    proof (cases "dict_get (d_breakpoints s) x = Some b")
      case True
      then have "x = bp_address (d_bp_heap s b)" using agree_object [OF assms(3,2)] by simp
      then show ?thesis using True assms(1) by (simp add: t sw_in_python_def bp_set_enabled_def)
    next
      case False
      then have "x \<noteq> bp_address (d_bp_heap s b)" using assms(2) by auto
      with False show ?thesis by (auto simp: t sw_in_python_def split: option.split)
    qed
  qed
qed

definition addresses :: "'k dbg \<Rightarrow> nat \<Rightarrow> int" where
  "addresses s b = bp_address (d_bp_heap s b)"

lemma keeps_from_tables: "keeps bp_tables m \<Longrightarrow> keeps addresses m"
  by (auto simp: keeps_def bp_tables_def addresses_def fun_eq_iff)

lemma keeps_addresses_in_c: "keeps addresses (in_c m)"
  by (auto simp: keeps_def in_c_def addresses_def fun_eq_iff split: prod.split)

lemma keeps_addresses_upd: "(\<And>bp. bp_address (f bp) = bp_address bp) \<Longrightarrow> keeps addresses (upd_bp b f)"
  by (auto simp: keeps_def upd_bp_def upd_def addresses_def fun_eq_iff)

lemma keeps_collect: "keeps addresses (collect_changed bs changed)"
  by (induction bs arbitrary: changed) (auto simp: get_bp_def intro!: keeps_rules keeps_addresses_upd)

lemma keeps_addresses_fields: "keeps addresses (upd (\<lambda>s. s\<lparr>d_breakpoints := f s\<rparr>))" "keeps addresses (upd (\<lambda>s. s\<lparr>d_gs := g s\<rparr>))"
  by (simp_all add: keeps_def upd_def addresses_def fun_eq_iff)

lemma keeps_apply: "keeps addresses (apply_changes E)"
  unfolding apply_changes_def set_breakpoint_def unset_breakpoint_def enable_breakpoint_py_def disable_breakpoint_py_def
    set_sw_breakpoint_def unset_sw_breakpoint_def get_bp_def
  by (intro keeps_rules keeps_collect keeps_addresses_in_c keeps_addresses_fields keeps_from_tables [OF keeps_hw(1)] keeps_from_tables [OF keeps_hw(2)])

lemma cont_addresses:
  assumes "iface_cont E s = (Inr (), t)"
  shows "addresses t = addresses s"
proof -
  obtain u v where uv: "bp_tables u = bp_tables s" "apply_changes E u = (Inr (), v)" "bp_tables t = bp_tables v"
    by (rule cont_parts [OF assms])
  then show ?thesis using keepsD [OF keeps_apply uv(2)] by (auto simp: bp_tables_def addresses_def fun_eq_iff)
qed

lemma op_python:
  assumes "bp_history E s" and "op_ok s op" and "run_op E op s = (Inr (), t)"
  shows "sw_in_python t = spec_op (addresses s) op (sw_in_python s) \<and> addresses t = addresses s \<and> bp_history E t \<and>
    (op = OpCont \<longrightarrow> sw_in_c t = sw_in_python t)"
proof (cases op)
  case (OpSet b)
  with assms show ?thesis
    using set_python [of s b E t] bp_history.sets [OF assms(1), of b "Inr ()" t] by (auto simp: addresses_def fun_eq_iff)
next
  case (OpDelete b)
  with assms show ?thesis
    using delete_python [of s b E t] bp_history.deletes [OF assms(1), of b "Inr ()" t] by (auto simp: addresses_def fun_eq_iff)
next
  case (OpSwitch b v)
  have t: "t = s\<lparr>d_bp_heap := (d_bp_heap s)(b := bp_set_enabled v (d_bp_heap s b))\<rparr>"
    using assms(3) OpSwitch by (simp add: upd_bp_def py_simps)
  from OpSwitch assms show ?thesis
    using switch_python [OF _ _ bp_history_agrees [OF assms(1)], of b v t] bp_history.switches [OF assms(1), of b v] t
    by (auto simp: addresses_def bp_set_enabled_def fun_eq_iff)
next
  case OpCont
  then have run: "iface_cont E s = (Inr (), t)" using assms(3) by simp
  show ?thesis
    using OpCont cont_settled [OF assms(1) run] cont_addresses [OF run] cont_history [OF assms(1) run] by simp
qed

section \<open>The refinement\<close>

lemma facts_same:
  assumes "bp_facts u = bp_facts t"
  shows "bp_view u = bp_view t" "sw_in_python u = sw_in_python t" "sw_in_c u = sw_in_c t" "addresses u = addresses t"
  using assms by (auto simp: bp_facts_def bp_view_def addresses_def fun_eq_iff sw_in_c_def intro!: python_same [THEN fun_cong])

lemma bp_run_refines:
  assumes "bp_run E s ops t" and "d_breakpoints s = []" and "gs_b_HEAD (d_gs s) = []"
  shows "bp_history E t \<and> addresses t = addresses s \<and> sw_in_python t = fold (spec_op (addresses s)) ops Map.empty \<and>
    (ops \<noteq> [] \<and> last ops = OpCont \<longrightarrow> sw_in_c t = sw_in_python t)"
  using assms(1)
proof induction
  case nothing
  have "bp_history E s" by (rule bp_history.starts) (use assms(2,3) in simp_all)
  moreover have "sw_in_python s = Map.empty" using assms(2) by (simp add: sw_in_python_def fun_eq_iff)
  ultimately show ?case by simp
next
  case (operation ops t op u)
  then show ?case using op_python [of E t op u] by auto
next
  case (between ops t u)
  then show ?case using facts_same [OF between.hyps(2)] bp_history.others by metis
qed



end
