(* ===== verification/Debugger_Properties.thy ===== *)
theory Debugger_Properties
  imports Debugger_Api Step_Properties
begin

text \<open>
  What the user's calls do, all the way through the queue of the polling thread: \<open>idle\<close> is a stopped
  process between two calls of the user's thread.
\<close>

section \<open>Methods that agree\<close>

text \<open>Two methods agree on the states with a property, and keep it.\<close>

definition agrees :: "('s \<Rightarrow> bool) \<Rightarrow> ('s, 'a) pm \<Rightarrow> ('s, 'a) pm \<Rightarrow> bool" where
  "agrees I m n \<longleftrightarrow> (\<forall>s. I s \<longrightarrow> m s = n s \<and> I (snd (n s)))"

named_theorems agrees_rules \<open>which method combinators keep agreement\<close>

lemma agreesD: "agrees I m n \<Longrightarrow> I s \<Longrightarrow> m s = n s"
  by (simp add: agrees_def)

lemma agrees_same: "preserves I m \<Longrightarrow> agrees I m m"
  by (simp add: agrees_def preserves_def)

lemma agrees_pure [agrees_rules]: "agrees I (ret x) (ret x)" "agrees I (raise e) (raise e)"
  by (simp_all add: agrees_same preserves_rules)

lemma agrees_bind [agrees_rules]:
  "agrees I m n \<Longrightarrow> (\<And>x. agrees I (f x) (g x)) \<Longrightarrow> agrees I (bind m f) (bind n g)"
  by (fastforce simp: agrees_def bind_def split: prod.splits sum.splits)

lemma agrees_try [agrees_rules]:
  "agrees I m n \<Longrightarrow> (\<And>e. agrees I (h e) (k e)) \<Longrightarrow> agrees I (try_except m p h) (try_except n p k)"
  by (fastforce simp: agrees_def try_except_def split: prod.splits sum.splits)

lemma agrees_if [agrees_rules]:
  "(b \<Longrightarrow> agrees I m n) \<Longrightarrow> (\<not> b \<Longrightarrow> agrees I m' n') \<Longrightarrow> agrees I (if b then m else m') (if b then n else n')"
  by simp

lemma agrees_for_each [agrees_rules]: "(\<And>x. agrees I (f x) (g x)) \<Longrightarrow> agrees I (for_each f xs) (for_each g xs)"
  by (induction xs) (auto intro!: agrees_rules)

section \<open>A view over two getters that agree\<close>

lemma gather_agrees: "(\<And>i. agrees I (g i) (h i)) \<Longrightarrow> agrees I (gather g is data) (gather h is data)"
  by (induction "is" arbitrary: data) (auto intro!: agrees_rules)

lemma mv_read_agrees:
  assumes "\<And>i. agrees I (g i) (h i)"
  shows "agrees I (mv_read g mv a n) (mv_read h mv a n)"
  unfolding mv_read_def read_tail_def Let_def using assms gather_agrees [OF assms] by (intro agrees_rules) auto

lemma mv_write_agrees:
  assumes "\<And>i. agrees I (g i) (h i)" and "\<And>i d. agrees I (p i d) (q i d)"
  shows "agrees I (mv_write g p mv a data) (mv_write h q mv a data)"
  unfolding mv_write_def write_rest_def Let_def by (intro agrees_rules assms)

definition resolver_keeps :: "('s \<Rightarrow> bool) \<Rightarrow> 's resolver \<Rightarrow> bool" where
  "resolver_keeps I rv \<longleftrightarrow> (\<forall>a f. preserves I (fst rv a f)) \<and> (\<forall>x f. preserves I (snd rv x f))"

lemma resolve_bound_agrees: "resolver_keeps I rv \<Longrightarrow> agrees I (resolve_bound rv f b) (resolve_bound rv f b)"
  by (cases rv; cases b) (auto simp: resolver_keeps_def intro: agrees_same agrees_rules)

lemma resolver_agrees:
  "resolver_keeps I rv \<Longrightarrow> agrees I (fst rv a f) (fst rv a f)" "resolver_keeps I rv \<Longrightarrow> agrees I (snd rv x f) (snd rv x f)"
  by (simp_all add: resolver_keeps_def agrees_same)

lemma resolve_key_agrees: "resolver_keeps I rv \<Longrightarrow> agrees I (resolve_key_address rv f key) (resolve_key_address rv f key)"
  by (cases key) (auto simp: resolve_key_address_def resolver_agrees intro: agrees_rules)

lemma invalid_agrees: "agrees I m n \<Longrightarrow> agrees I (invalid_address m) (invalid_address n)"
  unfolding invalid_address_def by (intro agrees_rules)

lemma read_tuple_agrees:
  assumes "\<And>i. agrees I (g i) (h i)" and "resolver_keeps I rv"
    and "\<And>key f. key \<in> set ks \<Longrightarrow> agrees I (manage_memory_read_type g rv mv key f) (manage_memory_read_type h rv mv key f)"
  shows "agrees I (manage_memory_read_tuple g rv mv ks) (manage_memory_read_tuple h rv mv ks)"
  unfolding manage_memory_read_tuple.simps
  using assms(3)
  by (auto split: list.split mem_key.split
      intro!: agrees_rules invalid_agrees mv_read_agrees assms(1) resolve_key_agrees [OF assms(2)])

lemma read_type_agrees:
  assumes "\<And>i. agrees I (g i) (h i)" and "resolver_keeps I rv"
  shows "agrees I (manage_memory_read_type g rv mv key f) (manage_memory_read_type h rv mv key f)"
proof (induction key arbitrary: f rule: measure_induct_rule [of size])
  case (less key)
  show ?case
  proof (cases key)
    case (KTuple ks)
    then have "k \<in> set ks \<Longrightarrow> size k < size key" for k using size_list_estimation' [of k ks _ size] by force
    then show ?thesis
      unfolding manage_memory_read_type.simps [of _ rv mv key] using less read_tuple_agrees [OF assms, of ks] KTuple by simp
  qed (unfold manage_memory_read_type.simps [of _ rv mv key], auto intro!: agrees_rules invalid_agrees mv_read_agrees
      assms(1) resolver_agrees [OF assms(2)] resolve_bound_agrees [OF assms(2)])
qed

lemma write_tuple_agrees:
  assumes "\<And>i. agrees I (g i) (h i)" and "\<And>i d. agrees I (p i d) (q i d)" and "resolver_keeps I rv"
    and "\<And>key f. key \<in> set ks \<Longrightarrow> agrees I (manage_memory_write_type g p rv mv key v f) (manage_memory_write_type h q rv mv key v f)"
  shows "agrees I (manage_memory_write_tuple g p rv mv ks v) (manage_memory_write_tuple h q rv mv ks v)"
  unfolding manage_memory_write_tuple.simps
  using assms(4)
  by (auto split: list.split mem_key.split
      intro!: agrees_rules invalid_agrees mv_write_agrees assms(1,2) resolve_key_agrees [OF assms(3)])

lemma write_type_agrees:
  assumes "\<And>i. agrees I (g i) (h i)" and "\<And>i d. agrees I (p i d) (q i d)" and "resolver_keeps I rv"
  shows "agrees I (manage_memory_write_type g p rv mv key v f) (manage_memory_write_type h q rv mv key v f)"
proof (induction key arbitrary: f rule: measure_induct_rule [of size])
  case (less key)
  show ?case
  proof (cases key)
    case (KTuple ks)
    then have "k \<in> set ks \<Longrightarrow> size k < size key" for k using size_list_estimation' [of k ks _ size] by force
    then show ?thesis
      unfolding manage_memory_write_type.simps [of _ _ rv mv key] using less write_tuple_agrees [OF assms, of ks] KTuple by simp
  qed (unfold manage_memory_write_type.simps [of _ _ rv mv key], auto intro!: agrees_rules invalid_agrees mv_write_agrees
      assms(1,2) resolver_agrees [OF assms(3)] resolve_bound_agrees [OF assms(3)])
qed

section \<open>A command of the user's\<close>

definition idle :: "'k dbg \<Rightarrow> bool" where
  "idle s \<longleftrightarrow> d_instanced s \<and> \<not> d_is_running s \<and> \<not> d_background s \<and> d_commands s = [] \<and> d_poller s = PollerRunning"

lemma dbg_eq_fields [simp]:
  "\<not> d_background s \<Longrightarrow> s\<lparr>d_background := False\<rparr> = s" "d_commands s = [] \<Longrightarrow> s\<lparr>d_commands := []\<rparr> = s"
  by simp_all

lemma ensure_idle: "idle s \<Longrightarrow> ensure_process_stopped E s = (Inr (), s)"
  by (simp add: idle_def ensure_process_stopped_def background_alias_def py_simps)

lemma peek_idle:
  assumes "idle s"
  shows "id_peek_memory E a s = bg_getter E a s"
  using assms ensure_idle [OF assms, of E]
  by (auto simp: id_peek_memory_def background_alias_def require_instanced_def idle_def put_command_def join_queue_def
      poll_command_def in_background_def bg_getter_def in_kernel_def py_simps split: prod.splits sum.splits py_exc.splits)

lemma poke_idle:
  assumes "idle s"
  shows "id_poke_memory E a data s = bg_setter E a data s"
  using assms ensure_idle [OF assms, of E]
  by (auto simp: id_poke_memory_def background_alias_def require_instanced_def idle_def put_command_def join_queue_def submit_def
      join_and_check_status_def no_value_def
      poll_command_def in_background_def bg_setter_def in_kernel_def py_simps split: prod.splits sum.splits py_exc.splits)

text \<open>The resolvers only fill the caches.\<close>

lemma idle_caches [simp]:
  "idle (s\<lparr>d_maps_cache := a\<rparr>) = idle s" "idle (s\<lparr>d_path_cache := b\<rparr>) = idle s" "idle (s\<lparr>d_name_cache := b\<rparr>) = idle s"
  "idle (s\<lparr>d_kernel := k\<rparr>) = idle s"
  by (simp_all add: idle_def)

lemma idle_proc:
  "preserves idle (get_process_maps E p)" "preserves idle (get_process_full_path E)" "preserves idle (get_process_name E)"
  unfolding get_process_maps_def get_process_full_path_def get_process_name_def
  by (intro preserves_rules; simp)+

lemma idle_iface_maps: "preserves idle (iface_maps E)"
  unfolding iface_maps_def by (intro preserves_rules idle_proc)

lemma idle_resolver: "resolver_keeps idle (dbg_resolver E)"
  unfolding resolver_keeps_def dbg_resolver_def dbg_resolve_address_def dbg_resolve_symbol_def resolve_address_def
    resolve_symbol_def main_file_alias_def dbg_proc_def
  by (auto intro!: preserves_rules idle_proc idle_iface_maps)

lemma bg_getter_eq: "bg_getter E a = (\<lambda>s. case threaded_peek_memory (e_os E) (d_iface_process_id s) a (d_kernel s) of
    (r, k) \<Rightarrow> (r, s\<lparr>d_kernel := k\<rparr>))"
  by (auto simp: bg_getter_def in_kernel_def py_simps fun_eq_iff split: prod.splits)

lemma bg_setter_eq: "bg_setter E a data = (\<lambda>s. case threaded_poke_memory (e_os E) (d_iface_process_id s) a data (d_kernel s) of
    (r, k) \<Rightarrow> (r, s\<lparr>d_kernel := k\<rparr>))"
  by (auto simp: bg_setter_def in_kernel_def py_simps fun_eq_iff split: prod.splits)

lemma peek_agrees: "agrees idle (id_peek_memory E a) (bg_getter E a)"
  by (simp add: agrees_def peek_idle) (auto simp: bg_getter_eq split: prod.splits)

lemma poke_agrees: "agrees idle (id_poke_memory E a data) (bg_setter E a data)"
  by (simp add: agrees_def poke_idle) (auto simp: bg_setter_eq split: prod.splits)

section \<open>A sample debugger between two calls\<close>

definition idle_dbg :: "flat dbg" where
  "idle_dbg = sample_dbg\<lparr>d_background := False\<rparr>"

lemma idle_dbg_idle: "idle idle_dbg"
  by (simp add: idle_dbg_def idle_def sample_dbg_def)

text \<open>C10: memory through the queue is memory: on a stopped process, reading or writing any key through the
  user's view gives what the same access gives to a callback in the polling thread, and leaves the
  same state.\<close>

theorem user_memory_equivalent:
  assumes "idle s"
  shows "user_memory_read E key s = mv_getitem (bg_getter E) (dbg_resolver E) default_view key s \<and>
    user_memory_write E key v s = mv_setitem (bg_getter E) (bg_setter E) (dbg_resolver E) default_view key v s"
proof
  show "user_memory_read E key s = mv_getitem (bg_getter E) (dbg_resolver E) default_view key s"
    unfolding user_memory_read_def mv_getitem_def
    by (rule agreesD [OF read_type_agrees [OF peek_agrees idle_resolver] assms])
  show "user_memory_write E key v s = mv_setitem (bg_getter E) (bg_setter E) (dbg_resolver E) default_view key v s"
    unfolding user_memory_write_def mv_setitem_def
    using agreesD [OF write_type_agrees [OF peek_agrees poke_agrees idle_resolver] assms] by (cases v) auto
qed

theorem user_memory_equivalent_witness:
  "user_memory_read sample_env (KInt 0x1008) idle_dbg =
    mv_getitem (bg_getter sample_env) (dbg_resolver sample_env) default_view (KInt 0x1008) idle_dbg"
  using user_memory_equivalent [OF idle_dbg_idle, of sample_env] by blast

section \<open>The queue\<close>

text \<open>What a command does, for the two threads of \<open>Command_Queue\<close>; one that never returns reports for ever.\<close>

definition dbg_exec :: "'k denv \<Rightarrow> (command, response, 'k dbg) exec" where
  "dbg_exec E c s = (case poll_command E c s of (Inr r, t) \<Rightarrow> (r, t) | (Inl e, t) \<Rightarrow> (Some (Inl e), t))"

lemma poll_command_Inl: "poll_command E c s = (Inl e, t) \<Longrightarrow> e = Diverges"
  by (auto simp: poll_command_def split: prod.splits sum.splits py_exc.splits option.splits)

lemma drain_refines: "CTerminate \<notin> set cs \<Longrightarrow> drain_commands E cs s = (Inr r, t) \<Longrightarrow> drain (dbg_exec E) cs s = (Answer r, t)"
proof (induction cs arbitrary: s)
  case (Cons c cs)
  obtain x u where "poll_command E c s = (Inr x, u)" "c \<noteq> CTerminate" using Cons.prems by (cases "fst (poll_command E c s)") (auto simp: py_simps split: prod.splits)
  then show ?case
    using Cons by (cases x) (auto simp: dbg_exec_def py_simps split: if_splits)
qed (simp add: ret_def)

lemma drain_deadlock: "CTerminate \<notin> set cs \<Longrightarrow> drain (dbg_exec E) cs s = (Deadlock, t) \<Longrightarrow> fst (drain_commands E cs s) = Inl Diverges"
proof (induction cs arbitrary: s)
  case (Cons c cs)
  obtain y u where y: "poll_command E c s = (y, u)" by fastforce
  have c: "c \<noteq> CTerminate" using Cons.prems by auto
  show ?case
  proof (cases y)
    case (Inl e)
    then show ?thesis using y c poll_command_Inl [of E c s e u] by (simp add: bind_def)
  next
    case (Inr x)
    then show ?thesis using Cons y c by (cases x) (auto simp: dbg_exec_def py_simps split: if_splits)
  qed
qed simp

text \<open>C16: joining the queue refines the two threads: what \<open>join_queue\<close> returns, and the state it leaves,
  are those of every interleaving of the user's and the polling thread over the commands queued, and
  where those end in a deadlock it does not return.\<close>

theorem join_refines_queue:
  assumes "\<not> d_background s" and "d_poller s = PollerRunning" and "CTerminate \<notin> set (d_commands s)"
    and "cq_run (dbg_exec E) (cq_idle (cq_call (d_commands s)) None (s\<lparr>d_commands := []\<rparr>)) q" and "cq_stuck (dbg_exec E) q"
  shows "(\<forall>r t. join_queue E s = (Inr r, t) \<longrightarrow> q = cq_idle [] r t) \<and> (cq_deadlocked q \<longrightarrow> fst (join_queue E s) = Inl Diverges)"
proof -
  have join: "join_queue E s = drain_commands E (d_commands s) (s\<lparr>d_commands := []\<rparr>)"
    using assms(1,2) by (simp add: join_queue_def py_simps)
  have ends: "cq_ends (drain (dbg_exec E) (d_commands s) (s\<lparr>d_commands := []\<rparr>)) q" by (rule call_ends [OF assms(4,5)])
  have "q = cq_idle [] r t" if "join_queue E s = (Inr r, t)" for r t
    using ends drain_refines [OF assms(3), of E _ r t] that join by (simp add: cq_ends_def)
  moreover have "fst (join_queue E s) = Inl Diverges" if "cq_deadlocked q"
  proof (cases "drain (dbg_exec E) (d_commands s) (s\<lparr>d_commands := []\<rparr>)")
    case (Pair a t)
    then show ?thesis
      using ends that drain_deadlock [OF assms(3), of E _ t] join by (cases a) (auto simp: cq_ends_def cq_deadlocked_def cq_idle_def)
  qed
  ultimately show ?thesis by blast
qed

theorem join_refines_queue_witness:
  "\<exists>q. cq_run (dbg_exec sample_env) (cq_idle (cq_call [CHandleSyscall 0, CUnhandleSyscall 0]) None idle_dbg) q \<and>
    q = cq_idle [] None (idle_dbg\<lparr>d_handled_syscalls := []\<rparr>)"
proof -
  let ?s = "idle_dbg\<lparr>d_commands := [CHandleSyscall 0, CUnhandleSyscall 0]\<rparr>"
  have idle: "\<not> d_background ?s" "d_poller ?s = PollerRunning" "CTerminate \<notin> set (d_commands ?s)" "?s\<lparr>d_commands := []\<rparr> = idle_dbg" using idle_dbg_idle by (simp_all add: idle_def)
  have join: "join_queue sample_env ?s = (Inr None, idle_dbg\<lparr>d_handled_syscalls := []\<rparr>)"
    by (simp add: join_queue_def poll_command_def in_background_def no_value_def threaded_handle_syscall_def set_syscall_handler_def threaded_unhandle_syscall_def unset_syscall_handler_def
        get_handler_def idle_dbg_def sample_dbg_def SyscallHandler_def dict_del_def in_dict_def AList.delete_eq py_simps)
  obtain q where q: "cq_run (dbg_exec sample_env) (cq_idle (cq_call [CHandleSyscall 0, CUnhandleSyscall 0]) None idle_dbg) q"
    "cq_stuck (dbg_exec sample_env) q" using cq_reaches_stuck by blast
  then show ?thesis using join_refines_queue [OF idle(1,2,3), of sample_env q] idle(4) join by auto
qed

section \<open>A step that fails\<close>

lemma raise_errno_raises: "\<exists>e. raise_errno E s = (Inl e, s) \<and> e \<noteq> Diverges"
  by (simp add: raise_errno_def py_simps)

lemma failed_iface_step:
  assumes "fst (singlestep (e_os E) (tc_thread_id (d_thread_heap s t)) (d_gs s, d_kernel s)) = Inr (- 1)"
  shows "\<exists>e u. iface_step E t s = (Inl e, u) \<and> e \<noteq> Diverges"
proof -
  obtain h where h: "disable_for_step s = (Inr (), s\<lparr>d_bp_heap := h\<rparr>)" using disable_for_step_run by blast
  obtain g k where "singlestep (e_os E) (tc_thread_id (d_thread_heap s t)) (d_gs s, d_kernel s) = (Inr (- 1), (g, k))"
    using assms by (metis prod.exhaust_sel)
  then show ?thesis using h raise_errno_raises by (fastforce simp: iface_step_def get_thread_def in_c_def bind_def gets_def)
qed

text \<open>When the kernel refuses to step a thread, \<open>step()\<close> never returns: the error is reported for the
  first of the two commands it queued, and nobody takes it.\<close>

lemma failed_step_hangs:
  assumes "idle s" and "\<not> tc_dead (d_thread_heap s t)"
    and "fst (singlestep (e_os E) (tc_thread_id (d_thread_heap s t)) (d_gs s, d_kernel s)) = Inr (- 1)"
  shows "fst (id_step E t s) = Inl Diverges"
proof -
  let ?s = "s\<lparr>d_background := True\<rparr>"
  obtain e u where step: "iface_step E t ?s = (Inl e, u)" "e \<noteq> Diverges" using failed_iface_step [of E ?s t] assms(3) by auto
  then have "poll_command E (CStep t) s = (Inr (Some (Inl e)), in_background False u)"
    by (cases e) (auto simp: poll_command_def in_background_def no_value_def threaded_step_def bind_def)
  then show ?thesis
    using assms(1,2) ensure_idle [OF assms(1), of E]
    by (simp add: id_step_def background_alias_def change_state_function_thread_def require_instanced_def put_command_def
        join_and_check_status_def join_queue_def get_thread_def idle_def py_simps)
qed

definition stuck_env :: "flat denv" where
  "stuck_env = sample_env\<lparr>e_os := flat_os\<lparr>sys_singlestep := (\<lambda>t s k. ((- 1, 3), k))\<rparr>\<rparr>"

lemma failed_step_hangs_witness: "fst (id_step stuck_env 0 idle_dbg) = Inl Diverges"
  by (rule failed_step_hangs [OF idle_dbg_idle])
    (simp_all add: idle_dbg_def sample_dbg_def ThreadContext_def stuck_env_def singlestep_def flush_regs_def setregs_def node_signal_def set_node_def sys_def sys_do_def
      gs_get_def gs_upd_def fresh_gs_def node_tid_def flat_os_def flat_kernel_def kernel.extend_def py_simps)

section \<open>A new session\<close>



section \<open>The backtrace\<close>

text \<open>\<open>v\<close> is the memory of a stopped process, \<open>m\<close> what is mapped, \<open>maps\<close> the cached maps.\<close>

definition stopped_with ::
    "'k denv \<Rightarrow> (int \<Rightarrow> byte) \<Rightarrow> (int \<Rightarrow> bool) \<Rightarrow> memory_map list \<Rightarrow> 'k dbg \<Rightarrow> bool" where
  "stopped_with E v m maps s \<longleftrightarrow> idle s \<and> e_arch E = ''amd64'' \<and> iface_maps E s = (Inr maps, s) \<and>
     (\<exists>view mapped good. tracee_memory_laws (e_os E) (d_iface_process_id s) view mapped good \<and> good (d_kernel s) \<and>
        view (d_kernel s) = v \<and> mapped (d_kernel s) = m)"

definition word_at :: "(int \<Rightarrow> byte) \<Rightarrow> int \<Rightarrow> int" where
  "word_at v a = from_le (bytes_at v a 8)"

definition readable :: "(int \<Rightarrow> bool) \<Rightarrow> memory_map list \<Rightarrow> int \<Rightarrow> bool" where
  "readable m maps a \<longleftrightarrow> all_mapped m a 8 \<and> check_absolute_address a maps"

text \<open>The chain of saved frame pointers from \<open>rbp\<close> on, with the return addresses above them.\<close>

fun stack_frames :: "(int \<Rightarrow> byte) \<Rightarrow> (int \<Rightarrow> bool) \<Rightarrow> memory_map list \<Rightarrow> int \<Rightarrow> int list \<Rightarrow> bool" where
  "stack_frames v m maps rbp [] \<longleftrightarrow> rbp = 0"
| "stack_frames v m maps rbp (r # rs) \<longleftrightarrow> rbp \<noteq> 0 \<and> readable m maps rbp \<and> readable m maps (rbp + 8) \<and>
     word_at v (rbp + 8) = r \<and> list_ex (vmap_contains r) maps \<and> stack_frames v m maps (word_at v rbp) rs"

text \<open>Where the return address is, by the instruction at \<open>rip\<close>.\<close>

definition return_slot :: "(int \<Rightarrow> byte) \<Rightarrow> regfile \<Rightarrow> int" where
  "return_slot v regs = (let p = preamble_state (bytes_at v (regs ''rip'') 4) in
     if p = 0 then regs ''rbp'' + 8 else if p = 1 then regs ''rsp'' else regs ''rsp'' + 8)"

lemma peek_stopped:
  assumes "stopped_with E v m maps s" and "all_mapped m a 8"
  shows "id_peek_memory E a s = (Inr (bytes_at v a 8), s)"
proof -
  from assms(1) obtain view mapped good where k: "tracee_memory_laws (e_os E) (d_iface_process_id s) view mapped good \<and> good (d_kernel s)"
    "view (d_kernel s) = v" "mapped (d_kernel s) = m" "idle s" unfolding stopped_with_def by blast
  from tracee_memory.get_law [of _ _ view mapped, OF k(1)] assms(2) k(2,3)
  have "threaded_peek_memory (e_os E) (d_iface_process_id s) a (d_kernel s) = (Inr (bytes_at v a 8), d_kernel s)" by simp
  then show ?thesis by (simp add: peek_idle [OF k(4)] bg_getter_eq)
qed

lemma memory_at_stopped:
  assumes "stopped_with E v m maps s" and "readable m maps a"
  shows "memory_at E (id_peek_memory E) a 8 s = (Inr (bytes_at v a 8), s)"
    and "memory_at E (id_peek_memory E) a 4 s = (Inr (bytes_at v a 4), s)"
proof -
  have "iface_maps E s = (Inr maps, s)" "check_absolute_address a maps" "all_mapped m a 8"
    using assms by (simp_all add: stopped_with_def readable_def)
  note facts = this(1,2) peek_stopped [OF assms(1) this(3)]
  have resolve: "dbg_resolve_address E a ''hybrid'' True s = (Inr a, s)"
    using facts(1,2) by (simp add: dbg_resolve_address_def resolve_address_def dbg_proc_def py_simps)
  note access = memory_at_def mv_getitem_def manage_memory_read_type.simps manage_memory_read_tuple.simps
    resolve_key_address_def dbg_resolver_def invalid_address_def mv_read_def read_tail_def default_view_def
  have "py_range a (a + 8) 8 = [a]" "py_range a a 8 = []" by (simp_all add: py_range_step py_range_empty)
  with resolve facts(3) show "memory_at E (id_peek_memory E) a 8 s = (Inr (bytes_at v a 8), s)"
    "memory_at E (id_peek_memory E) a 4 s = (Inr (bytes_at v a 4), s)"
    by (simp_all add: access py_simps py_to_nonneg take_bytes_at)
qed

lemma word_stopped: "stopped_with E v m maps s \<Longrightarrow> readable m maps a \<Longrightarrow>
    bind (memory_at E (id_peek_memory E) a 8) (\<lambda>bs. f (from_le bs)) s = f (word_at v a) s"
  by (simp add: bind_def memory_at_stopped word_at_def)

lemma regs_stopped:
  assumes "stopped_with E v m maps s" and "r \<in> {''rip'', ''rbp'', ''rsp''}"
  shows "regs_get (ensure_process_stopped E) t r s = (Inr (regs_of s t r), s)"
proof -
  have "idle s" using assms(1) by (simp add: stopped_with_def)
  moreover have "dict_get regs_class r = Some (P64, r)" "r \<in> set AMD64_REGS"
  proof -
    have "dict_get regs_class ''rip'' = Some (P64, ''rip'') \<and> dict_get regs_class ''rbp'' = Some (P64, ''rbp'') \<and>
      dict_get regs_class ''rsp'' = Some (P64, ''rsp'')" by code_simp
    moreover have "''rip'' \<in> set AMD64_REGS \<and> ''rbp'' \<in> set AMD64_REGS \<and> ''rsp'' \<in> set AMD64_REGS" by code_simp
    ultimately show "dict_get regs_class r = Some (P64, r)" "r \<in> set AMD64_REGS" using assms(2) by auto
  qed
  ultimately show ?thesis
    by (simp add: regs_get_def bind_def ensure_idle on_regs_def Let_def attr_get_def reg_getattr_def regs_of_def)
qed

lemma frame_stopped:
  assumes "stopped_with E v m maps s" and "readable m maps rbp" and "readable m maps (rbp + 8)"
    and "list_ex (vmap_contains (word_at v (rbp + 8))) maps"
  shows "unwind_frame E (id_peek_memory E) maps rbp s = (Inr (Some (word_at v rbp, word_at v (rbp + 8))), s)"
  using assms memory_at_stopped(1) [OF assms(1,2)] memory_at_stopped(1) [OF assms(1,3)]
  by (simp add: unwind_frame_def word_at_def py_simps)

lemma unwind_loop_stopped:
  assumes "stopped_with E v m maps s"
  shows "stack_frames v m maps rbp rs \<Longrightarrow> length rs < fuel \<Longrightarrow>
    unwind_loop fuel E (id_peek_memory E) maps rbp trace s = (Inr (trace @ rs), s)"
proof (induction rs arbitrary: rbp fuel trace)
  case Nil
  then obtain f where "fuel = Suc f" by (cases fuel) auto
  with Nil show ?case by (simp add: ret_def)
next
  case (Cons r rs)
  then obtain f where f: "fuel = Suc f" by (cases fuel) auto
  with Cons show ?case using frame_stopped [OF assms, of rbp] by (simp add: bind_def)
qed

lemma return_stopped:
  assumes "stopped_with E v m maps s" and "readable m maps (regs_of s t ''rip'')"
    and "readable m maps (return_slot v (regs_of s t))"
  shows "get_return_address E (id_peek_memory E) (ensure_process_stopped E) t s = (Inr (word_at v (return_slot v (regs_of s t))), s)"
  using assms(3) regs_stopped [OF assms(1)] memory_at_stopped(2) [OF assms(1,2)] memory_at_stopped(1) [OF assms(1)]
  by (auto simp: get_return_address_def return_slot_def Let_def bind_def ret_def word_at_def)

lemma backtrace_unfold:
  assumes "stopped_with E v m maps s"
  shows "user_unwind E t s = (case unwind_loop (e_fuel E) E (id_peek_memory E) maps (regs_of s t ''rbp'') [regs_of s t ''rip''] s of
     (Inl e, u) \<Rightarrow> (Inl e, u) | (Inr trace, u) \<Rightarrow> insert_first_return E (id_peek_memory E) (ensure_process_stopped E) t trace u)"
  using assms regs_stopped [OF assms]
  by (simp add: user_unwind_def unwind_def bind_def ensure_idle stack_unwinding_provider_def lift_def stopped_with_def)


text \<open>A page with a stack: the frame at 0x1003 returns to 0x1500 and was called from 0x1020, which returns to 0x1600.\<close>

definition stack_page :: flat where
  "stack_page = flat_page\<lparr>fl_mem := patch (patch (\<lambda>a. 0) 0x1003 (to_le 8 0x1020 @ to_le 8 0x1500))
     0x1020 (to_le 8 0 @ to_le 8 0x1600)\<rparr>"

definition stack_maps :: "memory_map list" where
  "stack_maps = [\<lparr>mm_start = 0x1000, mm_end = 0x2000, mm_permissions = ''rw-p'', mm_size = 0x1000, mm_offset = 0, mm_backing_file = ''/bin/p''\<rparr>]"

definition stack_dbg :: "flat \<Rightarrow> flat dbg" where
  "stack_dbg k = idle_dbg\<lparr>d_kernel := k, d_maps_cache := [(1, stack_maps)]\<rparr>"

lemma stack_dbg_stopped:
  assumes "flat_good k"
  shows "stopped_with sample_env (fl_mem k) (fl_mapped k) stack_maps (stack_dbg k)"
proof -
  have "idle (stack_dbg k)" using idle_dbg_idle by (simp add: stack_dbg_def)
  moreover have "iface_maps sample_env (stack_dbg k) = (Inr stack_maps, stack_dbg k)"
    by (simp add: iface_maps_def get_process_maps_def stack_dbg_def idle_dbg_def sample_dbg_def py_simps)
  moreover have "d_kernel (stack_dbg k) = k" by (simp add: stack_dbg_def)
  ultimately show ?thesis
    unfolding stopped_with_def using flat_os_laws assms by (auto intro!: exI [of _ fl_mem] exI [of _ fl_mapped] exI [of _ flat_good])
qed

lemma stack_readable:
  assumes "fl_mapped k = fl_mapped flat_page" and "0x1000 \<le> a" and "a + 8 \<le> 0x2000"
  shows "readable (fl_mapped k) stack_maps a"
  using assms by (simp add: readable_def all_mapped_def flat_page_def check_absolute_address_def stack_maps_def vmap_contains_def)


text \<open>A frame that points to itself keeps the unwinder busy for ever: whatever the fuel, the loop over the
  frames does not end.\<close>

lemma cyclic_frame_never_ends:
  assumes "stopped_with E v m maps s" and "regs_of s t ''rbp'' = rbp" and "rbp \<noteq> 0" and "word_at v rbp = rbp"
    and "readable m maps rbp" and "readable m maps (rbp + 8)" and "list_ex (vmap_contains (word_at v (rbp + 8))) maps"
  shows "fst (thread_backtrace E t as_symbols s) = Inl Diverges"
proof -
  have "unwind_loop fuel E (id_peek_memory E) maps rbp trace s = (Inl Diverges, s)" for fuel trace
    by (induction fuel arbitrary: trace)
      (use assms(3,4) frame_stopped [OF assms(1,5,6,7)] in \<open>simp_all add: bind_def raise_def\<close>)
  then show ?thesis by (simp add: thread_backtrace_def backtrace_unfold [OF assms(1)] assms(2) bind_def)
qed

definition cyclic_page :: flat where
  "cyclic_page = flat_page\<lparr>fl_mem := patch (\<lambda>a. 0) 0x1003 (to_le 8 0x1003 @ to_le 8 0x1500)\<rparr>"

lemma cyclic_frame_never_ends_witness: "fst (thread_backtrace sample_env 0 True (stack_dbg cyclic_page)) = Inl Diverges"
proof -
  have good: "flat_good cyclic_page" using flat_page_good by (simp add: cyclic_page_def flat_good_def)
  have mapped: "fl_mapped cyclic_page = fl_mapped flat_page" by (simp add: cyclic_page_def)
  have "word_at (fl_mem cyclic_page) 0x1003 = 0x1003 \<and> word_at (fl_mem cyclic_page) 0x100b = 0x1500" by code_simp
  then show ?thesis
    using cyclic_frame_never_ends [OF stack_dbg_stopped [OF good], of 0 "0x1003" True] stack_readable [OF mapped]
    by (simp add: regs_of_def stack_dbg_def idle_dbg_def sample_dbg_def fresh_gs_def ThreadContext_def stack_maps_def vmap_contains_def)
qed

section \<open>The facade\<close>

lemma thread_class_entries:
  assumes "in_dict name thread_class"
  obtains r where "dict_get thread_class name = Some (P64, r)" "r \<in> set AMD64_REGS" "name \<notin> set debugger_names"
proof -
  have "list_all (\<lambda>(n, w, r). w = P64 \<and> r \<in> set AMD64_REGS \<and> n \<notin> set debugger_names) thread_class" by code_simp
  moreover obtain w r where r: "dict_get thread_class name = Some (w, r)" using assms by (auto simp: in_dict_def)
  ultimately have "w = P64 \<and> r \<in> set AMD64_REGS \<and> name \<notin> set debugger_names"
    using map_of_SomeD [OF r] by (auto simp: list_all_iff)
  with r that show ?thesis by blast
qed

text \<open>C25: Assigning to \<open>d.instruction_pointer\<close>, \<open>d.syscall_arg0\<close> and the like, on the debugger itself, writes that
  register of its first thread and no other, and reading the attribute back gives the value.\<close>

theorem facade_register_round_trip:
  assumes "idle s" and "d_threads s = t # ts" and "in_dict name thread_class" and "fits_u64 v"
  shows "\<exists>r u. dbg_setattr E own name v s = (Inr (), u) \<and> dbg_getattr E name u = (Inr (AttrInt v), u) \<and>
    dict_get thread_class name = Some (P64, r) \<and> regs_of u t = (regs_of s t)(r := v) \<and>
    (\<forall>q. tc_regs (d_thread_heap s q) \<noteq> tc_regs (d_thread_heap s t) \<longrightarrow> regs_of u q = regs_of s q)"
proof -
  obtain r where r: "dict_get thread_class name = Some (P64, r)" "r \<in> set AMD64_REGS" "name \<notin> set debugger_names"
    using thread_class_entries [OF assms(3)] by blast
  let ?p = "tc_regs (d_thread_heap s t)"
  define u where "u = s\<lparr>d_gs := node_regs ?p ((ct_regs (gs_nodes (d_gs s) ?p))(r := v)) (d_gs s)\<rparr>"
  have "idle u" using assms(1) by (simp add: u_def idle_def)
  have "dbg_setattr E own name v s = (Inr (), u)"
    using r assms ensure_idle [OF assms(1), of E]
    by (simp add: dbg_setattr_def thread_setattr_def thread_set_def on_regs_def set_64 u_def Let_def py_simps)
  moreover have "attr_get thread_class name rf = (Inr (rf r), rf)" for rf
    using r by (simp add: attr_get_def reg_getattr_def)
  then have "dbg_getattr E name u = (Inr (AttrInt v), u)"
    using assms(2,3) ensure_idle [OF \<open>idle u\<close>, of E]
    by (simp add: dbg_getattr_def thread_getattr_def thread_get_def on_regs_def u_def node_regs_def set_node_def Let_def py_simps)
  ultimately show ?thesis
    using r(1) by (intro exI [of _ r] exI [of _ u]) (simp add: u_def regs_of_def node_regs_def set_node_def)
qed

theorem facade_register_round_trip_witness:
  "\<exists>u. dbg_setattr sample_env (\<lambda>n v. ret ()) ''instruction_pointer'' 0x1500 idle_dbg = (Inr (), u) \<and>
    dbg_getattr sample_env ''instruction_pointer'' u = (Inr (AttrInt 0x1500), u)"
proof -
  have "in_dict ''instruction_pointer'' thread_class" by code_simp
  moreover have "d_threads idle_dbg = [0, 1]" by (simp add: idle_dbg_def sample_dbg_def)
  ultimately show ?thesis
    using facade_register_round_trip [OF idle_dbg_idle, of 0 "[1]" _ "0x1500" sample_env "\<lambda>n v. ret ()"]
    by (auto simp: fits_u64_def)
qed

section \<open>The end\<close>

text \<open>C36: \<open>terminate\<close> ends the polling thread of an idle debugger and changes nothing else; a second one does
  nothing, and every command given afterwards waits for ever. In a callback, where the caller is the polling
  thread, it raises instead, and the thread ends later.\<close>

theorem terminate_ends:
  assumes "idle s"
  shows "\<exists>u. dbg_terminate E s = (Inr (), u) \<and> u = s\<lparr>d_poller := PollerNone\<rparr> \<and> dbg_terminate E u = (Inr (), u) \<and>
    fst (submit E c u) = Inl Diverges \<and>
    dbg_terminate E (s\<lparr>d_background := True\<rparr>) = (Inl RuntimeError, s\<lparr>d_background := True, d_commands := [CTerminate]\<rparr>)"
proof -
  have "dbg_terminate E s = (Inr (), s\<lparr>d_poller := PollerNone\<rparr>)"
    using assms by (simp add: dbg_terminate_def id_terminate_def put_command_def idle_def py_simps)
  moreover have "dbg_terminate E (s\<lparr>d_poller := PollerNone\<rparr>) = (Inr (), s\<lparr>d_poller := PollerNone\<rparr>)"
    by (simp add: dbg_terminate_def id_terminate_def py_simps)
  moreover have "fst (submit E c (s\<lparr>d_poller := PollerNone\<rparr>)) = Inl Diverges"
    using assms by (simp add: submit_def put_command_def join_and_check_status_def join_queue_def idle_def py_simps)
  moreover have "dbg_terminate E (s\<lparr>d_background := True\<rparr>) = (Inl RuntimeError, s\<lparr>d_background := True, d_commands := [CTerminate]\<rparr>)"
    using assms by (simp add: dbg_terminate_def id_terminate_def put_command_def idle_def py_simps)
  ultimately show ?thesis by blast
qed

theorem terminate_ends_witness: "fst (submit sample_env CCont (idle_dbg\<lparr>d_poller := PollerNone\<rparr>)) = Inl Diverges"
  using terminate_ends [OF idle_dbg_idle, of sample_env CCont] by blast

end
