(* ===== verification/Pretty_Print_Properties.thy ===== *)
theory Pretty_Print_Properties
  imports Debugger_Properties
begin

text \<open>
  Switching the pretty printer on (\<open>InternalDebugger.enable_pretty_print\<close>): the loop over all system
  calls changes the installed handlers and queues new ones, and joining the queue installs those.
\<close>

section \<open>The loop\<close>

definition handler_of :: "'k dbg \<Rightarrow> int \<Rightarrow> nat option" where
  "handler_of s n = dict_get (d_handled_syscalls s) n"

text \<open>The table of handlers: the references are allocated and each handler is under its own number.\<close>

definition handlers_ok :: "'k dbg \<Rightarrow> bool" where
  "handlers_ok s \<longleftrightarrow> (\<forall>n h. handler_of s n = Some h \<longrightarrow> h < d_next s \<and> sh_syscall_number (d_handler_heap s h) = n)"

definition printed :: "syscall_handler \<Rightarrow> bool \<Rightarrow> bool" where
  "printed sh b \<longleftrightarrow> sh_on_enter_pprint sh = b \<and> sh_on_exit_pprint sh = b"

definition same_user_part :: "syscall_handler \<Rightarrow> syscall_handler \<Rightarrow> bool" where
  "same_user_part x y \<longleftrightarrow> sh_syscall_number x = sh_syscall_number y \<and> sh_on_enter_user x = sh_on_enter_user y \<and>
     sh_on_exit_user x = sh_on_exit_user y \<and> sh_enabled x = sh_enabled y"

text \<open>After the numbers \<open>seen\<close>, started from \<open>s0\<close>; \<open>hs\<close> are the new handlers, in the order they were queued.\<close>

definition pp_inv :: "int list \<Rightarrow> 'k dbg \<Rightarrow> int set \<Rightarrow> nat list \<Rightarrow> 'k dbg \<Rightarrow> bool" where
  "pp_inv ns s0 seen hs s \<longleftrightarrow>
     d_handled_syscalls s = d_handled_syscalls s0 \<and> wants_pprint ns s = wants_pprint ns s0 \<and>
     \<not> d_is_running s \<and> \<not> d_background s \<and> d_commands s = map CHandleSyscall hs \<and> d_poller s = PollerRunning \<and> d_next s0 \<le> d_next s \<and>
     (\<forall>h \<in> set hs. d_next s0 \<le> h \<and> h < d_next s \<and> printed (d_handler_heap s h) True \<and> \<not> sh_enabled (d_handler_heap s h) \<and>
        wants_pprint ns s0 (sh_syscall_number (d_handler_heap s h)) \<and> handler_of s0 (sh_syscall_number (d_handler_heap s h)) = None) \<and>
     (\<forall>n \<in> seen. wants_pprint ns s0 n \<longrightarrow> handler_of s0 n = None \<longrightarrow> n \<in> (\<lambda>h. sh_syscall_number (d_handler_heap s h)) ` set hs) \<and>
     (\<forall>n h. handler_of s0 n = Some h \<longrightarrow> same_user_part (d_handler_heap s h) (d_handler_heap s0 h) \<and>
        (n \<in> seen \<longrightarrow> printed (d_handler_heap s h) (wants_pprint ns s0 n)))"

lemma ensure_stopped: "\<not> d_is_running s \<Longrightarrow> ensure_process_stopped E s = (Inr (), s)"
  by (simp add: ensure_process_stopped_def background_alias_def py_simps)

lemma enable_one_installed:
  assumes "handlers_ok s0" and "pp_inv ns s0 seen hs s" and "handler_of s0 n = Some h"
  shows "\<exists>t. enable_one_pprint E ns n s = (Inr (), t) \<and> pp_inv ns s0 (insert n seen) hs t"
proof -
  have table: "dict_get (d_handled_syscalls s) n = Some h" "wants_pprint ns s = wants_pprint ns s0"
    using assms(2,3) by (simp_all add: pp_inv_def handler_of_def)
  let ?t = "s\<lparr>d_handler_heap := (d_handler_heap s)(h := (d_handler_heap s h)\<lparr>sh_on_enter_pprint := wants_pprint ns s0 n,
     sh_on_exit_pprint := wants_pprint ns s0 n\<rparr>)\<rparr>"
  have run: "enable_one_pprint E ns n s = (Inr (), ?t)"
    using table by (simp add: enable_one_pprint_def upd_handler_def py_simps)
  have h: "h < d_next s0" "\<And>m. handler_of s0 m = Some h \<Longrightarrow> m = n"
    using assms(1,3) unfolding handlers_ok_def by metis+
  then have fresh: "h \<notin> set hs" using assms(2) by (auto simp: pp_inv_def)
  then have heap: "d_handler_heap ?t g = d_handler_heap s g" if "g \<in> set hs" for g using that by auto
  have img: "(\<lambda>g. sh_syscall_number (d_handler_heap ?t g)) ` set hs = (\<lambda>g. sh_syscall_number (d_handler_heap s g)) ` set hs"
    by (rule image_cong) (simp_all add: heap del: dbg.simps)
  have wants: "wants_pprint ns ?t = wants_pprint ns s" by (simp add: wants_pprint_def fun_eq_iff)
  note inv = assms(2) [unfolded pp_inv_def]
  have rest: "same_user_part (d_handler_heap ?t g) (d_handler_heap s0 g) \<and>
      (m \<in> insert n seen \<longrightarrow> printed (d_handler_heap ?t g) (wants_pprint ns s0 m))" if g: "handler_of s0 m = Some g" for m g
  proof (cases "m = n")
    case True
    with g assms(3) have "g = h" by simp
    moreover have "same_user_part (d_handler_heap s h) (d_handler_heap s0 h)" using inv assms(3) by blast
    ultimately show ?thesis using True by (simp add: printed_def same_user_part_def)
  next
    case False
    with h(2) g have "g \<noteq> h" by blast
    then show ?thesis using inv g False by simp
  qed
  have "pp_inv ns s0 (insert n seen) hs ?t"
    unfolding pp_inv_def
  proof (intro conjI)
    show "\<forall>g \<in> set hs. d_next s0 \<le> g \<and> g < d_next ?t \<and> printed (d_handler_heap ?t g) True \<and> \<not> sh_enabled (d_handler_heap ?t g) \<and>
        wants_pprint ns s0 (sh_syscall_number (d_handler_heap ?t g)) \<and> handler_of s0 (sh_syscall_number (d_handler_heap ?t g)) = None"
    proof
      fix g assume "g \<in> set hs"
      moreover from this have "g \<noteq> h" using fresh by blast
      ultimately show "d_next s0 \<le> g \<and> g < d_next ?t \<and> printed (d_handler_heap ?t g) True \<and> \<not> sh_enabled (d_handler_heap ?t g) \<and>
          wants_pprint ns s0 (sh_syscall_number (d_handler_heap ?t g)) \<and> handler_of s0 (sh_syscall_number (d_handler_heap ?t g)) = None"
        using inv by simp
    qed
    show "\<forall>m \<in> insert n seen. wants_pprint ns s0 m \<longrightarrow> handler_of s0 m = None \<longrightarrow> m \<in> (\<lambda>g. sh_syscall_number (d_handler_heap ?t g)) ` set hs"
      unfolding img using inv assms(3) by auto
  qed (use inv wants rest in \<open>simp_all\<close>)
  with run show ?thesis by blast
qed

lemma enable_one_missing:
  assumes "handlers_ok s0" and "pp_inv ns s0 seen hs s" and "handler_of s0 n = None"
  shows "\<exists>hs' t. enable_one_pprint E ns n s = (Inr (), t) \<and> pp_inv ns s0 (insert n seen) hs' t"
proof (cases "wants_pprint ns s0 n")
  case False
  then have "enable_one_pprint E ns n s = (Inr (), s)"
    using assms(2,3) by (simp add: enable_one_pprint_def pp_inv_def handler_of_def py_simps)
  moreover have "pp_inv ns s0 (insert n seen) hs s" using assms(2,3) False by (auto simp: pp_inv_def)
  ultimately show ?thesis by blast
next
  case True
  let ?new = "sh_set_enabled False (SyscallHandler n None None True True False)"
  let ?t = "s\<lparr>d_next := d_next s + 1, d_handler_heap := (d_handler_heap s)(d_next s := ?new),
    d_commands := d_commands s @ [CHandleSyscall (d_next s)]\<rparr>"
  have run: "enable_one_pprint E ns n s = (Inr (), ?t)"
    using assms(2,3) True
    by (simp add: enable_one_pprint_def pp_inv_def handler_of_def new_handler_def ensure_stopped upd_handler_def put_command_def py_simps)
  have new: "printed ?new True" "\<not> sh_enabled ?new" "sh_syscall_number ?new = n"
    by (simp_all add: printed_def sh_set_enabled_def SyscallHandler_def)
  have old: "\<And>m h. handler_of s0 m = Some h \<Longrightarrow> h \<noteq> d_next s" "\<And>g. g \<in> set hs \<Longrightarrow> g \<noteq> d_next s"
    using assms(1,2) by (fastforce simp: handlers_ok_def pp_inv_def)+
  have "wants_pprint ns ?t = wants_pprint ns s" by (simp add: wants_pprint_def fun_eq_iff)
  then have "pp_inv ns s0 (insert n seen) (hs @ [d_next s]) ?t"
    using assms(2,3) True new old unfolding pp_inv_def by (auto simp: image_iff less_SucI)
  with run show ?thesis by blast
qed

lemma enable_all:
  assumes "handlers_ok s0"
  shows "pp_inv ns s0 seen hs s \<Longrightarrow>
    \<exists>hs' t. for_each (enable_one_pprint E ns) xs s = (Inr (), t) \<and> pp_inv ns s0 (set xs \<union> seen) hs' t"
proof (induction xs arbitrary: seen hs s)
  case Nil
  then show ?case by (auto simp: ret_def)
next
  case (Cons n xs)
  obtain hs' t where t: "enable_one_pprint E ns n s = (Inr (), t)" "pp_inv ns s0 (insert n seen) hs' t"
    using enable_one_installed [OF assms Cons.prems] enable_one_missing [OF assms Cons.prems]
    by (cases "handler_of s0 n") metis+
  with Cons.IH [OF t(2)] show ?case by (simp add: bind_def)
qed

section \<open>The queue\<close>

definition install_handlers :: "(nat \<Rightarrow> syscall_handler) \<Rightarrow> nat list \<Rightarrow> (int, nat) dict \<Rightarrow> (int, nat) dict" where
  "install_handlers heap hs d = fold (\<lambda>h. dict_set (sh_syscall_number (heap h)) h) hs d"

lemma drain_handlers:
  "\<not> d_background s \<Longrightarrow> drain_commands E (map CHandleSyscall hs) s =
    (Inr None, s\<lparr>d_handled_syscalls := install_handlers (d_handler_heap s) hs (d_handled_syscalls s)\<rparr>)"
proof (induction hs arbitrary: s)
  case Nil
  then show ?case by (simp add: install_handlers_def ret_def)
next
  case (Cons h hs)
  let ?s = "s\<lparr>d_handled_syscalls := dict_set (sh_syscall_number (d_handler_heap s h)) h (d_handled_syscalls s)\<rparr>"
  have "poll_command E (CHandleSyscall h) s = (Inr None, ?s)"
    using Cons.prems by (simp add: poll_command_def in_background_def no_value_def threaded_handle_syscall_def set_syscall_handler_def get_handler_def py_simps)
  with Cons.IH [of ?s] Cons.prems show ?case by (simp add: bind_def install_handlers_def)
qed

lemma install_handlers_get:
  "dict_get (install_handlers heap hs d) n = (if n \<in> (\<lambda>h. sh_syscall_number (heap h)) ` set hs
     then Some (last (filter (\<lambda>h. sh_syscall_number (heap h) = n) hs)) else dict_get d n)"
  by (induction hs rule: rev_induct) (auto simp: install_handlers_def dict_get_set)

lemma installed_handler:
  assumes "n \<in> (\<lambda>h. sh_syscall_number (heap h)) ` set hs"
  shows "last (filter (\<lambda>h. sh_syscall_number (heap h) = n) hs) \<in> set hs"
    and "sh_syscall_number (heap (last (filter (\<lambda>h. sh_syscall_number (heap h) = n) hs))) = n"
proof -
  have "filter (\<lambda>h. sh_syscall_number (heap h) = n) hs \<noteq> []" using assms by (auto simp: filter_empty_conv)
  from last_in_set [OF this] show "last (filter (\<lambda>h. sh_syscall_number (heap h) = n) hs) \<in> set hs"
    "sh_syscall_number (heap (last (filter (\<lambda>h. sh_syscall_number (heap h) = n) hs))) = n" by auto
qed

section \<open>The property\<close>

text \<open>C22: switching the pretty printer on between two calls returns, and afterwards a system call of the table is
  printed exactly when it is wanted: its handler, the user's one or a new disabled one, has both
  printing callbacks, and an unwanted one has none. Every handler the user had stays as it was.\<close>

theorem pretty_print_exact:
  assumes "idle s" and "handlers_ok s" and "get_all_syscall_numbers (e_syscalls E) = Inr ns"
  shows "\<exists>t. enable_pretty_print E s = (Inr (), t) \<and> d_commands t = [] \<and>
    list_all (\<lambda>n. case handler_of t n of None \<Rightarrow> \<not> wants_pprint ns s n | Some h \<Rightarrow> printed (d_handler_heap t h) (wants_pprint ns s n)) ns \<and>
    (\<forall>n h. handler_of s n = Some h \<longrightarrow> handler_of t n = Some h \<and> same_user_part (d_handler_heap t h) (d_handler_heap s h)) \<and>
    (\<forall>n h. handler_of s n = None \<and> handler_of t n = Some h \<longrightarrow> \<not> sh_enabled (d_handler_heap t h))"
proof -
  have start: "pp_inv ns s {} [] s" using assms(1) by (simp add: pp_inv_def idle_def same_user_part_def)
  obtain hs u where u: "for_each (enable_one_pprint E ns) ns s = (Inr (), u)" "pp_inv ns s (set ns) hs u"
    using enable_all [OF assms(2) start] by fastforce
  let ?t = "u\<lparr>d_commands := [], d_handled_syscalls := install_handlers (d_handler_heap u) hs (d_handled_syscalls u)\<rparr>"
  have stopped: "\<not> d_background u" "d_commands u = map CHandleSyscall hs" "d_handled_syscalls u = d_handled_syscalls s" "d_poller u = PollerRunning"
    using u(2) by (simp_all add: pp_inv_def)
  have run: "enable_pretty_print E s = (Inr (), ?t)"
    using ensure_idle [OF assms(1), of E] assms(3) u(1) stopped
    by (simp add: enable_pretty_print_def join_and_check_status_def join_queue_def drain_handlers py_simps)
  note look = install_handlers_get [of "d_handler_heap u" hs "d_handled_syscalls u"]
  have kept: "handler_of ?t n = Some h \<and> same_user_part (d_handler_heap ?t h) (d_handler_heap s h)" if "handler_of s n = Some h" for n h
    using that u(2) look [of n] stopped(3) by (auto simp: handler_of_def pp_inv_def)
  have new: "printed (d_handler_heap u h) True \<and> \<not> sh_enabled (d_handler_heap u h) \<and> wants_pprint ns s n"
    if "handler_of s n = None" "handler_of ?t n = Some h" for n h
    using that u(2) look [of n] stopped(3) installed_handler [of n "d_handler_heap u" hs]
    by (auto simp: handler_of_def pp_inv_def split: if_splits)
  have "case handler_of ?t n of None \<Rightarrow> \<not> wants_pprint ns s n | Some h \<Rightarrow> printed (d_handler_heap ?t h) (wants_pprint ns s n)"
    if "n \<in> set ns" for n
  proof (cases "handler_of s n")
    case (Some h)
    then show ?thesis using kept [OF Some] u(2) that by (auto simp: pp_inv_def)
  next
    case None
    show ?thesis
    proof (cases "handler_of ?t n")
      case (Some h)
      then show ?thesis using new [OF None Some] by simp
    next
      case unhandled: None
      then show ?thesis using None u(2) that look [of n] by (auto simp: handler_of_def pp_inv_def split: if_splits)
    qed
  qed
  with run kept new show ?thesis unfolding list_all_iff by (intro exI [of _ ?t]) auto
qed

theorem pretty_print_exact_witness:
  "\<exists>t. enable_pretty_print (sample_env\<lparr>e_syscalls := Inr [\<lparr>sd_name = ''read'', sd_number = 0, sd_signature = []\<rparr>]\<rparr>) idle_dbg = (Inr (), t) \<and>
    list_all (\<lambda>n. case handler_of t n of None \<Rightarrow> False | Some h \<Rightarrow> printed (d_handler_heap t h) True) [0]"
proof -
  have "handlers_ok idle_dbg"
    by (simp add: handlers_ok_def handler_of_def idle_dbg_def sample_dbg_def SyscallHandler_def)
  from pretty_print_exact [OF idle_dbg_idle this, of "sample_env\<lparr>e_syscalls := Inr [\<lparr>sd_name = ''read'', sd_number = 0, sd_signature = []\<rparr>]\<rparr>" "[0]"]
  moreover have "wants_pprint [0] idle_dbg 0" by (simp add: wants_pprint_def or_list_def idle_dbg_def sample_dbg_def)
  ultimately show ?thesis by (fastforce simp: get_all_syscall_numbers_def split: option.splits)
qed

end
