(* ===== verification/Session_Properties.thy ===== *)
theory Session_Properties
  imports Breakpoint_Properties Debugger_Properties
begin

text \<open>
  The components together: what \<open>d.cont()\<close> followed by \<open>d.wait()\<close> does when the program runs into a
  breakpoint, from the user's call through the queue, the polling thread, the interface and the C code
  to the kernel, and back through the status handler.
\<close>

section \<open>The C functions\<close>

text \<open>Setting registers succeeds and leaves memory alone.\<close>

definition setregs_laws :: "'k os \<Rightarrow> ('k \<Rightarrow> int \<Rightarrow> byte) \<Rightarrow> ('k \<Rightarrow> int \<Rightarrow> bool) \<Rightarrow> ('k \<Rightarrow> bool) \<Rightarrow> int \<Rightarrow> bool" where
  "setregs_laws OS view mapped good tid \<longleftrightarrow>
     (\<forall>k rf. good k \<longrightarrow> (\<exists>k'. sys_setregs OS tid rf k = (True, k') \<and> good k' \<and> view k' = view k \<and> mapped k' = mapped k))"

text \<open>A thread that stands at a breakpoint is stepped off it while the program's own instruction is in memory,
  and is reported with a status that is not the one of a stop by SIGSTOP. The step may turn the program's
  memory from \<open>orig\<close> into \<open>orig1\<close>, without touching the words at the breakpoints \<open>A\<close>.\<close>

definition same_words :: "int set \<Rightarrow> (int \<Rightarrow> byte) \<Rightarrow> (int \<Rightarrow> byte) \<Rightarrow> bool" where
  "same_words A v w \<longleftrightarrow> (\<forall>a \<in> A. \<forall>i < 8. w (a + int i) = v (a + int i))"

lemma sb_ok_same_words: "sb_ok orig m bs \<Longrightarrow> same_words (addrs bs) orig orig' \<Longrightarrow> sb_ok orig' m bs"
  by (auto simp: sb_ok_def same_words_def)

definition steps_off :: "'k os \<Rightarrow> int \<Rightarrow> ('k \<Rightarrow> int \<Rightarrow> byte) \<Rightarrow> ('k \<Rightarrow> int \<Rightarrow> bool) \<Rightarrow> ('k \<Rightarrow> bool) \<Rightarrow> (int \<Rightarrow> byte) \<Rightarrow>
    (int \<Rightarrow> byte) \<Rightarrow> int set \<Rightarrow> bool" where
  "steps_off OS tid view mapped good orig orig1 A \<longleftrightarrow> same_words A orig orig1 \<and>
     (\<forall>k. good k \<longrightarrow> view k = orig \<longrightarrow> (\<exists>k' k'' st. sys_singlestep OS tid 0 k = ((0, 0), k') \<and>
        sys_waitpid OS tid False k' = ((tid, st), k'') \<and> st \<noteq> 4991 \<and> 0 \<le> st \<and> good k'' \<and> mapped k'' = mapped k \<and> view k'' = orig1))"

text \<open>The thread gets going: from elsewhere, or from a breakpoint after an earlier stop.\<close>

definition gets_going :: "'k os \<Rightarrow> int \<Rightarrow> ('k \<Rightarrow> int \<Rightarrow> byte) \<Rightarrow> ('k \<Rightarrow> int \<Rightarrow> bool) \<Rightarrow> ('k \<Rightarrow> bool) \<Rightarrow> (int \<Rightarrow> byte) \<Rightarrow>
    (int \<Rightarrow> byte) \<Rightarrow> int set \<Rightarrow> int \<Rightarrow> 'k \<Rightarrow> bool" where
  "gets_going OS tid view mapped good orig orig1 A ip k \<longleftrightarrow>
     (if ip \<in> A then view k = orig \<and> steps_off OS tid view mapped good orig orig1 A else orig1 = orig)"

lemma prepare_run:
  assumes L: "tracee_memory_laws OS pid view mapped good" and "setregs_laws OS view mapped good (node_tid g p)"
    and "good k" and "sb_inv orig view mapped (g, k)" and "gs_t_HEAD g = [p]"
    and "gets_going OS (node_tid g p) view mapped good orig orig1 (addrs (gs_b_HEAD g)) (instruction_pointer (ct_regs (gs_nodes g p))) k"
  shows "\<exists>st k1. prepare_for_run OS pid (g, k) = (Inr st, (g, k1)) \<and> 0 \<le> st \<and> good k1 \<and> mapped k1 = mapped k \<and>
    view k1 = with_traps orig1 (addrs (gs_b_HEAD g))"
proof -
  let ?A = "addrs (gs_b_HEAD g)" and ?ip = "instruction_pointer (ct_regs (gs_nodes g p))"
  obtain k0 where k0: "sys_setregs OS (node_tid g p) (ct_regs (gs_nodes g p)) k = (True, k0)" "good k0" "view k0 = view k" "mapped k0 = mapped k"
    using assms(2,3) unfolding setregs_laws_def by blast
  have flush: "flush_regs OS (g, k) = (Inr (), (g, k0))"
    using k0(1) assms(5) by (simp add: flush_regs_def setregs_def gs_get_def sys_def node_tid_def py_simps)
  have hit: "list_ex (\<lambda>b. sb_addr b = ?ip) (gs_b_HEAD g) \<longleftrightarrow> ?ip \<in> ?A" by (force simp: list_ex_iff image_iff)
  have "\<exists>st k'. step_over OS [p] 0 (g, k0) = (Inr (Some st), (g, k')) \<and> 0 \<le> st \<and> good k' \<and> mapped k' = mapped k \<and>
    sb_inv orig1 view mapped (g, k')"
  proof (cases "?ip \<in> ?A")
    case False
    then have "step_over OS [p] 0 (g, k0) = (Inr (Some 0), (g, k0))" using hit by (simp add: gs_get_def py_simps Let_def)
    then show ?thesis using k0 assms(4,6) False by (intro exI [of _ 0] exI [of _ k0]) (simp add: sb_inv_def gets_going_def)
  next
    case True
    with assms(6) k0(2,3) obtain k' k'' st where step: "sys_singlestep OS (node_tid g p) 0 k0 = ((0, 0), k')"
      "sys_waitpid OS (node_tid g p) False k' = ((node_tid g p, st), k'')" "st \<noteq> 4991" "0 \<le> st" "good k''" "mapped k'' = mapped k0" "view k'' = orig1"
      "same_words ?A orig orig1"
      unfolding gets_going_def steps_off_def by (metis (no_types, lifting))
    have "sb_ok orig (mapped k) (gs_b_HEAD g)" using assms(4) by (simp add: sb_inv_def)
    then have "sb_ok orig1 (mapped k) (gs_b_HEAD g)" by (rule sb_ok_same_words) (rule step(8))
    then have "sb_inv orig1 view mapped (g, k'')" using step(6,7) k0(4) by (simp add: sb_inv_def)
    moreover have "step_over OS [p] 0 (g, k0) = (Inr (Some st), (g, k''))"
      using True hit step(1-3) by (simp add: gs_get_def sys_def py_simps Let_def)
    ultimately show ?thesis using step(4-6) k0(4) by auto
  qed
  then obtain st k' where over: "step_over OS [p] 0 (g, k0) = (Inr (Some st), (g, k'))" "0 \<le> st" "good k'" "mapped k' = mapped k"
    "sb_inv orig1 view mapped (g, k')" by blast
  from patch_all_run [OF L over(3,5)]
  obtain k1 where k1: "patch_all OS pid (g, k') = (Inr (), (g, k1))" "good k1" "mapped k1 = mapped k'" "view k1 = with_traps orig1 ?A" by blast
  have "prepare_for_run OS pid (g, k) = (Inr st, (g, k1))"
    using flush over(1) k1(1) assms(5) by (simp add: prepare_for_run_def gs_get_def bind_def gets_def ret_def)
  with over k1 show ?thesis by auto
qed

lemma cont_all_run:
  assumes "tracee_memory_laws OS pid view mapped good" and "setregs_laws OS view mapped good (node_tid g p)"
    and "good k" and "sb_inv orig view mapped (g, k)" and "gs_t_HEAD g = [p]"
    and "gets_going OS (node_tid g p) view mapped good orig orig1 (addrs (gs_b_HEAD g)) (instruction_pointer (ct_regs (gs_nodes g p))) k"
  shows "\<exists>st k1. cont_all_and_set_bps OS pid (g, k) = (Inr st, (node_signal p 0 g,
        sys_cont OS (gs_handle_syscall_enabled g) (node_tid g p) (ct_signal_to_forward (gs_nodes g p)) k1)) \<and>
      0 \<le> st \<and> good k1 \<and> mapped k1 = mapped k \<and> view k1 = with_traps orig1 (addrs (gs_b_HEAD g))"
proof -
  from prepare_run [OF assms] obtain st k1 where k1: "prepare_for_run OS pid (g, k) = (Inr st, (g, k1))" "0 \<le> st" "good k1"
    "mapped k1 = mapped k" "view k1 = with_traps orig1 (addrs (gs_b_HEAD g))" by blast
  then have "cont_all_and_set_bps OS pid (g, k) = (Inr st, (node_signal p 0 g,
      sys_cont OS (gs_handle_syscall_enabled g) (node_tid g p) (ct_signal_to_forward (gs_nodes g p)) k1))"
    using assms(5) by (simp add: cont_all_and_set_bps_def cont_thread_def gs_get_def gs_upd_def sys_do_def py_simps)
  with k1 show ?thesis by auto
qed

text \<open>The kernel reports one stop of the thread, with its registers, and nothing more.\<close>

definition reports_stop :: "'k os \<Rightarrow> int \<Rightarrow> int \<Rightarrow> int \<Rightarrow> regfile \<Rightarrow> 'k \<Rightarrow> 'k \<Rightarrow> bool" where
  "reports_stop OS pid tid status rf k k' \<longleftrightarrow> sys_waitpid OS (- sys_getpgid OS pid k) False k = ((tid, status), k') \<and>
     sys_getregs OS tid k' = (Some rf, k') \<and> (\<exists>st. sys_waitpid OS (- sys_getpgid OS pid k') True k' = ((0, st), k'))"

lemma wait_all_run:
  assumes L: "tracee_memory_laws OS pid view mapped good" and "reports_stop OS pid (node_tid g p) status rf k k'"
    and "good k'" and "sb_inv orig view mapped (g, k')" and "gs_t_HEAD g = [p]" and "0 < fuel" and "0 < node_tid g p"
  shows "\<exists>k''. wait_all_and_update_regs fuel OS pid (g, k) = (Inr [(node_tid g p, status)], (node_regs p rf g, k'')) \<and>
    good k'' \<and> mapped k'' = mapped k' \<and> view k'' = orig"
proof -
  let ?g = "node_regs p rf g"
  have same: "gs_b_HEAD ?g = gs_b_HEAD g" "gs_t_HEAD ?g = [p]" "node_tid ?g p = node_tid g p"
    using assms(5) by (simp_all add: node_regs_def set_node_def node_tid_def)
  then have "sb_inv orig view mapped (?g, k')" using assms(4) by (simp add: sb_inv_def)
  from restore_all_run [OF L assms(3) this]
  obtain k'' where k'': "restore_all OS pid (?g, k') = (Inr (), (?g, k''))" "good k''" "mapped k'' = mapped k'" "view k'' = orig" by blast
  obtain n where "fuel = Suc n" using assms(6) by (cases fuel) auto
  then have "wait_all_and_update_regs fuel OS pid (g, k) = (Inr [(node_tid g p, status)], (?g, k''))"
    using assms(2,5,7) k''(1)
    by (auto simp: wait_all_and_update_regs_def reports_stop_def gs_get_def gs_upd_def sys_def getregs_def py_simps)
  with k'' show ?thesis by blast
qed


section \<open>The interface\<close>

text \<open>A process with one thread, stopped, with nothing to forward and no breakpoint to be switched.\<close>

definition one_thread :: "'k dbg \<Rightarrow> nat \<Rightarrow> nat \<Rightarrow> bool" where
  "one_thread s t p \<longleftrightarrow> d_threads s = [t] \<and> tc_regs (d_thread_heap s t) = p \<and> \<not> tc_dead (d_thread_heap s t) \<and>
     gs_t_HEAD (d_gs s) = [p] \<and> node_tid (d_gs s) p = tc_thread_id (d_thread_heap s t) \<and> 0 < tc_thread_id (d_thread_heap s t)"

definition settled :: "'k dbg \<Rightarrow> bool" where
  "settled s \<longleftrightarrow> (\<forall>b \<in> set (dict_values (d_breakpoints s)). \<not> bp_changed (d_bp_heap s b)) \<and>
     rc_threads_with_signals_to_forward (d_resume_context s) = [] \<and> \<not> rc_is_startup (d_resume_context s) \<and>
     \<not> rc_is_a_step (d_resume_context s)"

text \<open>The breakpoints after a \<open>cont\<close> with nothing marked: none is disabled for a step.\<close>

definition armed :: "'k dbg \<Rightarrow> nat \<Rightarrow> breakpoint" where
  "armed s b = (if b \<in> set (dict_values (d_breakpoints s)) then (d_bp_heap s b)\<lparr>bp_disabled_for_step := False, bp_changed := False\<rparr> else d_bp_heap s b)"

definition wants_any :: "'k dbg \<Rightarrow> bool" where
  "wants_any s = list_ex (\<lambda>h. wants_syscalls (d_handler_heap s h)) (dict_values (d_handled_syscalls s))"

definition resumed_gs :: "nat \<Rightarrow> 'k dbg \<Rightarrow> global_state" where
  "resumed_gs p s = node_signal p 0 ((d_gs s)\<lparr>gs_handle_syscall_enabled := wants_any s\<rparr>)"

lemma iface_cont_run:
  fixes s :: "'k dbg"
  assumes L: "tracee_memory_laws (e_os E) (d_iface_process_id s) view mapped good"
    and "setregs_laws (e_os E) view mapped good (node_tid (d_gs s) p)" and "good (d_kernel s)"
    and "sb_inv orig view mapped (d_gs s, d_kernel s)" and "gs_t_HEAD (d_gs s) = [p]"
    and "gets_going (e_os E) (node_tid (d_gs s) p) view mapped good orig orig1 (addrs (gs_b_HEAD (d_gs s)))
      (instruction_pointer (ct_regs (gs_nodes (d_gs s) p))) (d_kernel s)" and "settled s"
  shows "\<exists>k1. iface_cont E s = (Inr (), s\<lparr>d_bp_heap := armed s, d_gs := resumed_gs p s,
        d_kernel := sys_cont (e_os E) (wants_any s) (node_tid (d_gs s) p) (ct_signal_to_forward (gs_nodes (d_gs s) p)) k1\<rparr>) \<and>
      good k1 \<and> mapped k1 = mapped (d_kernel s) \<and> view k1 = with_traps orig1 (addrs (gs_b_HEAD (d_gs s)))"
proof -
  let ?bs = "dict_values (d_breakpoints s)" and ?g = "(d_gs s)\<lparr>gs_handle_syscall_enabled := wants_any s\<rparr>"
  obtain ch h where run: "collect_changed ?bs [] s = (Inr ch, s\<lparr>d_bp_heap := h\<rparr>)"
    "set ch = {b \<in> set ?bs. bp_changed (d_bp_heap s b)}"
    "\<forall>b. h b = (if b \<in> set ?bs then (d_bp_heap s b)\<lparr>bp_disabled_for_step := False, bp_changed := False\<rparr> else d_bp_heap s b)"
    using collect_changed_run [of ?bs "[]" s] by auto
  have "b \<notin> set ch" for b unfolding run(2) using assms(7) by (auto simp: settled_def)
  then have "ch = []" by (cases ch) auto
  moreover have "h = armed s" using run(3) by (auto simp: armed_def)
  ultimately have applied: "apply_changes E s = (Inr (), s\<lparr>d_bp_heap := armed s\<rparr>)"
    using run(1) by (simp add: apply_changes_def py_simps)
  have same: "gs_nodes ?g = gs_nodes (d_gs s)" "node_tid ?g p = node_tid (d_gs s) p" "gs_b_HEAD ?g = gs_b_HEAD (d_gs s)"
    "gs_t_HEAD ?g = gs_t_HEAD (d_gs s)" "gs_handle_syscall_enabled ?g = wants_any s" "node_signal p 0 ?g = resumed_gs p s"
    by (simp_all add: node_tid_def resumed_gs_def)
  have "sb_inv orig view mapped (?g, d_kernel s)" using assms(4) by (simp add: sb_inv_def)
  from cont_all_run [OF L, of ?g p "d_kernel s" orig orig1, unfolded same, OF assms(2,3) this assms(5,6)]
  obtain st k1 where k1: "cont_all_and_set_bps (e_os E) (d_iface_process_id s) (?g, d_kernel s) = (Inr st, (resumed_gs p s,
      sys_cont (e_os E) (wants_any s) (node_tid (d_gs s) p) (ct_signal_to_forward (gs_nodes (d_gs s) p)) k1))"
    "0 \<le> st" "good k1" "mapped k1 = mapped (d_kernel s)" "view k1 = with_traps orig1 (addrs (gs_b_HEAD (d_gs s)))"
    by blast
  have "wants_any (s\<lparr>d_bp_heap := armed s\<rparr>) = wants_any s" "(st < 0) = False"
    "rc_threads_with_signals_to_forward (d_resume_context s) = []" using k1(2) assms(7) by (simp_all add: wants_any_def settled_def)
  then have "iface_cont E s = (Inr (), s\<lparr>d_bp_heap := armed s, d_gs := resumed_gs p s,
        d_kernel := sys_cont (e_os E) (wants_any s) (node_tid (d_gs s) p) (ct_signal_to_forward (gs_nodes (d_gs s) p)) k1\<rparr>)"
    using applied k1(1)
    by (simp add: iface_cont_def in_c_def py_simps flip: wants_any_def)
  with k1(3-5) show ?thesis by blast
qed


section \<open>The status handler\<close>

definition stopped_at_hit :: "int \<Rightarrow> nat \<Rightarrow> int \<Rightarrow> nat \<Rightarrow> 'k dbg \<Rightarrow> 'k dbg" where
  "stopped_at_hit thread_id t a b s = (counted_hit thread_id t a b (s\<lparr>d_assume_race_sigstop := False\<rparr>))\<lparr>
     d_resume_context := (d_resume_context s)\<lparr>rc_resume := False\<rparr>,
     d_thread_heap := (d_thread_heap s)(t := (d_thread_heap s t)\<lparr>tc_signal_number := 5\<rparr>)\<rparr>"

lemma trap_parts: "WIFSTOPPED 0x57F" "\<not> WIFEXITED 0x57F" "\<not> WIFSIGNALED 0x57F" "WSTOPSIG 0x57F = 5" "drop_bit 8 (0x57F :: int) = 5"
  by code_simp+

lemma event_constants: "CLONE_EVENT \<noteq> 5" "SECCOMP_EVENT \<noteq> 5" "EXIT_EVENT \<noteq> 5" "FORK_EVENT \<noteq> 5"
  by code_simp+

lemma live_bp_same: "d_breakpoints u = d_breakpoints s \<Longrightarrow> d_bp_heap u = d_bp_heap s \<Longrightarrow> live_bp_at x u = live_bp_at x s"
  by (simp add: live_bp_at_def split: option.split)

lemma trap_handled:
  assumes "thread_of s thread_id = Some t" and "regs_of s t ''rip'' = ip" and "e_arch E = ''amd64''"
    and "live_bp_at ip s = None" and "live_bp_at (ip - 1) s = Some b" and "fits_u64 (ip - 1)" and "bp_callback (d_bp_heap s b) = None"
    and "\<not> rc_is_startup (d_resume_context s)" and "\<not> rc_is_a_step (d_resume_context s)" and "dict_get (d_caught_signals s) 5 = None"
  shows "handle_change E thread_id 0x57F results s = (Inr (), stopped_at_hit thread_id t (ip - 1) b s)"
proof -
  define u where "u = s\<lparr>d_forward_signal := True, d_assume_race_sigstop := False\<rparr>"
  have u: "thread_of u thread_id = Some t" "regs_of u t ''rip'' = ip" "live_bp_at ip u = None" "live_bp_at (ip - 1) u = Some b"
    "bp_callback (d_bp_heap u b) = None"
    using assms live_bp_same [of u s] by (simp_all add: u_def thread_of_def regs_of_def)
  define v where "v = counted_hit thread_id t (ip - 1) b u"
  have hit: "handle_breakpoints E thread_id u = stop_process v"
    using software_hit_run [OF u(1,2) assms(3) u(3,4) assms(6)] u(5) by (simp add: v_def)
  have "thread_of (v\<lparr>d_resume_context := x\<rparr>) thread_id = Some t" for x
    using u(1) by (simp add: v_def counted_hit_def thread_of_def)
  moreover have "d_resume_context v = d_resume_context s" "\<not> d_forward_signal v" "d_thread_heap v = d_thread_heap s"
    "d_caught_signals v = d_caught_signals s"
    by (simp_all add: v_def u_def counted_hit_def)
  moreover have "stopped_at_hit thread_id t (ip - 1) b s = v\<lparr>d_resume_context := (d_resume_context s)\<lparr>rc_resume := False\<rparr>,
      d_thread_heap := (d_thread_heap s)(t := (d_thread_heap s t)\<lparr>tc_signal_number := 5\<rparr>)\<rparr>"
    by (simp add: stopped_at_hit_def v_def u_def counted_hit_def regs_of_def)
  ultimately show ?thesis
    using assms(8-10) hit trap_parts event_constants
    by (simp add: handle_change_def handle_stop_def internal_signal_handler_def signal_constants get_thread_by_id_eq stop_process_def
        handle_signal_def set_forward_def upd_thread_def upd_resume_def get_thread_def handle_event_def py_simps Let_def flip: u_def)
qed


definition waited :: "nat \<Rightarrow> regfile \<Rightarrow> 'k \<Rightarrow> 'k dbg \<Rightarrow> 'k dbg" where
  "waited p rf k s = s\<lparr>d_gs := node_regs p rf (d_gs s), d_kernel := k, d_maps_cache := [], d_fds_cache := [], d_assume_race_sigstop := True\<rparr>"

lemma iface_wait_run:
  assumes L: "tracee_memory_laws (e_os E) (d_iface_process_id s) view mapped good"
    and "reports_stop (e_os E) (d_iface_process_id s) (tc_thread_id (d_thread_heap s t)) 0x57F rf (d_kernel s) k'"
    and "good k'" and "sb_inv orig view mapped (d_gs s, k')" and "one_thread s t p" and "0 < e_fuel E"
    and "rf ''rip'' = a + 1" and "e_arch E = ''amd64''" and "live_bp_at (a + 1) s = None" and "live_bp_at a s = Some b"
    and "fits_u64 a" and "bp_callback (d_bp_heap s b) = None" and "settled s" and "dict_get (d_caught_signals s) 5 = None"
  shows "\<exists>k. iface_wait E s = (Inr (), stopped_at_hit (tc_thread_id (d_thread_heap s t)) t a b (waited p rf k s)) \<and>
    good k \<and> mapped k = mapped k' \<and> view k = orig"
proof -
  let ?tid = "tc_thread_id (d_thread_heap s t)"
  note one = assms(5) [unfolded one_thread_def]
  obtain k where k: "wait_all_and_update_regs (e_fuel E) (e_os E) (d_iface_process_id s) (d_gs s, d_kernel s) =
      (Inr [(?tid, 0x57F)], (node_regs p rf (d_gs s), k))" "good k" "mapped k = mapped k'" "view k = orig"
    using wait_all_run [OF L, of "d_gs s" p "0x57F" rf "d_kernel s" k' orig "e_fuel E"] assms(2-4,6) one by auto
  define w where "w = waited p rf k s"
  have w: "thread_of w ?tid = Some t" "regs_of w t ''rip'' = a + 1" "live_bp_at (a + 1) w = None" "live_bp_at a w = Some b"
    "d_bp_heap w = d_bp_heap s" "d_resume_context w = d_resume_context s" "d_caught_signals w = d_caught_signals s"
    using one assms(7,9,10) live_bp_same [of w s]
    by (simp_all add: w_def waited_def thread_of_def regs_of_def node_regs_def set_node_def)
  have "handle_change E ?tid 0x57F [(?tid, 0x57F)] w = (Inr (), stopped_at_hit ?tid t a b w)"
    using trap_handled [OF w(1,2) assms(8) w(3), of b] w(4-7) assms(11-14) by (simp add: settled_def)
  moreover have "?tid \<noteq> - 1" using one by linarith
  moreover have "w = (s\<lparr>d_gs := node_regs p rf (d_gs s), d_kernel := k\<rparr>)\<lparr>d_maps_cache := [], d_fds_cache := [], d_assume_race_sigstop := True\<rparr>"
    by (simp add: w_def waited_def)
  ultimately have "iface_wait E s = (Inr (), stopped_at_hit ?tid t a b w)"
    using k(1) by (simp add: iface_wait_def in_c_def invalidate_process_cache_def manage_change_def py_simps)
  with k(2-4) show ?thesis unfolding w_def by blast
qed

section \<open>The user's calls\<close>

text \<open>
  What the kernel is asked to promise: the thread, continued with the traps in memory, runs into the
  one at \<open>a\<close> and is reported with the registers \<open>rf\<close>. Meanwhile the program turned its memory from \<open>orig\<close>
  into \<open>orig'\<close>, without touching the words at the breakpoints.
\<close>

definition runs_into :: "'k os \<Rightarrow> int \<Rightarrow> int \<Rightarrow> ('k \<Rightarrow> int \<Rightarrow> byte) \<Rightarrow> ('k \<Rightarrow> int \<Rightarrow> bool) \<Rightarrow> ('k \<Rightarrow> bool) \<Rightarrow> (int \<Rightarrow> byte) \<Rightarrow>
    (int \<Rightarrow> byte) \<Rightarrow> int set \<Rightarrow> regfile \<Rightarrow> bool" where
  "runs_into OS pid tid view mapped good orig orig' A rf \<longleftrightarrow> same_words A orig orig' \<and>
     (\<forall>k h sig. good k \<longrightarrow> view k = with_traps orig A \<longrightarrow> (\<exists>k'. reports_stop OS pid tid 0x57F rf (sys_cont OS h tid sig k) k' \<and>
        good k' \<and> mapped k' = mapped k \<and> view k' = with_traps orig' A))"

lemma poll_none:
  assumes "exec_body E c (s\<lparr>d_background := True\<rparr>) = (Inr None, u)"
  shows "poll_command E c s = (Inr None, u\<lparr>d_background := False\<rparr>)"
  using assms by (simp add: poll_command_def in_background_def)

lemma submitted:
  assumes "\<not> d_background s" and "d_commands s = []" and "d_poller s = PollerRunning" and "c \<noteq> CTerminate"
    and "exec_body E c (s\<lparr>d_background := True\<rparr>) = (Inr None, u)"
  shows "submit E c s = (Inr (), u\<lparr>d_background := False\<rparr>)"
  using assms(1-4) poll_none [OF assms(5)]
  by (simp add: submit_def put_command_def join_and_check_status_def join_queue_def py_simps)

lemma joined:
  assumes "\<not> d_background s" and "d_commands s = [c]" and "d_poller s = PollerRunning" and "c \<noteq> CTerminate"
    and "exec_body E c (s\<lparr>d_commands := [], d_background := True\<rparr>) = (Inr None, u)"
  shows "join_and_check_status E s = (Inr (), u\<lparr>d_background := False\<rparr>)"
  using assms(1-4) poll_none [of E c "s\<lparr>d_commands := []\<rparr>" u] assms(5)
  by (simp add: join_and_check_status_def join_queue_def py_simps)

lemma alive:
  assumes "one_thread s t p"
  shows "first_thread_dead s = (Inr False, s)"
  using assms by (simp add: first_thread_dead_def one_thread_def py_simps)

definition after_cont :: "nat \<Rightarrow> 'k \<Rightarrow> 'k dbg \<Rightarrow> 'k dbg" where
  "after_cont p k s = s\<lparr>d_is_running := True, d_bp_heap := armed s, d_gs := resumed_gs p s, d_kernel := k\<rparr>"

lemma dbg_cont_run:
  assumes "idle s" and "one_thread s t p"
    and "iface_cont E (s\<lparr>d_background := True, d_is_running := True\<rparr>) =
      (Inr (), (after_cont p k s)\<lparr>d_background := True\<rparr>)"
  shows "dbg_cont E s = (Inr (), (after_cont p k s)\<lparr>d_commands := [CWait]\<rparr>)"
proof -
  have s: "\<not> d_background s" "d_commands s = []" "d_poller s = PollerRunning" "d_instanced s" using assms(1) by (simp_all add: idle_def)
  have "exec_body E CCont (s\<lparr>d_background := True\<rparr>) = (Inr None, (after_cont p k s)\<lparr>d_background := True\<rparr>)"
    using assms(3) by (simp add: no_value_def threaded_cont_def set_running_def py_simps)
  from submitted [OF s(1-3) _ this] have "submit E CCont s = (Inr (), after_cont p k s)"
    using s(1) by (simp add: after_cont_def)
  then show ?thesis
    using s ensure_idle [OF assms(1), of E] alive [OF assms(2)]
    by (simp add: dbg_cont_def id_cont_def user_method_def background_alias_def change_state_function_process_def require_instanced_def
        require_alive_def put_command_def after_cont_def py_simps)
qed

lemma dbg_wait_run:
  assumes "d_instanced s" and "\<not> d_background s" and "d_commands s = [CWait]" and "d_poller s = PollerRunning" and "one_thread s t p"
    and "0 < e_fuel E" and "\<not> rc_resume (d_resume_context v)" and "one_thread v t p"
    and "iface_wait E (s\<lparr>d_commands := [], d_background := True, d_resume_context := (d_resume_context s)\<lparr>rc_resume := True\<rparr>\<rparr>) = (Inr (), v)"
  shows "dbg_wait E s = (Inr (), v\<lparr>d_is_running := False, d_background := False\<rparr>)"
proof -
  obtain n where n: "e_fuel E = Suc n" using assms(6) by (cases "e_fuel E") auto
  have one: "one_thread (s\<lparr>d_commands := [], d_background := True\<rparr>) t p" "one_thread (v\<lparr>d_is_running := False, d_background := False\<rparr>) t p"
    using assms(5,8) by (simp_all add: one_thread_def)
  have "exec_body E CWait (s\<lparr>d_commands := [], d_background := True\<rparr>) = (Inr None, v\<lparr>d_is_running := False\<rparr>)"
    using assms(7,9) alive [OF one(1)]
    by (simp add: no_value_def threaded_wait_def n set_running_def upd_resume_def py_simps)
  from joined [OF assms(2,3,4) _ this]
  have "join_and_check_status E s = (Inr (), v\<lparr>d_is_running := False, d_background := False\<rparr>)" by simp
  then show ?thesis
    using assms(1,2) alive [OF one(2)]
    by (simp add: dbg_wait_def id_wait_def background_alias_def require_instanced_def py_simps)
qed


section \<open>Running into a breakpoint\<close>

text \<open>A stopped, idle one-thread process with an enabled breakpoint \<open>b\<close> at \<open>a\<close> among the software breakpoints
  \<open>A\<close>, without a callback for it or a catcher of SIGTRAP; the program's own memory is \<open>orig\<close>.\<close>

definition ready :: "('k \<Rightarrow> int \<Rightarrow> byte) \<Rightarrow> ('k \<Rightarrow> int \<Rightarrow> bool) \<Rightarrow> ('k \<Rightarrow> bool) \<Rightarrow> int \<Rightarrow> int \<Rightarrow> int set \<Rightarrow> nat \<Rightarrow> nat \<Rightarrow>
    int \<Rightarrow> nat \<Rightarrow> (int \<Rightarrow> byte) \<Rightarrow> 'k dbg \<Rightarrow> bool" where
  "ready view mapped good pid tid A t p a b orig s \<longleftrightarrow> d_iface_process_id s = pid \<and> tc_thread_id (d_thread_heap s t) = tid \<and>
     addrs (gs_b_HEAD (d_gs s)) = A \<and> good (d_kernel s) \<and> sb_inv orig view mapped (d_gs s, d_kernel s) \<and>
     idle s \<and> one_thread s t p \<and> settled s \<and> dict_get (d_breakpoints s) a = Some b \<and> dict_get (d_breakpoints s) (a + 1) = None \<and>
     bp_enabled (d_bp_heap s b) \<and> bp_callback (d_bp_heap s b) = None \<and> dict_get (d_caught_signals s) 5 = None"

lemma cont_part:
  fixes s :: "'k dbg"
  assumes L: "tracee_memory_laws (e_os E) pid view mapped good" and regs: "setregs_laws (e_os E) view mapped good tid"
    and rdy: "ready view mapped good pid tid A t p a b orig s"
    and going: "gets_going (e_os E) tid view mapped good orig orig1 A (regs_of s t ''rip'') (d_kernel s)"
  shows "\<exists>k1 h sig. dbg_cont E s = (Inr (), (after_cont p (sys_cont (e_os E) h tid sig k1) s)\<lparr>d_commands := [CWait]\<rparr>) \<and>
    good k1 \<and> mapped k1 = mapped (d_kernel s) \<and> view k1 = with_traps orig1 A"
proof -
  have rs: "d_iface_process_id s = pid" "tc_thread_id (d_thread_heap s t) = tid" "addrs (gs_b_HEAD (d_gs s)) = A" "good (d_kernel s)"
    "sb_inv orig view mapped (d_gs s, d_kernel s)" "idle s" "one_thread s t p" "settled s"
    using rdy by (simp_all add: ready_def)
  define s1 where "s1 = s\<lparr>d_background := True, d_is_running := True\<rparr>"
  have s1: "d_iface_process_id s1 = pid" "d_gs s1 = d_gs s" "d_kernel s1 = d_kernel s" "settled s1"
    "node_tid (d_gs s) p = tid" "gs_t_HEAD (d_gs s) = [p]" "instruction_pointer (ct_regs (gs_nodes (d_gs s) p)) = regs_of s t ''rip''"
    using rs by (simp_all add: s1_def settled_def instruction_pointer_def regs_of_def one_thread_def)
  obtain k1 where k1: "iface_cont E s1 = (Inr (), s1\<lparr>d_bp_heap := armed s1, d_gs := resumed_gs p s1,
        d_kernel := sys_cont (e_os E) (wants_any s1) tid (ct_signal_to_forward (gs_nodes (d_gs s) p)) k1\<rparr>)"
      "good k1" "mapped k1 = mapped (d_kernel s)" "view k1 = with_traps orig1 A"
    using iface_cont_run [of E s1 view mapped good p orig orig1] L regs rs(3-5) going s1 by auto
  let ?k2 = "sys_cont (e_os E) (wants_any s1) tid (ct_signal_to_forward (gs_nodes (d_gs s) p)) k1"
  have "armed s1 = armed s" "resumed_gs p s1 = resumed_gs p s" by (auto simp: s1_def armed_def resumed_gs_def wants_any_def)
  then have "iface_cont E (s\<lparr>d_background := True, d_is_running := True\<rparr>) = (Inr (), (after_cont p ?k2 s)\<lparr>d_background := True\<rparr>)"
    using k1(1) by (simp add: s1_def after_cont_def)
  from dbg_cont_run [OF rs(6,7) this] k1(2-4) show ?thesis by blast
qed

lemma wait_part:
  fixes s :: "'k dbg"
  assumes L: "tracee_memory_laws (e_os E) pid view mapped good" and amd: "e_arch E = ''amd64''" and fuel: "0 < e_fuel E"
    and rdy: "ready view mapped good pid tid A t p a b orig s" and ok: "sb_ok orig' (mapped (d_kernel s)) (gs_b_HEAD (d_gs s))"
    and stop: "reports_stop (e_os E) pid tid 0x57F rf k k'" "good k'" "mapped k' = mapped (d_kernel s)" "view k' = with_traps orig' A"
    and rip: "rf ''rip'' = a + 1" and a: "fits_u64 a"
  shows "\<exists>v. dbg_wait E ((after_cont p k s)\<lparr>d_commands := [CWait]\<rparr>) = (Inr (), v) \<and> ready view mapped good pid tid A t p a b orig' v \<and>
    regs_of v t = rf(''rip'' := a) \<and> view (d_kernel v) = orig' \<and>
    bp_hit_count (d_bp_heap v b) = bp_hit_count (d_bp_heap s b) + 1 \<and>
    bp_linked_thread_ids (d_bp_heap v b) = bp_linked_thread_ids (d_bp_heap s b) @ [tid] \<and>
    (\<forall>c. c \<noteq> b \<longrightarrow> bp_hit_count (d_bp_heap v c) = bp_hit_count (d_bp_heap s c))"
proof -
  let ?tid = "tc_thread_id (d_thread_heap s t)" and ?A = "addrs (gs_b_HEAD (d_gs s))"
  have rs: "d_iface_process_id s = pid" "?tid = tid" "?A = A" "good (d_kernel s)" "sb_inv orig view mapped (d_gs s, d_kernel s)"
    "idle s" "one_thread s t p" "settled s" "dict_get (d_breakpoints s) a = Some b" "dict_get (d_breakpoints s) (a + 1) = None"
    "bp_enabled (d_bp_heap s b)" "bp_callback (d_bp_heap s b) = None" "dict_get (d_caught_signals s) 5 = None"
    using rdy by (simp_all add: ready_def)
  note one = rs(7) [unfolded one_thread_def]
  have gs: "gs_b_HEAD (resumed_gs p s) = gs_b_HEAD (d_gs s)" "gs_t_HEAD (resumed_gs p s) = [p]" "node_tid (resumed_gs p s) p = ?tid"
    using one by (simp_all add: resumed_gs_def node_signal_def set_node_def node_tid_def)
  define s2 where "s2 = (after_cont p k s)\<lparr>d_commands := [CWait]\<rparr>"
  define s3 where "s3 = s2\<lparr>d_commands := [], d_background := True, d_resume_context := (d_resume_context s2)\<lparr>rc_resume := True\<rparr>\<rparr>"
  have s3: "d_iface_process_id s3 = d_iface_process_id s" "d_gs s3 = resumed_gs p s" "d_kernel s3 = k" "d_thread_heap s3 = d_thread_heap s"
    "d_bp_heap s3 = armed s" "d_breakpoints s3 = d_breakpoints s" "d_caught_signals s3 = d_caught_signals s"
    by (simp_all add: s3_def s2_def after_cont_def)
  have inv: "sb_inv orig' view mapped (d_gs s3, k')" using stop ok gs(1) rs(3) by (simp add: sb_inv_def s3 with_traps_def)
  have listed: "b \<in> set (dict_values (d_breakpoints s))" using rs(9) by (metis imageI map_of_SomeD set_map snd_conv)
  have live: "live_bp_at (a + 1) s3 = None" "live_bp_at a s3 = Some b" "bp_callback (d_bp_heap s3 b) = None"
    using rs(9) rs(10) rs(11) rs(12) listed by (simp_all add: live_bp_at_def s3 armed_def)
  have one3: "one_thread s3 t p" "settled s3"
    using one gs rs(8) by (auto simp: one_thread_def settled_def s3 armed_def s3_def s2_def after_cont_def)
  obtain k4 where k4: "iface_wait E s3 = (Inr (), stopped_at_hit ?tid t a b (waited p rf k4 s3))" "good k4" "mapped k4 = mapped k'" "view k4 = orig'"
    using iface_wait_run [of E s3 view mapped good t rf k' orig' p a b] L stop inv one3 live amd fuel rip a rs(1,2,13) by (auto simp: s3)
  define v where "v = stopped_at_hit ?tid t a b (waited p rf k4 s3)"
  have vf: "d_gs v = node_regs p (rf(''rip'' := a)) (resumed_gs p s)" "d_kernel v = k4" "d_threads v = [t]"
    "d_thread_heap v = (d_thread_heap s)(t := (d_thread_heap s t)\<lparr>tc_signal_number := 5\<rparr>)"
    "d_bp_heap v = (armed s)(b := (armed s b)\<lparr>bp_linked_thread_ids := bp_linked_thread_ids (armed s b) @ [?tid], bp_hit_count := bp_hit_count (armed s b) + 1\<rparr>)"
    "d_breakpoints v = d_breakpoints s" "d_resume_context v = (d_resume_context s)\<lparr>rc_resume := False\<rparr>"
    "d_instanced v = d_instanced s" "d_commands v = []" "d_poller v = d_poller s"
    "d_iface_process_id v = d_iface_process_id s" "d_caught_signals v = d_caught_signals s"
    using one by (simp_all add: v_def stopped_at_hit_def counted_hit_def waited_def s3 s3_def s2_def after_cont_def regs_of_def node_regs_def set_node_def)
  have one4: "one_thread v t p"
    using one gs(2,3) by (simp add: one_thread_def vf node_regs_def set_node_def node_tid_def)
  have two: "one_thread s2 t p" using one gs(2,3) by (simp add: one_thread_def s2_def after_cont_def)
  define w where "w = v\<lparr>d_is_running := False, d_background := False\<rparr>"
  have s2: "d_instanced s2" "\<not> d_background s2" "d_commands s2 = [CWait]" "d_poller s2 = PollerRunning"
    using rs(6) by (simp_all add: s2_def after_cont_def idle_def)
  have "dbg_wait E s2 = (Inr (), w)"
    using dbg_wait_run [OF s2 two fuel _ one4] k4(1) vf(7) by (simp add: w_def v_def s3_def)
  moreover have "gs_b_HEAD (d_gs w) = gs_b_HEAD (d_gs s)" using gs(1) by (simp add: w_def vf node_regs_def set_node_def)
  with ok stop(3) k4(2-4) one4 rs have "ready view mapped good pid tid A t p a b orig' w"
    by (auto simp: ready_def w_def vf sb_inv_def idle_def one_thread_def settled_def armed_def)
  moreover have "regs_of w t = rf(''rip'' := a)" using one by (simp add: w_def regs_of_def vf node_regs_def set_node_def)
  ultimately show ?thesis
    using k4(4) rs(2) by (intro exI [of _ w]) (simp add: w_def vf armed_def flip: s2_def)
qed

lemma cont_wait_run:
  fixes s :: "'k dbg"
  assumes L: "tracee_memory_laws (e_os E) pid view mapped good" and regs: "setregs_laws (e_os E) view mapped good tid"
    and amd: "e_arch E = ''amd64''" and fuel: "0 < e_fuel E" and rdy: "ready view mapped good pid tid A t p a b orig s"
    and going: "gets_going (e_os E) tid view mapped good orig orig1 A (regs_of s t ''rip'') (d_kernel s)"
    and into: "runs_into (e_os E) pid tid view mapped good orig1 orig' A rf" and rip: "rf ''rip'' = a + 1" and "fits_u64 a"
  shows "\<exists>v. bind (dbg_cont E) (\<lambda>_. dbg_wait E) s = (Inr (), v) \<and> ready view mapped good pid tid A t p a b orig' v \<and>
    regs_of v t = rf(''rip'' := a) \<and> view (d_kernel v) = orig' \<and>
    bp_hit_count (d_bp_heap v b) = bp_hit_count (d_bp_heap s b) + 1 \<and>
    bp_linked_thread_ids (d_bp_heap v b) = bp_linked_thread_ids (d_bp_heap s b) @ [tid] \<and>
    (\<forall>c. c \<noteq> b \<longrightarrow> bp_hit_count (d_bp_heap v c) = bp_hit_count (d_bp_heap s c))"
proof -
  have orig: "sb_ok orig (mapped (d_kernel s)) (gs_b_HEAD (d_gs s))" and A: "addrs (gs_b_HEAD (d_gs s)) = A"
    using rdy by (simp_all add: ready_def sb_inv_def)
  have "same_words A orig orig1"
    using going by (auto simp: gets_going_def steps_off_def same_words_def split: if_splits)
  with orig into have ok: "sb_ok orig' (mapped (d_kernel s)) (gs_b_HEAD (d_gs s))"
    using sb_ok_same_words unfolding runs_into_def A [symmetric] by blast
  from cont_part [OF L regs rdy going] obtain k1 h sig where k1: "dbg_cont E s = (Inr (), (after_cont p (sys_cont (e_os E) h tid sig k1) s)\<lparr>d_commands := [CWait]\<rparr>)"
    "good k1" "mapped k1 = mapped (d_kernel s)" "view k1 = with_traps orig1 A" by blast
  with into obtain k' where "reports_stop (e_os E) pid tid 0x57F rf (sys_cont (e_os E) h tid sig k1) k'" "good k'"
    "mapped k' = mapped (d_kernel s)" "view k' = with_traps orig' A" unfolding runs_into_def by metis
  from wait_part [OF L amd fuel rdy ok this rip assms(9)] k1(1) show ?thesis by (simp add: bind_def)
qed


text \<open>C7: \<open>d.cont()\<close> and \<open>d.wait()\<close> on a stopped process that runs into an enabled breakpoint: both calls return, the
  thread stands at the breakpoint with the registers the kernel reported, the breakpoint was hit once more,
  by this thread, no other breakpoint was, no signal is left to forward, the debugger is idle again, and the
  memory it shows is the program's own, without any trap.\<close>

theorem cont_stops_at_breakpoint:
  fixes s :: "'k dbg"
  assumes "tracee_memory_laws (e_os E) pid view mapped good" and "setregs_laws (e_os E) view mapped good tid"
    and "e_arch E = ''amd64''" and "0 < e_fuel E" and "ready view mapped good pid tid A t p a b orig s"
    and "gets_going (e_os E) tid view mapped good orig orig1 A (regs_of s t ''rip'') (d_kernel s)"
    and "runs_into (e_os E) pid tid view mapped good orig1 orig' A rf" and "rf ''rip'' = a + 1" and "fits_u64 a"
  shows "\<exists>v. bind (dbg_cont E) (\<lambda>_. dbg_wait E) s = (Inr (), v) \<and> ready view mapped good pid tid A t p a b orig' v \<and>
    regs_of v t = rf(''rip'' := a) \<and> view (d_kernel v) = orig' \<and>
    bp_hit_count (d_bp_heap v b) = bp_hit_count (d_bp_heap s b) + 1 \<and>
    bp_linked_thread_ids (d_bp_heap v b) = bp_linked_thread_ids (d_bp_heap s b) @ [tid] \<and>
    (\<forall>c. c \<noteq> b \<longrightarrow> bp_hit_count (d_bp_heap v c) = bp_hit_count (d_bp_heap s c))"
  by (rule cont_wait_run [OF assms])


text \<open>A kernel on which the process always runs into the byte behind 0x1002.\<close>

definition hit_os :: "flat os" where
  "hit_os = flat_os\<lparr>sys_waitpid := (\<lambda>p nohang k. if nohang then ((0, 0), k) else ((1, 0x57F), k)),
     sys_getregs := (\<lambda>t k. (Some (\<lambda>r. 0x1003), k))\<rparr>"

definition hit_env :: "flat denv" where
  "hit_env = sample_env\<lparr>e_os := hit_os\<rparr>"

definition hit_dbg :: "flat dbg" where
  "hit_dbg = idle_dbg\<lparr>d_threads := [0], d_gs := fresh_gs\<lparr>gs_b_HEAD := [saved (fl_mem flat_page) 0x1002]\<rparr>\<rparr>"

lemma hit_os_laws: "tracee_memory_laws hit_os pid fl_mem fl_mapped flat_good" "setregs_laws hit_os fl_mem fl_mapped flat_good tid"
  using flat_memory_laws [of pid]
  by (simp_all add: tracee_memory_laws_def setregs_laws_def hit_os_def flat_os_def flat_kernel_def kernel.extend_def)

lemma hit_os_runs: "runs_into hit_os pid 1 fl_mem fl_mapped flat_good orig orig A (\<lambda>r. 0x1003)"
  by (simp add: runs_into_def reports_stop_def same_words_def hit_os_def flat_os_def kernel.extend_def)

lemma hit_dbg_inv: "sb_inv (fl_mem flat_page) fl_mem fl_mapped (d_gs hit_dbg, flat_page)"
  by (simp add: sb_inv_def sb_ok_def hit_dbg_def increasing_def flat_page_mapped)

lemma hit_dbg_addrs: "addrs (gs_b_HEAD (d_gs hit_dbg)) = {0x1002}"
  by (simp add: hit_dbg_def)

lemma hit_dbg_fields: "tc_thread_id (d_thread_heap hit_dbg 0) = 1" "d_kernel hit_dbg = flat_page" "d_bp_heap hit_dbg 0 = default_breakpoint 0x1002 False"
    "dict_get (d_breakpoints hit_dbg) 0x1002 = Some 0" "dict_get (d_breakpoints hit_dbg) 0x1003 = None"
    "dict_get (d_caught_signals hit_dbg) 5 = None" "idle hit_dbg" "one_thread hit_dbg 0 0" "settled hit_dbg" "regs_of hit_dbg 0 ''rip'' = 0x1003"
  by (simp_all add: idle_def one_thread_def settled_def regs_of_def hit_dbg_def idle_dbg_def sample_dbg_def fresh_gs_def node_tid_def
      ThreadContext_def ResumeContext_def default_breakpoint_def Breakpoint_def)

lemma hit_dbg_ready:
  "ready fl_mem fl_mapped flat_good (d_iface_process_id hit_dbg) 1 {0x1002} 0 0 0x1002 0 (fl_mem flat_page) hit_dbg"
  using hit_dbg_inv flat_page_good by (simp add: ready_def hit_dbg_fields hit_dbg_addrs default_breakpoint_def Breakpoint_def)

theorem cont_stops_at_breakpoint_witness:
  "\<exists>v. bind (dbg_cont hit_env) (\<lambda>_. dbg_wait hit_env) hit_dbg = (Inr (), v) \<and> regs_of v 0 ''rip'' = 0x1002 \<and>
    bp_hit_count (d_bp_heap v 0) = 1 \<and> fl_mem (d_kernel v) = fl_mem flat_page"
proof -
  have env: "e_os hit_env = hit_os" "e_arch hit_env = ''amd64''" "0 < e_fuel hit_env" by (simp_all add: hit_env_def)
  have "gets_going hit_os 1 fl_mem fl_mapped flat_good (fl_mem flat_page) (fl_mem flat_page) {0x1002} (regs_of hit_dbg 0 ''rip'') (d_kernel hit_dbg)"
    by (simp add: gets_going_def hit_dbg_fields)
  from cont_stops_at_breakpoint [where E = hit_env, unfolded env, OF hit_os_laws refl env(3) hit_dbg_ready this hit_os_runs]
  show ?thesis by (fastforce simp: fits_u64_def hit_dbg_fields default_breakpoint_def Breakpoint_def)
qed


section \<open>Running into a breakpoint again and again\<close>

primrec rounds :: "'k denv \<Rightarrow> nat \<Rightarrow> ('k, unit) dm" where
  "rounds E 0 = ret ()"
| "rounds E (Suc n) = bind (bind (dbg_cont E) (\<lambda>_. dbg_wait E)) (\<lambda>_. rounds E n)"

text \<open>Resumed from the breakpoint it stands at, the program runs into it again: its memory is \<open>mem i\<close> at the
  \<open>i\<close>-th stop and \<open>mid i\<close> one instruction later.\<close>

definition comes_back :: "'k os \<Rightarrow> int \<Rightarrow> int \<Rightarrow> ('k \<Rightarrow> int \<Rightarrow> byte) \<Rightarrow> ('k \<Rightarrow> int \<Rightarrow> bool) \<Rightarrow> ('k \<Rightarrow> bool) \<Rightarrow> int set \<Rightarrow> regfile \<Rightarrow>
    (nat \<Rightarrow> int \<Rightarrow> byte) \<Rightarrow> (nat \<Rightarrow> int \<Rightarrow> byte) \<Rightarrow> nat \<Rightarrow> bool" where
  "comes_back OS pid tid view mapped good A rf mem mid n \<longleftrightarrow> (\<forall>i < n. steps_off OS tid view mapped good (mem i) (mid i) A \<and>
     runs_into OS pid tid view mapped good (mid i) (mem (Suc i)) A rf)"

lemma comes_back_Suc: "comes_back OS pid tid view mapped good A rf mem mid (Suc n) \<longleftrightarrow>
   steps_off OS tid view mapped good (mem 0) (mid 0) A \<and> runs_into OS pid tid view mapped good (mid 0) (mem 1) A rf \<and>
   comes_back OS pid tid view mapped good A rf (mem \<circ> Suc) (mid \<circ> Suc) n"
  unfolding comes_back_def All_less_Suc2 by auto

text \<open>C1: a program that comes back to its breakpoint is stopped there each time: \<open>n\<close> rounds of \<open>cont()\<close> and
  \<open>wait()\<close>, each of which steps over the breakpoint before it puts the traps back, return; the thread
  stands at the breakpoint, its hit count has grown by \<open>n\<close> and no other has, and the memory is what the
  program made of it, without any trap.\<close>

theorem every_hit_is_counted:
  fixes s :: "'k dbg"
  assumes L: "tracee_memory_laws (e_os E) pid view mapped good" "setregs_laws (e_os E) view mapped good tid"
    "e_arch E = ''amd64''" "0 < e_fuel E"
    and "rf ''rip'' = a + 1" and "fits_u64 a" and "a \<in> A"
    and "ready view mapped good pid tid A t p a b (mem 0) s" and "regs_of s t ''rip'' = a" and "view (d_kernel s) = mem 0"
    and "comes_back (e_os E) pid tid view mapped good A rf mem mid n"
  shows "\<exists>v. rounds E n s = (Inr (), v) \<and> ready view mapped good pid tid A t p a b (mem n) v \<and>
    regs_of v t ''rip'' = a \<and> view (d_kernel v) = mem n \<and>
    bp_hit_count (d_bp_heap v b) = bp_hit_count (d_bp_heap s b) + int n \<and>
    (\<forall>c. c \<noteq> b \<longrightarrow> bp_hit_count (d_bp_heap v c) = bp_hit_count (d_bp_heap s c))"
  using assms(8-11)
proof (induction n arbitrary: s mem mid)
  case 0
  then show ?case by (simp add: ret_def)
next
  case (Suc n)
  from Suc.prems(4) have comes: "steps_off (e_os E) tid view mapped good (mem 0) (mid 0) A"
    "runs_into (e_os E) pid tid view mapped good (mid 0) (mem 1) A rf"
    "comes_back (e_os E) pid tid view mapped good A rf (mem \<circ> Suc) (mid \<circ> Suc) n" by (simp_all add: comes_back_Suc)
  have "gets_going (e_os E) tid view mapped good (mem 0) (mid 0) A (regs_of s t ''rip'') (d_kernel s)"
    using comes(1) Suc.prems(2,3) assms(7) by (simp add: gets_going_def)
  from cont_wait_run [OF L Suc.prems(1) this comes(2) assms(5,6)] obtain u where u:
    "bind (dbg_cont E) (\<lambda>_. dbg_wait E) s = (Inr (), u)" "ready view mapped good pid tid A t p a b (mem 1) u"
    "regs_of u t = rf(''rip'' := a)" "view (d_kernel u) = mem 1" "bp_hit_count (d_bp_heap u b) = bp_hit_count (d_bp_heap s b) + 1"
    "\<forall>c. c \<noteq> b \<longrightarrow> bp_hit_count (d_bp_heap u c) = bp_hit_count (d_bp_heap s c)" by blast
  then have "rounds E (Suc n) s = rounds E n u" by (simp add: bind_def)
  with Suc.IH [of "mem \<circ> Suc" u "mid \<circ> Suc"] u(2-6) comes(3) show ?case by (auto simp: comp_def add.assoc)
qed


text \<open>Three rounds on the same kernel.\<close>

lemma hit_os_comes_back: "comes_back hit_os pid 1 fl_mem fl_mapped flat_good A (\<lambda>r. 0x1003) (\<lambda>i. orig) (\<lambda>i. orig) n"
  by (simp add: comes_back_def hit_os_runs) (simp add: steps_off_def same_words_def hit_os_def flat_os_def kernel.extend_def)

definition there_dbg :: "flat dbg" where
  "there_dbg = hit_dbg\<lparr>d_gs := (d_gs hit_dbg)\<lparr>gs_nodes := (\<lambda>p. \<lparr>ct_tid = 1, ct_regs = (\<lambda>r. 0x1002), ct_signal_to_forward = 0\<rparr>)\<rparr>\<rparr>"

lemma there_dbg_ready:
  "ready fl_mem fl_mapped flat_good (d_iface_process_id hit_dbg) 1 {0x1002} 0 0 0x1002 0 (fl_mem flat_page) there_dbg"
proof -
  have "gs_b_HEAD (d_gs there_dbg) = gs_b_HEAD (d_gs hit_dbg)" by (simp add: there_dbg_def)
  with hit_dbg_inv hit_dbg_ready show ?thesis
    by (auto simp: ready_def there_dbg_def sb_inv_def idle_def one_thread_def settled_def node_tid_def)
qed

theorem every_hit_is_counted_witness:
  "\<exists>v. rounds hit_env 3 there_dbg = (Inr (), v) \<and> regs_of v 0 ''rip'' = 0x1002 \<and> bp_hit_count (d_bp_heap v 0) = 3 \<and>
    fl_mem (d_kernel v) = fl_mem flat_page"
proof -
  have env: "e_os hit_env = hit_os" "e_arch hit_env = ''amd64''" "0 < e_fuel hit_env" by (simp_all add: hit_env_def)
  have "regs_of there_dbg 0 ''rip'' = 0x1002" "fl_mem (d_kernel there_dbg) = fl_mem flat_page" "bp_hit_count (d_bp_heap there_dbg 0) = 0"
    by (simp_all add: there_dbg_def hit_dbg_def idle_dbg_def sample_dbg_def regs_of_def ThreadContext_def default_breakpoint_def Breakpoint_def)
  with every_hit_is_counted [where E = hit_env and mem = "\<lambda>i. fl_mem flat_page" and n = 3 and rf = "\<lambda>r. 0x1003",
      unfolded env, OF hit_os_laws refl env(3) _ _ _ there_dbg_ready _ _ hit_os_comes_back]
  show ?thesis by (fastforce simp: fits_u64_def)
qed

end
