(* ===== verification/Wait_Properties.thy ===== *)
theory Wait_Properties
  imports Session_Properties
begin

text \<open>
  Waiting for a process with any number of threads: \<open>wait_all_and_update_regs\<close> of the C code stops the
  threads that still run while the others go on, and may find some that stop by themselves meanwhile.
\<close>

section \<open>What the kernel does\<close>

text \<open>
  A part of what the code relies on: which threads of the process are \<open>stopped\<close>, which of them have a status
  that nobody has collected (\<open>unreported\<close>), and their registers. From \<open>k\<close> to \<open>k'\<close> the statuses of the
  threads \<open>R\<close> were collected; meanwhile threads may have stopped, and written to memory, but not to the
  words at the breakpoints \<open>A\<close>.
\<close>

record 'k thread_view =
  stopped :: "'k \<Rightarrow> int set"
  unreported :: "'k \<Rightarrow> int set"
  registers :: "'k \<Rightarrow> int \<Rightarrow> regfile"

definition progress :: "'k thread_view \<Rightarrow> ('k \<Rightarrow> int \<Rightarrow> byte) \<Rightarrow> ('k \<Rightarrow> int \<Rightarrow> bool) \<Rightarrow> int set \<Rightarrow> 'k \<Rightarrow> int set \<Rightarrow> 'k \<Rightarrow> bool" where
  "progress W view mapped A k R k' \<longleftrightarrow> stopped W k \<subseteq> stopped W k' \<and>
     stopped W k' - stopped W k \<union> unreported W k \<subseteq> R \<union> unreported W k' \<and>
     same_words A (view k) (view k') \<and> mapped k' = mapped k"

lemma progress_trans:
  "progress W view mapped A k R k' \<Longrightarrow> progress W view mapped A k' R' k'' \<Longrightarrow> progress W view mapped A k (R \<union> R') k''"
  unfolding progress_def same_words_def by (auto; blast)

lemma progress_refl: "progress W view mapped A k {} k"
  by (simp add: progress_def same_words_def)

definition stop_laws :: "'k os \<Rightarrow> int \<Rightarrow> 'k thread_view \<Rightarrow> ('k \<Rightarrow> int \<Rightarrow> byte) \<Rightarrow> ('k \<Rightarrow> int \<Rightarrow> bool) \<Rightarrow> ('k \<Rightarrow> bool) \<Rightarrow>
    int set \<Rightarrow> int set \<Rightarrow> bool" where
  "stop_laws OS pid W view mapped good A T \<longleftrightarrow>
     (\<forall>t \<in> T. 0 < t) \<and> (\<forall>k. good k \<longrightarrow> unreported W k \<subseteq> T) \<and>
     (\<forall>k. good k \<longrightarrow> (\<forall>t \<in> T. sys_getregs OS t k = (if t \<in> stopped W k then Some (registers W k t) else None, k))) \<and>
     (\<forall>k. good k \<longrightarrow> (\<forall>t \<in> T. t \<notin> stopped W k \<longrightarrow> (\<exists>st k'. sys_waitpid OS t False (sys_tgkill OS pid t 19 k) = ((t, st), k') \<and>
        good k' \<and> t \<in> stopped W k' \<and> progress W view mapped A k {t} k'))) \<and>
     (\<forall>k. good k \<longrightarrow> T \<subseteq> stopped W k \<longrightarrow> (\<exists>t st k'. sys_waitpid OS (- sys_getpgid OS pid k) True k = ((t, st), k') \<and>
        good k' \<and>
        (if unreported W k = {} then t \<le> 0 \<and> unreported W k' = {} \<and> progress W view mapped A k {} k'
         else t \<in> unreported W k \<and> unreported W k' = unreported W k - {t} \<and> progress W view mapped A k {t} k'))) \<and>
     (\<forall>k a x. stopped W (snd (sys_pokedata OS pid a x k)) = stopped W k \<and> registers W (snd (sys_pokedata OS pid a x k)) = registers W k)"

text \<open>A thread of the process stops, or has stopped: the first \<open>waitpid\<close> does not wait for ever.\<close>

definition some_stop :: "'k os \<Rightarrow> int \<Rightarrow> 'k thread_view \<Rightarrow> ('k \<Rightarrow> int \<Rightarrow> byte) \<Rightarrow> ('k \<Rightarrow> int \<Rightarrow> bool) \<Rightarrow> ('k \<Rightarrow> bool) \<Rightarrow>
    int set \<Rightarrow> int set \<Rightarrow> 'k \<Rightarrow> bool" where
  "some_stop OS pid W view mapped good A T k \<longleftrightarrow> (\<exists>t st k'. sys_waitpid OS (- sys_getpgid OS pid k) False k = ((t, st), k') \<and>
     t \<in> T \<and> good k' \<and> t \<in> stopped W k' \<and> progress W view mapped A k {t} k')"

definition same_lists :: "global_state \<Rightarrow> global_state \<Rightarrow> bool" where
  "same_lists g g' \<longleftrightarrow> gs_t_HEAD g' = gs_t_HEAD g \<and> gs_b_HEAD g' = gs_b_HEAD g \<and> node_tid g' = node_tid g"

lemma same_lists_trans: "same_lists g g' \<Longrightarrow> same_lists g' g'' \<Longrightarrow> same_lists g g''"
  by (simp add: same_lists_def)

lemma same_lists_regs: "same_lists g (node_regs p rf g)" "same_lists g g"
  by (auto simp: same_lists_def node_regs_def set_node_def node_tid_def)

section \<open>The loops\<close>

lemma getregs_run:
  assumes "stop_laws OS pid W view mapped good A T" and "good k" and "node_tid g p \<in> T"
  shows "getregs OS p (g, k) = (if node_tid g p \<in> stopped W k
    then (Inr False, (node_regs p (registers W k (node_tid g p)) g, k)) else (Inr True, (g, k)))"
proof -
  have "sys_getregs OS (node_tid g p) k = (if node_tid g p \<in> stopped W k then Some (registers W k (node_tid g p)) else None, k)"
    using assms unfolding stop_laws_def by blast
  then show ?thesis by (simp add: getregs_def gs_get_def gs_upd_def sys_def py_simps)
qed

lemma stop_others_run:
  assumes L: "stop_laws OS pid W view mapped good A T"
  shows "good k \<Longrightarrow> node_tid g ` set ps \<subseteq> T \<Longrightarrow> fst s0 \<in> stopped W k \<Longrightarrow>
    \<exists>new g' k'. stop_others OS pid ps (s0 # acc) (g, k) = (Inr (new @ s0 # acc), (g', k')) \<and> same_lists g g' \<and> good k' \<and>
      progress W view mapped A k (fst ` set new) k' \<and> fst ` set new \<subseteq> T \<and> node_tid g ` set ps \<subseteq> stopped W k'"
proof (induction ps arbitrary: g k s0 acc)
  case Nil
  then show ?case using same_lists_regs progress_refl by (force simp: ret_def)
next
  case (Cons p ps)
  let ?t = "node_tid g p"
  show ?case
  proof (cases "?t \<in> stopped W k")
    case True
    define g1 where "g1 = (if ?t = fst s0 then g else node_regs p (registers W k ?t) g)"
    have g1: "same_lists g g1" using same_lists_regs by (simp add: g1_def)
    then have "node_tid g1 = node_tid g" by (simp add: same_lists_def)
    with Cons.IH [OF Cons.prems(1) _ Cons.prems(3), of g1 acc] Cons.prems(2)
    obtain new g' k' where IH: "stop_others OS pid ps (s0 # acc) (g1, k) = (Inr (new @ s0 # acc), (g', k'))" "same_lists g1 g'" "good k'"
      "progress W view mapped A k (fst ` set new) k'" "fst ` set new \<subseteq> T" "node_tid g ` set ps \<subseteq> stopped W k'" by auto
    have "stop_others OS pid (p # ps) (s0 # acc) (g, k) = (Inr (new @ s0 # acc), (g', k'))"
      using IH(1) True getregs_run [OF L Cons.prems(1), of g p] Cons.prems(2) by (simp add: g1_def gs_get_def bind_def gets_def split: if_splits)
    moreover have "?t \<in> stopped W k'" using True IH(4) by (auto simp: progress_def)
    ultimately show ?thesis using IH same_lists_trans [OF g1 IH(2)] by auto
  next
    case False
    then obtain st k1 where k1: "sys_waitpid OS ?t False (sys_tgkill OS pid ?t 19 k) = ((?t, st), k1)" "good k1" "?t \<in> stopped W k1"
      "progress W view mapped A k {?t} k1" using L Cons.prems(1,2) unfolding stop_laws_def by (metis image_eqI list.set_intros(1) subsetD)
    from Cons.IH [of k1 g "(?t, st)" "s0 # acc"] k1 Cons.prems(2)
    obtain new g' k' where IH: "stop_others OS pid ps ((?t, st) # s0 # acc) (g, k1) = (Inr (new @ (?t, st) # s0 # acc), (g', k'))"
      "same_lists g g'" "good k'" "progress W view mapped A k1 (fst ` set new) k'" "fst ` set new \<subseteq> T" "node_tid g ` set ps \<subseteq> stopped W k'" by auto
    have "?t \<noteq> fst s0" using False Cons.prems(3) by auto
    then have "stop_others OS pid (p # ps) (s0 # acc) (g, k) = (Inr ((new @ [(?t, st)]) @ s0 # acc), (g', k'))"
      using IH(1) k1(1) False getregs_run [OF L Cons.prems(1), of g p] Cons.prems(2)
      by (simp add: gs_get_def bind_def gets_def sys_def sys_do_def upd_def)
    moreover have "progress W view mapped A k (fst ` set (new @ [(?t, st)])) k'"
      using progress_trans [OF k1(4) IH(4)] by simp
    moreover have "?t \<in> stopped W k'" using k1(3) IH(4) by (auto simp: progress_def)
    ultimately show ?thesis using IH Cons.prems(2) by (intro exI [of _ "new @ [(?t, st)]"] exI [of _ g'] exI [of _ k']) simp
  qed
qed

lemma poll_statuses_run:
  assumes L: "stop_laws OS pid W view mapped good A T" and "finite T"
  shows "good k \<Longrightarrow> T \<subseteq> stopped W k \<Longrightarrow> card (unreported W k) < fuel \<Longrightarrow>
    \<exists>new k'. poll_statuses fuel OS pid acc (g, k) = (Inr (new @ acc), (g, k')) \<and> good k' \<and>
      progress W view mapped A k (fst ` set new) k' \<and> fst ` set new \<subseteq> T \<and> unreported W k' = {}"
proof (induction fuel arbitrary: k acc)
  case 0
  then show ?case by simp
next
  case (Suc fuel)
  have T: "\<forall>t \<in> T. 0 < t" "unreported W k \<subseteq> T" using L Suc.prems(1) unfolding stop_laws_def by blast+
  obtain t st k1 where k1: "sys_waitpid OS (- sys_getpgid OS pid k) True k = ((t, st), k1)" "good k1"
    "if unreported W k = {} then t \<le> 0 \<and> unreported W k1 = {} \<and> progress W view mapped A k {} k1
     else t \<in> unreported W k \<and> unreported W k1 = unreported W k - {t} \<and> progress W view mapped A k {t} k1"
    using L Suc.prems(1,2) unfolding stop_laws_def by metis
  show ?case
  proof (cases "unreported W k = {}")
    case True
    then have "poll_statuses (Suc fuel) OS pid acc (g, k) = (Inr ([] @ acc), (g, k1))"
      using k1 by (simp add: sys_def bind_def ret_def)
    with True k1 show ?thesis by (intro exI [of _ "[]"] exI [of _ k1]) simp
  next
    case False
    with k1(3) have t: "t \<in> unreported W k" "unreported W k1 = unreported W k - {t}" "progress W view mapped A k {t} k1" by simp_all
    have "finite (unreported W k)" using T(2) assms(2) by (rule finite_subset)
    with t have "card (unreported W k1) < fuel" using Suc.prems(3) card_Diff1_less [of "unreported W k" t] by simp
    moreover have "T \<subseteq> stopped W k1" using Suc.prems(2) t(3) by (auto simp: progress_def)
    ultimately obtain new k' where IH: "poll_statuses fuel OS pid ((t, st) # acc) (g, k1) = (Inr (new @ (t, st) # acc), (g, k'))" "good k'"
      "progress W view mapped A k1 (fst ` set new) k'" "fst ` set new \<subseteq> T" "unreported W k' = {}" using Suc.IH [OF k1(2)] by blast
    have "0 < t" using T t(1) by auto
    then have "poll_statuses (Suc fuel) OS pid acc (g, k) = (Inr ((new @ [(t, st)]) @ acc), (g, k'))"
      using k1(1) IH(1) by (simp add: sys_def bind_def)
    moreover have "progress W view mapped A k (fst ` set (new @ [(t, st)])) k'" using progress_trans [OF t(3) IH(3)] by simp
    ultimately show ?thesis using IH T(2) t(1) by (intro exI [of _ "new @ [(t, st)]"] exI [of _ k']) auto
  qed
qed

lemma getregs_all_run:
  assumes L: "stop_laws OS pid W view mapped good A T" and "good k" and "T \<subseteq> stopped W k"
  shows "node_tid g ` set ps \<subseteq> T \<Longrightarrow> \<exists>g'. for_each (\<lambda>p. bind (getregs OS p) (\<lambda>_. ret ())) ps (g, k) = (Inr (), (g', k)) \<and> same_lists g g' \<and>
    (\<forall>p. ct_regs (gs_nodes g' p) = (if p \<in> set ps then registers W k (node_tid g p) else ct_regs (gs_nodes g p)))"
proof (induction ps arbitrary: g)
  case Nil
  then show ?case using same_lists_regs by (auto simp: ret_def)
next
  case (Cons p ps)
  let ?g = "node_regs p (registers W k (node_tid g p)) g"
  have same: "same_lists g ?g" by (rule same_lists_regs)
  then have tids: "node_tid ?g = node_tid g" by (simp add: same_lists_def)
  with Cons.prems have "node_tid ?g ` set ps \<subseteq> T" by simp
  from Cons.IH [OF this] obtain g' where IH: "for_each (\<lambda>p. bind (getregs OS p) (\<lambda>_. ret ())) ps (?g, k) = (Inr (), (g', k))" "same_lists ?g g'"
    "\<forall>q. ct_regs (gs_nodes g' q) = (if q \<in> set ps then registers W k (node_tid g q) else ct_regs (gs_nodes ?g q))"
    unfolding tids by blast
  have "for_each (\<lambda>p. bind (getregs OS p) (\<lambda>_. ret ())) (p # ps) (g, k) = (Inr (), (g', k))"
    using IH(1) getregs_run [OF L assms(2), of g p] Cons.prems assms(3) by (auto simp: bind_def ret_def)
  moreover have "ct_regs (gs_nodes g' q) = (if q \<in> set (p # ps) then registers W k (node_tid g q) else ct_regs (gs_nodes g q))" for q
    using IH(3) by (auto simp: node_regs_def set_node_def)
  ultimately show ?case using same_lists_trans [OF same IH(2)] by blast
qed

lemma restore_keeps_threads:
  assumes "stop_laws OS pid W view mapped good A T"
  shows "preserves (\<lambda>(g, k). stopped W k = S \<and> registers W k = rs) (restore_all OS pid)"
proof -
  have poke: "stopped W (snd (sys_pokedata OS pid a x k)) = stopped W k" "registers W (snd (sys_pokedata OS pid a x k)) = registers W k" for k a x
    using assms unfolding stop_laws_def by blast+
  have "preserves (\<lambda>(g, k). stopped W k = S \<and> registers W k = rs) (poke_insn OS pid a x)" for a x
    using poke [of a x] by (auto simp: preserves_def poke_insn_def sys_def py_simps split: prod.splits) (metis snd_conv)+
  then show ?thesis
    unfolding restore_all_def gs_get_def by (intro preserves_bind preserves_pure preserves_for_each preserves_when preserves_if)
qed

section \<open>Waiting\<close>

lemma sb_inv_progress:
  assumes "sb_inv orig view mapped (g, k)" and "progress W view mapped (addrs (gs_b_HEAD g)) k R k'"
  shows "\<exists>orig'. same_words (addrs (gs_b_HEAD g)) orig orig' \<and> sb_inv orig' view mapped (g, k')"
proof -
  let ?A = "addrs (gs_b_HEAD g)"
  define orig' where "orig' = (\<lambda>x. if x \<in> ?A then orig x else view k' x)"
  have "same_words ?A orig orig'"
    using assms by (auto simp: orig'_def same_words_def progress_def sb_inv_def)
  moreover have "sb_ok orig' (mapped k') (gs_b_HEAD g)"
    using sb_ok_same_words [OF _ \<open>same_words ?A orig orig'\<close>] assms by (simp add: sb_inv_def progress_def)
  ultimately show ?thesis by (intro exI [of _ orig']) (simp add: sb_inv_def orig'_def)
qed

lemma sb_inv_lists: "same_lists g g' \<Longrightarrow> sb_inv orig view mapped (g', k) \<longleftrightarrow> sb_inv orig view mapped (g, k)"
  by (simp add: sb_inv_def same_lists_def)

text \<open>C6: however the threads of the process run and stop, \<open>wait\<close> returns with every thread stopped, with
  the registers of every thread as the kernel has them, with a status for every thread that was running or
  had an uncollected status, and for threads of the process only, and with the program's memory free of
  traps: it differs from the memory before in what the program wrote, which is nothing at the breakpoints.\<close>

theorem wait_stops_every_thread:
  assumes M: "tracee_memory_laws OS pid view mapped good"
    and L: "stop_laws OS pid W view mapped good (addrs (gs_b_HEAD g)) (node_tid g ` set (gs_t_HEAD g))"
    and "some_stop OS pid W view mapped good (addrs (gs_b_HEAD g)) (node_tid g ` set (gs_t_HEAD g)) k"
    and "good k" and "sb_inv orig view mapped (g, k)" and "length (gs_t_HEAD g) < fuel"
  shows "\<exists>results g' k' orig'. wait_all_and_update_regs fuel OS pid (g, k) = (Inr results, (g', k')) \<and>
    node_tid g ` set (gs_t_HEAD g) \<subseteq> stopped W k' \<and>
    (\<forall>p \<in> set (gs_t_HEAD g). ct_regs (gs_nodes g' p) = registers W k' (node_tid g p)) \<and>
    node_tid g ` set (gs_t_HEAD g) - stopped W k \<union> unreported W k \<subseteq> fst ` set results \<and>
    fst ` set results \<subseteq> node_tid g ` set (gs_t_HEAD g) \<and>
    view k' = orig' \<and> same_words (addrs (gs_b_HEAD g)) orig orig' \<and> sb_inv orig' view mapped (g', k')"
proof -
  let ?T = "node_tid g ` set (gs_t_HEAD g)" and ?A = "addrs (gs_b_HEAD g)"
  obtain t st k1 where k1: "sys_waitpid OS (- sys_getpgid OS pid k) False k = ((t, st), k1)" "t \<in> ?T" "good k1" "t \<in> stopped W k1"
    "progress W view mapped ?A k {t} k1" using assms(3) unfolding some_stop_def by blast
  have "0 < t" using k1(2) L unfolding stop_laws_def by blast
  from stop_others_run [OF L k1(3), of g "gs_t_HEAD g" "(t, st)" "[]"] k1(4)
  obtain new g2 k2 where k2: "stop_others OS pid (gs_t_HEAD g) [(t, st)] (g, k1) = (Inr (new @ [(t, st)]), (g2, k2))" "same_lists g g2" "good k2"
    "progress W view mapped ?A k1 (fst ` set new) k2" "fst ` set new \<subseteq> ?T" "?T \<subseteq> stopped W k2" by auto
  have fin: "finite ?T" by simp
  have "unreported W k2 \<subseteq> ?T" using L k2(3) unfolding stop_laws_def by blast
  then have "card (unreported W k2) \<le> card ?T" by (rule card_mono [OF fin])
  also have "\<dots> \<le> length (gs_t_HEAD g)" by (meson card_image_le card_length finite_set le_trans)
  finally have "card (unreported W k2) < fuel" using assms(6) by simp
  from poll_statuses_run [OF L fin k2(3,6) this]
  obtain more k3 where k3: "poll_statuses fuel OS pid (new @ [(t, st)]) (g2, k2) = (Inr (more @ new @ [(t, st)]), (g2, k3))" "good k3"
    "progress W view mapped ?A k2 (fst ` set more) k3" "fst ` set more \<subseteq> ?T" "unreported W k3 = {}" by blast
  have all3: "?T \<subseteq> stopped W k3" using k2(6) k3(3) by (auto simp: progress_def)
  have "node_tid g2 = node_tid g" using k2(2) by (simp add: same_lists_def)
  with getregs_all_run [OF L k3(2) all3, of g2 "gs_t_HEAD g"]
  obtain g4 where g4: "for_each (\<lambda>p. bind (getregs OS p) (\<lambda>_. ret ())) (gs_t_HEAD g) (g2, k3) = (Inr (), (g4, k3))" "same_lists g2 g4"
    "\<forall>p \<in> set (gs_t_HEAD g). ct_regs (gs_nodes g4 p) = registers W k3 (node_tid g p)" by auto
  have run: "progress W view mapped ?A k (fst ` set (more @ new @ [(t, st)])) k3"
    using progress_trans [OF progress_trans [OF k1(5) k2(4)] k3(3)] by (simp add: image_Un Un_commute Un_left_commute)
  from sb_inv_progress [OF assms(5) run] obtain orig' where orig': "same_words ?A orig orig'" "sb_inv orig' view mapped (g, k3)" by blast
  have same: "same_lists g g4" by (rule same_lists_trans [OF k2(2) g4(2)])
  from restore_all_run [OF M k3(2), of orig' g4] orig'(2) obtain k' where k': "restore_all OS pid (g4, k3) = (Inr (), (g4, k'))" "good k'"
    "mapped k' = mapped k3" "view k' = orig'" unfolding sb_inv_lists [OF same] by blast
  have "stopped W k' = stopped W k3 \<and> registers W k' = registers W k3"
    using preservesD [OF restore_keeps_threads [OF L, of "stopped W k3" "registers W k3"], of "(g4, k3)"] k'(1) by simp
  moreover have "wait_all_and_update_regs fuel OS pid (g, k) = (Inr (more @ new @ [(t, st)]), (g4, k'))"
    using k1(1) \<open>0 < t\<close> k2(1) k3(1) g4(1) k'(1)
    by (simp add: wait_all_and_update_regs_def gs_get_def sys_def bind_def gets_def ret_def)
  moreover have "sb_inv orig' view mapped (g4, k')"
    using orig'(2) k'(3,4) same by (simp add: sb_inv_def same_lists_def)
  moreover have "?T - stopped W k \<union> unreported W k \<subseteq> fst ` set (more @ new @ [(t, st)])"
    using run all3 k3(5) unfolding progress_def by blast
  ultimately show ?thesis
    using all3 g4(3) k1(2) k2(5) k3(4) orig'(1) k'(4)
    by (intro exI [of _ "more @ new @ [(t, st)]"] exI [of _ g4] exI [of _ k'] exI [of _ orig']) auto
qed


text \<open>Two threads: a mark in each one's user area says whether it runs (1) or stopped unnoticed (2).\<close>

definition halt :: "int \<Rightarrow> flat \<Rightarrow> flat" where
  "halt t k = k\<lparr>fl_user := (\<lambda>u y. if u = t \<and> y = - 1 then 0 else fl_user k u y)\<rparr>"

definition crowd_os :: "flat os" where
  "crowd_os = flat_os\<lparr>
     sys_getregs := (\<lambda>t k. (if fl_user k t (- 1) \<noteq> 1 then Some (fl_user k t \<circ> int \<circ> length) else None, k)),
     sys_waitpid := (\<lambda>p nohang k.
       if nohang then (if fl_user k 1 (- 1) = 2 then ((1, 0x57F), halt 1 k) else if fl_user k 2 (- 1) = 2 then ((2, 0x57F), halt 2 k) else ((0, 0), k))
       else if p < 0 then ((1, 0x57F), halt 1 k) else ((p, 0x137F), halt p k))\<rparr>"

definition crowd :: "flat thread_view" where
  "crowd = \<lparr>stopped = (\<lambda>k. {t. fl_user k t (- 1) \<noteq> 1}), unreported = (\<lambda>k. {t. fl_user k t (- 1) = 2}),
     registers = (\<lambda>k t. fl_user k t \<circ> int \<circ> length)\<rparr>"

definition crowd_good :: "flat \<Rightarrow> bool" where
  "crowd_good k \<longleftrightarrow> flat_good k \<and> {t. fl_user k t (- 1) = 2} \<subseteq> {1, 2}"

definition running_page :: flat where
  "running_page = flat_page\<lparr>fl_user := (\<lambda>t a. if a = - 1 \<and> t \<in> {1, 2} then 1 else fl_user flat_page t a)\<rparr>"

definition crowd_gs :: global_state where
  "crowd_gs = fresh_gs\<lparr>gs_nodes := (\<lambda>p. \<lparr>ct_tid = int p + 1, ct_regs = (\<lambda>r. 0), ct_signal_to_forward = 0\<rparr>), gs_t_HEAD := [0, 1],
     gs_b_HEAD := [saved (fl_mem flat_page) 0x1002]\<rparr>"

lemma halt_good: "crowd_good k \<Longrightarrow> crowd_good (halt t k)"
  by (auto simp: crowd_good_def flat_good_def halt_def fits_u64_def)

lemma halt_progress: "stopped crowd (halt t k) = insert t (stopped crowd k)" "unreported crowd (halt t k) = unreported crowd k - {t}"
  "progress crowd fl_mem fl_mapped A k {t} (halt t k)"
  by (auto simp: crowd_def progress_def halt_def same_words_def)

lemma crowd_memory: "tracee_memory_laws crowd_os pid fl_mem fl_mapped crowd_good"
  using flat_os_laws [of pid] by (auto simp: tracee_memory_laws_def crowd_os_def crowd_good_def flat_os_def flat_kernel_def kernel.extend_def)

lemma crowd_laws: "stop_laws crowd_os 1 crowd fl_mem fl_mapped crowd_good A {1, 2}"
  unfolding stop_laws_def
proof (intro conjI allI impI ballI)
  fix k assume k: "crowd_good k"
  then show "unreported crowd k \<subseteq> {1, 2}" by (simp add: crowd_def crowd_good_def)
  show "sys_getregs crowd_os t k = (if t \<in> stopped crowd k then Some (registers crowd k t) else None, k)" for t
    by (simp add: crowd_os_def crowd_def)
  show "\<exists>st k'. sys_waitpid crowd_os t False (sys_tgkill crowd_os 1 t 19 k) = ((t, st), k') \<and> crowd_good k' \<and>
      t \<in> stopped crowd k' \<and> progress crowd fl_mem fl_mapped A k {t} k'" if "t \<in> {1, 2}" for t
    using that halt_good [OF k, of t] by (auto simp: halt_progress crowd_os_def flat_os_def kernel.extend_def)
  assume "{1, 2} \<subseteq> stopped crowd k"
  consider "fl_user k 1 (- 1) = 2" | "fl_user k 1 (- 1) \<noteq> 2" "fl_user k 2 (- 1) = 2" | "unreported crowd k = {}"
    using k by (fastforce simp: crowd_def crowd_good_def)
  then show "\<exists>t st k'. sys_waitpid crowd_os (- sys_getpgid crowd_os 1 k) True k = ((t, st), k') \<and> crowd_good k' \<and>
      (if unreported crowd k = {} then t \<le> 0 \<and> unreported crowd k' = {} \<and> progress crowd fl_mem fl_mapped A k {} k'
       else t \<in> unreported crowd k \<and> unreported crowd k' = unreported crowd k - {t} \<and> progress crowd fl_mem fl_mapped A k {t} k')"
  proof cases
    case 1
    then have "1 \<in> unreported crowd k" by (simp add: crowd_def)
    then show ?thesis using 1 halt_good [OF k, of 1] by (auto simp: halt_progress crowd_os_def)
  next
    case 2
    then have "2 \<in> unreported crowd k" by (simp add: crowd_def)
    then show ?thesis using 2 halt_good [OF k, of 2] by (auto simp: halt_progress crowd_os_def)
  next
    case 3
    then have "fl_user k 1 (- 1) \<noteq> 2" "fl_user k 2 (- 1) \<noteq> 2" by (auto simp: crowd_def)
    then show ?thesis using 3 k progress_refl by (auto simp: crowd_os_def)
  qed
next
  fix k a x
  show "stopped crowd (snd (sys_pokedata crowd_os 1 a x k)) = stopped crowd k"
    by (simp add: crowd_def crowd_os_def flat_os_def flat_kernel_def kernel.extend_def)
  show "registers crowd (snd (sys_pokedata crowd_os 1 a x k)) = registers crowd k"
    by (simp add: crowd_def crowd_os_def flat_os_def flat_kernel_def kernel.extend_def)
qed auto

theorem wait_stops_every_thread_witness:
  "\<exists>results g' k'. wait_all_and_update_regs 5 crowd_os 1 (crowd_gs, running_page) = (Inr results, (g', k')) \<and>
    {1, 2} \<subseteq> stopped crowd k' \<and> fst ` set results = {1, 2} \<and> fl_mem k' 0x1002 = fl_mem flat_page 0x1002"
proof -
  have g: "node_tid crowd_gs ` set (gs_t_HEAD crowd_gs) = {1, 2}" "addrs (gs_b_HEAD crowd_gs) = {0x1002}" "length (gs_t_HEAD crowd_gs) < 5"
    by (simp_all add: crowd_gs_def node_tid_def)
  have "crowd_good running_page"
    using flat_page_good by (auto simp: crowd_good_def flat_good_def running_page_def fits_u64_def flat_page_def)
  moreover have "sb_inv (fl_mem flat_page) fl_mem fl_mapped (crowd_gs, running_page)"
    using hit_dbg_inv by (simp add: sb_inv_def crowd_gs_def hit_dbg_def running_page_def)
  ultimately have k: "crowd_good running_page" "sb_inv (fl_mem flat_page) fl_mem fl_mapped (crowd_gs, running_page)" .
  have "some_stop crowd_os 1 crowd fl_mem fl_mapped crowd_good {0x1002} {1, 2} running_page"
    unfolding some_stop_def using halt_good [OF k(1), of 1]
    by (intro exI [of _ 1] exI [of _ "0x57F"] exI [of _ "halt 1 running_page"]) (simp add: halt_progress crowd_os_def flat_os_def kernel.extend_def)
  from wait_stops_every_thread [OF crowd_memory, of 1 crowd crowd_gs running_page, unfolded g, OF crowd_laws this k g(3)]
  obtain results g' k' orig' where w: "wait_all_and_update_regs 5 crowd_os 1 (crowd_gs, running_page) = (Inr results, (g', k'))"
    "{1, 2} \<subseteq> stopped crowd k'" "{1, 2} - stopped crowd running_page \<union> unreported crowd running_page \<subseteq> fst ` set results"
    "fst ` set results \<subseteq> {1, 2}" "fl_mem k' = orig'" "same_words {0x1002} (fl_mem flat_page) orig'"
    by (elim exE conjE) (rule that; assumption)
  have "{1, 2} - stopped crowd running_page = {1, 2}" by (auto simp: crowd_def running_page_def)
  with w(3,4) have "fst ` set results = {1, 2}" by blast
  moreover have "fl_mem k' 0x1002 = fl_mem flat_page 0x1002" using w(5,6) by (auto simp: same_words_def dest: spec [of _ 0])
  ultimately show ?thesis using w(1,2) by blast
qed

end
