(* ===== verification/Example_Scripts.thy ===== *)
theory Example_Scripts
  imports Debugger_Api
begin

text \<open>
  What the scripts under \<open>examples/\<close> share. A script has one debugger at a time, prints to the standard
  output the debugger prints to too, and talks to the program through its pipes. The state of a script
  is a record that each script extends by its own global variables. The disassemblers are parameters.
\<close>

section \<open>The state of a script\<close>

record 'k script =
  sc_dbg :: "'k dbg"

definition on_dbg :: "('k, 'a) dm \<Rightarrow> (('k, 'z) script_scheme, 'a) pm" where
  "on_dbg = zoom sc_dbg (\<lambda>d s. s\<lparr>sc_dbg := d\<rparr>)"

definition say :: "string \<Rightarrow> (('k, 'z) script_scheme, unit) pm" where
  "say x = on_dbg (print_str (x @ newline))"

text \<open>\<open>debugger(argv, env=env)\<close>: a new debugger on the same system.\<close>

definition new_debugger :: "argv_arg \<Rightarrow> (string, string) dict option \<Rightarrow> (('k, 'z) script_scheme, unit) pm" where
  "new_debugger argv env = upd (\<lambda>s. s\<lparr>sc_dbg :=
     (debugger (d_kernel (sc_dbg s)) argv False env False True False)\<lparr>d_output := d_output (sc_dbg s)\<rparr>\<rparr>)"

section \<open>The debugger as a thread\<close>

text \<open>\<open>bp.hit_on(d)\<close> and \<open>catcher.hit_on(d)\<close>, where the debugger stands for its first thread.\<close>

definition breakpoint_hit_on_debugger :: "'k denv \<Rightarrow> nat \<Rightarrow> ('k, bool) dm" where
  "breakpoint_hit_on_debugger E b = bind (get_bp b) (\<lambda>bp.
     if bp_enabled bp then
       bind (dbg_getattr E ''instruction_pointer'') (\<lambda>ip. bind (get_bp b) (\<lambda>bp. ret (ip = AttrInt (bp_address bp))))
     else ret False)"

definition catcher_hit_on_debugger :: "'k denv \<Rightarrow> nat \<Rightarrow> ('k, bool) dm" where
  "catcher_hit_on_debugger E c = bind (gets (\<lambda>s. d_catcher_heap s c)) (\<lambda>sc.
     if sc_enabled sc then
       bind (dbg_getattr E ''_signal_number'') (\<lambda>n. ret (n = AttrInt (sc_signal_number sc)))
     else ret False)"

text \<open>\<open>d.regs.name\<close>, read and assigned\<close>

definition debugger_regs_get :: "'k denv \<Rightarrow> string \<Rightarrow> ('k, int) dm" where
  "debugger_regs_get E name = bind (dbg_getattr E ''regs'') (\<lambda>v. case v of
     AttrObject t _ \<Rightarrow> user_regs_get E t name | _ \<Rightarrow> raise AttributeError)"

definition debugger_regs_set :: "'k denv \<Rightarrow> string \<Rightarrow> int \<Rightarrow> ('k, unit) dm" where
  "debugger_regs_set E name x = bind (dbg_getattr E ''regs'') (\<lambda>v. case v of
     AttrObject t _ \<Rightarrow> user_regs_set E t name x | _ \<Rightarrow> raise AttributeError)"

section \<open>The pipes of a script\<close>

definition script_recvline :: "'k denv \<Rightarrow> pipe_manager \<Rightarrow> (('k, 'z) script_scheme, byte list) pm" where
  "script_recvline E pipe = on_dbg (in_kernel (recvline (e_fuel E) (e_pipe_os E) pipe 1 True timeout_default))"

definition script_sendline :: "'k denv \<Rightarrow> pipe_manager \<Rightarrow> byte list \<Rightarrow> (('k, 'z) script_scheme, unit) pm" where
  "script_sendline E pipe data = bind (on_dbg (in_kernel (sendline (e_pipe_os E) pipe data))) (\<lambda>_. ret ())"

section \<open>Bytes\<close>

text \<open>A literal \<open>b'...'\<close>\<close>

definition ascii :: "string \<Rightarrow> byte list" where
  "ascii x = map of_char x"

text \<open>\<open>bytes.strip()\<close>\<close>

definition bytes_strip :: "byte list \<Rightarrow> byte list" where
  "bytes_strip bs = (let blank = (\<lambda>b. b \<in> {0x20, 0x09, 0x0A, 0x0D, 0x0B, 0x0C}) in
     rev (dropWhile blank (rev (dropWhile blank bs))))"

section \<open>What a disassembler says of an instruction\<close>

text \<open>\<open>in_immediates\<close> is the attribute \<open>imm\<close> of each operand.\<close>

record insn =
  in_address :: int
  in_size :: int
  in_mnemonic :: string
  in_op_str :: string
  in_immediates :: "int list"

type_synonym disassembler = "byte list \<Rightarrow> int \<Rightarrow> insn list"

end
