(* ===== verification/Coverage_Example.thy ===== *)
theory Coverage_Example
  imports Example_Scripts Complex_Main
begin

text \<open>
  \<open>examples/codecov/coverage.py\<close>: breakpoints at every conditional branch of a function count which
  branches a test takes. Capstone is a parameter. \<open>branches\<close> is a Python set: a list without repetition
  here, in the order in which the set happens to be iterated.
\<close>

section \<open>Finding the branches\<close>

type_synonym branch = "int \<times> int \<times> int"

definition conditional_jump :: "insn \<Rightarrow> bool" where
  "conditional_jump i \<longleftrightarrow> take 1 (in_mnemonic i) = ''j'' \<and> in_mnemonic i \<noteq> ''jmp''"

fun detect_loop :: "insn list \<Rightarrow> branch list \<Rightarrow> (('k, 'z) script_scheme, branch list) pm" where
  "detect_loop [] branches = ret branches"
| "detect_loop (i # is) branches =
     (if conditional_jump i then
        (case in_immediates i of
           [] \<Rightarrow> bind (say (''Failed to parse branch at '' @ py_hex (in_address i))) (\<lambda>_. detect_loop is branches)
         | target # _ \<Rightarrow> detect_loop is (List.insert (in_address i, target, in_address i + in_size i) branches))
      else detect_loop is branches)"

definition detect_function_branches ::
    "disassembler \<Rightarrow> int \<Rightarrow> byte list \<Rightarrow> (('k, 'z) script_scheme, branch list) pm" where
  "detect_function_branches disasm function_address function_asm = detect_loop (disasm function_asm function_address) []"

section \<open>Setting up the debugger\<close>

text \<open>The callbacks of the script are user callbacks 0 and 1.\<close>

definition empty_callback :: "('k, unit) dm" where
  "empty_callback = ret ()"

type_synonym bp_triple = "nat \<times> nat \<times> nat"

definition set_bps :: "'k denv \<Rightarrow> branch \<Rightarrow> ('k, bp_triple) dm" where
  "set_bps E b = (case b of (b0, b1, b2) \<Rightarrow>
     bind (dbg_breakpoint E (PosInt b0) False None 1 (Some (UserCallback 0)) ''hybrid'') (\<lambda>bp_conditional.
     bind (dbg_breakpoint E (PosInt b1) False None 1 (Some (UserCallback 0)) ''hybrid'') (\<lambda>bp_target.
     bind (dbg_breakpoint E (PosInt b2) False None 1 (Some (UserCallback 0)) ''hybrid'') (\<lambda>bp_non_hit.
     ret (bp_conditional, bp_target, bp_non_hit)))))"

fun set_all_bps :: "'k denv \<Rightarrow> branch list \<Rightarrow> bp_triple list \<Rightarrow> ('k, bp_triple list) dm" where
  "set_all_bps E [] breakpoints = ret breakpoints"
| "set_all_bps E (b # bs) breakpoints = bind (set_bps E b) (\<lambda>t. set_all_bps E bs (breakpoints @ [t]))"

definition setup_debugger :: "'k denv \<Rightarrow> branch list \<Rightarrow> (('k, 'z) script_scheme, pipe_manager \<times> bp_triple list) pm" where
  "setup_debugger E branches =
     bind (new_debugger (ArgvStr ''main'') None) (\<lambda>_.
     bind (on_dbg (dbg_run E)) (\<lambda>pipe.
     bind (on_dbg (set_all_bps E branches [])) (\<lambda>breakpoints. ret (pipe, breakpoints))))"

section \<open>The coverage\<close>

record 'k cov = "'k script" +
  cv_coverage :: "(int, bool set) dict"

definition initial_coverage :: "branch list \<Rightarrow> (int, bool set) dict" where
  "initial_coverage branches = fold (\<lambda>(_, target, _). dict_set target {}) branches []"

definition add_coverage :: "int \<Rightarrow> bool \<Rightarrow> ('k cov, unit) pm" where
  "add_coverage a taken = bind (gets cv_coverage) (\<lambda>coverage. case dict_get coverage a of
     None \<Rightarrow> raise KeyError
   | Some outcomes \<Rightarrow> upd (\<lambda>s. s\<lparr>cv_coverage := dict_set a (insert taken outcomes) coverage\<rparr>))"

definition register_one :: "bp_triple \<Rightarrow> ('k cov, unit) pm" where
  "register_one bp = (case bp of (bp0, bp1, bp2) \<Rightarrow>
     bind (on_dbg (get_bp bp0)) (\<lambda>conditional.
     py_when (0 < bp_hit_count conditional)
       (bind (on_dbg (get_bp bp1)) (\<lambda>target.
        bind (add_coverage (bp_address target) (0 < bp_hit_count target)) (\<lambda>_.
        bind (on_dbg (get_bp bp2)) (\<lambda>non_hit.
        add_coverage (bp_address target) (bp_hit_count non_hit = 0)))))))"

definition register_coverage :: "bp_triple list \<Rightarrow> ('k cov, unit) pm" where
  "register_coverage bps = for_each register_one bps"

text \<open>The quotient is the exact one, of which Python gives the nearest float.\<close>

definition calculate_coverage :: "(int, bool set) dict \<Rightarrow> rat result" where
  "calculate_coverage coverage =
     (let covered = sum_list (map (\<lambda>b. card (the (dict_get coverage b))) (dict_keys coverage)); total = length coverage * 2 in
      if total = 0 then Inl ZeroDivisionError else Inr (of_nat covered / of_nat total))"


section \<open>The inputs\<close>

text \<open>\<open>base64.b64encode\<close>\<close>

definition b64_char :: "int \<Rightarrow> byte" where
  "b64_char n = ascii ''ABCDEFGHIJKLMNOPQRSTUVWXYZabcdefghijklmnopqrstuvwxyz0123456789+/'' ! nat n"

fun b64encode :: "byte list \<Rightarrow> byte list" where
  "b64encode [] = []"
| "b64encode [a] = [b64_char (uint a div 4), b64_char (uint a mod 4 * 16)] @ ascii ''==''"
| "b64encode [a, b] = [b64_char (uint a div 4), b64_char (uint a mod 4 * 16 + uint b div 16), b64_char (uint b mod 16 * 4)] @ ascii ''=''"
| "b64encode (a # b # c # r) = [b64_char (uint a div 4), b64_char (uint a mod 4 * 16 + uint b div 16),
     b64_char (uint b mod 16 * 4 + uint c div 64), b64_char (uint c mod 64)] @ b64encode r"

definition encoded_number :: "byte list" where
  "encoded_number = b64encode (ascii ''1234567890'')"

section \<open>The tests\<close>

definition expect_line :: "'k denv \<Rightarrow> pipe_manager \<Rightarrow> string \<Rightarrow> (('k, 'z) script_scheme, unit) pm" where
  "expect_line E pipe expected =
     bind (script_recvline E pipe) (\<lambda>line. if bytes_strip line = ascii expected then ret () else raise AssertionError)"

text \<open>What most tests do with their input, and the end of all of them.\<close>

definition finish_test :: "'k denv \<Rightarrow> pipe_manager \<Rightarrow> bp_triple list \<Rightarrow> string \<Rightarrow> ('k cov, unit) pm" where
  "finish_test E pipe breakpoints expected =
     bind (on_dbg (dbg_wait E)) (\<lambda>_.
     bind (register_coverage breakpoints) (\<lambda>_.
     bind (expect_line E pipe expected) (\<lambda>_. on_dbg (dbg_terminate E))))"

definition input_test :: "'k denv \<Rightarrow> branch list \<Rightarrow> byte list \<Rightarrow> string \<Rightarrow> ('k cov, unit) pm" where
  "input_test E branches number expected =
     bind (setup_debugger E branches) (\<lambda>(pipe, breakpoints).
     bind (on_dbg (dbg_cont E)) (\<lambda>_.
     bind (script_recvline E pipe) (\<lambda>_.
     bind (script_sendline E pipe number) (\<lambda>_. finish_test E pipe breakpoints expected))))"

definition test_correct_input :: "'k denv \<Rightarrow> branch list \<Rightarrow> ('k cov, unit) pm" where
  "test_correct_input E branches = input_test E branches encoded_number ''1234567890''"

definition test_empty_string :: "'k denv \<Rightarrow> branch list \<Rightarrow> ('k cov, unit) pm" where
  "test_empty_string E branches = input_test E branches [] ''Invalid input string''"

definition test_invalid_length_base64 :: "'k denv \<Rightarrow> branch list \<Rightarrow> ('k cov, unit) pm" where
  "test_invalid_length_base64 E branches = input_test E branches (py_to (- 1) encoded_number) ''Invalid input string''"

definition test_invalid_base64_characters :: "'k denv \<Rightarrow> branch list \<Rightarrow> ('k cov, unit) pm" where
  "test_invalid_base64_characters E branches = input_test E branches (py_to (- 1) encoded_number @ [0xF0]) ''Invalid input string''"

definition test_out_of_range_base64_characters_1 :: "'k denv \<Rightarrow> branch list \<Rightarrow> ('k cov, unit) pm" where
  "test_out_of_range_base64_characters_1 E branches = input_test E branches (ascii ''::::'') ''Invalid input string''"

definition test_out_of_range_base64_characters_2 :: "'k denv \<Rightarrow> branch list \<Rightarrow> ('k cov, unit) pm" where
  "test_out_of_range_base64_characters_2 E branches = input_test E branches (ascii ''!!!!'') ''Invalid input string''"

definition test_out_of_range_base64_characters_3 :: "'k denv \<Rightarrow> branch list \<Rightarrow> ('k cov, unit) pm" where
  "test_out_of_range_base64_characters_3 E branches = input_test E branches (ascii ''//++'') ''0''"

definition test_out_of_range_base64_characters_4 :: "'k denv \<Rightarrow> branch list \<Rightarrow> ('k cov, unit) pm" where
  "test_out_of_range_base64_characters_4 E branches = input_test E branches (ascii ''{{}}'') ''Invalid input string''"

definition test_out_of_range_base64_characters_5 :: "'k denv \<Rightarrow> branch list \<Rightarrow> ('k cov, unit) pm" where
  "test_out_of_range_base64_characters_5 E branches = input_test E branches [0x1F, 0x1F, 0x1F, 0x1F] ''Invalid input string''"

definition test_integer_overflow :: "'k denv \<Rightarrow> branch list \<Rightarrow> ('k cov, unit) pm" where
  "test_integer_overflow E branches =
     input_test E branches (b64encode (ascii ''123456789012345678901234567890'')) ''Invalid input string''"

text \<open>The argument of the function is replaced by a null pointer when it is called.\<close>

definition test_null_input :: "'k denv \<Rightarrow> branch list \<Rightarrow> ('k cov, unit) pm" where
  "test_null_input E branches =
     bind (setup_debugger E branches) (\<lambda>(pipe, breakpoints).
     bind (on_dbg (dbg_breakpoint E (PosStr ''long_from_base64_decimal_str'') False None 1 None ''hybrid'')) (\<lambda>_.
     bind (on_dbg (dbg_cont E)) (\<lambda>_.
     bind (script_sendline E pipe encoded_number) (\<lambda>_.
     bind (on_dbg (debugger_regs_set E ''rdi'' 0)) (\<lambda>_.
     bind (on_dbg (dbg_cont E)) (\<lambda>_.
     bind (script_recvline E pipe) (\<lambda>_. finish_test E pipe breakpoints ''Invalid input string'')))))))"

text \<open>\<open>malloc\<close> is asked for too much when it is called for the input string.\<close>

definition bad_malloc :: "'k denv \<Rightarrow> byte list \<Rightarrow> nat \<Rightarrow> ('k, unit) dm" where
  "bad_malloc E number t =
     bind (user_regs_get E t ''rdi'') (\<lambda>rdi. py_when (rdi = int (length number)) (user_regs_set E t ''rdi'' (2 ^ 64 - 1)))"

definition test_malloc_failure :: "'k denv \<Rightarrow> branch list \<Rightarrow> ('k cov, unit) pm" where
  "test_malloc_failure E branches =
     bind (setup_debugger E branches) (\<lambda>(pipe, breakpoints).
     bind (on_dbg (dbg_breakpoint E (PosStr ''malloc'') False None 1 (Some (UserCallback 1)) ''libc'')) (\<lambda>_.
     bind (on_dbg (dbg_cont E)) (\<lambda>_.
     bind (script_recvline E pipe) (\<lambda>_.
     bind (script_sendline E pipe encoded_number) (\<lambda>_. finish_test E pipe breakpoints ''Invalid input string'')))))"

text \<open>The environment in which the two callbacks are those of the script.\<close>

definition coverage_env :: "'k denv \<Rightarrow> 'k denv" where
  "coverage_env E = E\<lparr>e_user_callback := (\<lambda>c t ob.
     if c = 0 then empty_callback else if c = 1 then bad_malloc E encoded_number t else e_user_callback E c t ob)\<rparr>"

section \<open>The script\<close>

definition print_coverage :: "(rat \<Rightarrow> string) \<Rightarrow> ('k cov, unit) pm" where
  "print_coverage float_repr =
     bind (gets cv_coverage) (\<lambda>coverage. bind (lift (calculate_coverage coverage)) (\<lambda>c. say (''Coverage: '' @ float_repr c)))"

definition report :: "(rat \<Rightarrow> string) \<Rightarrow> string \<Rightarrow> ('k cov, unit) pm list \<Rightarrow> ('k cov, unit) pm" where
  "report float_repr title tests =
     bind (say title) (\<lambda>_. bind (for_each id tests) (\<lambda>_. print_coverage float_repr))"

definition coverage_main :: "'k denv \<Rightarrow> (rat \<Rightarrow> string) \<Rightarrow> branch list \<Rightarrow> ('k cov, unit) pm" where
  "coverage_main E float_repr branches =
     bind (report float_repr ''Testing correct input'' [test_correct_input E branches]) (\<lambda>_.
     bind (report float_repr ''Testing invalid input: empty string'' [test_empty_string E branches]) (\<lambda>_.
     bind (report float_repr ''Testing invalid input: bad base64 length'' [test_invalid_length_base64 E branches]) (\<lambda>_.
     bind (report float_repr ''Testing invalid input: bad base64 characters'' [test_invalid_base64_characters E branches]) (\<lambda>_.
     bind (report float_repr ''Testing all valid base64 characters''
       [test_out_of_range_base64_characters_1 E branches, test_out_of_range_base64_characters_2 E branches,
        test_out_of_range_base64_characters_3 E branches, test_out_of_range_base64_characters_4 E branches,
        test_out_of_range_base64_characters_5 E branches]) (\<lambda>_.
     bind (report float_repr ''Testing invalid input: null input'' [test_null_input E branches]) (\<lambda>_.
     bind (report float_repr ''Testing malloc failure'' [test_malloc_failure E branches]) (\<lambda>_.
     report float_repr ''Testing integer overflow'' [test_integer_overflow E branches])))))))"

section \<open>What the coverage says\<close>

definition outcome :: "'k dbg \<Rightarrow> int \<Rightarrow> bool \<Rightarrow> bp_triple \<Rightarrow> bool" where
  "outcome d a v bp = (case bp of (bp0, bp1, bp2) \<Rightarrow> bp_address (d_bp_heap d bp1) = a \<and> 0 < bp_hit_count (d_bp_heap d bp0) \<and>
     (v = (0 < bp_hit_count (d_bp_heap d bp1)) \<or> v = (bp_hit_count (d_bp_heap d bp2) = 0)))"

lemma add_coverage_run:
  assumes "dict_get (cv_coverage s) a = Some outcomes"
  shows "add_coverage a v s = (Inr (), s\<lparr>cv_coverage := dict_set a (insert v outcomes) (cv_coverage s)\<rparr>)"
  using assms by (simp add: add_coverage_def py_simps)

lemma on_dbg_get_bp: "on_dbg (get_bp b) s = (Inr (d_bp_heap (sc_dbg s) b), s)"
  by (simp add: on_dbg_def get_bp_def py_simps)

lemma register_one_run:
  assumes "dict_get (cv_coverage s) (bp_address (d_bp_heap (sc_dbg s) (fst (snd bp)))) \<noteq> None"
  shows "\<exists>coverage. register_one bp s = (Inr (), s\<lparr>cv_coverage := coverage\<rparr>) \<and>
    (\<forall>a. dict_get coverage a = map_option (\<lambda>S. S \<union> {v. outcome (sc_dbg s) a v bp}) (dict_get (cv_coverage s) a))"
proof -
  obtain bp0 bp1 bp2 where bp: "bp = (bp0, bp1, bp2)" by (cases bp)
  let ?h = "d_bp_heap (sc_dbg s)" and ?a = "bp_address (d_bp_heap (sc_dbg s) bp1)"
  obtain S where S: "dict_get (cv_coverage s) ?a = Some S" using assms bp by auto
  show ?thesis
  proof (cases "0 < bp_hit_count (?h bp0)")
    case True
    let ?t = "s\<lparr>cv_coverage := dict_set ?a (insert (0 < bp_hit_count (?h bp1)) S) (cv_coverage s)\<rparr>"
    let ?u = "?t\<lparr>cv_coverage := dict_set ?a (insert (bp_hit_count (?h bp2) = 0) (insert (0 < bp_hit_count (?h bp1)) S)) (cv_coverage ?t)\<rparr>"
    have "register_one bp s = (Inr (), ?u)"
      using True S add_coverage_run [OF S, of "0 < bp_hit_count (?h bp1)"]
        add_coverage_run [of ?t ?a "insert (0 < bp_hit_count (?h bp1)) S" "bp_hit_count (?h bp2) = 0"]
      by (simp add: register_one_def bp bind_def on_dbg_get_bp py_when_def dict_get_set)
    moreover have "dict_get (cv_coverage ?u) a = map_option (\<lambda>S. S \<union> {v. outcome (sc_dbg s) a v bp}) (dict_get (cv_coverage s) a)" for a
      using True S by (auto simp: dict_get_set outcome_def bp intro: option.map_ident_strong [symmetric])
    ultimately show ?thesis by (intro exI [of _ "cv_coverage ?u"]) simp
  next
    case False
    then have "register_one bp s = (Inr (), s)"
      by (simp add: register_one_def bp bind_def on_dbg_get_bp py_when_def ret_def)
    with False show ?thesis
      by (intro exI [of _ "cv_coverage s"]) (simp add: outcome_def bp option.map_ident)
  qed
qed

lemma register_coverage_run:
  assumes "\<forall>bp \<in> set bps. dict_get (cv_coverage s) (bp_address (d_bp_heap (sc_dbg s) (fst (snd bp)))) \<noteq> None"
  shows "\<exists>coverage. register_coverage bps s = (Inr (), s\<lparr>cv_coverage := coverage\<rparr>) \<and>
    (\<forall>a. dict_get coverage a = map_option (\<lambda>S. S \<union> {v. \<exists>bp \<in> set bps. outcome (sc_dbg s) a v bp}) (dict_get (cv_coverage s) a))"
  using assms
proof (induction bps arbitrary: s)
  case Nil
  then show ?case
    by (intro exI [of _ "cv_coverage s"]) (simp add: register_coverage_def ret_def option.map_ident)
next
  case (Cons bp bps)
  from Cons.prems register_one_run [of s bp] obtain coverage where one: "register_one bp s = (Inr (), s\<lparr>cv_coverage := coverage\<rparr>)"
    "\<forall>a. dict_get coverage a = map_option (\<lambda>S. S \<union> {v. outcome (sc_dbg s) a v bp}) (dict_get (cv_coverage s) a)" by auto
  from Cons.prems Cons.IH [of "s\<lparr>cv_coverage := coverage\<rparr>"] one(2)
  obtain coverage' where rest: "register_coverage bps (s\<lparr>cv_coverage := coverage\<rparr>) = (Inr (), s\<lparr>cv_coverage := coverage'\<rparr>)"
    "\<forall>a. dict_get coverage' a = map_option (\<lambda>S. S \<union> {v. \<exists>bp \<in> set bps. outcome (sc_dbg s) a v bp}) (dict_get coverage a)" by auto
  have "register_coverage (bp # bps) s = (Inr (), s\<lparr>cv_coverage := coverage'\<rparr>)"
    using one(1) rest(1) by (simp add: register_coverage_def bind_def)
  moreover have "dict_get coverage' a =
      map_option (\<lambda>S. S \<union> {v. \<exists>b \<in> set (bp # bps). outcome (sc_dbg s) a v b}) (dict_get (cv_coverage s) a)" for a
    by (cases "dict_get (cv_coverage s) a") (auto simp: one(2) rest(2))
  ultimately show ?case by blast
qed

section \<open>Full coverage\<close>

definition targets :: "branch list \<Rightarrow> int set" where
  "targets branches = (\<lambda>(_, target, _). target) ` set branches"

lemma initial_coverage_get: "dict_get (initial_coverage branches) a = (if a \<in> targets branches then Some {} else None)"
proof -
  have "dict_get (fold (\<lambda>(_, target, _). dict_set target {}) bs c) a = (if a \<in> targets bs then Some {} else dict_get c a)" for bs and c :: "(int, bool set) dict"
    by (induction bs arbitrary: c) (auto simp: targets_def dict_get_set image_iff split: prod.splits)
  then show ?thesis by (simp add: initial_coverage_def)
qed

text \<open>A conditional jump was reached, and the branch taken, or the instruction behind it reached.\<close>

definition taken :: "'k dbg \<Rightarrow> int \<Rightarrow> bp_triple \<Rightarrow> bool" where
  "taken d a bp = (case bp of (bp0, bp1, bp2) \<Rightarrow> bp_address (d_bp_heap d bp1) = a \<and>
     0 < bp_hit_count (d_bp_heap d bp0) \<and> 0 < bp_hit_count (d_bp_heap d bp1))"

definition passed :: "'k dbg \<Rightarrow> int \<Rightarrow> bp_triple \<Rightarrow> bool" where
  "passed d a bp = (case bp of (bp0, bp1, bp2) \<Rightarrow> bp_address (d_bp_heap d bp1) = a \<and>
     0 < bp_hit_count (d_bp_heap d bp0) \<and> 0 < bp_hit_count (d_bp_heap d bp2))"

text \<open>A run in which each jump that was reached led somewhere, with breakpoints on the branches.\<close>

definition regular_run :: "branch list \<Rightarrow> 'k dbg \<times> bp_triple list \<Rightarrow> bool" where
  "regular_run branches run = (case run of (d, bps) \<Rightarrow> \<forall>(bp0, bp1, bp2) \<in> set bps.
     bp_address (d_bp_heap d bp1) \<in> targets branches \<and> 0 \<le> bp_hit_count (d_bp_heap d bp2) \<and>
     (0 < bp_hit_count (d_bp_heap d bp0) \<longrightarrow> 0 < bp_hit_count (d_bp_heap d bp1) \<or> 0 < bp_hit_count (d_bp_heap d bp2)))"

lemma regular_outcome:
  assumes "regular_run branches (d, bps)" and "bp \<in> set bps"
  shows "outcome d a True bp \<longleftrightarrow> taken d a bp" and "outcome d a False bp \<longleftrightarrow> passed d a bp"
  using assms by (fastforce simp: regular_run_def outcome_def taken_def passed_def)+

text \<open>Several runs, each with a debugger of its own.\<close>

definition register_runs :: "('k dbg \<times> bp_triple list) list \<Rightarrow> ('k cov, unit) pm" where
  "register_runs = for_each (\<lambda>(d, bps). bind (upd (\<lambda>s. s\<lparr>sc_dbg := d\<rparr>)) (\<lambda>_. register_coverage bps))"

lemma register_runs_run:
  assumes "\<forall>r \<in> set runs. regular_run branches r" and "\<forall>a \<in> targets branches. dict_get (cv_coverage s) a \<noteq> None"
  shows "\<exists>s'. register_runs runs s = (Inr (), s') \<and> (\<forall>a. dict_get (cv_coverage s') a = map_option
    (\<lambda>S. S \<union> {v. \<exists>(d, bps) \<in> set runs. \<exists>bp \<in> set bps. outcome d a v bp}) (dict_get (cv_coverage s) a))"
  using assms
proof (induction runs arbitrary: s)
  case Nil
  then show ?case by (simp add: register_runs_def ret_def option.map_ident)
next
  case (Cons r runs)
  obtain d bps where r: "r = (d, bps)" by (cases r)
  let ?t = "s\<lparr>sc_dbg := d\<rparr>"
  have "\<forall>bp \<in> set bps. dict_get (cv_coverage ?t) (bp_address (d_bp_heap (sc_dbg ?t) (fst (snd bp)))) \<noteq> None"
    using Cons.prems by (fastforce simp: r regular_run_def)
  from register_coverage_run [OF this] obtain c where one: "register_coverage bps ?t = (Inr (), ?t\<lparr>cv_coverage := c\<rparr>)"
    "\<And>a. dict_get c a = map_option (\<lambda>S. S \<union> {v. \<exists>bp \<in> set bps. outcome d a v bp}) (dict_get (cv_coverage s) a)" by auto
  have "\<forall>a \<in> targets branches. dict_get (cv_coverage (?t\<lparr>cv_coverage := c\<rparr>)) a \<noteq> None"
    using Cons.prems(2) by (simp add: one(2))
  with Cons.IH [of "?t\<lparr>cv_coverage := c\<rparr>"] Cons.prems(1)
  obtain s' where rest: "register_runs runs (?t\<lparr>cv_coverage := c\<rparr>) = (Inr (), s')"
    "\<And>a. dict_get (cv_coverage s') a = map_option (\<lambda>S. S \<union> {v. \<exists>(d, bps) \<in> set runs. \<exists>bp \<in> set bps. outcome d a v bp}) (dict_get c a)"
    by auto
  have "register_runs (r # runs) s = (Inr (), s')"
    using one(1) rest(1) by (simp add: register_runs_def r bind_def upd_def)
  moreover have "dict_get (cv_coverage s') a = map_option
      (\<lambda>S. S \<union> {v. \<exists>(d, bps) \<in> set (r # runs). \<exists>bp \<in> set bps. outcome d a v bp}) (dict_get (cv_coverage s) a)" for a
    by (cases "dict_get (cv_coverage s) a") (auto simp: one(2) rest(2) r)
  ultimately show ?case by blast
qed

lemma card_outcomes: "card (S :: bool set) \<le> 2" "card S = 2 \<longleftrightarrow> True \<in> S \<and> False \<in> S"
proof -
  have "card S \<le> card (UNIV :: bool set)" by (rule card_mono) auto
  then show "card S \<le> 2" by simp
  have "card S = 2 \<longleftrightarrow> S = UNIV"
    using card_subset_eq [of "UNIV :: bool set" S] by auto
  then show "card S = 2 \<longleftrightarrow> True \<in> S \<and> False \<in> S" by (auto simp: UNIV_bool)
qed

lemma sum_of_twos: "\<forall>x \<in> set xs. f x \<le> (2 :: nat) \<Longrightarrow>
   sum_list (map f xs) \<le> length xs * 2 \<and> (sum_list (map f xs) = length xs * 2 \<longleftrightarrow> (\<forall>x \<in> set xs. f x = 2))"
  by (induction xs) auto

lemma coverage_ratio:
  assumes "coverage \<noteq> []"
  shows "\<exists>c. calculate_coverage coverage = Inr c \<and> 0 \<le> c \<and> c \<le> 1 \<and>
    (c = 1 \<longleftrightarrow> (\<forall>b \<in> set (dict_keys coverage). True \<in> the (dict_get coverage b) \<and> False \<in> the (dict_get coverage b)))"
proof -
  let ?f = "\<lambda>b. card (the (dict_get coverage b))"
  have "sum_list (map ?f (dict_keys coverage)) \<le> length coverage * 2"
    "sum_list (map ?f (dict_keys coverage)) = length coverage * 2 \<longleftrightarrow> (\<forall>b \<in> set (dict_keys coverage). ?f b = 2)"
    using sum_of_twos [of "dict_keys coverage" ?f] card_outcomes(1) by simp_all
  moreover have "0 < length coverage * 2" using assms by simp
  ultimately show ?thesis
    unfolding calculate_coverage_def Let_def card_outcomes(2)
    by (auto simp: divide_le_eq_1 simp flip: of_nat_mult)
qed



text \<open>One branch, taken in the first run and not in the second.\<close>

definition counted_bp :: "int \<Rightarrow> int \<Rightarrow> breakpoint" where
  "counted_bp a n = (default_breakpoint a False)\<lparr>bp_hit_count := n\<rparr>"

definition sample_run :: "int \<Rightarrow> int \<Rightarrow> unit dbg \<times> bp_triple list" where
  "sample_run jumped behind = ((InternalDebugger ())\<lparr>d_bp_heap :=
     (\<lambda>b. if b = 0 then counted_bp 0x10 1 else if b = 1 then counted_bp 0x20 jumped else counted_bp 0x12 behind)\<rparr>, [(0, 1, 2)])"

definition sample_cov :: "unit cov" where
  "sample_cov = \<lparr>sc_dbg = InternalDebugger (), cv_coverage = initial_coverage [(0x10, 0x20, 0x12)]\<rparr>"


end
