(* ===== verification/Bytecode_Example.thy ===== *)
theory Bytecode_Example
  imports Example_Scripts
begin

text \<open>
  \<open>examples/python_bytecode_debugging/python_bytecode_dumper.py\<close>: finds the places where the Python
  interpreter jumps to the code of the next opcode, and prints the opcode there. Capstone, the sections
  of the ELF file and decoding UTF-8 are parameters.
\<close>

section \<open>Finding the dispatchers\<close>

record elf_section =
  sec_data :: "byte list"
  sec_flags :: int
  sec_addr :: int

type_synonym operation = "string \<times> string"

definition table_load :: "operation \<Rightarrow> bool" where
  "table_load p \<longleftrightarrow>
     p = (''mov'', ''rax, qword ptr [rdi + rax*8]'') \<or> p = (''mov'', ''rax, qword ptr [rbx + rax*8]'') \<or>
     p = (''mov'', ''rax, qword ptr [rdx + rax*8]'') \<or> p = (''mov'', ''rax, qword ptr [rcx + rax*8]'') \<or>
     p = (''mov'', ''rax, qword ptr [r8 + rax*8]'') \<or> p = (''mov'', ''rax, qword ptr [r9 + rax*8]'') \<or>
     p = (''mov'', ''rax, qword ptr [rsi + rax*8]'')"

fun patterns_loop :: "insn list \<Rightarrow> operation list \<Rightarrow> int list \<Rightarrow> int list" where
  "patterns_loop [] prev_instructions jmp_rax_offsets = jmp_rax_offsets"
| "patterns_loop (i # is) prev_instructions jmp_rax_offsets =
     (let appended = prev_instructions @ [(in_mnemonic i, in_op_str i)];
          prev = (if 3 < length appended then drop 1 appended else appended) in
      if length prev = 3 then
        (if prev ! 0 = (''movzx'', ''eax, r15b'') \<and> table_load (prev ! 1) \<and> prev ! 2 = (''jmp'', ''rax'') then
           patterns_loop is prev (jmp_rax_offsets @ [in_address i])
         else if prev ! 0 = (''mov'', ''r15, rax'') \<and> table_load (prev ! 1) \<and> prev ! 2 = (''jmp'', ''rax'') then
           patterns_loop is prev (jmp_rax_offsets @ [in_address i])
         else patterns_loop is prev jmp_rax_offsets)
      else patterns_loop is prev jmp_rax_offsets)"

definition find_patterns_in_section :: "disassembler \<Rightarrow> elf_section \<Rightarrow> int list" where
  "find_patterns_in_section disasm section = patterns_loop (disasm (sec_data section) (sec_addr section)) [] []"

definition find_all_offsets :: "disassembler \<Rightarrow> elf_section list \<Rightarrow> int list" where
  "find_all_offsets disasm sections = fold (\<lambda>section all_offsets.
     if sec_flags section AND 4 \<noteq> 0 then all_offsets @ find_patterns_in_section disasm section else all_offsets) sections []"

section \<open>Printing the opcodes\<close>

definition opcode_to_mnemonic :: "(int, string) dict" where
  "opcode_to_mnemonic = [(0x97, ''RESUME''), (0x64, ''LOAD_CONST''), (0x5a, ''STORE_NAME''), (0x65, ''LOAD_NAME''),
     (0x7a, ''BINARY_OP''), (0x2, ''PUSH_NULL''), (0xab, ''CALL''), (0x1, ''POP_TOP''), (0x79, ''RETURN_CONST''),
     (0x3, ''INTERPRETER_EXIT'')]"

definition dumper :: "'k denv \<Rightarrow> nat \<Rightarrow> ('k, unit) dm" where
  "dumper E t =
     bind (user_regs_get E t ''r15'') (\<lambda>shown.
     bind (user_regs_get E t ''r15'') (\<lambda>opcode.
     print_str (''Executed opcode: '' @ py_hex shown @ '' - '' @
       (case dict_get opcode_to_mnemonic opcode of None \<Rightarrow> ''UNKNOWN'' | Some m \<Rightarrow> m) @ newline)))"

text \<open>The script sets \<open>libcontext.sym_lvl\<close> to 5; \<open>dumper\<close> is user callback 0.\<close>

definition bytecode_env :: "'k denv \<Rightarrow> 'k denv" where
  "bytecode_env E = E\<lparr>e_elf := (e_elf E)\<lparr>ee_sym_lvl := 5\<rparr>,
     e_user_callback := (\<lambda>c t ob. if c = 0 then dumper E t else e_user_callback E c t ob)\<rparr>"

section \<open>The script\<close>

text \<open>The breakpoints \<open>bp_py_arena_free\<close> and \<open>bp_binary_op\<close>: names that have no value at first.\<close>

type_synonym late_bps = "(nat \<times> nat) option"

definition set_late_bps :: "'k denv \<Rightarrow> int list \<Rightarrow> ('k, late_bps) dm" where
  "set_late_bps E all_offsets =
     bind (for_each (\<lambda>addr. bind (dbg_breakpoint E (PosInt addr) False None 1 (Some (UserCallback 0)) ''libpython3'') (\<lambda>_. ret ()))
       all_offsets) (\<lambda>_.
     bind (dbg_breakpoint E (PosStr ''_PyArena_Free'') False None 1 None ''libpython3'') (\<lambda>bp_py_arena_free.
     bind (dbg_breakpoint E (PosInt 0x189f93) False None 1 None ''libpython3'') (\<lambda>bp_binary_op.
     ret (Some (bp_py_arena_free, bp_binary_op)))))"

fun run_mod_loop :: "nat \<Rightarrow> 'k denv \<Rightarrow> int list \<Rightarrow> nat \<Rightarrow> late_bps \<Rightarrow> ('k, late_bps) dm" where
  "run_mod_loop 0 E all_offsets bp_run_mod late = raise Diverges"
| "run_mod_loop (Suc fuel) E all_offsets bp_run_mod late =
     bind (breakpoint_hit_on_debugger E bp_run_mod) (\<lambda>hit.
     if \<not> hit then ret late
     else
       bind (get_bp bp_run_mod) (\<lambda>bp.
       bind (if bp_hit_count bp = 2 then set_late_bps E all_offsets else ret late) (\<lambda>late.
       bind (dbg_cont E) (\<lambda>_.
       bind (dbg_wait E) (\<lambda>_. run_mod_loop fuel E all_offsets bp_run_mod late)))))"

fun binary_op_loop :: "nat \<Rightarrow> 'k denv \<Rightarrow> nat \<Rightarrow> ('k, unit) dm" where
  "binary_op_loop 0 E bp_binary_op = raise Diverges"
| "binary_op_loop (Suc fuel) E bp_binary_op =
     bind (breakpoint_hit_on_debugger E bp_binary_op) (\<lambda>hit.
     if \<not> hit then ret ()
     else
       bind (debugger_regs_set E ''rdx'' 0xA) (\<lambda>_.
       bind (dbg_cont E) (\<lambda>_.
       bind (dbg_wait E) (\<lambda>_. binary_op_loop fuel E bp_binary_op))))"

definition end_of_script :: "'k denv \<Rightarrow> nat \<Rightarrow> ('k, unit) dm" where
  "end_of_script E bp_py_arena_free =
     bind (breakpoint_hit_on_debugger E bp_py_arena_free) (\<lambda>hit.
     py_when hit
       (bind (breakpoint_switch E bp_py_arena_free False) (\<lambda>_.
        bind dbg_breakpoints (\<lambda>bps. for_each (\<lambda>b. breakpoint_switch E b False) (dict_values bps)))))"

definition follow_bytecode :: "'k denv \<Rightarrow> int list \<Rightarrow> nat \<Rightarrow> ('k, unit) dm" where
  "follow_bytecode E all_offsets bp_run_mod =
     bind (run_mod_loop (e_fuel E) E all_offsets bp_run_mod None) (\<lambda>late. case late of
         None \<Rightarrow> raise NameError
       | Some (bp_py_arena_free, bp_binary_op) \<Rightarrow>
           bind (binary_op_loop (e_fuel E) E bp_binary_op) (\<lambda>_. end_of_script E bp_py_arena_free))"

definition bytecode_main ::
    "'k denv \<Rightarrow> disassembler \<Rightarrow> (byte list \<Rightarrow> string result) \<Rightarrow> elf_section list \<Rightarrow> (('k, 'z) script_scheme, unit) pm" where
  "bytecode_main E0 disasm utf8_decode sections =
     (let E = bytecode_env E0; all_offsets = find_all_offsets disasm sections in
      bind (new_debugger (ArgvList [''./python3.12'', ''python_script.py'']) (Some [(''LD_LIBRARY_PATH'', ''.'')])) (\<lambda>_.
      bind (on_dbg (dbg_run E)) (\<lambda>r.
      bind (on_dbg (dbg_breakpoint E (PosStr ''run_mod'') True None 1 None ''libpython3'')) (\<lambda>bp_run_mod.
      bind (on_dbg (dbg_cont E)) (\<lambda>_.
      bind (on_dbg (dbg_wait E)) (\<lambda>_.
      bind (on_dbg (follow_bytecode E all_offsets bp_run_mod)) (\<lambda>_.
      bind (script_recvline E r) (\<lambda>line.
      bind (lift (utf8_decode line)) (\<lambda>result.
      bind (say (''The result printed by the python script is: '' @ result)) (\<lambda>_.
      on_dbg (dbg_kill E)))))))))))"

section \<open>What is found\<close>

definition op_of :: "insn \<Rightarrow> operation" where
  "op_of i = (in_mnemonic i, in_op_str i)"

text \<open>Three instructions in a row that make a dispatcher.\<close>

definition dispatcher :: "insn \<Rightarrow> insn \<Rightarrow> insn \<Rightarrow> bool" where
  "dispatcher i j k \<longleftrightarrow> op_of i \<in> {(''movzx'', ''eax, r15b''), (''mov'', ''r15, rax'')} \<and>
     op_of j \<in> (\<lambda>r. (''mov'', ''rax, qword ptr ['' @ r @ '' + rax*8]'')) ` {''rdi'', ''rbx'', ''rdx'', ''rcx'', ''r8'', ''r9'', ''rsi''} \<and>
     op_of k = (''jmp'', ''rax'')"

lemma dispatcher_loads:
  "dispatcher i j k \<longleftrightarrow> op_of i \<in> {(''movzx'', ''eax, r15b''), (''mov'', ''r15, rax'')} \<and> table_load (op_of j) \<and> op_of k = (''jmp'', ''rax'')"
  by (simp add: dispatcher_def table_load_def)

definition dispatchers :: "insn list \<Rightarrow> nat \<Rightarrow> int list" where
  "dispatchers xs n = map (\<lambda>k. in_address (xs ! k))
     (filter (\<lambda>k. 2 \<le> k \<and> dispatcher (xs ! (k - 2)) (xs ! (k - 1)) (xs ! k)) [n..<length xs])"

definition last3 :: "insn list \<Rightarrow> operation list" where
  "last3 xs = map op_of (drop (length xs - 3) xs)"

lemma last3_snoc:
  "(let appended = last3 xs @ [op_of i] in if 3 < length appended then drop 1 appended else appended) = last3 (xs @ [i])"
proof (cases "length xs < 3")
  case False
  then have "Suc (length xs - 3) = length xs - 2" by simp
  with False show ?thesis by (simp add: last3_def Let_def drop_map)
qed (simp add: last3_def)

lemma length_last3: "length (last3 xs) = min 3 (length xs)"
  by (simp add: last3_def)

lemma last3_nth: "3 \<le> length xs \<Longrightarrow> k < 3 \<Longrightarrow> last3 xs ! k = op_of (xs ! (length xs - 3 + k))"
  by (simp add: last3_def)

lemma dispatchers_Cons:
  "dispatchers (xs @ i # is) (length xs) =
    (if 2 \<le> length xs \<and> dispatcher (xs ! (length xs - 2)) (xs ! (length xs - 1)) i then [in_address i] else []) @
    dispatchers ((xs @ [i]) @ is) (length (xs @ [i]))"
proof -
  have "[length xs..<length (xs @ i # is)] = length xs # [length (xs @ [i])..<length ((xs @ [i]) @ is)]"
    using upt_conv_Cons [of "length xs" "length (xs @ i # is)"] by simp
  then show ?thesis by (auto simp: dispatchers_def nth_append)
qed

lemma patterns_loop_windows:
  "patterns_loop is (last3 xs) offsets = offsets @ dispatchers (xs @ is) (length xs)"
proof (induction "is" arbitrary: xs offsets)
  case Nil
  then show ?case by (simp add: dispatchers_def)
next
  case (Cons i "is")
  let ?prev = "last3 (xs @ [i])"
  have "length ?prev = 3 \<and> (?prev ! 0 = (''movzx'', ''eax, r15b'') \<or> ?prev ! 0 = (''mov'', ''r15, rax'')) \<and>
      table_load (?prev ! 1) \<and> ?prev ! 2 = (''jmp'', ''rax'') \<longleftrightarrow>
      2 \<le> length xs \<and> dispatcher (xs ! (length xs - 2)) (xs ! (length xs - 1)) i"
  proof (cases "2 \<le> length xs")
    case True
    then obtain m where "length xs = m + 2" by (metis le_add_diff_inverse2)
    then show ?thesis by (auto simp: length_last3 last3_nth dispatcher_loads nth_append)
  next
    case False
    then show ?thesis by (simp add: length_last3)
  qed
  with last3_snoc [of xs i] Cons.IH [of "xs @ [i]"] show ?case
    unfolding dispatchers_Cons by (auto simp: Let_def op_of_def)
qed

lemma section_windows:
  "find_patterns_in_section disasm section = dispatchers (disasm (sec_data section) (sec_addr section)) 0"
  using patterns_loop_windows [of _ "[]" "[]"] by (simp add: find_patterns_in_section_def last3_def)

text \<open>C40: the search, which keeps a list of the last three instructions, finds in each executable section exactly
  the addresses of the \<open>jmp\<close> at the end of three instructions in a row that make a dispatcher, section by
  section and in order; what the end of one section and the beginning of the next would make is not found.\<close>

theorem dispatchers_found:
  "find_all_offsets disasm sections = concat (map (\<lambda>s. dispatchers (disasm (sec_data s) (sec_addr s)) 0)
     (filter (\<lambda>s. sec_flags s AND 4 \<noteq> 0) sections))"
proof -
  have "fold (\<lambda>s offsets. if sec_flags s AND 4 \<noteq> 0 then offsets @ find_patterns_in_section disasm s else offsets) ss offsets =
      offsets @ concat (map (\<lambda>s. dispatchers (disasm (sec_data s) (sec_addr s)) 0) (filter (\<lambda>s. sec_flags s AND 4 \<noteq> 0) ss))"
    for ss offsets
    by (induction ss arbitrary: offsets) (auto simp: section_windows)
  then show ?thesis by (simp add: find_all_offsets_def)
qed

end
