(* ===== verification/Bof_Example.thy ===== *)
theory Bof_Example
  imports Example_Scripts
begin

text \<open>
  \<open>examples/bof_detection/detect_bof.py\<close>: looks for a buffer overflow by sending longer and longer inputs,
  and for the part of the input that lands in the instruction pointer. The disassembler (iced), the file
  type (magic), the file system and the parsed command line are parameters. The level of the general
  logger, which the script lowers, changes no output of this model.
\<close>

section \<open>Utilities\<close>

text \<open>\<open>int.to_bytes\<close> refuses what does not fit.\<close>

definition int_to_bytes :: "nat \<Rightarrow> int \<Rightarrow> byte list result" where
  "int_to_bytes n x = (if 0 \<le> x \<and> x < 256 ^ n then Inr (to_le n x) else Inl OverflowError)"

definition p64 :: "int \<Rightarrow> byte list result" where "p64 in_bytes = int_to_bytes 8 in_bytes"
definition p32 :: "int \<Rightarrow> byte list result" where "p32 in_bytes = int_to_bytes 4 in_bytes"
definition p16 :: "int \<Rightarrow> byte list result" where "p16 in_bytes = int_to_bytes 2 in_bytes"
definition p8 :: "int \<Rightarrow> byte list result" where "p8 in_bytes = int_to_bytes 1 in_bytes"
definition u64 :: "byte list \<Rightarrow> int" where "u64 in_bytes = from_le in_bytes"
definition u32 :: "byte list \<Rightarrow> int" where "u32 in_bytes = from_le in_bytes"
definition u16 :: "byte list \<Rightarrow> int" where "u16 in_bytes = from_le in_bytes"
definition u8 :: "byte list \<Rightarrow> int" where "u8 in_bytes = from_le in_bytes"

definition LT_COLOR_RED :: string where "LT_COLOR_RED = ''31''"
definition LT_COLOR_GREEN :: string where "LT_COLOR_GREEN = ''32''"
definition LT_COLOR_YELLOW :: string where "LT_COLOR_YELLOW = ''33''"
definition LT_COLOR_CYAN :: string where "LT_COLOR_CYAN = ''36''"

definition print_color_end :: "string \<Rightarrow> string \<Rightarrow> string \<Rightarrow> (('k, 'z) script_scheme, unit) pm" where
  "print_color_end message color ending = on_dbg (print_str (esc color @ message @ esc ''0'' @ ending))"

definition print_color :: "string \<Rightarrow> string \<Rightarrow> (('k, 'z) script_scheme, unit) pm" where
  "print_color message color = print_color_end message color newline"

text \<open>\<open>repr\<close> of bytes, and the format \<open>:02X\<close> of a byte\<close>

definition repr_byte :: "byte \<Rightarrow> byte \<Rightarrow> string" where
  "repr_byte q b = (let n = unat b in
     if b = q \<or> n = 92 then [CHR 0x5C, char_of n]
     else if n = 9 then [CHR 0x5C, CHR ''t''] else if n = 10 then [CHR 0x5C, CHR ''n''] else if n = 13 then [CHR 0x5C, CHR ''r'']
     else if 32 \<le> n \<and> n < 127 then [char_of n]
     else [CHR 0x5C, CHR ''x'', hex_char (n div 16), hex_char (n mod 16)])"

definition bytes_repr :: "byte list \<Rightarrow> string" where
  "bytes_repr bs = (let q = (if 0x27 \<in> set bs \<and> 0x22 \<notin> set bs then 0x22 else 0x27) in
     ''b'' @ char_of (unat q) # concat (map (repr_byte q) bs) @ [char_of (unat q)])"

definition fmt_02X :: "byte \<Rightarrow> string" where
  "fmt_02X b = (let d = (\<lambda>n. ''0123456789ABCDEF'' ! n) in [d (unat b div 16), d (unat b mod 16)])"

definition ljust :: "nat \<Rightarrow> string \<Rightarrow> string" where
  "ljust n x = x @ replicate (n - length x) (CHR '' '')"

definition letters :: "int \<Rightarrow> byte list" where
  "letters n = replicate (nat n) 0x41"

section \<open>What the script knows\<close>

record 'k bof = "'k script" +
  bo_has_crashed :: bool
  bo_rip_overwritten :: bool
  bo_rbp_overwritten :: bool
  bo_canary_overwritten :: bool
  bo_fortify_failed :: bool

record iced_insn =
  ii_len :: int
  ii_ip :: int
  ii_text :: string

record bof_world =
  bw_exists :: "string \<Rightarrow> bool"
  bw_readable :: "string \<Rightarrow> bool"
  bw_magic :: "string \<Rightarrow> string"
  bw_decode :: "byte list \<Rightarrow> int \<Rightarrow> iced_insn"

text \<open>The script sets \<open>libcontext.sym_lvl\<close> to 5.\<close>

definition bof_env :: "'k denv \<Rightarrow> 'k denv" where
  "bof_env E = E\<lparr>e_elf := (e_elf E)\<lparr>ee_sym_lvl := 5\<rparr>\<rparr>"

definition MAX_AMD64_INSTRUCTION_LENGTH :: int where
  "MAX_AMD64_INSTRUCTION_LENGTH = 15"

definition MAX_TEST_LEN :: int where
  "MAX_TEST_LEN = 128"

section \<open>After a crash\<close>

definition debugger_memory_read :: "'k denv \<Rightarrow> mem_key \<Rightarrow> ('k, byte list) dm" where
  "debugger_memory_read E key = bind (dbg_getattr E ''memory'') (\<lambda>v. case v of
     AttrObject t _ \<Rightarrow> thread_memory_read E t key | _ \<Rightarrow> raise AttributeError)"

definition debugger_print_backtrace :: "'k denv \<Rightarrow> ('k, unit) dm" where
  "debugger_print_backtrace E = bind (dbg_getattr E ''print_backtrace'') (\<lambda>v. case v of
     AttrObject t _ \<Rightarrow> thread_print_backtrace E t | _ \<Rightarrow> raise AttributeError)"

text \<open>The name of the place, unless it has none.\<close>

definition show_symbol :: "'k denv \<Rightarrow> int \<Rightarrow> (('k, 'z) script_scheme, unit) pm" where
  "show_symbol E curr_rip = try_except
     (bind (on_dbg (dbg_maps E)) (\<lambda>maps.
      bind (lift (resolve_address_in_maps (e_elf E) curr_rip maps)) (\<lambda>symbol.
      py_when (take 2 symbol \<noteq> ''0x'') (print_color_end (''<'' @ symbol @ ''> '') LT_COLOR_CYAN []))))
     (\<lambda>e. e = ValueError) (\<lambda>_. ret ())"

definition show_instruction :: "'k denv \<Rightarrow> bof_world \<Rightarrow> int \<Rightarrow> (('k, 'z) script_scheme, unit) pm" where
  "show_instruction E W curr_rip =
     bind (say (''RIP is at '' @ py_hex curr_rip)) (\<lambda>_.
     bind (say ''Disassembling the instruction at RIP...'') (\<lambda>_.
     bind (on_dbg (debugger_memory_read E (KTuple [KInt curr_rip, KInt MAX_AMD64_INSTRUCTION_LENGTH, KStr ''absolute'']))) (\<lambda>window_from_rip.
     let instruction = bw_decode W window_from_rip curr_rip;
         instruction_bytes_str = join '' '' (map fmt_02X (py_to (ii_len instruction) window_from_rip)) in
     bind (show_symbol E curr_rip) (\<lambda>_.
     print_color (py_hex (ii_ip instruction) @ '': '' @ ljust 8 instruction_bytes_str @ '' | '' @ ii_text instruction) LT_COLOR_CYAN))))"

definition post_mortem :: "'k denv \<Rightarrow> bof_world \<Rightarrow> int \<Rightarrow> ('k bof, unit) pm" where
  "post_mortem E W test_padding_len =
     bind (print_color (''[+] Crash detected with payload length '' @ py_str test_padding_len) LT_COLOR_YELLOW) (\<lambda>_.
     bind (print_color ''[+] Post-mortem analysis initiated'' LT_COLOR_YELLOW) (\<lambda>_.
     bind (on_dbg (debugger_regs_get E ''rip'')) (\<lambda>curr_rip.
     bind (on_dbg (debugger_regs_get E ''rip'')) (\<lambda>rip.
     bind (if str_in ''4141'' (py_hex rip)
           then bind (print_color ''--> RIP is overwritten with AAAA <--'' LT_COLOR_RED) (\<lambda>_. upd (\<lambda>s. s\<lparr>bo_rip_overwritten := True\<rparr>))
           else show_instruction E W curr_rip) (\<lambda>_.
     bind (gets bo_rip_overwritten) (\<lambda>rip_overwritten.
     bind (if rip_overwritten then ret False
           else bind (on_dbg (debugger_regs_get E ''rbp'')) (\<lambda>rbp. ret (str_in ''4141'' (py_hex rbp)))) (\<lambda>pivot.
     bind (if pivot then
             bind (print_color ''--> RBP is overwritten with AAAA <--'' LT_COLOR_RED) (\<lambda>_.
             bind (print_color ''Stack pivot detected'' LT_COLOR_RED) (\<lambda>_. upd (\<lambda>s. s\<lparr>bo_rbp_overwritten := True\<rparr>)))
           else bind (on_dbg (debugger_regs_get E ''rbp'')) (\<lambda>rbp. say (''RBP is at '' @ py_hex rbp))) (\<lambda>_.
     bind (print_color (newline @ ''Stack trace:'') LT_COLOR_RED) (\<lambda>_.
     on_dbg (debugger_print_backtrace E))))))))))"

section \<open>Step 1: longer and longer inputs\<close>

definition crashed_with :: "byte list \<Rightarrow> string \<Rightarrow> ('k bof, unit) pm" where
  "crashed_with payload what =
     bind (say (''>> Crashed with payload:  '' @ bytes_repr payload)) (\<lambda>_.
     bind (print_color what LT_COLOR_RED) (\<lambda>_. upd (\<lambda>s. s\<lparr>bo_has_crashed := True\<rparr>)))"

text \<open>What stopped the program: the catchers and breakpoints are asked in turn.\<close>

definition classify_stop :: "'k denv \<Rightarrow> byte list \<Rightarrow> nat \<Rightarrow> nat \<Rightarrow> nat \<Rightarrow> nat \<Rightarrow> ('k bof, unit) pm" where
  "classify_stop E payload sig1_hdlr sig2_hdlr check_stack_fail_br check_fortify_fail_br =
     bind (on_dbg (catcher_hit_on_debugger E sig1_hdlr)) (\<lambda>h.
     if h then crashed_with payload ''>> Received signal: SIGSEGV''
     else
       bind (on_dbg (catcher_hit_on_debugger E sig2_hdlr)) (\<lambda>h.
       if h then crashed_with payload ''>> Received signal: SIGABRT''
       else
         bind (on_dbg (breakpoint_hit_on_debugger E check_stack_fail_br)) (\<lambda>h.
         if h then
           bind (crashed_with payload ''>> Stack Canary check failed'') (\<lambda>_. upd (\<lambda>s. s\<lparr>bo_canary_overwritten := True\<rparr>))
         else
           bind (on_dbg (breakpoint_hit_on_debugger E check_fortify_fail_br)) (\<lambda>h.
           if h then
             bind (crashed_with payload ''>> Fortify check failed'') (\<lambda>_. upd (\<lambda>s. s\<lparr>bo_fortify_failed := True\<rparr>))
           else ret ()))))"

text \<open>One length; the result says whether the loop is left.\<close>

definition fuzz_round :: "'k denv \<Rightarrow> bof_world \<Rightarrow> string \<Rightarrow> int \<Rightarrow> ('k bof, bool) pm" where
  "fuzz_round E W elf_path test_padding_len =
     bind (say (''[+] Testing payload length '' @ py_str test_padding_len @ ''...'')) (\<lambda>_.
     bind (new_debugger (ArgvStr elf_path) None) (\<lambda>_.
     let test_payload = letters test_padding_len in
     bind (on_dbg (dbg_run E)) (\<lambda>pipe.
     bind (on_dbg (dbg_breakpoint E (PosStr ''__stack_chk_fail'') False None 1 None ''libc.so.6'')) (\<lambda>check_stack_fail_br.
     bind (on_dbg (dbg_breakpoint E (PosStr ''__fortify_fail'') False None 1 None ''libc.so.6'')) (\<lambda>check_fortify_fail_br.
     bind (on_dbg (dbg_catch_signal E (SigName ''SIGSEGV'') None False)) (\<lambda>sig1_hdlr.
     bind (on_dbg (dbg_catch_signal E (SigName ''SIGABRT'') None False)) (\<lambda>sig2_hdlr.
     bind (on_dbg (dbg_cont E)) (\<lambda>_.
     bind (script_sendline E pipe test_payload) (\<lambda>_.
     bind (on_dbg (dbg_wait E)) (\<lambda>_.
     bind (classify_stop E test_payload sig1_hdlr sig2_hdlr check_stack_fail_br check_fortify_fail_br) (\<lambda>_.
     bind (gets bo_has_crashed) (\<lambda>has_crashed.
     bind (py_when has_crashed (post_mortem E W test_padding_len)) (\<lambda>_.
     bind (on_dbg (dbg_kill E)) (\<lambda>_.
     bind (on_dbg (dbg_terminate E)) (\<lambda>_.
     bind (say []) (\<lambda>_.
     gets (\<lambda>s. bo_has_crashed s \<and> bo_rip_overwritten s)))))))))))))))))"

text \<open>The length of the last round; None when there was no round.\<close>

fun fuzz_loop :: "'k denv \<Rightarrow> bof_world \<Rightarrow> string \<Rightarrow> int list \<Rightarrow> int option \<Rightarrow> ('k bof, int option) pm" where
  "fuzz_loop E W elf_path [] last_len = ret last_len"
| "fuzz_loop E W elf_path (n # ns) last_len =
     bind (fuzz_round E W elf_path n) (\<lambda>leave. if leave then ret (Some n) else fuzz_loop E W elf_path ns (Some n))"

definition leave_script :: "(string \<times> string) list \<Rightarrow> ('k bof, 'a) pm" where
  "leave_script messages = bind (for_each (\<lambda>(m, c). print_color m c) messages) (\<lambda>_. raise (SystemExit 0))"

text \<open>The tests between the two steps: the script goes on only with an overwritten instruction pointer.\<close>

definition judge_crash :: "('k bof, unit) pm" where
  "judge_crash =
     bind (gets id) (\<lambda>s.
     if \<not> bo_has_crashed s then leave_script [(''[+] No crash detected. Exiting'', LT_COLOR_GREEN)]
     else if bo_canary_overwritten s then leave_script
       [(''[+] Stack canary overwritten'', LT_COLOR_YELLOW),
        (''[+] It is possible that an exploit is feasible given a leak of the canary'', LT_COLOR_YELLOW)]
     else if bo_fortify_failed s then leave_script
       [(''[+] Fortify check failed'', LT_COLOR_YELLOW),
        (''[+] This mitigation can prevent a lot of exploits, but some workarounds are possible'', LT_COLOR_YELLOW)]
     else if \<not> bo_rip_overwritten s then leave_script
       ((''[+] RIP is not overwritten'', LT_COLOR_YELLOW) # (if bo_rbp_overwritten s then
        [(''[+] However, the analyzer was able to detect a stack pivot'', LT_COLOR_YELLOW),
         (''[+] Given a leak, we could use the stack pivot take control of the execution'', LT_COLOR_YELLOW)] else []))
     else ret ())"

section \<open>Step 2: which part lands in the instruction pointer\<close>

definition taint_payload :: "int \<Rightarrow> int \<Rightarrow> byte list \<Rightarrow> byte list" where
  "taint_payload test_padding_len taint_start_index taint =
     letters taint_start_index @ taint @ letters (test_padding_len - (taint_start_index + 8))"

definition shown_registers :: "(string \<times> string) list" where
  "shown_registers = [(''RAX'', ''rax''), (''RBX'', ''rbx''), (''RCX'', ''rcx''), (''RDX'', ''rdx''), (''RDI'', ''rdi''),
     (''RSI'', ''rsi''), (''RBP'', ''rbp''), (''RSP'', ''rsp''), (''RIP'', ''rip'')]"

definition show_register :: "'k denv \<Rightarrow> string \<times> string \<Rightarrow> (('k, 'z) script_scheme, unit) pm" where
  "show_register E r = bind (on_dbg (debugger_regs_get E (snd r))) (\<lambda>v. print_color (fst r @ '': '' @ py_hex v) LT_COLOR_RED)"

definition search_register :: "'k denv \<Rightarrow> byte list \<Rightarrow> string \<times> string \<Rightarrow> (('k, 'z) script_scheme, unit) pm" where
  "search_register E taint r = bind (on_dbg (debugger_regs_get E (snd r))) (\<lambda>v.
     py_when (v = u64 taint) (say (fst r @ '' contains the taint.'')))"

text \<open>Whether the instruction pointer, the last of them, contains the taint.\<close>

definition search_registers :: "'k denv \<Rightarrow> byte list \<Rightarrow> (('k, 'z) script_scheme, bool) pm" where
  "search_registers E taint =
     bind (for_each (search_register E taint) (butlast shown_registers)) (\<lambda>_.
     bind (on_dbg (debugger_regs_get E ''rip'')) (\<lambda>rip.
     if rip = u64 taint then bind (say ''RIP contains the taint.'') (\<lambda>_. ret True) else ret False))"

text \<open>\<open>bytes.index\<close> and \<open>in\<close>: the first place where the taint is.\<close>

fun find_bytes :: "byte list \<Rightarrow> byte list \<Rightarrow> int option" where
  "find_bytes p [] = (if p = [] then Some 0 else None)"
| "find_bytes p (b # bs) = (if take (length p) (b # bs) = p then Some 0 else map_option (\<lambda>n. n + 1) (find_bytes p bs))"

type_synonym 'k proc_mem = "int \<Rightarrow> int \<Rightarrow> int \<Rightarrow> ('k, byte list) pm"

definition search_map :: "'k proc_mem \<Rightarrow> byte list \<Rightarrow> memory_map \<Rightarrow> (('k, 'z) script_scheme, unit) pm" where
  "search_map read_mem taint m =
     (if CHR ''w'' \<notin> set (mm_permissions m) then ret ()
      else
        bind (on_dbg dbg_threads) (\<lambda>threads. case threads of
            [] \<Rightarrow> raise IndexError
          | t # _ \<Rightarrow>
            bind (on_dbg (thread_process_id t)) (\<lambda>pid.
            bind (on_dbg (in_kernel (read_mem pid (mm_start m) (mm_end m - mm_start m)))) (\<lambda>memory_content.
            case find_bytes taint memory_content of None \<Rightarrow> ret ()
            | Some n \<Rightarrow> print_color (''>> Taint found in '' @ mm_backing_file m @ '' at address '' @ py_hex (mm_start m + n)) LT_COLOR_RED))))"

definition show_exit :: "'k denv \<Rightarrow> (('k, 'z) script_scheme, unit) pm" where
  "show_exit E =
     bind (on_dbg (dbg_getattr E ''exit_code'')) (\<lambda>code.
     bind (on_dbg (dbg_getattr E ''exit_signal'')) (\<lambda>sig.
     say (''>>  Program exited with code '' @ (case code of AttrCode (Some c) \<Rightarrow> py_str c | _ \<Rightarrow> ''None'') @
       '' and signal '' @ (case sig of AttrName (Some n) \<Rightarrow> n | _ \<Rightarrow> ''None''))))"

text \<open>One offset; the result says whether the loop is left, with the debugger still running.\<close>

definition taint_round :: "'k denv \<Rightarrow> 'k proc_mem \<Rightarrow> int \<Rightarrow> int \<Rightarrow> (('k, 'z) script_scheme, bool) pm" where
  "taint_round E read_mem test_padding_len taint_start_index =
     bind (lift (p64 0xdeadc0de)) (\<lambda>taint.
     bind (say (''[+] Analyzing taint from '' @ py_str taint_start_index @ '' to '' @ py_str (taint_start_index + 8) @ ''...'')) (\<lambda>_.
     let test_payload = taint_payload test_padding_len taint_start_index taint in
     bind (say (''>> Testing payload: '' @ bytes_repr test_payload)) (\<lambda>_.
     bind (new_debugger (ArgvStr ''bof'') None) (\<lambda>_.
     bind (on_dbg (dbg_run E)) (\<lambda>pipe.
     bind (on_dbg (dbg_catch_signal E (SigName ''SIGSEGV'') None False)) (\<lambda>sigsegv_checker.
     bind (on_dbg (dbg_cont E)) (\<lambda>_.
     bind (script_sendline E pipe test_payload) (\<lambda>_.
     bind (on_dbg (dbg_wait E)) (\<lambda>_.
     bind (on_dbg (catcher_hit_on_debugger E sigsegv_checker)) (\<lambda>hit.
     bind (if hit then
             bind (print_color ''Received SIGSEGV'' LT_COLOR_RED) (\<lambda>_.
             bind (print_color ''Registers:'' LT_COLOR_RED) (\<lambda>_.
             bind (for_each (show_register E) shown_registers) (\<lambda>_.
             bind (search_registers E taint) (\<lambda>found.
             if found then ret True
             else
               bind (say ''Searching memory for the taint...'') (\<lambda>_.
               bind (on_dbg (dbg_maps E)) (\<lambda>maps.
               bind (for_each (search_map read_mem taint) maps) (\<lambda>_. ret False)))))))
           else
             bind (on_dbg (dbg_getattr E ''dead'')) (\<lambda>dead.
             bind (py_when (dead = AttrBool True) (show_exit E)) (\<lambda>_. ret False))) (\<lambda>found.
     if found then ret True
     else bind (on_dbg (dbg_kill E)) (\<lambda>_. bind (on_dbg (dbg_terminate E)) (\<lambda>_. ret False)))))))))))))"

fun taint_loop :: "'k denv \<Rightarrow> 'k proc_mem \<Rightarrow> int \<Rightarrow> int list \<Rightarrow> (('k, 'z) script_scheme, int option) pm" where
  "taint_loop E read_mem test_padding_len [] = ret None"
| "taint_loop E read_mem test_padding_len (i # is) =
     bind (taint_round E read_mem test_padding_len i) (\<lambda>found. if found then ret (Some i) else taint_loop E read_mem test_padding_len is)"

section \<open>The script\<close>

text \<open>The checks of the file, in turn.\<close>

definition check_file :: "bof_world \<Rightarrow> string \<Rightarrow> ('k bof, unit) pm" where
  "check_file W elf_path =
     (if \<not> bw_exists W elf_path then bind (say (''File '' @ elf_path @ '' does not exist.'')) (\<lambda>_. raise (SystemExit 1))
      else if \<not> bw_readable W elf_path then bind (say (''File '' @ elf_path @ '' is not readable.'')) (\<lambda>_. raise (SystemExit 1))
      else if \<not> str_in ''ELF 64-bit LSB pie executable, x86-64'' (bw_magic W elf_path)
      then bind (say (''File '' @ elf_path @ '' is not a 64-bit ELF file.'')) (\<lambda>_. raise (SystemExit 1))
      else ret ())"

definition read_arguments :: "string \<Rightarrow> int option \<Rightarrow> (('k, 'z) script_scheme, int) pm" where
  "read_arguments filename maxlen =
     bind (say (''File name: '' @ filename)) (\<lambda>_.
     bind (case maxlen of Some n \<Rightarrow> say (''Max length: '' @ py_str n) | None \<Rightarrow> ret ()) (\<lambda>_.
     ret (case maxlen of Some n \<Rightarrow> n | None \<Rightarrow> MAX_TEST_LEN)))"

definition bof_main :: "'k denv \<Rightarrow> bof_world \<Rightarrow> 'k proc_mem \<Rightarrow> string \<Rightarrow> int option \<Rightarrow> ('k bof, unit) pm" where
  "bof_main E0 W read_mem filename maxlen =
     (let E = bof_env E0 in
      bind (read_arguments filename maxlen) (\<lambda>max_test_len.
      bind (check_file W filename) (\<lambda>_.
      bind (fuzz_loop E W filename (py_range 0 max_test_len 4) None) (\<lambda>last_len.
      bind judge_crash (\<lambda>_. case last_len of
          None \<Rightarrow> raise NameError
        | Some test_padding_len \<Rightarrow>
          bind (say (newline @ ''-----------------------------------'' @ newline @ newline)) (\<lambda>_.
          bind (say ''[+] A payload length that overwrites RIP has been found.'') (\<lambda>_.
          bind (say ''[+] Starting taint analysis to find the setup.'') (\<lambda>_.
          bind (taint_loop E read_mem test_padding_len (py_range 0 (test_padding_len + 8) 8)) (\<lambda>taint_offset. case taint_offset of
              None \<Rightarrow> leave_script [(''[+] No setup found. Exiting...'', LT_COLOR_GREEN)]
            | Some n \<Rightarrow>
              bind (print_color (''[+] Found setup at offset '' @ py_str n) LT_COLOR_CYAN) (\<lambda>_.
              print_color ''[+] This vulnerability can be exploited on systems with Intel CET disabled'' LT_COLOR_CYAN))))))))))"

section \<open>What the taint tells\<close>

lemma from_le_to_le: "0 \<le> x \<Longrightarrow> x < 256 ^ n \<Longrightarrow> from_le (to_le n x) = x"
proof (induction n arbitrary: x)
  case (Suc n)
  then have "0 \<le> x div 256" "x div 256 < 256 ^ n" by (simp_all add: div_less_iff_less_mult mult.commute)
  with Suc.IH [of "x div 256"] show ?case by (simp add: uint_word_of_int_eq take_bit_eq_mod)
qed simp

lemma slice_letters: "i + 8 \<le> nat n \<Longrightarrow> take 8 (drop i (letters n)) = replicate 8 0x41"
  by (simp add: letters_def)

lemma range_multiples: "8 dvd i \<Longrightarrow> 8 dvd a \<Longrightarrow> a \<le> i \<Longrightarrow> i < b \<Longrightarrow> i \<in> set (py_range a b 8)"
proof (induction "nat (b - a)" arbitrary: a rule: less_induct)
  case less
  show ?case
  proof (cases "a = i")
    case False
    then have "a + 8 \<le> i" using less.prems by (auto elim!: dvdE)
    then show ?thesis using less.hyps [of "a + 8"] less.prems by (simp add: py_range_step [of 8 a b])
  qed (use less.prems in \<open>simp add: py_range_step\<close>)
qed

text \<open>The taint tells where the input goes. The number at an aligned offset \<open>j\<close> of the input that carries
  the taint at \<open>i\<close> is the taint exactly when \<open>j = i\<close>, so a program that loads its instruction pointer from
  offset \<open>j\<close> of its input is seen to contain the taint in the round of \<open>j\<close> and in no other; every aligned
  offset inside the input is tried; and the input keeps its length, except that the taint is never cut.\<close>

lemma taint_tells_offset:
  assumes "8 dvd i" and "0 \<le> i" and "8 dvd j" and "0 \<le> j"
  shows "\<exists>taint. p64 0xdeadc0de = Inr taint \<and> u64 taint = 0xdeadc0de \<and>
    (j + 8 \<le> int (length (taint_payload n i taint)) \<longrightarrow>
      (u64 (take 8 (drop (nat j) (taint_payload n i taint))) = u64 taint \<longleftrightarrow> j = i)) \<and>
    int (length (taint_payload n i taint)) = max n (i + 8) \<and>
    (j < n \<longrightarrow> j \<in> set (py_range 0 (n + 8) 8))"
proof -
  let ?taint = "to_le 8 0xdeadc0de" and ?p = "taint_payload n i (to_le 8 0xdeadc0de)"
  have taint: "p64 0xdeadc0de = Inr ?taint" "from_le ?taint = 0xdeadc0de"
    by (simp_all add: p64_def int_to_bytes_def from_le_to_le)
  have As: "from_le (replicate 8 0x41) \<noteq> 0xdeadc0de" by code_simp
  have len: "length (letters i) = nat i" "length ?taint = 8" by (simp_all add: letters_def)
  have "take 8 (drop (nat j) ?p) = (if j = i then ?taint else replicate 8 0x41)" if "j + 8 \<le> int (length ?p)"
  proof -
    have "j = i \<or> j + 8 \<le> i \<or> i + 8 \<le> j" using assms by presburger
    then consider "j = i" | "j + 8 \<le> i" | "i + 8 \<le> j" by blast
    then show ?thesis
    proof cases
      case 2
      then have "nat j + 8 \<le> nat i" using assms by linarith
      moreover from this have "take 8 (drop (nat j) ?p) = take 8 (drop (nat j) (letters i))" by (simp add: taint_payload_def len)
      ultimately show ?thesis using 2 assms slice_letters [of "nat j" i] by simp
    next
      case 3
      have "drop (nat j) ?p = drop (nat (j - (i + 8))) (letters (n - (i + 8)))"
        using 3 assms by (simp add: taint_payload_def len) (simp add: nat_diff_distrib nat_add_distrib)
      moreover have "nat (j - (i + 8)) + 8 \<le> nat (n - (i + 8))"
        using that 3 assms by (auto simp: taint_payload_def letters_def split: if_splits)
      ultimately show ?thesis using 3 slice_letters by simp
    qed (simp add: taint_payload_def len)
  qed
  moreover have "int (length ?p) = max n (i + 8)" using assms by (simp add: taint_payload_def letters_def max_def)
  moreover have "j < n \<longrightarrow> j \<in> set (py_range 0 (n + 8) 8)" using range_multiples [of j 0 "n + 8"] assms by simp
  ultimately show ?thesis using taint As by (intro exI [of _ ?taint]) (simp add: u64_def)
qed

lemma taint_tells_offset_witness:
  "\<exists>taint. p64 0xdeadc0de = Inr taint \<and> u64 (take 8 (drop 16 (taint_payload 24 16 taint))) = 0xdeadc0de \<and>
    (16 :: int) \<in> set (py_range 0 (24 + 8) 8)"
proof -
  have "8 dvd (16 :: int)" "0 \<le> (16 :: int)" by simp_all
  from taint_tells_offset [OF this this, of 24] show ?thesis by auto
qed

end
